(* ===== verification/Prelude.thy ===== *)
theory Prelude
  imports Main "HOL-Library.Sublist"
begin

section \<open>Prelude: what the components share\<close>

text \<open>
  This theory holds what every component of the development uses: the collections of
  simplification facts, the two-valued result type of a Go function that returns
  \<open>(T, error)\<close>, Go's fixed-width integers with their wrap-around written out, and the
  fragment of Go's \<^verbatim>\<open>strings\<close>, \<^verbatim>\<open>strconv\<close> and \<^verbatim>\<open>fmt\<close> packages that the sources call.

  A Go string is a sequence of bytes; it is modelled as \<open>string\<close>, a list of 8-bit
  characters. The white space that \<^verbatim>\<open>strings.TrimSpace\<close> removes is Unicode white space, so
  the multi-byte encodings are listed. Case mapping is exact on ASCII text and on every
  comparison in which one side is ASCII (the two or three code points whose case mapping
  leads into ASCII are included); it is the identity on other non-ASCII text.
\<close>

named_theorems go_text \<open>equations that evaluate the Go text functions\<close>
named_theorems go_res \<open>unfolding rules for results\<close>

subsection \<open>Results\<close>

text \<open>A Go function that returns \<open>(T, error)\<close>: \<open>Inl\<close> is the error, \<open>Inr\<close> the value.\<close>

type_synonym ('e, 'a) result = "'e + 'a"

definition is_ok :: "('e, 'a) result \<Rightarrow> bool" where
  "is_ok r = (case r of Inl _ \<Rightarrow> False | Inr _ \<Rightarrow> True)"

lemma is_ok_simps [simp]: "is_ok (Inr x)" "\<not> is_ok (Inl e)"
  by (simp_all add: is_ok_def)

lemma is_ok_iff: "is_ok r \<longleftrightarrow> (\<exists>x. r = Inr x)"
  by (cases r) auto

text \<open>The first error of a list of optional errors: a sequence of Go guards
  \<open>if err := ...; err != nil { return err }\<close>.\<close>

fun first_error :: "'e option list \<Rightarrow> 'e option" where
  "first_error [] = None"
| "first_error (None # gs) = first_error gs"
| "first_error (Some e # gs) = Some e"

lemma first_error_None: "first_error gs = None \<longleftrightarrow> (\<forall>g \<in> set gs. g = None)"
  by (induction gs rule: first_error.induct) auto

lemma first_error_append:
  "first_error (xs @ ys) = (case first_error xs of None \<Rightarrow> first_error ys | Some e \<Rightarrow> Some e)"
  by (induction xs rule: first_error.induct) auto

definition guard :: "bool \<Rightarrow> 'e \<Rightarrow> 'e option" where
  "guard bad e = (if bad then Some e else None)"

lemma guard_simps [simp]: "guard True e = Some e" "guard False e = None"
  by (simp_all add: guard_def)

lemma guard_None [simp]: "guard b e = None \<longleftrightarrow> \<not> b"
  by (simp add: guard_def)

subsection \<open>64-bit integers\<close>

definition MaxInt64 :: int where "MaxInt64 = 2 ^ 63 - 1"
definition MinInt64 :: int where "MinInt64 = - (2 ^ 63)"

text \<open>Two's-complement wrap-around to 64 bits.\<close>

definition wrap64 :: "int \<Rightarrow> int" where
  "wrap64 x = (x + 2 ^ 63) mod 2 ^ 64 - 2 ^ 63"

definition int64 :: "int \<Rightarrow> bool" where
  "int64 x \<longleftrightarrow> MinInt64 \<le> x \<and> x \<le> MaxInt64"

lemma wrap64_id [simp]: "int64 x \<Longrightarrow> wrap64 x = x"
  by (simp add: wrap64_def int64_def MinInt64_def MaxInt64_def)

lemma int64_wrap64 [simp]: "int64 (wrap64 x)"
proof -
  have "(x + 2 ^ 63) mod 2 ^ 64 < (2 ^ 64 :: int)" and "0 \<le> (x + 2 ^ 63) mod (2 ^ 64 :: int)"
    by simp_all
  then show ?thesis
    unfolding wrap64_def int64_def MinInt64_def MaxInt64_def by simp
qed

lemma wrap64_over:
  assumes "2 ^ 63 \<le> x" "x < 2 ^ 63 + 2 ^ 64"
  shows "wrap64 x = x - 2 ^ 64"
proof -
  have "(x + 2 ^ 63) mod 2 ^ 64 = (x + 2 ^ 63 - 2 ^ 64) mod (2 ^ 64 :: int)"
    by (rule minus_mod_self2 [symmetric])
  also have "\<dots> = x + 2 ^ 63 - 2 ^ 64"
    using assms by (intro mod_pos_pos_trivial) simp_all
  finally show ?thesis by (simp add: wrap64_def)
qed

text \<open>Go's \<open>/\<close> and \<open>%\<close> truncate towards zero.\<close>

definition go_div :: "int \<Rightarrow> int \<Rightarrow> int" where
  "go_div a b = sgn a * sgn b * (\<bar>a\<bar> div \<bar>b\<bar>)"

definition go_mod :: "int \<Rightarrow> int \<Rightarrow> int" where
  "go_mod a b = a - b * go_div a b"

lemma go_div_nonneg: "0 \<le> a \<Longrightarrow> 0 < b \<Longrightarrow> go_div a b = a div b"
  by (cases "a = 0") (simp_all add: go_div_def)

lemma go_mod_nonneg: "0 \<le> a \<Longrightarrow> 0 < b \<Longrightarrow> go_mod a b = a mod b"
  by (simp add: go_mod_def go_div_nonneg minus_mult_div_eq_mod)

subsection \<open>Bytes and characters\<close>

abbreviation byte_of :: "char \<Rightarrow> nat" where
  "byte_of c \<equiv> of_char c"

text \<open>UTF-8: a Go string literal outside ASCII is written as its list of code points.\<close>

definition utf8_cp :: "nat \<Rightarrow> string" where
  "utf8_cp n =
     (if n < 0x80 then [char_of n]
      else if n < 0x800 then [char_of (0xC0 + n div 64), char_of (0x80 + n mod 64)]
      else if n < 0x10000 then
        [char_of (0xE0 + n div 4096), char_of (0x80 + n div 64 mod 64), char_of (0x80 + n mod 64)]
      else [char_of (0xF0 + n div 262144), char_of (0x80 + n div 4096 mod 64),
            char_of (0x80 + n div 64 mod 64), char_of (0x80 + n mod 64)])"

definition utf8 :: "nat list \<Rightarrow> string" where
  "utf8 ns = concat (map utf8_cp ns)"

definition lower_char :: "char \<Rightarrow> char" where
  "lower_char c = (if 65 \<le> byte_of c \<and> byte_of c \<le> 90 then char_of (byte_of c + 32) else c)"

definition upper_char :: "char \<Rightarrow> char" where
  "upper_char c = (if 97 \<le> byte_of c \<and> byte_of c \<le> 122 then char_of (byte_of c - 32) else c)"

text \<open>\<^verbatim>\<open>strings.ToLower\<close>: U+0130 and U+212A are the non-ASCII code points with an ASCII
  lower case.\<close>

fun to_lower :: "string \<Rightarrow> string" where
  "to_lower [] = []"
| "to_lower (c # s) =
     (if c = CHR 0xC4 \<and> take 1 s = [CHR 0xB0] then CHR ''i'' # to_lower (drop 1 s)
      else if c = CHR 0xE2 \<and> take 2 s = [CHR 0x84, CHR 0xAA] then CHR ''k'' # to_lower (drop 2 s)
      else lower_char c # to_lower s)"

text \<open>\<^verbatim>\<open>strings.ToUpper\<close>: U+0131 and U+017F are the ones with an ASCII upper case.\<close>

fun to_upper :: "string \<Rightarrow> string" where
  "to_upper [] = []"
| "to_upper (c # s) =
     (if c = CHR 0xC4 \<and> take 1 s = [CHR 0xB1] then CHR ''I'' # to_upper (drop 1 s)
      else if c = CHR 0xC5 \<and> take 1 s = [CHR 0xBF] then CHR ''S'' # to_upper (drop 1 s)
      else upper_char c # to_upper s)"

text \<open>Simple case folding, as \<^verbatim>\<open>strings.EqualFold\<close> uses it: U+212A folds to \<open>k\<close> and
  U+017F to \<open>s\<close>.\<close>

fun fold_case :: "string \<Rightarrow> string" where
  "fold_case [] = []"
| "fold_case (c # s) =
     (if c = CHR 0xC5 \<and> take 1 s = [CHR 0xBF] then CHR ''s'' # fold_case (drop 1 s)
      else if c = CHR 0xE2 \<and> take 2 s = [CHR 0x84, CHR 0xAA] then CHR ''k'' # fold_case (drop 2 s)
      else lower_char c # fold_case s)"

definition equal_fold :: "string \<Rightarrow> string \<Rightarrow> bool" where
  "equal_fold a b \<longleftrightarrow> fold_case a = fold_case b"

lemma equal_fold_refl [simp]: "equal_fold a a"
  by (simp add: equal_fold_def)

lemma equal_fold_sym: "equal_fold a b \<longleftrightarrow> equal_fold b a"
  by (auto simp: equal_fold_def)

subsection \<open>Runs of a step relation\<close>

lemma rtranclp_path: "successively R (x # xs) \<Longrightarrow> rtranclp R x (last (x # xs))"
proof (induction xs arbitrary: x)
  case (Cons y ys)
  then have "R x y" "rtranclp R y (last (y # ys))" by simp_all
  then show ?case by (simp add: converse_rtranclp_into_rtranclp)
qed simp

end
