(* ===== verification/Go_Text.thy ===== *)
theory Go_Text
  imports Prelude
begin

section \<open>Text: splitting, trimming, decimal numbers\<close>

text \<open>
  The functions of Go's \<^verbatim>\<open>strings\<close>, \<^verbatim>\<open>strconv\<close> and \<^verbatim>\<open>fmt\<close> that the sources call, each with
  the laws the components use: trimming is idempotent, splitting and joining are inverse
  to each other, decimal printing is injective and is read back by \<^verbatim>\<open>strconv.ParseInt\<close>.
\<close>

subsection \<open>Prefixes and substrings\<close>

definition has_prefix :: "string \<Rightarrow> string \<Rightarrow> bool" where
  "has_prefix s p \<longleftrightarrow> take (length p) s = p"

definition has_suffix :: "string \<Rightarrow> string \<Rightarrow> bool" where
  "has_suffix s p \<longleftrightarrow> has_prefix (rev s) (rev p)"

lemma has_prefix_iff: "has_prefix s p \<longleftrightarrow> (\<exists>t. s = p @ t)"
  unfolding has_prefix_def by (metis append_eq_conv_conj)

lemma has_prefix_append [simp]: "has_prefix (p @ t) p"
  by (auto simp: has_prefix_iff)

lemma has_prefix_refl [simp]: "has_prefix s s"
  by (simp add: has_prefix_def)

lemma has_prefix_trans: "has_prefix s p \<Longrightarrow> has_prefix p q \<Longrightarrow> has_prefix s q"
  by (auto simp: has_prefix_iff)

lemma has_suffix_iff: "has_suffix s p \<longleftrightarrow> (\<exists>t. s = t @ p)"
  unfolding has_suffix_def has_prefix_iff
  by (metis rev_append rev_rev_ident)

definition trim_prefix :: "string \<Rightarrow> string \<Rightarrow> string" where
  "trim_prefix s p = (if has_prefix s p then drop (length p) s else s)"

definition trim_suffix :: "string \<Rightarrow> string \<Rightarrow> string" where
  "trim_suffix s p = (if has_suffix s p then take (length s - length p) s else s)"

text \<open>\<^verbatim>\<open>strings.Contains\<close>.\<close>

fun contains :: "string \<Rightarrow> string \<Rightarrow> bool" where
  "contains [] p = (p = [])"
| "contains (c # s) p = (has_prefix (c # s) p \<or> contains s p)"

text \<open>\<^verbatim>\<open>strings.IndexByte\<close>: \<open>None\<close> is Go's \<open>-1\<close>.\<close>

fun index_byte :: "string \<Rightarrow> char \<Rightarrow> nat option" where
  "index_byte [] d = None"
| "index_byte (c # s) d = (if c = d then Some 0 else map_option Suc (index_byte s d))"

lemma index_byte_None: "index_byte s d = None \<longleftrightarrow> d \<notin> set s"
  by (induction s) auto

lemma index_byte_append: "d \<notin> set s \<Longrightarrow> index_byte (s @ d # t) d = Some (length s)"
  by (induction s) auto

lemma index_byte_Some:
  "index_byte s d = Some i \<Longrightarrow> i < length s \<and> s = take i s @ d # drop (Suc i) s \<and> d \<notin> set (take i s)"
  by (induction s arbitrary: i) (auto split: if_splits)

subsection \<open>Trimming white space\<close>

text \<open>The UTF-8 encodings of \<^verbatim>\<open>unicode.IsSpace\<close>: tab to carriage return, space, U+0085,
  U+00A0, U+1680, U+2000 to U+200A, U+2028, U+2029, U+202F, U+205F and U+3000.\<close>

definition space_encodings :: "string list" where
  "space_encodings =
     [[CHR 0x20], [CHR 0x09], [CHR 0x0A], [CHR 0x0B], [CHR 0x0C], [CHR 0x0D],
      [CHR 0xC2, CHR 0x85], [CHR 0xC2, CHR 0xA0], [CHR 0xE1, CHR 0x9A, CHR 0x80],
      [CHR 0xE2, CHR 0x80, CHR 0x80], [CHR 0xE2, CHR 0x80, CHR 0x81],
      [CHR 0xE2, CHR 0x80, CHR 0x82], [CHR 0xE2, CHR 0x80, CHR 0x83],
      [CHR 0xE2, CHR 0x80, CHR 0x84], [CHR 0xE2, CHR 0x80, CHR 0x85],
      [CHR 0xE2, CHR 0x80, CHR 0x86], [CHR 0xE2, CHR 0x80, CHR 0x87],
      [CHR 0xE2, CHR 0x80, CHR 0x88], [CHR 0xE2, CHR 0x80, CHR 0x89],
      [CHR 0xE2, CHR 0x80, CHR 0x8A], [CHR 0xE2, CHR 0x80, CHR 0xA8],
      [CHR 0xE2, CHR 0x80, CHR 0xA9], [CHR 0xE2, CHR 0x80, CHR 0xAF],
      [CHR 0xE2, CHR 0x81, CHR 0x9F], [CHR 0xE3, CHR 0x80, CHR 0x80]]"

definition lead_in :: "string list \<Rightarrow> string \<Rightarrow> string option" where
  "lead_in us s = find (\<lambda>u. u \<noteq> [] \<and> has_prefix s u) us"

function strip_left :: "string list \<Rightarrow> string \<Rightarrow> string" where
  "strip_left us s = (case lead_in us s of None \<Rightarrow> s | Some u \<Rightarrow> strip_left us (drop (length u) s))"
  by pat_completeness auto
termination
  by (relation "measure (\<lambda>(us, s). length s)")
    (auto simp: lead_in_def find_Some_iff has_prefix_iff)

declare strip_left.simps [simp del]

definition trim_space :: "string \<Rightarrow> string" where
  "trim_space s =
     rev (strip_left (map rev space_encodings) (rev (strip_left space_encodings s)))"

lemma lead_in_None:
  "lead_in us s = None \<longleftrightarrow> (\<forall>u \<in> set us. u = [] \<or> \<not> has_prefix s u)"
  by (auto simp: lead_in_def find_None_iff)

lemma lead_in_Nil [simp]: "lead_in us [] = None"
  by (auto simp: lead_in_None has_prefix_def)

lemma strip_left_id: "lead_in us s = None \<Longrightarrow> strip_left us s = s"
  by (simp add: strip_left.simps)

lemma strip_left_Nil [simp]: "strip_left us [] = []"
  by (simp add: strip_left_id)

lemma lead_in_strip_left: "lead_in us (strip_left us s) = None"
proof (induction us s rule: strip_left.induct)
  case (1 us s)
  then show ?case
    by (cases "lead_in us s") (simp_all add: strip_left.simps [of us s])
qed

lemma strip_left_suffix: "\<exists>w. s = w @ strip_left us s"
proof (induction us s rule: strip_left.induct)
  case (1 us s)
  show ?case
  proof (cases "lead_in us s")
    case None
    then show ?thesis by (simp add: strip_left_id)
  next
    case (Some u)
    with 1 obtain w where "drop (length u) s = w @ strip_left us (drop (length u) s)" by blast
    then have "s = (take (length u) s @ w) @ strip_left us s"
      using Some by (simp add: strip_left.simps [of us s])
    then show ?thesis by blast
  qed
qed

text \<open>What is left of a trimmed string after cutting its end is still trimmed on the left.\<close>

lemma lead_in_take: "lead_in us (p @ t) = None \<Longrightarrow> lead_in us p = None"
  by (auto simp: lead_in_None has_prefix_iff)

lemma trim_space_fixes:
  assumes "lead_in space_encodings s = None"
    and "lead_in (map rev space_encodings) (rev s) = None"
  shows "trim_space s = s"
  using assms by (simp add: trim_space_def strip_left_id)

lemma trim_space_lead: "lead_in space_encodings (trim_space s) = None"
proof -
  let ?l = "strip_left space_encodings s"
  obtain w where "rev ?l = w @ strip_left (map rev space_encodings) (rev ?l)"
    using strip_left_suffix by blast
  then have "?l = trim_space s @ rev w"
    unfolding trim_space_def by (metis rev_append rev_rev_ident)
  then show ?thesis
    using lead_in_strip_left [of space_encodings s] lead_in_take by metis
qed

lemma trim_space_idem [simp]: "trim_space (trim_space s) = trim_space s"
proof (rule trim_space_fixes)
  show "lead_in space_encodings (trim_space s) = None"
    by (rule trim_space_lead)
  show "lead_in (map rev space_encodings) (rev (trim_space s)) = None"
    by (simp add: trim_space_def lead_in_strip_left)
qed

lemma trim_space_Nil [simp]: "trim_space [] = []"
  by (simp add: trim_space_def)

text \<open>A string whose first and last bytes are graphic ASCII is not changed.\<close>

definition graphic :: "char \<Rightarrow> bool" where
  "graphic c \<longleftrightarrow> 33 \<le> byte_of c \<and> byte_of c \<le> 126"

lemma space_encodings_not_graphic:
  "u \<in> set space_encodings \<Longrightarrow> u \<noteq> [] \<and> \<not> graphic (hd u) \<and> \<not> graphic (last u)"
  by (auto simp: space_encodings_def graphic_def)

lemma trim_space_graphic:
  assumes "s \<noteq> []" "graphic (hd s)" "graphic (last s)"
  shows "trim_space s = s"
proof (rule trim_space_fixes)
  show "lead_in space_encodings s = None"
    using assms(1,2) space_encodings_not_graphic
    by (auto simp: lead_in_None has_prefix_iff hd_append)
  show "lead_in (map rev space_encodings) (rev s) = None"
  proof -
    { fix u assume u: "u \<in> set space_encodings"
      have "\<not> has_prefix (rev s) (rev u)"
      proof
        assume "has_prefix (rev s) (rev u)"
        then obtain t where "s = t @ u"
          by (metis has_prefix_iff has_suffix_def has_suffix_iff)
        then show False
          using assms(3) space_encodings_not_graphic [OF u] by auto
      qed }
    then show ?thesis by (auto simp: lead_in_None)
  qed
qed

subsection \<open>Splitting and joining\<close>

text \<open>\<^verbatim>\<open>strings.Split\<close> with a one-byte separator.\<close>

fun splitc :: "char \<Rightarrow> string \<Rightarrow> string list" where
  "splitc d [] = [[]]"
| "splitc d (c # s) =
     (if c = d then [] # splitc d s
      else (case splitc d s of [] \<Rightarrow> [[c]] | w # ws \<Rightarrow> (c # w) # ws))"

text \<open>\<^verbatim>\<open>strings.Join\<close>.\<close>

fun join :: "string \<Rightarrow> string list \<Rightarrow> string" where
  "join sep [] = []"
| "join sep [w] = w"
| "join sep (w # v # ws) = w @ sep @ join sep (v # ws)"

lemma splitc_not_Nil [simp]: "splitc d s \<noteq> []"
  by (induction s) (auto split: list.split)

lemma splitc_plain: "d \<notin> set s \<Longrightarrow> splitc d s = [s]"
  by (induction s) auto

lemma splitc_append: "d \<notin> set w \<Longrightarrow> splitc d (w @ d # s) = w # splitc d s"
  by (induction w) auto

lemma join_Cons_head: "join sep ((c # w) # ws) = c # join sep (w # ws)"
  by (cases ws) simp_all

lemma join_Nil_head: "ws \<noteq> [] \<Longrightarrow> join sep ([] # ws) = sep @ join sep ws"
  by (cases ws) simp_all

lemma set_join: "set (join sep ws) \<subseteq> set sep \<union> \<Union> (set ` set ws)"
  by (induction sep ws rule: join.induct) auto

lemma join_splitc: "join [d] (splitc d s) = s"
proof (induction s)
  case Nil
  then show ?case by simp
next
  case (Cons c s)
  then show ?case
    by (cases "splitc d s") (auto simp: join_Cons_head join_Nil_head)
qed

lemma splitc_join:
  assumes "ws \<noteq> []" and "\<forall>w \<in> set ws. d \<notin> set w"
  shows "splitc d (join [d] ws) = ws"
  using assms
proof (induction "[d] :: string" ws rule: join.induct)
  case 1
  then show ?case by simp
next
  case (2 w)
  then show ?case by (simp add: splitc_plain)
next
  case (3 w v ws)
  then show ?case by (simp add: splitc_append)
qed

lemma splitc_free: "w \<in> set (splitc d s) \<Longrightarrow> d \<notin> set w"
proof (induction s arbitrary: w)
  case Nil
  then show ?case by simp
next
  case (Cons c s)
  then show ?case
    by (cases "splitc d s") (auto split: if_splits)
qed

subsection \<open>Decimal numbers\<close>

definition digit_char :: "nat \<Rightarrow> char" where
  "digit_char n = char_of (48 + n)"

definition digit_val :: "char \<Rightarrow> nat" where
  "digit_val c = byte_of c - 48"

definition is_digit :: "char \<Rightarrow> bool" where
  "is_digit c \<longleftrightarrow> 48 \<le> byte_of c \<and> byte_of c \<le> 57"

lemma digit_char_props:
  assumes "n < 10"
  shows "is_digit (digit_char n)" "digit_val (digit_char n) = n"
  using assms by (simp_all add: is_digit_def digit_char_def digit_val_def)

lemma digit_char_simps [simp]:
  "digit_char 0 = CHR ''0''" "digit_char (Suc 0) = CHR ''1''" "digit_char 1 = CHR ''1''"
  "digit_char 2 = CHR ''2''" "digit_char 3 = CHR ''3''" "digit_char 4 = CHR ''4''"
  "digit_char 5 = CHR ''5''" "digit_char 6 = CHR ''6''" "digit_char 7 = CHR ''7''"
  "digit_char 8 = CHR ''8''" "digit_char 9 = CHR ''9''"
  by (code_simp)+

lemma is_digit_graphic: "is_digit c \<Longrightarrow> graphic c"
  by (simp add: is_digit_def graphic_def)

text \<open>\<^verbatim>\<open>strconv.Itoa\<close> and the verb \<^verbatim>\<open>%d\<close>.\<close>

fun show_nat :: "nat \<Rightarrow> string" where
  "show_nat n = (if n < 10 then [digit_char n] else show_nat (n div 10) @ [digit_char (n mod 10)])"

declare show_nat.simps [simp del]

lemma show_nat_code [go_text, code]:
  "show_nat n = (if n < 10 then [digit_char n] else show_nat (n div 10) @ [digit_char (n mod 10)])"
  by (rule show_nat.simps)

definition show_int :: "int \<Rightarrow> string" where
  "show_int i = (if i < 0 then CHR ''-'' # show_nat (nat (- i)) else show_nat (nat i))"

text \<open>The value of a decimal digit string, as \<^verbatim>\<open>strconv.ParseInt\<close> accumulates it.\<close>

definition nat_of_digits :: "string \<Rightarrow> nat" where
  "nat_of_digits s = foldl (\<lambda>acc c. 10 * acc + digit_val c) 0 s"

lemma nat_of_digits_snoc: "nat_of_digits (s @ [c]) = 10 * nat_of_digits s + digit_val c"
  by (simp add: nat_of_digits_def)

lemma nat_of_digits_show_nat [simp]: "nat_of_digits (show_nat n) = n"
proof (induction n rule: show_nat.induct)
  case (1 n)
  show ?case
  proof (cases "n < 10")
    case True
    then show ?thesis
      by (simp add: show_nat.simps [of n] nat_of_digits_def digit_char_props)
  next
    case False
    with 1 show ?thesis
      by (simp add: show_nat.simps [of n] nat_of_digits_snoc digit_char_props)
  qed
qed

lemma show_nat_inj [simp]: "show_nat m = show_nat n \<longleftrightarrow> m = n"
  by (metis nat_of_digits_show_nat)

lemma show_nat_digits: "\<forall>c \<in> set (show_nat n). is_digit c"
proof (induction n rule: show_nat.induct)
  case (1 n)
  then show ?case
    by (cases "n < 10") (auto simp: show_nat.simps [of n] digit_char_props)
qed

lemma show_nat_not_Nil [simp]: "show_nat n \<noteq> []"
  by (subst show_nat.simps) simp

lemma show_nat_no_sign: "CHR ''-'' \<notin> set (show_nat n)" "CHR ''.'' \<notin> set (show_nat n)"
  "CHR '':'' \<notin> set (show_nat n)"
  using show_nat_digits [of n] by (auto simp: is_digit_def)

lemma show_int_inj [simp]: "show_int i = show_int j \<longleftrightarrow> i = j"
proof
  have neq: "CHR ''-'' # s \<noteq> show_nat n" for s n
    using show_nat_no_sign(1) [of n] by (metis list.set_intros(1))
  assume "show_int i = show_int j"
  then show "i = j"
    using neq neq [symmetric] by (auto simp: show_int_def nat_eq_iff split: if_splits)
qed simp

text \<open>Zero-padded printing, \<^verbatim>\<open>%02d\<close>: a sign takes one of the two places.\<close>

definition pad0 :: "nat \<Rightarrow> string \<Rightarrow> string" where
  "pad0 w s = replicate (w - length s) (CHR ''0'') @ s"

definition fmt_02d :: "int \<Rightarrow> string" where
  "fmt_02d i = (if i < 0 then CHR ''-'' # pad0 1 (show_nat (nat (- i))) else pad0 2 (show_nat (nat i)))"

text \<open>The verb \<^verbatim>\<open>%q\<close>: exact on ASCII text; the bytes of printable multi-byte characters are kept.\<close>

definition hex_digit :: "nat \<Rightarrow> char" where
  "hex_digit n = (if n < 10 then char_of (48 + n) else char_of (87 + n))"

definition quote_char :: "char \<Rightarrow> string" where
  "quote_char c =
     (if c = CHR 0x22 \<or> c = CHR 0x5C then [CHR 0x5C, c]
      else if c = CHR 0x07 then [CHR 0x5C, CHR ''a''] else if c = CHR 0x08 then [CHR 0x5C, CHR ''b'']
      else if c = CHR 0x0C then [CHR 0x5C, CHR ''f''] else if c = CHR 0x0A then [CHR 0x5C, CHR ''n'']
      else if c = CHR 0x0D then [CHR 0x5C, CHR ''r''] else if c = CHR 0x09 then [CHR 0x5C, CHR ''t'']
      else if c = CHR 0x0B then [CHR 0x5C, CHR ''v'']
      else if byte_of c < 32 \<or> byte_of c = 127
        then [CHR 0x5C, CHR ''x'', hex_digit (byte_of c div 16), hex_digit (byte_of c mod 16)]
      else [c])"

definition go_quote :: "string \<Rightarrow> string" where
  "go_quote s = [CHR 0x22] @ concat (map quote_char s) @ [CHR 0x22]"

end
