(* ===== verification/Go_Errors.thy ===== *)
theory Go_Errors
  imports Go_Text
begin

section \<open>Errors: error chains, error codes and the API response\<close>

text \<open>
  A Go \<open>error\<close> is a value of \<open>gerr\<close>; a possibly nil one is a \<open>gerr option\<close>. Package-level
  sentinels (\<^verbatim>\<open>errors.New\<close>) are told apart by their text, which is unique in the program.
  \<open>chain\<close> is the pre-order traversal that \<^verbatim>\<open>errors.Is\<close> and \<^verbatim>\<open>errors.As\<close> make. The error codes of
  \<^verbatim>\<open>internal/errcode\<close>, the structured cache error of \<^verbatim>\<open>pkg/cache/errors.go\<close> and the mapping of
  an error to an HTTP response in \<^verbatim>\<open>internal/response\<close> are defined on top of it.
\<close>

subsection \<open>Error values\<close>

text \<open>\<open>Errorf t ws\<close> is the value of \<^verbatim>\<open>fmt.Errorf\<close>: its rendered text and the operands of its
  \<^verbatim>\<open>%w\<close> verbs. \<open>CodeErr\<close> is \<^verbatim>\<open>*errcode.Code\<close> (code, message, HTTP status, cause);
  \<open>CacheErr\<close> is \<^verbatim>\<open>*cache.CacheError\<close> (code, message, cause).\<close>

datatype gerr =
    Sentinel string
  | Errorf string "gerr list"
  | JoinErr "gerr list"
  | CodeErr int string int "gerr option"
  | CacheErr string string "gerr option"

fun error_text :: "gerr \<Rightarrow> string" where
  "error_text (Sentinel t) = t"
| "error_text (Errorf t ws) = t"
| "error_text (JoinErr es) = join [CHR 0x0A] (map error_text es)"
| "error_text (CodeErr c m h cause) =
     ''['' @ show_int c @ ''] '' @ m @ (case cause of None \<Rightarrow> '''' | Some e \<Rightarrow> '': '' @ error_text e)"
| "error_text (CacheErr c m cause) =
     ''cache error ['' @ c @ '']: '' @ m @ (case cause of None \<Rightarrow> '''' | Some e \<Rightarrow> '': '' @ error_text e)"

fun unwrap :: "gerr \<Rightarrow> gerr list" where
  "unwrap (Sentinel t) = []"
| "unwrap (Errorf t ws) = ws"
| "unwrap (JoinErr es) = es"
| "unwrap (CodeErr c m h cause) = (case cause of None \<Rightarrow> [] | Some e \<Rightarrow> [e])"
| "unwrap (CacheErr c m cause) = (case cause of None \<Rightarrow> [] | Some e \<Rightarrow> [e])"

lemma unwrap_size: "e' \<in> set (unwrap e) \<Longrightarrow> size e' < size e"
  by (cases e) (auto split: option.splits simp: less_Suc_eq_le
      dest: size_list_estimation' [where f = size, OF _ order_refl])

function chain :: "gerr \<Rightarrow> gerr list" where
  "chain e = e # concat (map chain (unwrap e))"
  by pat_completeness auto
termination
  by (relation "measure size") (auto dest: unwrap_size)

definition errors_is :: "gerr \<Rightarrow> gerr \<Rightarrow> bool" where
  "errors_is e target \<longleftrightarrow> target \<in> set (chain e)"

fun is_code :: "gerr \<Rightarrow> bool" where
  "is_code (CodeErr c m h cause) = True"
| "is_code e = False"

definition errors_as_code :: "gerr \<Rightarrow> gerr option" where
  "errors_as_code e = find is_code (chain e)"

text \<open>\<^verbatim>\<open>errors.Join\<close> drops nil errors and is nil when nothing is left.\<close>

definition errors_join :: "gerr option list \<Rightarrow> gerr option" where
  "errors_join es = (case List.map_filter id es of [] \<Rightarrow> None | es' \<Rightarrow> Some (JoinErr es'))"

text \<open>\<^verbatim>\<open>fmt.Errorf("%w: text", e)\<close> and \<^verbatim>\<open>fmt.Errorf("text: %w", e)\<close>.\<close>

definition wrapw :: "gerr \<Rightarrow> string \<Rightarrow> gerr" where
  "wrapw e t = Errorf (error_text e @ '': '' @ t) [e]"

definition wrapl :: "string \<Rightarrow> gerr \<Rightarrow> gerr" where
  "wrapl t e = Errorf (t @ '': '' @ error_text e) [e]"

text \<open>\<^verbatim>\<open>fmt.Errorf("%w: %w", e, e')\<close> with an optional text between the two.\<close>

definition wrap2 :: "gerr \<Rightarrow> string \<Rightarrow> gerr \<Rightarrow> gerr" where
  "wrap2 e t e' = Errorf (error_text e @ '': '' @ t @ error_text e') [e, e']"

declare chain.simps [simp del]

lemma errors_is_self [simp]: "errors_is e e"
  by (simp add: errors_is_def chain.simps [of e])

lemma errors_is_unfold:
  "errors_is e t \<longleftrightarrow> e = t \<or> (\<exists>e' \<in> set (unwrap e). errors_is e' t)"
  unfolding errors_is_def by (subst chain.simps) auto

lemma errors_is_simps [simp]:
  "errors_is (Sentinel s) (Sentinel t) = (s = t)"
  "errors_is (Errorf m ws) (Sentinel t) = (\<exists>e \<in> set ws. errors_is e (Sentinel t))"
  "errors_is (JoinErr ws) (Sentinel t) = (\<exists>e \<in> set ws. errors_is e (Sentinel t))"
  "errors_is (CodeErr c m h None) (Sentinel t) = False"
  "errors_is (CodeErr c m h (Some e)) (Sentinel t) = errors_is e (Sentinel t)"
  "errors_is (CacheErr k m None) (Sentinel t) = False"
  "errors_is (CacheErr k m (Some e)) (Sentinel t) = errors_is e (Sentinel t)"
  by (subst errors_is_unfold, simp)+

lemma errors_is_wrap [simp]:
  "errors_is (wrapw e t) (Sentinel s) = errors_is e (Sentinel s)"
  "errors_is (wrapl t e) (Sentinel s) = errors_is e (Sentinel s)"
  "errors_is (wrap2 e t e') (Sentinel s) = (errors_is e (Sentinel s) \<or> errors_is e' (Sentinel s))"
  by (simp_all add: wrapw_def wrapl_def wrap2_def)

lemma errors_is_trans: "errors_is e e' \<Longrightarrow> errors_is e' t \<Longrightarrow> errors_is e t"
proof (induction e rule: chain.induct)
  case (1 e)
  show ?case
  proof (cases "e = e'")
    case False
    then obtain d where "d \<in> set (unwrap e)" "errors_is d e'"
      using 1(2) by (auto simp: errors_is_unfold [of e])
    then show ?thesis
      using 1(1,3) by (auto simp: errors_is_unfold [of e])
  qed (use 1(3) in simp)
qed

lemma map_filter_id_Nil: "List.map_filter id es = [] \<longleftrightarrow> (\<forall>e \<in> set es. e = None)"
  by (induction es) (auto simp: map_filter_simps split: option.splits)

lemma set_map_filter_id: "set (List.map_filter id es) = {d. Some d \<in> set es}"
  by (induction es) (auto simp: map_filter_simps split: option.splits)

lemma errors_join_None: "errors_join es = None \<longleftrightarrow> (\<forall>e \<in> set es. e = None)"
  using map_filter_id_Nil [of es] by (auto simp: errors_join_def split: list.splits)

lemma errors_join_Some: "errors_join es = Some e \<Longrightarrow> e = JoinErr (List.map_filter id es)"
  by (auto simp: errors_join_def split: list.splits)

lemma errors_join_Cons [simp]:
  "errors_join (Some e # es) = Some (JoinErr (e # List.map_filter id es))"
  "errors_join (None # es) = errors_join es"
  by (simp_all add: errors_join_def map_filter_simps)

lemma errors_join_Nil [simp]: "errors_join [] = None"
  by (simp add: errors_join_def map_filter_simps)

lemma errors_join_is:
  "errors_join es = Some e \<Longrightarrow>
    errors_is e (Sentinel t) \<longleftrightarrow> (\<exists>d. Some d \<in> set es \<and> errors_is d (Sentinel t))"
  using set_map_filter_id [of es] by (auto dest!: errors_join_Some)

end
