(* ===== verification/Amount.thy ===== *)
theory Amount
  imports Go_Errors
begin

section \<open>Payment amounts\<close>

text \<open>
  \<^verbatim>\<open>pkg/payment/amount.go\<close>: money is an \<open>int64\<close> number of fen; the vendors exchange decimal yuan
  strings. \<open>FenToYuan\<close> prints, \<open>YuanStringToFen\<close> parses. The 64-bit arithmetic of the source is
  kept: \<open>-fen\<close>, \<open>yuan*100 + fen\<close> and \<open>-total\<close> wrap around. The lemmas show that parsing inverts
  printing on every amount but the least one, what is parsed from every well-formed text, and
  where the range check of the source is one-sided.
\<close>

subsection \<open>Sentinels of the package\<close>

definition ErrProviderNotRegistered :: gerr where
  "ErrProviderNotRegistered = Sentinel ''payment: provider not registered''"
definition ErrChannelNotRegistered :: gerr where
  "ErrChannelNotRegistered = Sentinel ''payment: channel not registered''"
definition ErrProviderDisabled :: gerr where
  "ErrProviderDisabled = Sentinel ''payment: provider disabled''"
definition ErrChannelDisabled :: gerr where
  "ErrChannelDisabled = Sentinel ''payment: channel disabled''"
definition ErrInvalidConfig :: gerr where
  "ErrInvalidConfig = Sentinel ''payment: invalid config''"
definition ErrInvalidRequest :: gerr where
  "ErrInvalidRequest = Sentinel ''payment: invalid request''"
definition ErrNotImplemented :: gerr where
  "ErrNotImplemented = Sentinel ''payment: not implemented''"

lemmas payment_sentinels = ErrProviderNotRegistered_def ErrChannelNotRegistered_def
  ErrProviderDisabled_def ErrChannelDisabled_def ErrInvalidConfig_def ErrInvalidRequest_def
  ErrNotImplemented_def

subsection \<open>Printing and parsing\<close>

definition FenToYuan :: "int \<Rightarrow> string" where
  "FenToYuan fen =
     (if fen < 0 then
        (let fen = wrap64 (- fen)
         in ''-'' @ show_int (go_div fen 100) @ ''.'' @ fmt_02d (go_mod fen 100))
      else show_int (go_div fen 100) @ ''.'' @ fmt_02d (go_mod fen 100))"

definition allDigits :: "string \<Rightarrow> bool" where
  "allDigits s \<longleftrightarrow> s \<noteq> '''' \<and> list_all is_digit s"

text \<open>\<^verbatim>\<open>strconv.ParseInt(s, 10, 64)\<close>: an optional sign, decimal digits, in range.\<close>

definition parse_int64 :: "string \<Rightarrow> int option" where
  "parse_int64 s =
     (let neg = has_prefix s ''-'';
          ds = (if neg \<or> has_prefix s ''+'' then drop 1 s else s)
      in if ds = '''' \<or> \<not> list_all is_digit ds then None
         else let v = (if neg then - int (nat_of_digits ds) else int (nat_of_digits ds))
              in if int64 v then Some v else None)"

definition count_byte :: "string \<Rightarrow> char \<Rightarrow> nat" where
  "count_byte s c = length (filter (\<lambda>x. x = c) s)"

definition invalid_amount :: gerr where
  "invalid_amount = wrapw ErrInvalidRequest ''invalid amount''"

text \<open>The integer and the two-digit fraction part, as lines 34 to 43 compute them.\<close>

definition amount_parts :: "string \<Rightarrow> (string \<times> string) option" where
  "amount_parts s =
     (case index_byte s (CHR ''.'') of
        None \<Rightarrow> Some (s, '''')
      | Some i \<Rightarrow>
          (let intPart = take i s; fracPart = drop (i + 1) s
           in if length fracPart = 0 \<or> length fracPart > 2 \<or> \<not> allDigits fracPart then None
              else Some (intPart, if length fracPart = 1 then fracPart @ ''0'' else fracPart)))"

text \<open>Lines 31 to 65, on the text after the sign.\<close>

definition amount_value :: "bool \<Rightarrow> string \<Rightarrow> (gerr, int) result" where
  "amount_value neg s =
     (if s = '''' \<or> count_byte s (CHR ''.'') > 1 then Inl invalid_amount
      else (case amount_parts s of
         None \<Rightarrow> Inl invalid_amount
       | Some (intPart, fracPart) \<Rightarrow>
           if \<not> allDigits intPart then Inl invalid_amount
           else (case parse_int64 intPart of
              None \<Rightarrow> Inl invalid_amount
            | Some yuan \<Rightarrow>
                (case (if fracPart \<noteq> '''' then parse_int64 fracPart else Some 0) of
                   None \<Rightarrow> Inl invalid_amount
                 | Some fen \<Rightarrow>
                     if yuan > go_div MaxInt64 100 then Inl invalid_amount
                     else let total' = wrap64 (wrap64 (yuan * 100) + fen)
                          in Inr (if neg then wrap64 (- total') else total')))))"

definition YuanStringToFen :: "string \<Rightarrow> (gerr, int) result" where
  "YuanStringToFen s0 =
     (let s = trim_space s0
      in if s = '''' then Inr 0
         else if has_prefix s ''-'' then amount_value True (drop 1 s)
         else amount_value False s)"

subsection \<open>Lemmas\<close>

lemma is_digit_not_sign:
  assumes "is_digit c"
  shows "c \<noteq> CHR ''-''" "c \<noteq> CHR ''+''" "c \<noteq> CHR ''.''"
  using assms by (auto simp: is_digit_def)

lemma parse_int64_digits:
  assumes "allDigits s"
  shows "parse_int64 s = (if int (nat_of_digits s) \<le> MaxInt64 then Some (int (nat_of_digits s)) else None)"
proof -
  obtain c cs where "s = c # cs" "is_digit c"
    using assms by (cases s) (auto simp: allDigits_def)
  then show ?thesis
    using assms is_digit_not_sign [of c]
    by (auto simp: parse_int64_def has_prefix_def allDigits_def int64_def MinInt64_def)
qed

lemma fmt_02d_small:
  assumes "0 \<le> i" "i < 100"
  shows "fmt_02d i = [digit_char (nat i div 10), digit_char (nat i mod 10)]"
proof -
  have "nat i < 100" using assms by linarith
  then show ?thesis
    using assms by (auto simp: fmt_02d_def pad0_def show_nat.simps [of "nat i"]
        show_nat.simps [of "nat i div 10"])
qed

lemma two_digits:
  assumes "n < 100"
  shows "nat_of_digits [digit_char (n div 10), digit_char (n mod 10)] = n"
    and "allDigits [digit_char (n div 10), digit_char (n mod 10)]"
  using assms by (simp_all add: nat_of_digits_def allDigits_def digit_char_props)

lemma allDigits_show_nat: "allDigits (show_nat n)"
  using show_nat_digits [of n] by (simp add: allDigits_def list_all_iff)

lemma allDigits_append: "allDigits a \<Longrightarrow> allDigits b \<Longrightarrow> allDigits (a @ b)"
  by (simp add: allDigits_def)

lemma count_byte_digits: "allDigits s \<Longrightarrow> count_byte s (CHR ''.'') = 0"
  by (auto simp: count_byte_def allDigits_def list_all_iff filter_empty_conv dest: is_digit_not_sign)

text \<open>What the parser makes of a text \<open>ip.fp\<close> with digits only, with or without a sign: the value
  modulo $2^{64}$, unless the integer part alone is out of range.\<close>

lemma amount_parts_dotted:
  assumes "allDigits ip" "allDigits [a, b]"
  shows "amount_parts (ip @ CHR ''.'' # [a, b]) = Some (ip, [a, b])"
proof -
  have "CHR ''.'' \<notin> set ip"
    using assms(1) by (auto simp: allDigits_def list_all_iff dest: is_digit_not_sign)
  then show ?thesis
    using assms(2) by (simp add: amount_parts_def index_byte_append)
qed

lemma trim_space_amount:
  assumes "allDigits ip" "allDigits [a, b]" "s = ip @ CHR ''.'' # [a, b] \<or> s = CHR ''-'' # ip @ CHR ''.'' # [a, b]"
  shows "trim_space s = s"
proof (rule trim_space_graphic)
  show "s \<noteq> []" "graphic (last s)" using assms by (auto simp: allDigits_def is_digit_graphic)
  show "graphic (hd s)"
    using assms by (cases ip) (auto simp: allDigits_def is_digit_def graphic_def)
qed

lemma nat_of_two_digits:
  assumes "allDigits [a, b]"
  shows "nat_of_digits [a, b] < 100"
  using assms by (simp add: nat_of_digits_def allDigits_def digit_val_def is_digit_def) arith

lemma YuanStringToFen_dotted:
  assumes ip: "allDigits ip" and fp: "allDigits [a, b]"
  defines "v \<equiv> 100 * int (nat_of_digits ip) + int (nat_of_digits [a, b])"
  shows "YuanStringToFen (ip @ CHR ''.'' # [a, b])
           = (if int (nat_of_digits ip) \<le> 92233720368547758 then Inr (wrap64 v) else Inl invalid_amount)"
    and "YuanStringToFen (CHR ''-'' # ip @ CHR ''.'' # [a, b])
           = (if int (nat_of_digits ip) \<le> 92233720368547758 then Inr (wrap64 (- wrap64 v)) else Inl invalid_amount)"
proof -
  obtain c cs where c: "ip = c # cs" "is_digit c"
    using ip by (cases ip) (auto simp: allDigits_def)
  have cnt: "count_byte (ip @ CHR ''.'' # [a, b]) (CHR ''.'') = 1"
    using count_byte_digits [OF ip] count_byte_digits [OF fp] by (simp add: count_byte_def)
  have pip: "parse_int64 ip = (if int (nat_of_digits ip) \<le> MaxInt64 then Some (int (nat_of_digits ip)) else None)"
    by (rule parse_int64_digits [OF ip])
  have pfp: "parse_int64 [a, b] = Some (int (nat_of_digits [a, b]))"
    using nat_of_two_digits [OF fp] by (simp add: parse_int64_digits [OF fp] MaxInt64_def)
  have lim: "go_div MaxInt64 100 = 92233720368547758"
    by (simp add: go_div_def MaxInt64_def)
  have w: "wrap64 (wrap64 (int (nat_of_digits ip) * 100) + int (nat_of_digits [a, b])) = wrap64 v"
    if "int (nat_of_digits ip) \<le> 92233720368547758"
  proof -
    have "int64 (int (nat_of_digits ip) * 100)"
      using that by (simp add: int64_def MinInt64_def MaxInt64_def)
    then show ?thesis by (simp add: v_def mult.commute)
  qed
  have body: "amount_value neg (ip @ CHR ''.'' # [a, b])
      = (if int (nat_of_digits ip) \<le> 92233720368547758
         then Inr (if neg then wrap64 (- wrap64 v) else wrap64 v) else Inl invalid_amount)" for neg
    using w ip by (simp add: amount_value_def cnt amount_parts_dotted [OF ip fp] pip pfp lim lim [unfolded MaxInt64_def, simplified]
        MaxInt64_def Let_def)
  have t1: "trim_space (ip @ CHR ''.'' # [a, b]) = ip @ CHR ''.'' # [a, b]"
    and t2: "trim_space (CHR ''-'' # ip @ CHR ''.'' # [a, b]) = CHR ''-'' # ip @ CHR ''.'' # [a, b]"
    using trim_space_amount [OF ip fp] by blast+
  have np: "\<not> has_prefix (ip @ CHR ''.'' # [a, b]) ''-''"
    using is_digit_not_sign(1) [OF c(2)] by (simp add: c(1) has_prefix_def)
  show "YuanStringToFen (ip @ CHR ''.'' # [a, b])
           = (if int (nat_of_digits ip) \<le> 92233720368547758 then Inr (wrap64 v) else Inl invalid_amount)"
    unfolding YuanStringToFen_def t1 Let_def using np body by simp
  show "YuanStringToFen (CHR ''-'' # ip @ CHR ''.'' # [a, b])
           = (if int (nat_of_digits ip) \<le> 92233720368547758 then Inr (wrap64 (- wrap64 v)) else Inl invalid_amount)"
    unfolding YuanStringToFen_def t2 Let_def using body by (simp add: has_prefix_def)
qed

lemma FenToYuan_shape:
  assumes "0 \<le> fen"
  shows "FenToYuan fen = show_nat (nat fen div 100) @ CHR ''.'' #
           [digit_char (nat fen mod 100 div 10), digit_char (nat fen mod 100 mod 10)]"
proof -
  have "nat (fen mod 100) = nat fen mod 100" "nat (fen div 100) = nat fen div 100"
    using assms by (simp_all add: nat_mod_distrib nat_div_distrib)
  moreover have "0 \<le> fen mod 100" "fen mod 100 < 100" by simp_all
  ultimately show ?thesis
    using assms fmt_02d_small [of "fen mod 100"]
    by (simp add: FenToYuan_def go_div_nonneg go_mod_nonneg show_int_def pos_imp_zdiv_neg_iff)
qed

lemma FenToYuan_neg:
  assumes "fen < 0" "MinInt64 < fen"
  shows "FenToYuan fen = CHR ''-'' # FenToYuan (- fen)"
proof -
  have "wrap64 (- fen) = - fen"
    using assms by (intro wrap64_id) (simp add: int64_def MinInt64_def MaxInt64_def)
  then show ?thesis
    using assms by (simp add: FenToYuan_def Let_def)
qed

lemma fen_yuan_inverse:
  assumes "MinInt64 < fen" "fen \<le> MaxInt64"
  shows "YuanStringToFen (FenToYuan fen) = Inr fen"
proof -
  define m where "m = nat \<bar>fen\<bar>"
  have m: "int m \<le> MaxInt64" "int (m div 100) \<le> 92233720368547758"
    using assms by (auto simp: m_def MinInt64_def MaxInt64_def)
  have v: "100 * int (m div 100) + int (m mod 100) = int m" by (simp add: zdiv_int zmod_int)
  have w: "wrap64 (int m) = int m" "wrap64 (- int m) = - int m"
    using m by (auto intro!: wrap64_id simp: int64_def MinInt64_def MaxInt64_def)
  let ?ip = "show_nat (m div 100)"
  have d: "allDigits ?ip" "allDigits [digit_char (m mod 100 div 10), digit_char (m mod 100 mod 10)]"
    "nat_of_digits [digit_char (m mod 100 div 10), digit_char (m mod 100 mod 10)] = m mod 100"
    using allDigits_show_nat two_digits [of "m mod 100"] by auto
  have pos: "FenToYuan (int m) = ?ip @ CHR ''.'' #
      [digit_char (m mod 100 div 10), digit_char (m mod 100 mod 10)]"
    using FenToYuan_shape [of "int m"] by simp
  show ?thesis
  proof (cases "0 \<le> fen")
    case True
    then have "fen = int m" by (simp add: m_def)
    then show ?thesis
      using YuanStringToFen_dotted(1) [OF d(1,2)] m(2) d(3) w(1) v by (simp add: pos)
  next
    case False
    then have "fen = - int m" by (simp add: m_def)
    then show ?thesis
      using YuanStringToFen_dotted(2) [OF d(1,2)] m(2) d(3) w v False assms(1)
      by (simp add: FenToYuan_neg pos)
  qed
qed

text \<open>C1: Parsing a printed amount gives the amount back: for every \<open>int64\<close> number of fen except
  the least one, \<open>YuanStringToFen (FenToYuan fen) = fen\<close> and no error is returned.\<close>

theorem fen_yuan_roundtrip:
  assumes "MinInt64 < fen" "fen \<le> MaxInt64"
  shows "YuanStringToFen (FenToYuan fen) = Inr fen"
  using assms by (rule fen_yuan_inverse)

theorem fen_yuan_roundtrip_witness:
  "MinInt64 < -1230 \<and> -1230 \<le> MaxInt64 \<and> YuanStringToFen (FenToYuan (-1230)) = Inr (-1230)"
  using fen_yuan_roundtrip [of "-1230"] by (simp add: MinInt64_def MaxInt64_def)

text \<open>C2: What the parser returns for every text of decimal digits, a dot and two digits, signed or
  not. When the amount fits \<open>int64\<close> the result is exact. When its integer part exceeds
  \<open>MaxInt64/100\<close> the text is refused with \<open>ErrInvalidRequest\<close>. In between (an integer part equal to
  \<open>MaxInt64/100\<close> with a fraction above 07) the range check passes and the sum wraps around to a
  negative amount.\<close>

theorem YuanStringToFen_spec:
  assumes "allDigits ip" and "allDigits [a, b]"
  defines "v \<equiv> 100 * int (nat_of_digits ip) + int (nat_of_digits [a, b])"
  shows "YuanStringToFen (ip @ ''.'' @ [a, b]) =
           (if v \<le> MaxInt64 then Inr v
            else if int (nat_of_digits ip) \<le> go_div MaxInt64 100 then Inr (v - 2 ^ 64)
            else Inl (wrapw ErrInvalidRequest ''invalid amount''))
         \<and> (v \<le> MaxInt64 \<longrightarrow> YuanStringToFen (''-'' @ ip @ ''.'' @ [a, b]) = Inr (- v))"
proof -
  have lim: "go_div MaxInt64 100 = 92233720368547758"
    by (simp add: go_div_def MaxInt64_def)
  have r: "0 \<le> v" "v \<le> 100 * int (nat_of_digits ip) + 99"
    using nat_of_two_digits [OF assms(2)] by (auto simp: v_def)
  have fit: "wrap64 v = v" "wrap64 (- v) = - v" if "v \<le> MaxInt64"
    using that r by (auto intro!: wrap64_id simp: int64_def MinInt64_def MaxInt64_def)
  have over: "wrap64 v = v - 2 ^ 64"
    if "\<not> v \<le> MaxInt64" "int (nat_of_digits ip) \<le> 92233720368547758"
    by (rule wrap64_over) (use that r in \<open>simp_all add: MaxInt64_def\<close>)
  have "int (nat_of_digits ip) \<le> 92233720368547758" if "v \<le> MaxInt64"
    using that r unfolding MaxInt64_def v_def by simp
  then show ?thesis
    using YuanStringToFen_dotted [OF assms(1,2)] fit over
    unfolding lim v_def [symmetric] invalid_amount_def by simp
qed

theorem YuanStringToFen_spec_witness:
  "allDigits ''12'' \<and> allDigits ''30'' \<and> YuanStringToFen ''12.30'' = Inr 1230 \<and> YuanStringToFen ''-12.30'' = Inr (-1230)"
  using YuanStringToFen_spec [of "''12''" "CHR ''3''" "CHR ''0''"]
  by (simp add: allDigits_def is_digit_def nat_of_digits_def digit_val_def MaxInt64_def)

text \<open>The two corners of the 64-bit range where the amount functions go wrong: an amount of
  92233720368547758.08 yuan, which is positive, is parsed as the least (negative) \<open>int64\<close> without an
  error, and the least \<open>int64\<close> is printed with two minus signs.\<close>

lemma amount_overflow:
  "YuanStringToFen ''92233720368547758.08'' = Inr MinInt64 \<and>
   FenToYuan MinInt64 = ''--92233720368547758.-8'' \<and>
   YuanStringToFen (FenToYuan MinInt64) = Inl invalid_amount"
proof -
  have d: "allDigits ''92233720368547758''" "allDigits ''08''"
    by (simp_all add: allDigits_def is_digit_def)
  have "YuanStringToFen ''92233720368547758.08'' = Inr MinInt64"
    using YuanStringToFen_dotted(1) [OF d]
    by (simp add: nat_of_digits_def digit_val_def wrap64_def MinInt64_def)
  moreover have f: "FenToYuan MinInt64 = ''--92233720368547758.-8''"
    by (simp add: FenToYuan_def MinInt64_def wrap64_def go_div_def go_mod_def show_int_def fmt_02d_def
        pad0_def show_nat.simps)
  moreover have "YuanStringToFen ''--92233720368547758.-8'' = Inl invalid_amount"
  proof -
    have "trim_space ''--92233720368547758.-8'' = ''--92233720368547758.-8''"
      by (rule trim_space_graphic) (simp_all add: graphic_def)
    then show ?thesis
      by (simp add: YuanStringToFen_def has_prefix_def amount_value_def count_byte_def amount_parts_def
          allDigits_def is_digit_def)
  qed
  ultimately show ?thesis by simp
qed

end
