(* ===== verification/Payment.thy ===== *)
theory Payment
  imports Amount
begin

section \<open>The payment facade\<close>

text \<open>
  \<^verbatim>\<open>pkg/payment\<close>: \<open>types.go\<close>, \<open>interface.go\<close>, \<open>registry.go\<close> and \<open>payment.go\<close>. A vendor is a
  record of the four methods of the \<open>Payment\<close> interface; the context argument is left out. The
  registry is the package variable \<open>impls\<close>, a map from normalised provider names; a \<open>Client\<close> is a
  snapshot of it. The locale \<open>payment_vendor\<close> is the contract the drivers keep; what the facade
  guarantees to its callers is proved in it once and holds for each driver that interprets it.
\<close>

subsection \<open>Types\<close>

definition ChannelPCWeb :: string where "ChannelPCWeb = ''pc_web''"
definition ChannelApp :: string where "ChannelApp = ''app''"
definition ProviderAlipay :: string where "ProviderAlipay = ''alipay''"
definition ProviderWechat :: string where "ProviderWechat = ''wechat''"

definition TradeStatusPending :: string where "TradeStatusPending = ''pending''"
definition TradeStatusSuccess :: string where "TradeStatusSuccess = ''success''"
definition TradeStatusClosed :: string where "TradeStatusClosed = ''closed''"
definition TradeStatusRefund :: string where "TradeStatusRefund = ''refund''"

lemmas trade_status_defs = TradeStatusPending_def TradeStatusSuccess_def TradeStatusClosed_def
  TradeStatusRefund_def

text \<open>The zero \<open>time.Time\<close> of \<open>ExpireAt\<close> is \<open>None\<close>.\<close>

record CreateRequest =
  cr_OutTradeNo :: string
  cr_AmountFen :: int
  cr_Subject :: string
  cr_ExpireAt :: "int option"
  cr_ClientIP :: string
  cr_ReturnURL :: string

record CreateResult =
  res_Channel :: string
  res_PayURL :: string
  res_CodeURL :: string
  res_FormHTML :: string
  res_AppPayload :: string

record QueryRequest =
  qr_OutTradeNo :: string
  qr_TradeNo :: string

record QueryResult =
  qs_OutTradeNo :: string
  qs_TradeNo :: string
  qs_Status :: string
  qs_AmountFen :: int

text \<open>An \<open>http.Header\<close> is an association list; \<open>nil\<close> is \<open>None\<close>.\<close>

record NotifyRequest =
  nr_Headers :: "(string \<times> string list) list option"
  nr_Body :: string

record NotifyResult =
  ns_OutTradeNo :: string
  ns_TradeNo :: string
  ns_Status :: string
  ns_AmountFen :: int
  ns_Raw :: string

subsection \<open>The vendor interface and its default implementation\<close>

record Payment =
  pay_Create :: "string \<Rightarrow> string \<Rightarrow> CreateRequest \<Rightarrow> (gerr, CreateResult) result"
  pay_Query :: "string \<Rightarrow> QueryRequest \<Rightarrow> (gerr, QueryResult) result"
  pay_Notify :: "string \<Rightarrow> NotifyRequest \<Rightarrow> (gerr, NotifyResult) result"
  pay_ValidateConfig :: "string \<Rightarrow> gerr option"

definition Nop_Create :: "string \<Rightarrow> string \<Rightarrow> CreateRequest \<Rightarrow> (gerr, CreateResult) result" where
  "Nop_Create cfg channel req = Inl (wrapw ErrNotImplemented ''Create'')"

definition Nop_Query :: "string \<Rightarrow> QueryRequest \<Rightarrow> (gerr, QueryResult) result" where
  "Nop_Query cfg req = Inl (wrapw ErrNotImplemented ''Query'')"

definition Nop_Notify :: "string \<Rightarrow> NotifyRequest \<Rightarrow> (gerr, NotifyResult) result" where
  "Nop_Notify cfg req = Inl (wrapw ErrNotImplemented ''Notify'')"

definition Nop_ValidateConfig :: "string \<Rightarrow> gerr option" where
  "Nop_ValidateConfig cfg = Some (wrapw ErrNotImplemented ''ValidateConfig'')"

definition Nop :: Payment where
  "Nop = \<lparr>pay_Create = Nop_Create, pay_Query = Nop_Query, pay_Notify = Nop_Notify,
          pay_ValidateConfig = Nop_ValidateConfig\<rparr>"

subsection \<open>The registry\<close>

type_synonym registry = "string \<rightharpoonup> Payment"

definition normalizeProvider :: "string \<Rightarrow> string" where
  "normalizeProvider provider = to_lower (trim_space provider)"

text \<open>\<open>Register\<close> panics on a nil implementation and on an empty name: \<open>Inl\<close> is the panic text.\<close>

definition Register :: "registry \<Rightarrow> string \<Rightarrow> Payment option \<Rightarrow> (string, registry) result" where
  "Register reg provider impl =
     (case impl of
        None \<Rightarrow> Inl ''payment: Register nil implementation''
      | Some i \<Rightarrow>
          (let p = normalizeProvider provider
           in if p = '''' then Inl ''payment: Register empty provider'' else Inr (reg(p \<mapsto> i))))"

definition snapshot :: "registry \<Rightarrow> registry" where
  "snapshot reg = (\<lambda>k. reg k)"

record Client =
  cl_impls :: registry

definition New :: "registry \<Rightarrow> Client" where
  "New reg = \<lparr>cl_impls = snapshot reg\<rparr>"

subsection \<open>The client\<close>

definition Client_lookup :: "Client \<Rightarrow> string \<Rightarrow> (gerr, Payment) result" where
  "Client_lookup c provider =
     (let p = normalizeProvider provider
      in case cl_impls c p of None \<Rightarrow> Inl (wrapw ErrProviderNotRegistered p) | Some impl \<Rightarrow> Inr impl)"

definition validateCreateRequest :: "CreateRequest \<Rightarrow> gerr option" where
  "validateCreateRequest req =
     (if cr_OutTradeNo req = '''' then Some (wrapw ErrInvalidRequest ''out_trade_no is required'')
      else if cr_AmountFen req \<le> 0 then Some (wrapw ErrInvalidRequest ''amount must be positive fen'')
      else if cr_Subject req = '''' then Some (wrapw ErrInvalidRequest ''subject is required'')
      else None)"

definition trim_create_request :: "CreateRequest \<Rightarrow> CreateRequest" where
  "trim_create_request req =
     req\<lparr>cr_OutTradeNo := trim_space (cr_OutTradeNo req), cr_Subject := trim_space (cr_Subject req),
         cr_ClientIP := trim_space (cr_ClientIP req), cr_ReturnURL := trim_space (cr_ReturnURL req)\<rparr>"

definition Client_Create ::
  "Client \<Rightarrow> string \<Rightarrow> string \<Rightarrow> string \<Rightarrow> CreateRequest \<Rightarrow> (gerr, CreateResult) result" where
  "Client_Create c provider channel cfg req =
     (let channel = to_lower (trim_space channel)
      in if channel = '''' then Inl (wrapw ErrInvalidRequest ''channel is required'')
         else let req = trim_create_request req
           in case validateCreateRequest req of
                Some e \<Rightarrow> Inl e
              | None \<Rightarrow>
                  (case Client_lookup c provider of
                     Inl e \<Rightarrow> Inl e
                   | Inr impl \<Rightarrow> pay_Create impl cfg channel req))"

definition Client_Query :: "Client \<Rightarrow> string \<Rightarrow> string \<Rightarrow> QueryRequest \<Rightarrow> (gerr, QueryResult) result" where
  "Client_Query c provider cfg req =
     (let req = \<lparr>qr_OutTradeNo = trim_space (qr_OutTradeNo req), qr_TradeNo = trim_space (qr_TradeNo req)\<rparr>
      in if qr_OutTradeNo req = '''' \<and> qr_TradeNo req = ''''
         then Inl (wrapw ErrInvalidRequest ''out_trade_no or trade_no is required'')
         else (case Client_lookup c provider of Inl e \<Rightarrow> Inl e | Inr impl \<Rightarrow> pay_Query impl cfg req))"

definition Client_Notify :: "Client \<Rightarrow> string \<Rightarrow> string \<Rightarrow> NotifyRequest \<Rightarrow> (gerr, NotifyResult) result" where
  "Client_Notify c provider cfg req =
     (if length (nr_Body req) = 0 then Inl (wrapw ErrInvalidRequest ''empty notify body'')
      else (case Client_lookup c provider of Inl e \<Rightarrow> Inl e | Inr impl \<Rightarrow> pay_Notify impl cfg req))"

definition Client_ValidateConfig :: "Client \<Rightarrow> string \<Rightarrow> string \<Rightarrow> gerr option" where
  "Client_ValidateConfig c provider cfg =
     (case Client_lookup c provider of Inl e \<Rightarrow> Some e | Inr impl \<Rightarrow> pay_ValidateConfig impl cfg)"

definition Client_Registered :: "Client \<Rightarrow> string \<Rightarrow> bool" where
  "Client_Registered c provider = is_ok (Client_lookup c provider)"

subsection \<open>Lemmas\<close>

definition good_request :: "CreateRequest \<Rightarrow> bool" where
  "good_request req \<longleftrightarrow>
     cr_OutTradeNo req \<noteq> '''' \<and> 0 < cr_AmountFen req \<and> cr_Subject req \<noteq> '''' \<and>
     trim_create_request req = req"

lemma trim_create_request_idem [simp]: "trim_create_request (trim_create_request req) = trim_create_request req"
  by (simp add: trim_create_request_def)

lemma validateCreateRequest_trimmed:
  "validateCreateRequest (trim_create_request req) = None \<longleftrightarrow> good_request (trim_create_request req)"
  by (auto simp: validateCreateRequest_def good_request_def)

lemma Client_lookup_Inr:
  "Client_lookup c provider = Inr impl \<longleftrightarrow> cl_impls c (normalizeProvider provider) = Some impl"
  by (auto simp: Client_lookup_def Let_def split: option.splits)

text \<open>The vendor is called only with a normalised and valid request, and its answer is returned
  unchanged.\<close>

lemma Client_Create_Inr:
  assumes "Client_Create c provider channel cfg req = Inr r"
  obtains impl where "cl_impls c (normalizeProvider provider) = Some impl"
    and "good_request (trim_create_request req)" and "to_lower (trim_space channel) \<noteq> ''''"
    and "pay_Create impl cfg (to_lower (trim_space channel)) (trim_create_request req) = Inr r"
  using assms
  by (auto simp: Client_Create_def Let_def Client_lookup_Inr validateCreateRequest_trimmed
      split: if_splits option.splits sum.splits)

lemma Client_Query_Inr:
  assumes "Client_Query c provider cfg req = Inr r"
  obtains impl q where "cl_impls c (normalizeProvider provider) = Some impl" and "pay_Query impl cfg q = Inr r"
    and "qr_OutTradeNo q = trim_space (qr_OutTradeNo req)" "qr_TradeNo q = trim_space (qr_TradeNo req)"
    and "qr_OutTradeNo q \<noteq> '''' \<or> qr_TradeNo q \<noteq> ''''"
  using assms by (auto simp: Client_Query_def Let_def Client_lookup_Inr split: if_splits sum.splits)

lemma Client_Notify_Inr:
  assumes "Client_Notify c provider cfg req = Inr r"
  obtains impl where "cl_impls c (normalizeProvider provider) = Some impl" and "pay_Notify impl cfg req = Inr r"
    and "nr_Body req \<noteq> ''''"
  using assms by (auto simp: Client_Notify_def Client_lookup_Inr split: if_splits sum.splits)

lemma Register_lookup:
  assumes "Register reg provider (Some impl) = Inr reg'"
  shows "cl_impls (New reg') (normalizeProvider p) =
    (if normalizeProvider p = normalizeProvider provider then Some impl else reg (normalizeProvider p))"
  using assms by (auto simp: Register_def New_def snapshot_def Let_def split: if_splits)

text \<open>What a driver promises: it creates a payment only when its configuration is enabled, the
  channel is one it supports and is switched on, and the configuration passes its own check; the
  result is marked with the channel asked for; the trade status is one of the four unified ones.\<close>

definition unified_status :: "string \<Rightarrow> bool" where
  "unified_status st \<longleftrightarrow>
     st \<in> {TradeStatusPending, TradeStatusSuccess, TradeStatusClosed, TradeStatusRefund}"

lemma channels_differ [simp]: "ChannelPCWeb \<noteq> ChannelApp" "ChannelApp \<noteq> ChannelPCWeb"
  by (simp_all add: ChannelPCWeb_def ChannelApp_def)

lemma unified_status_simps [simp]:
  "unified_status TradeStatusPending" "unified_status TradeStatusSuccess"
  "unified_status TradeStatusClosed" "unified_status TradeStatusRefund"
  by (simp_all add: unified_status_def)

locale payment_vendor =
  fixes impl :: Payment
    and enabled :: "string \<Rightarrow> bool"
    and channel_on :: "string \<Rightarrow> string \<Rightarrow> bool"
  assumes create_enabled: "pay_Create impl cfg ch req = Inr r \<Longrightarrow> enabled cfg \<and> channel_on cfg ch"
    and create_checked: "pay_Create impl cfg ch req = Inr r \<Longrightarrow> pay_ValidateConfig impl cfg = None"
    and create_channel: "pay_Create impl cfg ch req = Inr r \<Longrightarrow> res_Channel r = ch"
    and query_enabled: "pay_Query impl cfg q = Inr s \<Longrightarrow> enabled cfg \<and> unified_status (qs_Status s)"
    and notify_enabled: "pay_Notify impl cfg n = Inr t \<Longrightarrow> enabled cfg \<and> unified_status (ns_Status t)"
    and channels: "channel_on cfg ch \<Longrightarrow> ch = ChannelPCWeb \<or> ch = ChannelApp"
begin

lemma facade_create:
  assumes "cl_impls c (normalizeProvider provider) = Some impl"
    and "Client_Create c provider channel cfg req = Inr r"
  shows "enabled cfg" "channel_on cfg (res_Channel r)" "res_Channel r = to_lower (trim_space channel)"
    "Client_ValidateConfig c provider cfg = None" "good_request (trim_create_request req)"
    "res_Channel r \<in> {ChannelPCWeb, ChannelApp}"
proof -
  obtain i where i: "cl_impls c (normalizeProvider provider) = Some i"
    "good_request (trim_create_request req)"
    "pay_Create i cfg (to_lower (trim_space channel)) (trim_create_request req) = Inr r"
    using assms(2) by (rule Client_Create_Inr)
  with assms(1) have ok: "pay_Create impl cfg (to_lower (trim_space channel)) (trim_create_request req) = Inr r"
    by simp
  show "enabled cfg" using create_enabled [OF ok] by simp
  show ch: "res_Channel r = to_lower (trim_space channel)" using create_channel [OF ok] .
  show on: "channel_on cfg (res_Channel r)" using create_enabled [OF ok] ch by simp
  show "Client_ValidateConfig c provider cfg = None"
    using create_checked [OF ok] assms(1) by (simp add: Client_ValidateConfig_def Client_lookup_def)
  show "good_request (trim_create_request req)" by (rule i(2))
  show "res_Channel r \<in> {ChannelPCWeb, ChannelApp}" using channels [OF on] by simp
qed

lemma facade_disabled:
  assumes "cl_impls c (normalizeProvider provider) = Some impl" "\<not> enabled cfg"
  shows "\<not> is_ok (Client_Create c provider channel cfg req)"
    "\<not> is_ok (Client_Query c provider cfg q)" "\<not> is_ok (Client_Notify c provider cfg n)"
  using assms create_enabled query_enabled notify_enabled
  by (auto simp: is_ok_iff elim!: Client_Create_Inr Client_Query_Inr Client_Notify_Inr)

lemma facade_status:
  assumes "cl_impls c (normalizeProvider provider) = Some impl"
  shows "Client_Query c provider cfg q = Inr s \<Longrightarrow> unified_status (qs_Status s)"
    "Client_Notify c provider cfg n = Inr t \<Longrightarrow> unified_status (ns_Status t)"
  using assms query_enabled notify_enabled
  by (auto elim!: Client_Query_Inr Client_Notify_Inr)

end

text \<open>The empty implementation keeps the contract trivially: it never answers.\<close>

interpretation nop: payment_vendor Nop "\<lambda>cfg. False" "\<lambda>cfg ch. False"
  by unfold_locales (auto simp: Nop_def Nop_Create_def Nop_Query_def Nop_Notify_def)

end
