(* ===== verification/Alipay.thy ===== *)
theory Alipay
  imports Payment
begin

section \<open>The Alipay driver\<close>

text \<open>
  \<^verbatim>\<open>pkg/payment/alipay\<close>. The vendor SDK and the library functions the driver calls (JSON, URL and
  query parsing, local time formatting) are the fields of the parameter record \<open>alipay_env\<close>; the
  SDK client is a value of the type parameter, returned updated by the calls that load keys.
\<close>

record alipay_Config =
  al_Enabled :: bool
  al_Sandbox :: bool
  al_AppID :: string
  al_SignMode :: string
  al_PrivateKey :: string
  al_AlipayPublicKey :: string
  al_AppCert :: string
  al_AlipayPublicCert :: string
  al_AlipayRootCert :: string
  al_NotifyURL :: string
  al_ReturnURL :: string
  al_PCWebEnabled :: bool
  al_AppEnabled :: bool

definition alipay_zero_Config :: alipay_Config where
  "alipay_zero_Config =
     \<lparr>al_Enabled = False, al_Sandbox = False, al_AppID = '''', al_SignMode = '''', al_PrivateKey = '''',
      al_AlipayPublicKey = '''', al_AppCert = '''', al_AlipayPublicCert = '''', al_AlipayRootCert = '''',
      al_NotifyURL = '''', al_ReturnURL = '''', al_PCWebEnabled = False, al_AppEnabled = False\<rparr>"

text \<open>The fields of the SDK's \<open>Trade\<close> that the driver fills.\<close>

record alipay_Trade =
  tr_NotifyURL :: string
  tr_ReturnURL :: string
  tr_Subject :: string
  tr_OutTradeNo :: string
  tr_TotalAmount :: string
  tr_TimeExpire :: string
  tr_ProductCode :: string

definition alipay_zero_Trade :: alipay_Trade where
  "alipay_zero_Trade =
     \<lparr>tr_NotifyURL = '''', tr_ReturnURL = '''', tr_Subject = '''', tr_OutTradeNo = '''',
      tr_TotalAmount = '''', tr_TimeExpire = '''', tr_ProductCode = ''''\<rparr>"

record alipay_Rsp =
  ar_OutTradeNo :: string
  ar_TradeNo :: string
  ar_TradeStatus :: string
  ar_TotalAmount :: string
  ar_RefundStatus :: string

record 'cl alipay_env =
  sdk_New :: "string \<Rightarrow> string \<Rightarrow> bool \<Rightarrow> (gerr, 'cl) result"
  LoadAliPayPublicKey :: "'cl \<Rightarrow> string \<Rightarrow> (gerr, 'cl) result"
  LoadAppCertPublicKey :: "'cl \<Rightarrow> string \<Rightarrow> (gerr, 'cl) result"
  LoadAliPayRootCert :: "'cl \<Rightarrow> string \<Rightarrow> (gerr, 'cl) result"
  LoadAlipayCertPublicKey :: "'cl \<Rightarrow> string \<Rightarrow> (gerr, 'cl) result"
  TradePagePay :: "'cl \<Rightarrow> alipay_Trade \<Rightarrow> (gerr, string) result"
  TradeAppPay :: "'cl \<Rightarrow> alipay_Trade \<Rightarrow> (gerr, string) result"
  TradeQuery :: "'cl \<Rightarrow> string \<Rightarrow> string \<Rightarrow> (gerr, alipay_Rsp option) result"
  DecodeNotification :: "'cl \<Rightarrow> (string \<times> string list) list \<Rightarrow> (gerr, alipay_Rsp) result"
  sdk_status_success :: string
  sdk_status_finished :: string
  sdk_status_closed :: string
  sdk_status_wait :: string
  al_json_unmarshal :: "string \<Rightarrow> (gerr, alipay_Config) result"
  al_json_marshal :: "(string \<times> string) list \<Rightarrow> string"
  al_url_parse :: "string \<Rightarrow> (gerr, string \<times> string) result"
  al_parse_query :: "string \<Rightarrow> (gerr, (string \<times> string list) list) result"
  al_format_time :: "int \<Rightarrow> string"

subsection \<open>Configuration\<close>

definition alipay_parseConfig :: "'cl alipay_env \<Rightarrow> string \<Rightarrow> (gerr, alipay_Config) result" where
  "alipay_parseConfig env raw =
     (let raw = trim_space raw
      in if raw = '''' \<or> raw = ''null'' \<or> raw = ''{}'' then Inr alipay_zero_Config
         else (case al_json_unmarshal env raw of
            Inl err \<Rightarrow> Inl (wrap2 ErrInvalidConfig '''' err)
          | Inr cfg \<Rightarrow>
              Inr (cfg\<lparr>al_AppID := trim_space (al_AppID cfg),
                       al_SignMode := to_lower (trim_space (al_SignMode cfg)),
                       al_NotifyURL := trim_space (al_NotifyURL cfg),
                       al_ReturnURL := trim_space (al_ReturnURL cfg)\<rparr>)))"

definition optionalHTTPURL :: "'cl alipay_env \<Rightarrow> string \<Rightarrow> gerr option" where
  "optionalHTTPURL env raw =
     (if raw = '''' then None
      else (case al_url_parse env raw of
         Inl err \<Rightarrow> Some (Errorf ''must be http(s) URL'' [])
       | Inr (scheme, host) \<Rightarrow>
           if host = '''' \<or> (scheme \<noteq> ''http'' \<and> scheme \<noteq> ''https'')
           then Some (Errorf ''must be http(s) URL'' []) else None))"

definition alipay_mode :: "alipay_Config \<Rightarrow> string" where
  "alipay_mode cfg = (if al_SignMode cfg = '''' then ''key'' else al_SignMode cfg)"

definition alipay_checkConfig :: "'cl alipay_env \<Rightarrow> alipay_Config \<Rightarrow> gerr option" where
  "alipay_checkConfig env cfg =
     (let bad = (\<lambda>t. Some (wrapw ErrInvalidConfig t)); mode = alipay_mode cfg in
      case optionalHTTPURL env (al_NotifyURL cfg) of
        Some err \<Rightarrow> Some (wrap2 ErrInvalidConfig ''notify_url: '' err)
      | None \<Rightarrow>
      (case optionalHTTPURL env (al_ReturnURL cfg) of
        Some err \<Rightarrow> Some (wrap2 ErrInvalidConfig ''return_url: '' err)
      | None \<Rightarrow>
        if \<not> al_Enabled cfg then None
        else if al_NotifyURL cfg = '''' then bad ''notify_url is required''
        else if al_AppID cfg = '''' then bad ''app_id is required''
        else if trim_space (al_PrivateKey cfg) = '''' then bad ''private_key is required''
        else if mode = ''key'' then
          (if trim_space (al_AlipayPublicKey cfg) = ''''
           then bad ''alipay_public_key is required for key mode'' else None)
        else if mode = ''cert'' then
          (if trim_space (al_AppCert cfg) = '''' \<or> trim_space (al_AlipayPublicCert cfg) = ''''
              \<or> trim_space (al_AlipayRootCert cfg) = ''''
           then bad ''cert mode requires app_cert, alipay_public_cert and alipay_root_cert'' else None)
        else bad ''sign_mode must be key or cert''))"

definition alipay_validateConfig :: "'cl alipay_env \<Rightarrow> string \<Rightarrow> gerr option" where
  "alipay_validateConfig env raw =
     (case alipay_parseConfig env raw of Inl err \<Rightarrow> Some err | Inr cfg \<Rightarrow> alipay_checkConfig env cfg)"

definition alipay_ensureReady :: "'cl alipay_env \<Rightarrow> alipay_Config \<Rightarrow> string \<Rightarrow> gerr option" where
  "alipay_ensureReady env cfg channel =
     (if \<not> al_Enabled cfg then Some ErrProviderDisabled
      else if channel = ChannelPCWeb then
        (if \<not> al_PCWebEnabled cfg then Some ErrChannelDisabled else alipay_checkConfig env cfg)
      else if channel = ChannelApp then
        (if \<not> al_AppEnabled cfg then Some ErrChannelDisabled else alipay_checkConfig env cfg)
      else Some (wrapw ErrChannelNotRegistered channel))"

definition alipay_readyConfig :: "'cl alipay_env \<Rightarrow> string \<Rightarrow> string \<Rightarrow> (gerr, alipay_Config) result" where
  "alipay_readyConfig env raw channel =
     (case alipay_parseConfig env raw of
        Inl err \<Rightarrow> Inl err
      | Inr cfg \<Rightarrow> (case alipay_ensureReady env cfg channel of Some err \<Rightarrow> Inl err | None \<Rightarrow> Inr cfg))"

subsection \<open>The SDK client and the trade\<close>

definition alipay_newClient :: "'cl alipay_env \<Rightarrow> alipay_Config \<Rightarrow> (gerr, 'cl) result" where
  "alipay_newClient env cfg =
     (case sdk_New env (al_AppID cfg) (trim_space (al_PrivateKey cfg)) (\<not> al_Sandbox cfg) of
        Inl err \<Rightarrow> Inl (wrap2 ErrInvalidConfig '''' err)
      | Inr client \<Rightarrow>
          (if alipay_mode cfg = ''key'' then
             (case LoadAliPayPublicKey env client (trim_space (al_AlipayPublicKey cfg)) of
                Inl err \<Rightarrow> Inl (wrap2 ErrInvalidConfig ''alipay public key: '' err)
              | Inr client \<Rightarrow> Inr client)
           else if alipay_mode cfg = ''cert'' then
             (case LoadAppCertPublicKey env client (trim_space (al_AppCert cfg)) of
                Inl err \<Rightarrow> Inl (wrap2 ErrInvalidConfig ''app cert: '' err)
              | Inr client \<Rightarrow>
             (case LoadAliPayRootCert env client (trim_space (al_AlipayRootCert cfg)) of
                Inl err \<Rightarrow> Inl (wrap2 ErrInvalidConfig ''alipay root cert: '' err)
              | Inr client \<Rightarrow>
             (case LoadAlipayCertPublicKey env client (trim_space (al_AlipayPublicCert cfg)) of
                Inl err \<Rightarrow> Inl (wrap2 ErrInvalidConfig ''alipay public cert: '' err)
              | Inr client \<Rightarrow> Inr client)))
           else Inl (wrapw ErrInvalidConfig ''sign_mode must be key or cert'')))"

fun firstNonEmpty :: "string list \<Rightarrow> string" where
  "firstNonEmpty [] = ''''"
| "firstNonEmpty (v # values) =
     (if trim_space v \<noteq> '''' then trim_space v else firstNonEmpty values)"

definition applyTradeCommon ::
  "'cl alipay_env \<Rightarrow> alipay_Trade \<Rightarrow> alipay_Config \<Rightarrow> CreateRequest \<Rightarrow> alipay_Trade" where
  "applyTradeCommon env t cfg req =
     t\<lparr>tr_NotifyURL := al_NotifyURL cfg,
       tr_ReturnURL := firstNonEmpty [cr_ReturnURL req, al_ReturnURL cfg],
       tr_Subject := cr_Subject req,
       tr_OutTradeNo := cr_OutTradeNo req,
       tr_TotalAmount := FenToYuan (cr_AmountFen req),
       tr_TimeExpire := (case cr_ExpireAt req of None \<Rightarrow> tr_TimeExpire t | Some at \<Rightarrow> al_format_time env at)\<rparr>"

definition mapAlipayStatus :: "'cl alipay_env \<Rightarrow> string \<Rightarrow> string" where
  "mapAlipayStatus env status =
     (if status = sdk_status_success env \<or> status = sdk_status_finished env then TradeStatusSuccess
      else if status = sdk_status_closed env then TradeStatusClosed
      else if status = sdk_status_wait env then TradeStatusPending
      else if contains (to_lower status) ''refund'' then TradeStatusRefund
      else TradeStatusPending)"

subsection \<open>The four methods\<close>

definition alipay_createPC :: "'cl alipay_env \<Rightarrow> string \<Rightarrow> CreateRequest \<Rightarrow> (gerr, CreateResult) result" where
  "alipay_createPC env raw req =
     (case alipay_readyConfig env raw ChannelPCWeb of
        Inl err \<Rightarrow> Inl err
      | Inr cfg \<Rightarrow>
     (case alipay_newClient env cfg of
        Inl err \<Rightarrow> Inl err
      | Inr client \<Rightarrow>
          (let param = (applyTradeCommon env alipay_zero_Trade cfg req)\<lparr>tr_ProductCode := ''FAST_INSTANT_TRADE_PAY''\<rparr>
           in case TradePagePay env client param of
                Inl err \<Rightarrow> Inl (wrapl ''alipay page pay'' err)
              | Inr u \<Rightarrow> Inr \<lparr>res_Channel = ChannelPCWeb, res_PayURL = u, res_CodeURL = '''',
                              res_FormHTML = '''', res_AppPayload = ''''\<rparr>)))"

definition alipay_createApp :: "'cl alipay_env \<Rightarrow> string \<Rightarrow> CreateRequest \<Rightarrow> (gerr, CreateResult) result" where
  "alipay_createApp env raw req =
     (case alipay_readyConfig env raw ChannelApp of
        Inl err \<Rightarrow> Inl err
      | Inr cfg \<Rightarrow>
     (case alipay_newClient env cfg of
        Inl err \<Rightarrow> Inl err
      | Inr client \<Rightarrow>
          (let param = (applyTradeCommon env alipay_zero_Trade cfg req)\<lparr>tr_ProductCode := ''QUICK_MSECURITY_PAY''\<rparr>
           in case TradeAppPay env client param of
                Inl err \<Rightarrow> Inl (wrapl ''alipay app pay'' err)
              | Inr orderStr \<Rightarrow> Inr \<lparr>res_Channel = ChannelApp, res_PayURL = '''', res_CodeURL = '''',
                                     res_FormHTML = '''', res_AppPayload = orderStr\<rparr>)))"

definition alipay_Create ::
  "'cl alipay_env \<Rightarrow> string \<Rightarrow> string \<Rightarrow> CreateRequest \<Rightarrow> (gerr, CreateResult) result" where
  "alipay_Create env cfg channel req =
     (if channel = ChannelPCWeb then alipay_createPC env cfg req
      else if channel = ChannelApp then alipay_createApp env cfg req
      else Inl (wrapw ErrChannelNotRegistered channel))"

definition alipay_Query :: "'cl alipay_env \<Rightarrow> string \<Rightarrow> QueryRequest \<Rightarrow> (gerr, QueryResult) result" where
  "alipay_Query env raw req =
     (case alipay_parseConfig env raw of
        Inl err \<Rightarrow> Inl err
      | Inr cfg \<Rightarrow>
     (if \<not> al_Enabled cfg then Inl ErrProviderDisabled
      else case alipay_newClient env cfg of
        Inl err \<Rightarrow> Inl err
      | Inr client \<Rightarrow>
     (case TradeQuery env client (qr_OutTradeNo req) (qr_TradeNo req) of
        Inl err \<Rightarrow> Inl (wrapl ''alipay trade query'' err)
      | Inr None \<Rightarrow> Inl (Errorf ''alipay trade query: empty response'' [])
      | Inr (Some rsp) \<Rightarrow>
     (case YuanStringToFen (ar_TotalAmount rsp) of
        Inl err \<Rightarrow> Inl (wrapl ''alipay trade query amount'' err)
      | Inr amount \<Rightarrow>
          Inr \<lparr>qs_OutTradeNo = ar_OutTradeNo rsp, qs_TradeNo = ar_TradeNo rsp,
               qs_Status = mapAlipayStatus env (ar_TradeStatus rsp), qs_AmountFen = amount\<rparr>))))"

definition alipay_Notify :: "'cl alipay_env \<Rightarrow> string \<Rightarrow> NotifyRequest \<Rightarrow> (gerr, NotifyResult) result" where
  "alipay_Notify env raw req =
     (case alipay_parseConfig env raw of
        Inl err \<Rightarrow> Inl err
      | Inr cfg \<Rightarrow>
     (if \<not> al_Enabled cfg then Inl ErrProviderDisabled
      else case alipay_newClient env cfg of
        Inl err \<Rightarrow> Inl err
      | Inr client \<Rightarrow>
     (case al_parse_query env (nr_Body req) of
        Inl err \<Rightarrow> Inl (wrap2 ErrInvalidRequest ''notify body: '' err)
      | Inr values \<Rightarrow>
     (case DecodeNotification env client values of
        Inl err \<Rightarrow> Inl (wrapl ''alipay notify'' err)
      | Inr n \<Rightarrow>
     (case YuanStringToFen (ar_TotalAmount n) of
        Inl err \<Rightarrow> Inl (wrapl ''alipay notify amount'' err)
      | Inr amount \<Rightarrow>
          Inr \<lparr>ns_OutTradeNo = ar_OutTradeNo n, ns_TradeNo = ar_TradeNo n,
               ns_Status = (if ar_RefundStatus n \<noteq> '''' then TradeStatusRefund
                            else mapAlipayStatus env (ar_TradeStatus n)),
               ns_AmountFen = amount,
               ns_Raw = al_json_marshal env
                 [(''out_trade_no'', ar_OutTradeNo n), (''trade_no'', ar_TradeNo n),
                  (''trade_status'', ar_TradeStatus n), (''total_amount'', ar_TotalAmount n)]\<rparr>)))))"

definition alipay_driver :: "'cl alipay_env \<Rightarrow> Payment" where
  "alipay_driver env =
     \<lparr>pay_Create = alipay_Create env, pay_Query = alipay_Query env, pay_Notify = alipay_Notify env,
      pay_ValidateConfig = alipay_validateConfig env\<rparr>"

subsection \<open>The driver keeps the vendor contract\<close>

definition alipay_enabled :: "'cl alipay_env \<Rightarrow> string \<Rightarrow> bool" where
  "alipay_enabled env raw =
     (case alipay_parseConfig env raw of Inl _ \<Rightarrow> False | Inr cfg \<Rightarrow> al_Enabled cfg)"

definition alipay_channel_on :: "'cl alipay_env \<Rightarrow> string \<Rightarrow> string \<Rightarrow> bool" where
  "alipay_channel_on env raw ch =
     (case alipay_parseConfig env raw of
        Inl _ \<Rightarrow> False
      | Inr cfg \<Rightarrow> (ch = ChannelPCWeb \<and> al_PCWebEnabled cfg) \<or> (ch = ChannelApp \<and> al_AppEnabled cfg))"

lemma alipay_readyConfig_Inr:
  "alipay_readyConfig env raw ch = Inr cfg \<longleftrightarrow>
     alipay_parseConfig env raw = Inr cfg \<and> al_Enabled cfg \<and> alipay_checkConfig env cfg = None \<and>
     (ch = ChannelPCWeb \<and> al_PCWebEnabled cfg \<or> ch = ChannelApp \<and> al_AppEnabled cfg)"
  by (auto simp: alipay_readyConfig_def alipay_ensureReady_def split: sum.splits option.splits if_splits)

lemma applyTradeCommon_fields [simp]:
  "tr_TotalAmount (applyTradeCommon env t cfg req) = FenToYuan (cr_AmountFen req)"
  "tr_OutTradeNo (applyTradeCommon env t cfg req) = cr_OutTradeNo req"
  "tr_Subject (applyTradeCommon env t cfg req) = cr_Subject req"
  "tr_NotifyURL (applyTradeCommon env t cfg req) = al_NotifyURL cfg"
  by (simp_all add: applyTradeCommon_def)

text \<open>A payment is created only by one SDK call on the trade built from the request.\<close>

lemma alipay_Create_Inr:
  assumes "alipay_Create env raw ch req = Inr r"
  obtains cfg client code where
    "alipay_readyConfig env raw ch = Inr cfg" "alipay_newClient env cfg = Inr client" "res_Channel r = ch"
    "ch = ChannelPCWeb \<and>
       TradePagePay env client (applyTradeCommon env alipay_zero_Trade cfg req\<lparr>tr_ProductCode := code\<rparr>)
         = Inr (res_PayURL r) \<or>
     ch = ChannelApp \<and>
       TradeAppPay env client (applyTradeCommon env alipay_zero_Trade cfg req\<lparr>tr_ProductCode := code\<rparr>)
         = Inr (res_AppPayload r)"
  using assms
  by (auto simp: alipay_Create_def alipay_createPC_def alipay_createApp_def Let_def
      split: if_splits sum.splits)

lemma mapAlipayStatus_unified: "unified_status (mapAlipayStatus env st)"
  by (simp add: mapAlipayStatus_def unified_status_def)

lemma alipay_Query_Inr:
  "alipay_Query env raw q = Inr s \<Longrightarrow> alipay_enabled env raw \<and> unified_status (qs_Status s)"
  using mapAlipayStatus_unified [of env]
  by (auto simp: alipay_Query_def alipay_enabled_def split: sum.splits option.splits if_splits)

lemma alipay_Notify_Inr:
  "alipay_Notify env raw n = Inr t \<Longrightarrow> alipay_enabled env raw \<and> unified_status (ns_Status t)"
  using mapAlipayStatus_unified [of env]
  by (auto simp: alipay_Notify_def alipay_enabled_def split: sum.splits if_splits)

interpretation alipay: payment_vendor "alipay_driver env" "alipay_enabled env" "alipay_channel_on env"
  for env :: "'cl alipay_env"
proof unfold_locales
  fix cfg ch req r
  assume "pay_Create (alipay_driver env) cfg ch req = Inr r"
  then have "alipay_Create env cfg ch req = Inr r" by (simp add: alipay_driver_def)
  then obtain c where c: "alipay_readyConfig env cfg ch = Inr c" "res_Channel r = ch"
    by (rule alipay_Create_Inr) blast
  show "alipay_enabled env cfg \<and> alipay_channel_on env cfg ch"
    using c by (simp add: alipay_readyConfig_Inr alipay_enabled_def alipay_channel_on_def)
  show "pay_ValidateConfig (alipay_driver env) cfg = None"
    using c by (simp add: alipay_readyConfig_Inr alipay_driver_def alipay_validateConfig_def)
  show "res_Channel r = ch" by (rule c(2))
next
  show "pay_Query (alipay_driver env) cfg q = Inr s \<Longrightarrow> alipay_enabled env cfg \<and> unified_status (qs_Status s)"
    for cfg q s using alipay_Query_Inr by (simp add: alipay_driver_def)
  show "pay_Notify (alipay_driver env) cfg n = Inr t \<Longrightarrow> alipay_enabled env cfg \<and> unified_status (ns_Status t)"
    for cfg n t using alipay_Notify_Inr by (simp add: alipay_driver_def)
  show "alipay_channel_on env cfg ch \<Longrightarrow> ch = ChannelPCWeb \<or> ch = ChannelApp" for cfg ch
    by (auto simp: alipay_channel_on_def split: sum.splits)
qed

end
