(* ===== verification/Wechat.thy ===== *)
theory Wechat
  imports Payment
begin

section \<open>The WeChat Pay driver\<close>

text \<open>
  \<^verbatim>\<open>pkg/payment/wechat\<close>. As for Alipay, the SDK and the library functions are a parameter record.
  A Go \<open>*string\<close> or \<open>*int64\<close> of the SDK's structs is an option.
\<close>

record wechat_Config =
  wx_Enabled :: bool
  wx_MchID :: string
  wx_MchSerialNo :: string
  wx_APIv3Key :: string
  wx_PrivateKey :: string
  wx_AppIDWeb :: string
  wx_AppIDApp :: string
  wx_NotifyURL :: string
  wx_PCWebEnabled :: bool
  wx_AppEnabled :: bool

definition wechat_zero_Config :: wechat_Config where
  "wechat_zero_Config =
     \<lparr>wx_Enabled = False, wx_MchID = '''', wx_MchSerialNo = '''', wx_APIv3Key = '''', wx_PrivateKey = '''',
      wx_AppIDWeb = '''', wx_AppIDApp = '''', wx_NotifyURL = '''', wx_PCWebEnabled = False, wx_AppEnabled = False\<rparr>"

record wechat_Prepay =
  pp_Appid :: string
  pp_Mchid :: string
  pp_Description :: string
  pp_OutTradeNo :: string
  pp_NotifyUrl :: string
  pp_Currency :: string
  pp_Total :: int
  pp_TimeExpire :: "int option"
  pp_PayerClientIp :: "string option"

text \<open>\<open>tx_Amount\<close> is the pointer to the amount, whose \<open>Total\<close> is a pointer again.\<close>

record wechat_Transaction =
  tx_OutTradeNo :: "string option"
  tx_TransactionId :: "string option"
  tx_TradeState :: "string option"
  tx_Amount :: "int option option"

record ('k, 'cl, 'resp, 'h) wechat_env =
  LoadPrivateKey :: "string \<Rightarrow> (gerr, 'k) result"
  core_NewClient :: "string \<Rightarrow> string \<Rightarrow> 'k \<Rightarrow> string \<Rightarrow> (gerr, 'cl) result"
  native_Prepay :: "'cl \<Rightarrow> wechat_Prepay \<Rightarrow> (gerr, string option option) result"
  app_Prepay :: "'cl \<Rightarrow> wechat_Prepay \<Rightarrow> (gerr, 'resp) result"
  QueryOrderByOutTradeNo :: "'cl \<Rightarrow> string \<Rightarrow> string \<Rightarrow> (gerr, wechat_Transaction option) result"
  QueryOrderById :: "'cl \<Rightarrow> string \<Rightarrow> string \<Rightarrow> (gerr, wechat_Transaction option) result"
  NewRSANotifyHandler :: "string \<Rightarrow> string \<Rightarrow> (gerr, 'h) result"
  NewRequest :: "string \<Rightarrow> gerr option"
  ParseNotifyRequest :: "'h \<Rightarrow> (string \<times> string list) list \<Rightarrow> string \<Rightarrow> (gerr, wechat_Transaction) result"
  wx_json_unmarshal :: "string \<Rightarrow> (gerr, wechat_Config) result"
  wx_json_resp :: "'resp \<Rightarrow> (gerr, string) result"
  wx_json_txn :: "wechat_Transaction \<Rightarrow> (gerr, string) result"
  wx_url_parse :: "string \<Rightarrow> (gerr, string \<times> string) result"

subsection \<open>Configuration\<close>

definition wechat_parseConfig ::
  "('k, 'cl, 'resp, 'h) wechat_env \<Rightarrow> string \<Rightarrow> (gerr, wechat_Config) result" where
  "wechat_parseConfig env raw =
     (let raw = trim_space raw
      in if raw = '''' \<or> raw = ''null'' \<or> raw = ''{}'' then Inr wechat_zero_Config
         else (case wx_json_unmarshal env raw of
            Inl err \<Rightarrow> Inl (wrap2 ErrInvalidConfig '''' err)
          | Inr cfg \<Rightarrow>
              Inr (cfg\<lparr>wx_MchID := trim_space (wx_MchID cfg),
                       wx_MchSerialNo := trim_space (wx_MchSerialNo cfg),
                       wx_AppIDWeb := trim_space (wx_AppIDWeb cfg),
                       wx_AppIDApp := trim_space (wx_AppIDApp cfg),
                       wx_NotifyURL := trim_space (wx_NotifyURL cfg)\<rparr>)))"

definition optionalHTTPSURL :: "('k, 'cl, 'resp, 'h) wechat_env \<Rightarrow> string \<Rightarrow> gerr option" where
  "optionalHTTPSURL env raw =
     (if raw = '''' then None
      else (case wx_url_parse env raw of
         Inl err \<Rightarrow> Some (Errorf ''must be https URL'' [])
       | Inr (scheme, host) \<Rightarrow>
           if host = '''' \<or> scheme \<noteq> ''https'' then Some (Errorf ''must be https URL'' []) else None))"

definition wechat_checkConfig :: "('k, 'cl, 'resp, 'h) wechat_env \<Rightarrow> wechat_Config \<Rightarrow> gerr option" where
  "wechat_checkConfig env cfg =
     (let bad = (\<lambda>t. Some (wrapw ErrInvalidConfig t)) in
      case optionalHTTPSURL env (wx_NotifyURL cfg) of
        Some err \<Rightarrow> Some (wrap2 ErrInvalidConfig ''notify_url: '' err)
      | None \<Rightarrow>
        if \<not> wx_Enabled cfg then None
        else if wx_NotifyURL cfg = '''' then bad ''notify_url is required''
        else if wx_MchID cfg = '''' then bad ''mch_id is required''
        else if wx_MchSerialNo cfg = '''' then bad ''mch_serial_no is required''
        else if trim_space (wx_APIv3Key cfg) = '''' then bad ''api_v3_key is required''
        else if trim_space (wx_PrivateKey cfg) = '''' then bad ''private_key is required''
        else if wx_PCWebEnabled cfg \<and> wx_AppIDWeb cfg = ''''
          then bad ''app_id_web is required when pc_web is enabled''
        else if wx_AppEnabled cfg \<and> wx_AppIDApp cfg = ''''
          then bad ''app_id_app is required when app is enabled''
        else None)"

definition wechat_validateConfig :: "('k, 'cl, 'resp, 'h) wechat_env \<Rightarrow> string \<Rightarrow> gerr option" where
  "wechat_validateConfig env raw =
     (case wechat_parseConfig env raw of Inl err \<Rightarrow> Some err | Inr cfg \<Rightarrow> wechat_checkConfig env cfg)"

definition wechat_ensureReady ::
  "('k, 'cl, 'resp, 'h) wechat_env \<Rightarrow> wechat_Config \<Rightarrow> string \<Rightarrow> gerr option" where
  "wechat_ensureReady env cfg channel =
     (if \<not> wx_Enabled cfg then Some ErrProviderDisabled
      else if channel = ChannelPCWeb then
        (if \<not> wx_PCWebEnabled cfg then Some ErrChannelDisabled else wechat_checkConfig env cfg)
      else if channel = ChannelApp then
        (if \<not> wx_AppEnabled cfg then Some ErrChannelDisabled else wechat_checkConfig env cfg)
      else Some (wrapw ErrChannelNotRegistered channel))"

definition wechat_readyConfig ::
  "('k, 'cl, 'resp, 'h) wechat_env \<Rightarrow> string \<Rightarrow> string \<Rightarrow> (gerr, wechat_Config) result" where
  "wechat_readyConfig env raw channel =
     (case wechat_parseConfig env raw of
        Inl err \<Rightarrow> Inl err
      | Inr cfg \<Rightarrow> (case wechat_ensureReady env cfg channel of Some err \<Rightarrow> Inl err | None \<Rightarrow> Inr cfg))"

definition wechat_newClient ::
  "('k, 'cl, 'resp, 'h) wechat_env \<Rightarrow> wechat_Config \<Rightarrow> (gerr, 'cl) result" where
  "wechat_newClient env cfg =
     (case LoadPrivateKey env (trim_space (wx_PrivateKey cfg)) of
        Inl err \<Rightarrow> Inl (wrap2 ErrInvalidConfig ''private_key: '' err)
      | Inr key \<Rightarrow>
     (case core_NewClient env (wx_MchID cfg) (wx_MchSerialNo cfg) key (trim_space (wx_APIv3Key cfg)) of
        Inl err \<Rightarrow> Inl (wrap2 ErrInvalidConfig ''wechat client: '' err)
      | Inr client \<Rightarrow> Inr client))"

definition mapWechatState :: "string \<Rightarrow> string" where
  "mapWechatState state =
     (let st = to_upper (trim_space state)
      in if st = ''SUCCESS'' then TradeStatusSuccess
         else if st = ''REFUND'' then TradeStatusRefund
         else if st = ''CLOSED'' \<or> st = ''REVOKED'' \<or> st = ''PAYERROR'' then TradeStatusClosed
         else TradeStatusPending)"

definition deref :: "string option \<Rightarrow> string" where
  "deref s = (case s of None \<Rightarrow> '''' | Some v \<Rightarrow> v)"

definition mapTransaction :: "wechat_Transaction option \<Rightarrow> QueryResult" where
  "mapTransaction txn =
     (case txn of
        None \<Rightarrow> \<lparr>qs_OutTradeNo = '''', qs_TradeNo = '''', qs_Status = TradeStatusPending, qs_AmountFen = 0\<rparr>
      | Some t \<Rightarrow>
          \<lparr>qs_OutTradeNo = deref (tx_OutTradeNo t), qs_TradeNo = deref (tx_TransactionId t),
           qs_Status = mapWechatState (deref (tx_TradeState t)),
           qs_AmountFen = (case tx_Amount t of Some (Some n) \<Rightarrow> n | _ \<Rightarrow> 0)\<rparr>)"

definition transactionJSON :: "('k, 'cl, 'resp, 'h) wechat_env \<Rightarrow> wechat_Transaction \<Rightarrow> string" where
  "transactionJSON env txn = (case wx_json_txn env txn of Inl err \<Rightarrow> ''{}'' | Inr b \<Rightarrow> b)"

subsection \<open>The four methods\<close>

definition wechat_prepay :: "string \<Rightarrow> wechat_Config \<Rightarrow> CreateRequest \<Rightarrow> wechat_Prepay" where
  "wechat_prepay appid cfg req =
     \<lparr>pp_Appid = appid, pp_Mchid = wx_MchID cfg, pp_Description = cr_Subject req,
      pp_OutTradeNo = cr_OutTradeNo req, pp_NotifyUrl = wx_NotifyURL cfg, pp_Currency = ''CNY'',
      pp_Total = cr_AmountFen req, pp_TimeExpire = cr_ExpireAt req,
      pp_PayerClientIp = (if cr_ClientIP req \<noteq> '''' then Some (cr_ClientIP req) else None)\<rparr>"

definition wechat_createPC ::
  "('k, 'cl, 'resp, 'h) wechat_env \<Rightarrow> string \<Rightarrow> CreateRequest \<Rightarrow> (gerr, CreateResult) result" where
  "wechat_createPC env raw req =
     (case wechat_readyConfig env raw ChannelPCWeb of
        Inl err \<Rightarrow> Inl err
      | Inr cfg \<Rightarrow>
     (case wechat_newClient env cfg of
        Inl err \<Rightarrow> Inl err
      | Inr client \<Rightarrow>
     (case native_Prepay env client (wechat_prepay (wx_AppIDWeb cfg) cfg req) of
        Inl err \<Rightarrow> Inl (wrapl ''wechat native prepay'' err)
      | Inr resp \<Rightarrow>
          Inr \<lparr>res_Channel = ChannelPCWeb, res_PayURL = '''',
               res_CodeURL = (case resp of Some (Some u) \<Rightarrow> u | _ \<Rightarrow> ''''),
               res_FormHTML = '''', res_AppPayload = ''''\<rparr>)))"

definition wechat_createApp ::
  "('k, 'cl, 'resp, 'h) wechat_env \<Rightarrow> string \<Rightarrow> CreateRequest \<Rightarrow> (gerr, CreateResult) result" where
  "wechat_createApp env raw req =
     (case wechat_readyConfig env raw ChannelApp of
        Inl err \<Rightarrow> Inl err
      | Inr cfg \<Rightarrow>
     (case wechat_newClient env cfg of
        Inl err \<Rightarrow> Inl err
      | Inr client \<Rightarrow>
     (case app_Prepay env client (wechat_prepay (wx_AppIDApp cfg) cfg req) of
        Inl err \<Rightarrow> Inl (wrapl ''wechat app prepay'' err)
      | Inr resp \<Rightarrow>
     (case wx_json_resp env resp of
        Inl err \<Rightarrow> Inl (wrapl ''wechat app payload'' err)
      | Inr payload \<Rightarrow>
          Inr \<lparr>res_Channel = ChannelApp, res_PayURL = '''', res_CodeURL = '''', res_FormHTML = '''',
               res_AppPayload = payload\<rparr>))))"

definition wechat_Create ::
  "('k, 'cl, 'resp, 'h) wechat_env \<Rightarrow> string \<Rightarrow> string \<Rightarrow> CreateRequest \<Rightarrow> (gerr, CreateResult) result" where
  "wechat_Create env cfg channel req =
     (if channel = ChannelPCWeb then wechat_createPC env cfg req
      else if channel = ChannelApp then wechat_createApp env cfg req
      else Inl (wrapw ErrChannelNotRegistered channel))"

definition wechat_Query ::
  "('k, 'cl, 'resp, 'h) wechat_env \<Rightarrow> string \<Rightarrow> QueryRequest \<Rightarrow> (gerr, QueryResult) result" where
  "wechat_Query env raw req =
     (case wechat_parseConfig env raw of
        Inl err \<Rightarrow> Inl err
      | Inr cfg \<Rightarrow>
     (if \<not> wx_Enabled cfg then Inl ErrProviderDisabled
      else case wechat_newClient env cfg of
        Inl err \<Rightarrow> Inl err
      | Inr client \<Rightarrow>
     (case (if qr_OutTradeNo req \<noteq> '''' then QueryOrderByOutTradeNo env client (qr_OutTradeNo req) (wx_MchID cfg)
            else QueryOrderById env client (qr_TradeNo req) (wx_MchID cfg)) of
        Inl err \<Rightarrow> Inl (wrapl ''wechat query'' err)
      | Inr txn \<Rightarrow> Inr (mapTransaction txn))))"

definition wechat_Notify ::
  "('k, 'cl, 'resp, 'h) wechat_env \<Rightarrow> string \<Rightarrow> NotifyRequest \<Rightarrow> (gerr, NotifyResult) result" where
  "wechat_Notify env raw req =
     (case wechat_parseConfig env raw of
        Inl err \<Rightarrow> Inl err
      | Inr cfg \<Rightarrow>
     (if \<not> wx_Enabled cfg then Inl ErrProviderDisabled
      else case wechat_newClient env cfg of
        Inl err \<Rightarrow> Inl err
      | Inr _ \<Rightarrow>
     (case NewRSANotifyHandler env (wx_APIv3Key cfg) (wx_MchID cfg) of
        Inl err \<Rightarrow> Inl (wrapl ''wechat notify handler'' err)
      | Inr handler \<Rightarrow>
     (case NewRequest env (nr_Body req) of
        Some err \<Rightarrow> Inl (wrap2 ErrInvalidRequest '''' err)
      | None \<Rightarrow>
     (case ParseNotifyRequest env handler (case nr_Headers req of None \<Rightarrow> [] | Some hs \<Rightarrow> hs) (nr_Body req) of
        Inl err \<Rightarrow> Inl (wrapl ''wechat notify'' err)
      | Inr content \<Rightarrow>
          (let q = mapTransaction (Some content)
           in Inr \<lparr>ns_OutTradeNo = qs_OutTradeNo q, ns_TradeNo = qs_TradeNo q, ns_Status = qs_Status q,
                   ns_AmountFen = qs_AmountFen q, ns_Raw = transactionJSON env content\<rparr>))))))"

definition wechat_driver :: "('k, 'cl, 'resp, 'h) wechat_env \<Rightarrow> Payment" where
  "wechat_driver env =
     \<lparr>pay_Create = wechat_Create env, pay_Query = wechat_Query env, pay_Notify = wechat_Notify env,
      pay_ValidateConfig = wechat_validateConfig env\<rparr>"

subsection \<open>The driver keeps the vendor contract\<close>

definition wechat_enabled :: "('k, 'cl, 'resp, 'h) wechat_env \<Rightarrow> string \<Rightarrow> bool" where
  "wechat_enabled env raw =
     (case wechat_parseConfig env raw of Inl _ \<Rightarrow> False | Inr cfg \<Rightarrow> wx_Enabled cfg)"

definition wechat_channel_on :: "('k, 'cl, 'resp, 'h) wechat_env \<Rightarrow> string \<Rightarrow> string \<Rightarrow> bool" where
  "wechat_channel_on env raw ch =
     (case wechat_parseConfig env raw of
        Inl _ \<Rightarrow> False
      | Inr cfg \<Rightarrow> (ch = ChannelPCWeb \<and> wx_PCWebEnabled cfg) \<or> (ch = ChannelApp \<and> wx_AppEnabled cfg))"

lemma wechat_readyConfig_Inr:
  "wechat_readyConfig env raw ch = Inr cfg \<longleftrightarrow>
     wechat_parseConfig env raw = Inr cfg \<and> wx_Enabled cfg \<and> wechat_checkConfig env cfg = None \<and>
     (ch = ChannelPCWeb \<and> wx_PCWebEnabled cfg \<or> ch = ChannelApp \<and> wx_AppEnabled cfg)"
  by (auto simp: wechat_readyConfig_def wechat_ensureReady_def split: sum.splits option.splits if_splits)

lemma wechat_Create_Inr:
  assumes "wechat_Create env raw ch req = Inr r"
  obtains cfg client where
    "wechat_readyConfig env raw ch = Inr cfg" "wechat_newClient env cfg = Inr client" "res_Channel r = ch"
    "ch = ChannelPCWeb \<and> is_ok (native_Prepay env client (wechat_prepay (wx_AppIDWeb cfg) cfg req)) \<or>
     ch = ChannelApp \<and> is_ok (app_Prepay env client (wechat_prepay (wx_AppIDApp cfg) cfg req))"
  using assms
  by (auto simp: wechat_Create_def wechat_createPC_def wechat_createApp_def split: if_splits sum.splits)

lemma mapTransaction_unified: "unified_status (qs_Status (mapTransaction txn))"
  by (auto simp: mapTransaction_def mapWechatState_def Let_def split: option.splits)

lemma wechat_Query_Inr:
  "wechat_Query env raw q = Inr s \<Longrightarrow> wechat_enabled env raw \<and> unified_status (qs_Status s)"
  using mapTransaction_unified
  by (auto simp: wechat_Query_def wechat_enabled_def split: sum.splits if_splits)

lemma wechat_Notify_Inr:
  "wechat_Notify env raw n = Inr t \<Longrightarrow> wechat_enabled env raw \<and> unified_status (ns_Status t)"
  using mapTransaction_unified
  by (auto simp: wechat_Notify_def wechat_enabled_def Let_def split: sum.splits option.splits if_splits)

interpretation wechat: payment_vendor "wechat_driver env" "wechat_enabled env" "wechat_channel_on env"
  for env :: "('k, 'cl, 'resp, 'h) wechat_env"
proof unfold_locales
  fix cfg ch req r
  assume "pay_Create (wechat_driver env) cfg ch req = Inr r"
  then have "wechat_Create env cfg ch req = Inr r" by (simp add: wechat_driver_def)
  then obtain c where c: "wechat_readyConfig env cfg ch = Inr c" "res_Channel r = ch"
    by (rule wechat_Create_Inr) blast
  show "wechat_enabled env cfg \<and> wechat_channel_on env cfg ch"
    using c by (simp add: wechat_readyConfig_Inr wechat_enabled_def wechat_channel_on_def)
  show "pay_ValidateConfig (wechat_driver env) cfg = None"
    using c by (simp add: wechat_readyConfig_Inr wechat_driver_def wechat_validateConfig_def)
  show "res_Channel r = ch" by (rule c(2))
next
  show "pay_Query (wechat_driver env) cfg q = Inr s \<Longrightarrow> wechat_enabled env cfg \<and> unified_status (qs_Status s)"
    for cfg q s using wechat_Query_Inr by (simp add: wechat_driver_def)
  show "pay_Notify (wechat_driver env) cfg n = Inr t \<Longrightarrow> wechat_enabled env cfg \<and> unified_status (ns_Status t)"
    for cfg n t using wechat_Notify_Inr by (simp add: wechat_driver_def)
  show "wechat_channel_on env cfg ch \<Longrightarrow> ch = ChannelPCWeb \<or> ch = ChannelApp" for cfg ch
    by (auto simp: wechat_channel_on_def split: sum.splits)
qed

end
