(* ===== verification/Drivers.thy ===== *)
theory Drivers
  imports Alipay Wechat
begin

section \<open>Both payment drivers behind the facade\<close>

text \<open>
  \<^verbatim>\<open>pkg/payment/drivers\<close> imports the two vendor packages, whose \<open>init\<close> functions register them; a
  client made afterwards knows both. The properties are the ones an application relies on when it
  calls the facade.
\<close>

text \<open>The package initialisers run in import order.\<close>

definition drivers_registry :: "'cl alipay_env \<Rightarrow> ('k, 'wcl, 'resp, 'h) wechat_env \<Rightarrow> (string, registry) result" where
  "drivers_registry aenv wenv =
     (case Register (\<lambda>_. None) ProviderAlipay (Some (alipay_driver aenv)) of
        Inl p \<Rightarrow> Inl p
      | Inr reg \<Rightarrow> Register reg ProviderWechat (Some (wechat_driver wenv)))"

lemma normalizeProvider_ids:
  "normalizeProvider ProviderAlipay = ''alipay''" "normalizeProvider ProviderWechat = ''wechat''"
  by code_simp+

lemma drivers_registry_value:
  "drivers_registry aenv wenv = Inr [''alipay'' \<mapsto> alipay_driver aenv, ''wechat'' \<mapsto> wechat_driver wenv]"
  by (simp add: drivers_registry_def Register_def normalizeProvider_ids)

text \<open>The client made after start-up; the registrations cannot panic.\<close>

definition drivers_client :: "'cl alipay_env \<Rightarrow> ('k, 'wcl, 'resp, 'h) wechat_env \<Rightarrow> Client" where
  "drivers_client aenv wenv =
     (case drivers_registry aenv wenv of Inl _ \<Rightarrow> New (\<lambda>_. None) | Inr reg \<Rightarrow> New reg)"

lemma drivers_impls:
  "cl_impls (drivers_client aenv wenv) p =
    (if p = ''alipay'' then Some (alipay_driver aenv) else if p = ''wechat'' then Some (wechat_driver wenv) else None)"
  unfolding drivers_client_def drivers_registry_value by (simp add: New_def snapshot_def)

text \<open>A concrete vendor for the examples: an SDK that accepts everything and echoes the order
  number, and a configuration with both channels switched on.\<close>

definition demo_alipay_config :: alipay_Config where
  "demo_alipay_config =
     alipay_zero_Config\<lparr>al_Enabled := True, al_AppID := ''a'', al_PrivateKey := ''k'', al_AlipayPublicKey := ''p'',
       al_NotifyURL := ''https://h/n'', al_PCWebEnabled := True, al_AppEnabled := True\<rparr>"

definition demo_alipay_env :: "unit alipay_env" where
  "demo_alipay_env =
     \<lparr>sdk_New = (\<lambda>_ _ _. Inr ()), LoadAliPayPublicKey = (\<lambda>_ _. Inr ()), LoadAppCertPublicKey = (\<lambda>_ _. Inr ()),
      LoadAliPayRootCert = (\<lambda>_ _. Inr ()), LoadAlipayCertPublicKey = (\<lambda>_ _. Inr ()),
      TradePagePay = (\<lambda>_ t. Inr (tr_OutTradeNo t)), TradeAppPay = (\<lambda>_ t. Inr (tr_OutTradeNo t)),
      TradeQuery = (\<lambda>_ _ _. Inr None), DecodeNotification = (\<lambda>_ _. Inl (Sentinel ''bad sign'')),
      sdk_status_success = ''TRADE_SUCCESS'', sdk_status_finished = ''TRADE_FINISHED'',
      sdk_status_closed = ''TRADE_CLOSED'', sdk_status_wait = ''WAIT_BUYER_PAY'',
      al_json_unmarshal = (\<lambda>_. Inr demo_alipay_config), al_json_marshal = (\<lambda>_. ''{}''),
      al_url_parse = (\<lambda>_. Inr (''https'', ''h'')), al_parse_query = (\<lambda>_. Inr []), al_format_time = (\<lambda>_. '''')\<rparr>"

definition demo_wechat_env :: "(unit, unit, unit, unit) wechat_env" where
  "demo_wechat_env =
     \<lparr>LoadPrivateKey = (\<lambda>_. Inr ()), core_NewClient = (\<lambda>_ _ _ _. Inr ()), native_Prepay = (\<lambda>_ _. Inr None),
      app_Prepay = (\<lambda>_ _. Inr ()), QueryOrderByOutTradeNo = (\<lambda>_ _ _. Inr None),
      QueryOrderById = (\<lambda>_ _ _. Inr None), NewRSANotifyHandler = (\<lambda>_ _. Inr ()), NewRequest = (\<lambda>_. None),
      ParseNotifyRequest = (\<lambda>_ _ _. Inl (Sentinel ''bad sign'')),
      wx_json_unmarshal = (\<lambda>_. Inl (Sentinel ''json'')), wx_json_resp = (\<lambda>_. Inr ''{}''),
      wx_json_txn = (\<lambda>_. Inr ''{}''), wx_url_parse = (\<lambda>_. Inr (''https'', ''h''))\<rparr>"

definition demo_request :: CreateRequest where
  "demo_request = \<lparr>cr_OutTradeNo = '' o1 '', cr_AmountFen = 1230, cr_Subject = ''tea'', cr_ExpireAt = None,
                    cr_ClientIP = '''', cr_ReturnURL = ''''\<rparr>"

text \<open>C3: When the facade reports that an Alipay payment was created, the configuration was enabled,
  valid and had the channel switched on; the request had an order number, a subject and a positive
  amount; and the SDK was asked, through the call of that channel, for a trade with the trimmed order
  number and a yuan text that denotes exactly the requested amount of fen.\<close>

theorem alipay_create_sound:
  assumes "normalizeProvider provider = ''alipay''"
    and "Client_Create (drivers_client aenv wenv) provider channel raw req = Inr r"
    and "cr_AmountFen req \<le> MaxInt64"
  shows "\<exists>cfg client trade.
      alipay_parseConfig aenv raw = Inr cfg \<and> al_Enabled cfg \<and> alipay_checkConfig aenv cfg = None \<and>
      alipay_newClient aenv cfg = Inr client \<and>
      (res_Channel r = ''pc_web'' \<and> al_PCWebEnabled cfg \<and> TradePagePay aenv client trade = Inr (res_PayURL r) \<or>
       res_Channel r = ''app'' \<and> al_AppEnabled cfg \<and> TradeAppPay aenv client trade = Inr (res_AppPayload r)) \<and>
      tr_OutTradeNo trade = trim_space (cr_OutTradeNo req) \<and> tr_OutTradeNo trade \<noteq> '''' \<and>
      tr_Subject trade \<noteq> '''' \<and> 0 < cr_AmountFen req \<and>
      YuanStringToFen (tr_TotalAmount trade) = Inr (cr_AmountFen req)"
proof -
  have reg: "cl_impls (drivers_client aenv wenv) (normalizeProvider provider) = Some (alipay_driver aenv)"
    by (simp add: drivers_impls assms(1))
  let ?req = "trim_create_request req" and ?ch = "to_lower (trim_space channel)"
  have good: "good_request ?req"
    by (rule alipay.facade_create(5) [OF reg assms(2)])
  have "pay_Create (alipay_driver aenv) raw ?ch ?req = Inr r"
    using assms(2) reg by (auto elim: Client_Create_Inr)
  then obtain cfg client code where c: "alipay_readyConfig aenv raw ?ch = Inr cfg"
      "alipay_newClient aenv cfg = Inr client" "res_Channel r = ?ch"
      "?ch = ChannelPCWeb \<and>
         TradePagePay aenv client (applyTradeCommon aenv alipay_zero_Trade cfg ?req\<lparr>tr_ProductCode := code\<rparr>)
           = Inr (res_PayURL r) \<or>
       ?ch = ChannelApp \<and>
         TradeAppPay aenv client (applyTradeCommon aenv alipay_zero_Trade cfg ?req\<lparr>tr_ProductCode := code\<rparr>)
           = Inr (res_AppPayload r)"
    by (auto simp: alipay_driver_def elim: alipay_Create_Inr)
  have amt: "0 < cr_AmountFen req" "cr_AmountFen ?req = cr_AmountFen req"
    using good by (simp_all add: good_request_def trim_create_request_def)
  have "YuanStringToFen (FenToYuan (cr_AmountFen req)) = Inr (cr_AmountFen req)"
    using amt(1) assms(3) by (intro fen_yuan_inverse) (auto simp: MinInt64_def)
  then show ?thesis
    using c good amt
    by (intro exI [of _ cfg] exI [of _ client]
          exI [of _ "applyTradeCommon aenv alipay_zero_Trade cfg ?req\<lparr>tr_ProductCode := code\<rparr>"])
      (auto simp: alipay_readyConfig_Inr ChannelPCWeb_def ChannelApp_def good_request_def trim_create_request_def)
qed

theorem alipay_create_sound_witness:
  "\<exists>r cfg client (trade :: alipay_Trade).
      Client_Create (drivers_client demo_alipay_env demo_wechat_env) '' Alipay'' ''APP'' ''cfg'' demo_request = Inr r \<and>
      alipay_parseConfig demo_alipay_env ''cfg'' = Inr cfg \<and>
      alipay_newClient demo_alipay_env cfg = Inr client \<and>
      res_Channel r = ''app'' \<and> tr_OutTradeNo trade = ''o1'' \<and>
      YuanStringToFen (tr_TotalAmount trade) = Inr 1230"
proof -
  obtain r where r: "Client_Create (drivers_client demo_alipay_env demo_wechat_env) '' Alipay'' ''APP'' ''cfg'' demo_request = Inr r"
    and ch: "res_Channel r = ''app''"
    by (rule that [of "\<lparr>res_Channel = ''app'', res_PayURL = '''', res_CodeURL = '''', res_FormHTML = '''',
      res_AppPayload = ''o1''\<rparr>"]) code_simp+
  have n: "normalizeProvider '' Alipay'' = ''alipay''" "cr_AmountFen demo_request \<le> MaxInt64"
    "trim_space (cr_OutTradeNo demo_request) = ''o1''" "cr_AmountFen demo_request = 1230"
    by code_simp+
  show ?thesis
    using alipay_create_sound [OF n(1) r n(2)] r ch n(3,4) by auto
qed

text \<open>A disabled vendor is never used: with a configuration that does not parse or is not enabled,
  \<open>Create\<close>, \<open>Query\<close> and \<open>Notify\<close> of the facade all return an error, for both vendors.\<close>

lemma disabled_vendor_refused:
  assumes "normalizeProvider provider = ''alipay'' \<and> \<not> alipay_enabled aenv cfg \<or>
           normalizeProvider provider = ''wechat'' \<and> \<not> wechat_enabled wenv cfg"
  shows "\<not> is_ok (Client_Create (drivers_client aenv wenv) provider channel cfg req) \<and>
         \<not> is_ok (Client_Query (drivers_client aenv wenv) provider cfg q) \<and>
         \<not> is_ok (Client_Notify (drivers_client aenv wenv) provider cfg n)"
  using assms
proof (elim disjE conjE)
  assume "normalizeProvider provider = ''alipay''" and off: "\<not> alipay_enabled aenv cfg"
  then have "cl_impls (drivers_client aenv wenv) (normalizeProvider provider) = Some (alipay_driver aenv)"
    by (simp add: drivers_impls)
  then show ?thesis using alipay.facade_disabled off by blast
next
  assume "normalizeProvider provider = ''wechat''" and off: "\<not> wechat_enabled wenv cfg"
  then have "cl_impls (drivers_client aenv wenv) (normalizeProvider provider) = Some (wechat_driver wenv)"
    by (simp add: drivers_impls)
  then show ?thesis using wechat.facade_disabled off by blast
qed

lemma disabled_vendor_refused_example:
  "\<not> wechat_enabled demo_wechat_env ''{}'' \<and>
   \<not> is_ok (Client_Create (drivers_client demo_alipay_env demo_wechat_env) ''WeChat'' ''app'' ''{}'' demo_request)"
proof -
  have "normalizeProvider ''WeChat'' = ''wechat''" "\<not> wechat_enabled demo_wechat_env ''{}''"
    by code_simp+
  then show ?thesis
    using disabled_vendor_refused [of "''WeChat''" demo_alipay_env "''{}''" demo_wechat_env] by blast
qed

end
