(* ===== verification/Event_Bus.thy ===== *)
theory Event_Bus
  imports Go_Errors "HOL-Library.Multiset"
begin

section \<open>The event bus\<close>

text \<open>
  \<^verbatim>\<open>pkg/event\<close>. A subscriber is a pointer in the source; \<open>sub_id\<close> is its identity and
  \<open>b_next\<close> the next unused one. \<open>b_wg\<close> is the counter of the wait group. Every method that takes
  the lock is one function from bus to bus; \<open>Publish\<close> is split, as in the source, into the part
  under the read lock (\<open>publish_locked\<close>), which collects the targets and registers the asynchronous
  ones, and the dispatch of one target after the other without the lock. \<^verbatim>\<open>filepath.Match\<close> is the
  parameter \<open>fmatch\<close>, and the iteration order of the pattern map the parameter \<open>order\<close>. The
  relation \<open>bus_step\<close> interleaves any number of publishers, subscribers, running asynchronous
  handlers and a closer.
\<close>

subsection \<open>Data\<close>

definition ErrClosed :: gerr where "ErrClosed = Sentinel ''event: bus is closed''"
definition ErrMaxSubscribers :: gerr where "ErrMaxSubscribers = Sentinel ''event: maximum subscribers reached''"
definition ErrInvalidPattern :: gerr where "ErrInvalidPattern = Sentinel ''event: invalid wildcard pattern''"

text \<open>\<open>HandlerPriority\<close> is an \<open>int\<close> with three named values from \<open>iota\<close>.\<close>

definition PriorityLow :: int where "PriorityLow = 0"
definition PriorityNormal :: int where "PriorityNormal = 1"
definition PriorityHigh :: int where "PriorityHigh = 2"

definition maxSubscribersPerEvent :: nat where "maxSubscribersPerEvent = 1000"

record SubscriptionOptions =
  opt_Async :: bool
  opt_Priority :: int

text \<open>The zero \<open>Timestamp\<close> is \<open>None\<close>.\<close>

record 'p Event =
  ev_Name :: string
  ev_Payload :: 'p
  ev_Timestamp :: "int option"

record 'h subscriber =
  sub_id :: nat
  sub_handler :: 'h
  sub_async :: bool
  sub_priority :: int

record 'h bus =
  b_subscribers :: "string \<Rightarrow> 'h subscriber list"
  b_patterns :: "string \<Rightarrow> 'h subscriber list"
  b_wg :: nat
  b_closed :: bool
  b_next :: nat

subsection \<open>Operations\<close>

definition NewEventBus :: "'h bus" where
  "NewEventBus = \<lparr>b_subscribers = (\<lambda>_. []), b_patterns = (\<lambda>_. []), b_wg = 0, b_closed = False, b_next = 0\<rparr>"

definition resolveOptions :: "SubscriptionOptions list \<Rightarrow> SubscriptionOptions" where
  "resolveOptions opts = (case opts of [] \<Rightarrow> \<lparr>opt_Async = False, opt_Priority = 0\<rparr> | o1 # _ \<Rightarrow> o1)"

text \<open>\<^verbatim>\<open>sort.SliceStable\<close> by descending priority.\<close>

definition sort_subs :: "'h subscriber list \<Rightarrow> 'h subscriber list" where
  "sort_subs ss = sort_key (\<lambda>s. - sub_priority s) ss"

definition new_subscriber :: "'h bus \<Rightarrow> 'h \<Rightarrow> SubscriptionOptions list \<Rightarrow> 'h subscriber" where
  "new_subscriber b h opts =
     (let opt = resolveOptions opts
      in \<lparr>sub_id = b_next b, sub_handler = h, sub_async = opt_Async opt, sub_priority = opt_Priority opt\<rparr>)"

text \<open>The cancel function that \<open>Subscribe\<close> returns is the pair of the name and the subscriber.\<close>

definition Subscribe ::
  "'h bus \<Rightarrow> string \<Rightarrow> 'h \<Rightarrow> SubscriptionOptions list \<Rightarrow> (gerr, 'h bus \<times> (string \<times> 'h subscriber)) result" where
  "Subscribe b name h opts =
     (if b_closed b then Inl (wrapl (''subscribe '' @ go_quote name) ErrClosed)
      else if length (b_subscribers b name) \<ge> maxSubscribersPerEvent
        then Inl (wrapl (''subscribe '' @ go_quote name) ErrMaxSubscribers)
      else let sub = new_subscriber b h opts
        in Inr (b\<lparr>b_subscribers := (b_subscribers b)(name := sort_subs (b_subscribers b name @ [sub])),
                  b_next := Suc (b_next b)\<rparr>, (name, sub)))"

fun remove_sub :: "'h subscriber \<Rightarrow> 'h subscriber list \<Rightarrow> 'h subscriber list" where
  "remove_sub sub [] = []"
| "remove_sub sub (s # ss) = (if sub_id s = sub_id sub then ss else s # remove_sub sub ss)"

definition unsubscribe :: "'h bus \<Rightarrow> string \<Rightarrow> 'h subscriber \<Rightarrow> 'h bus" where
  "unsubscribe b name sub =
     b\<lparr>b_subscribers := (b_subscribers b)(name := remove_sub sub (b_subscribers b name))\<rparr>"

definition SubscribeWildcard ::
  "(string \<Rightarrow> string \<Rightarrow> (gerr, bool) result) \<Rightarrow> 'h bus \<Rightarrow> string \<Rightarrow> 'h \<Rightarrow> SubscriptionOptions list \<Rightarrow>
    (gerr, 'h bus \<times> (string \<times> 'h subscriber)) result" where
  "SubscribeWildcard fmatch b pattern h opts =
     (if b_closed b then Inl (wrapl (''subscribe wildcard '' @ go_quote pattern) ErrClosed)
      else case fmatch pattern ''test'' of
        Inl err \<Rightarrow> Inl (Errorf (''subscribe wildcard '' @ go_quote pattern @ '': '' @ error_text ErrInvalidPattern
                            @ '': '' @ error_text err) [ErrInvalidPattern, err])
      | Inr _ \<Rightarrow>
          (let sub = new_subscriber b h opts
           in Inr (b\<lparr>b_patterns := (b_patterns b)(pattern := sort_subs (b_patterns b pattern @ [sub])),
                     b_next := Suc (b_next b)\<rparr>, (pattern, sub))))"

definition unsubscribeWildcard :: "'h bus \<Rightarrow> string \<Rightarrow> 'h subscriber \<Rightarrow> 'h bus" where
  "unsubscribeWildcard b pattern sub =
     b\<lparr>b_patterns := (b_patterns b)(pattern := remove_sub sub (b_patterns b pattern))\<rparr>"

definition matchPatternLocked ::
  "(string \<Rightarrow> string \<Rightarrow> (gerr, bool) result) \<Rightarrow> string \<Rightarrow> string \<Rightarrow> bool" where
  "matchPatternLocked fmatch pattern name =
     (case fmatch pattern name of Inl _ \<Rightarrow> False | Inr m \<Rightarrow> m)"

definition publish_targets ::
  "(string \<Rightarrow> string \<Rightarrow> (gerr, bool) result) \<Rightarrow> string list \<Rightarrow> 'h bus \<Rightarrow> string \<Rightarrow> 'h subscriber list" where
  "publish_targets fmatch order b name =
     b_subscribers b name @
     concat (map (\<lambda>p. if matchPatternLocked fmatch p name then b_patterns b p else []) order)"

definition stamp :: "int \<Rightarrow> 'p Event \<Rightarrow> 'p Event" where
  "stamp now ev = (case ev_Timestamp ev of None \<Rightarrow> ev\<lparr>ev_Timestamp := Some now\<rparr> | Some _ \<Rightarrow> ev)"

definition publish_locked ::
  "(string \<Rightarrow> string \<Rightarrow> (gerr, bool) result) \<Rightarrow> string list \<Rightarrow> 'h bus \<Rightarrow> string \<Rightarrow>
    (gerr, 'h bus \<times> 'h subscriber list) result" where
  "publish_locked fmatch order b name =
     (if b_closed b then Inl (wrapl (''publish '' @ go_quote name) ErrClosed)
      else let targets = publish_targets fmatch order b name
        in Inr (b\<lparr>b_wg := b_wg b + length (filter sub_async targets)\<rparr>, targets))"

definition bus_Close :: "'h bus \<Rightarrow> 'h bus" where
  "bus_Close b = b\<lparr>b_closed := True\<rparr>"

subsection \<open>Running handlers\<close>

text \<open>A handler returns nil, returns an error or panics; \<open>runHandler\<close> recovers from the panic and
  logs, so the publisher goes on in every case. The result is the log line, if any.\<close>

datatype outcome = Done | Failed gerr | Panicked string

definition runHandler :: "('h \<Rightarrow> 'p Event \<Rightarrow> outcome) \<Rightarrow> 'h \<Rightarrow> 'p Event \<Rightarrow> string option" where
  "runHandler run h ev =
     (case run h ev of Done \<Rightarrow> None | Failed e \<Rightarrow> Some ''event handler error''
      | Panicked r \<Rightarrow> Some ''event handler panic'')"

text \<open>The dispatch loop: the handlers run in the publisher's goroutine, in order, with their logs,
  and the ones started in goroutines of their own.\<close>

fun dispatch_all ::
  "('h \<Rightarrow> 'p Event \<Rightarrow> outcome) \<Rightarrow> 'p Event \<Rightarrow> 'h subscriber list \<Rightarrow>
    ('h subscriber \<times> string option) list \<times> 'h subscriber list" where
  "dispatch_all run ev [] = ([], [])"
| "dispatch_all run ev (s # ss) =
     (let (sync, spawned) = dispatch_all run ev ss
      in if sub_async s then (sync, s # spawned) else ((s, runHandler run (sub_handler s) ev) # sync, spawned))"

definition Publish ::
  "(string \<Rightarrow> string \<Rightarrow> (gerr, bool) result) \<Rightarrow> string list \<Rightarrow> ('h \<Rightarrow> 'p Event \<Rightarrow> outcome) \<Rightarrow> int \<Rightarrow>
    'h bus \<Rightarrow> 'p Event \<Rightarrow> (gerr, 'h bus \<times> ('h subscriber \<times> string option) list \<times> 'h subscriber list) result" where
  "Publish fmatch order run now b ev =
     (let ev = stamp now ev in
      case publish_locked fmatch order b (ev_Name ev) of
        Inl e \<Rightarrow> Inl e
      | Inr (b', targets) \<Rightarrow> Inr (b', dispatch_all run ev targets))"

subsection \<open>Interleavings\<close>

text \<open>\<open>w_pub\<close> holds, for every publisher between lock and return, the targets still to dispatch;
  \<open>w_tasks\<close> the asynchronous handlers that are running.\<close>

record 'h world =
  w_bus :: "'h bus"
  w_pub :: "'h subscriber list list"
  w_tasks :: "'h subscriber list"

inductive bus_step ::
  "(string \<Rightarrow> string \<Rightarrow> (gerr, bool) result) \<Rightarrow> 'h world \<Rightarrow> 'h world \<Rightarrow> bool"
  for fmatch :: "string \<Rightarrow> string \<Rightarrow> (gerr, bool) result" where
  subscribe: "Subscribe (w_bus w) name h opts = Inr (b, c) \<Longrightarrow> bus_step fmatch w (w\<lparr>w_bus := b\<rparr>)"
| wildcard: "SubscribeWildcard fmatch (w_bus w) name h opts = Inr (b, c) \<Longrightarrow> bus_step fmatch w (w\<lparr>w_bus := b\<rparr>)"
| cancel: "bus_step fmatch w (w\<lparr>w_bus := unsubscribe (w_bus w) name sub\<rparr>)"
| cancel_wildcard: "bus_step fmatch w (w\<lparr>w_bus := unsubscribeWildcard (w_bus w) name sub\<rparr>)"
| publish: "publish_locked fmatch order (w_bus w) name = Inr (b, targets) \<Longrightarrow>
    bus_step fmatch w (w\<lparr>w_bus := b, w_pub := targets # w_pub w\<rparr>)"
| dispatch_sync: "w_pub w = ps @ (s # ss) # qs \<Longrightarrow> \<not> sub_async s \<Longrightarrow>
    bus_step fmatch w (w\<lparr>w_pub := ps @ ss # qs\<rparr>)"
| dispatch_async: "w_pub w = ps @ (s # ss) # qs \<Longrightarrow> sub_async s \<Longrightarrow>
    bus_step fmatch w (w\<lparr>w_pub := ps @ ss # qs, w_tasks := s # w_tasks w\<rparr>)"
| return: "w_pub w = ps @ [] # qs \<Longrightarrow> bus_step fmatch w (w\<lparr>w_pub := ps @ qs\<rparr>)"
| task_done: "w_tasks w = ts @ s # us \<Longrightarrow>
    bus_step fmatch w (w\<lparr>w_tasks := ts @ us, w_bus := (w_bus w)\<lparr>b_wg := b_wg (w_bus w) - 1\<rparr>\<rparr>)"
| close: "bus_step fmatch w (w\<lparr>w_bus := bus_Close (w_bus w)\<rparr>)"

definition bus_init :: "'h world" where
  "bus_init = \<lparr>w_bus = NewEventBus, w_pub = [], w_tasks = []\<rparr>"

definition pending_async :: "'h world \<Rightarrow> nat" where
  "pending_async w = length (w_tasks w) + sum_list (map (\<lambda>ts. length (filter sub_async ts)) (w_pub w))"

text \<open>The lists are sorted by descending priority, bounded and free of duplicates.\<close>

definition subs_ok :: "nat \<Rightarrow> 'h subscriber list \<Rightarrow> bool" where
  "subs_ok next ss \<longleftrightarrow>
     sorted (map (\<lambda>s. - sub_priority s) ss) \<and> distinct (map sub_id ss) \<and> list_all (\<lambda>s. sub_id s < next) ss"

definition bus_wf :: "'h bus \<Rightarrow> bool" where
  "bus_wf b \<longleftrightarrow>
     (\<forall>n. subs_ok (b_next b) (b_subscribers b n) \<and> length (b_subscribers b n) \<le> maxSubscribersPerEvent) \<and>
     (\<forall>n. subs_ok (b_next b) (b_patterns b n))"

subsection \<open>Lemmas on the subscriber lists\<close>

lemma sort_key_snoc:
  assumes "sorted (map f xs)"
  shows "sort_key f (xs @ [x]) = takeWhile (\<lambda>y. f y \<le> f x) xs @ [x] @ dropWhile (\<lambda>y. f y \<le> f x) xs"
  using assms
proof (induction xs)
  case Nil
  then show ?case by simp
next
  case (Cons a xs)
  show ?case
  proof (cases "f a \<le> f x")
    case True
    have "\<forall>y \<in> set (takeWhile (\<lambda>y. f y \<le> f x) xs @ [x] @ dropWhile (\<lambda>y. f y \<le> f x) xs). f a \<le> f y"
      using Cons.prems True by (auto dest: set_takeWhileD set_dropWhileD)
    with Cons True show ?thesis by (simp add: insort_is_Cons)
  next
    case False
    then have gt: "\<forall>y \<in> set xs. \<not> f y \<le> f x" using Cons.prems by auto
    then have "takeWhile (\<lambda>y. f y \<le> f x) xs = []" "dropWhile (\<lambda>y. f y \<le> f x) xs = xs"
      by (cases xs; simp)+
    moreover have "insort_key f a xs = a # xs"
      using Cons.prems by (intro insort_is_Cons) auto
    ultimately show ?thesis using Cons False by simp
  qed
qed

lemma filter_split_While: "filter P (takeWhile Q xs) @ filter P (dropWhile Q xs) = filter P xs"
  by (metis filter_append takeWhile_dropWhile_id)

lemma sort_subs_snoc:
  assumes "sorted (map (\<lambda>s. - sub_priority s) ss)"
  shows "sort_subs (ss @ [sub]) =
    takeWhile (\<lambda>s. sub_priority s \<ge> sub_priority sub) ss @ [sub] @
    dropWhile (\<lambda>s. sub_priority s \<ge> sub_priority sub) ss"
  using sort_key_snoc [OF assms, of sub] by (simp add: sort_subs_def)

lemma remove_sub_filter:
  "distinct (map sub_id ss) \<Longrightarrow> remove_sub sub ss = filter (\<lambda>s. sub_id s \<noteq> sub_id sub) ss"
  by (induction ss) (auto simp: filter_id_conv [THEN iffD2, symmetric] image_iff intro!: filter_id_conv [THEN iffD2, symmetric])

lemma remove_sub_sorted: "sorted (map f ss) \<Longrightarrow> sorted (map f (remove_sub sub ss))"
  and remove_sub_length: "length (remove_sub sub ss) \<le> length ss"
  and remove_sub_subset: "set (remove_sub sub ss) \<subseteq> set ss"
proof -
  show sub: "set (remove_sub sub ss) \<subseteq> set ss" for ss by (induction ss) auto
  show "sorted (map f ss) \<Longrightarrow> sorted (map f (remove_sub sub ss))"
    using sub by (induction ss) fastforce+
  show "length (remove_sub sub ss) \<le> length ss" by (induction ss) auto
qed

lemma sort_subs_props [simp]:
  "sorted (map (\<lambda>s. - sub_priority s) (sort_subs ss))" "length (sort_subs ss) = length ss"
  "set (sort_subs ss) = set ss" "distinct (map sub_id (sort_subs ss)) = distinct (map sub_id ss)"
proof -
  have "mset (map sub_id (sort_subs ss)) = mset (map sub_id ss)"
    by (simp add: sort_subs_def)
  then show "distinct (map sub_id (sort_subs ss)) = distinct (map sub_id ss)"
    using mset_eq_imp_distinct_iff by blast
qed (simp_all add: sort_subs_def)

lemma subs_ok_mono: "subs_ok n ss \<Longrightarrow> subs_ok (Suc n) ss"
  by (auto simp: subs_ok_def list_all_iff)

lemma subs_ok_snoc: "subs_ok n ss \<Longrightarrow> sub_id sub = n \<Longrightarrow> subs_ok (Suc n) (sort_subs (ss @ [sub]))"
  by (auto simp: subs_ok_def list_all_iff)

lemma subs_ok_remove: "subs_ok n ss \<Longrightarrow> subs_ok n (remove_sub sub ss)"
  using remove_sub_subset [of sub ss]
  by (auto simp: subs_ok_def list_all_iff remove_sub_sorted) (simp add: remove_sub_filter distinct_map_filter)

subsection \<open>Well-formedness is kept\<close>

lemma bus_wf_new: "bus_wf NewEventBus"
  by (simp add: bus_wf_def NewEventBus_def subs_ok_def)

lemma Subscribe_Inr:
  "Subscribe b name h opts = Inr (b', c) \<longleftrightarrow>
     \<not> b_closed b \<and> length (b_subscribers b name) < maxSubscribersPerEvent \<and>
     b' = b\<lparr>b_subscribers := (b_subscribers b)(name := sort_subs (b_subscribers b name @ [new_subscriber b h opts])),
            b_next := Suc (b_next b)\<rparr> \<and> c = (name, new_subscriber b h opts)"
  by (auto simp: Subscribe_def Let_def)

lemma SubscribeWildcard_Inr:
  "SubscribeWildcard fmatch b name h opts = Inr (b', c) \<longleftrightarrow>
     \<not> b_closed b \<and> is_ok (fmatch name ''test'') \<and>
     b' = b\<lparr>b_patterns := (b_patterns b)(name := sort_subs (b_patterns b name @ [new_subscriber b h opts])),
            b_next := Suc (b_next b)\<rparr> \<and> c = (name, new_subscriber b h opts)"
  by (auto simp: SubscribeWildcard_def Let_def is_ok_def split: sum.splits)

lemma Subscribe_wg: "Subscribe b name h opts = Inr (b', c) \<Longrightarrow> b_wg b' = b_wg b"
  and SubscribeWildcard_wg: "SubscribeWildcard fmatch b name h opts = Inr (b', c) \<Longrightarrow> b_wg b' = b_wg b"
  by (auto simp: Subscribe_Inr SubscribeWildcard_Inr)

lemma publish_locked_Inr:
  "publish_locked fmatch order b name = Inr (b', targets) \<longleftrightarrow>
     \<not> b_closed b \<and> targets = publish_targets fmatch order b name \<and>
     b' = b\<lparr>b_wg := b_wg b + length (filter sub_async targets)\<rparr>"
  by (auto simp: publish_locked_def Let_def)

lemma new_subscriber_id [simp]: "sub_id (new_subscriber b h opts) = b_next b"
  by (simp add: new_subscriber_def Let_def)

lemma bus_wf_Subscribe: "bus_wf b \<Longrightarrow> Subscribe b name h opts = Inr (b', c) \<Longrightarrow> bus_wf b'"
  unfolding Subscribe_Inr bus_wf_def by (auto simp: subs_ok_snoc subs_ok_mono)

lemma bus_wf_Wildcard: "bus_wf b \<Longrightarrow> SubscribeWildcard fmatch b name h opts = Inr (b', c) \<Longrightarrow> bus_wf b'"
  unfolding SubscribeWildcard_Inr bus_wf_def by (auto simp: subs_ok_snoc subs_ok_mono)

lemma bus_wf_unsubscribe: "bus_wf b \<Longrightarrow> bus_wf (unsubscribe b name sub)"
  unfolding bus_wf_def unsubscribe_def
  by (auto simp: subs_ok_remove intro: order_trans [OF remove_sub_length])

lemma bus_wf_unsubscribeWildcard: "bus_wf b \<Longrightarrow> bus_wf (unsubscribeWildcard b name sub)"
  unfolding bus_wf_def unsubscribeWildcard_def by (auto simp: subs_ok_remove)

lemma bus_wf_cong: "b_subscribers b' = b_subscribers b \<Longrightarrow> b_patterns b' = b_patterns b \<Longrightarrow> b_next b' = b_next b
    \<Longrightarrow> bus_wf b' = bus_wf b"
  by (simp add: bus_wf_def)

subsection \<open>The wait group counts the asynchronous handlers\<close>

definition bus_inv :: "'h world \<Rightarrow> bool" where
  "bus_inv w \<longleftrightarrow> bus_wf (w_bus w) \<and> b_wg (w_bus w) = pending_async w"

lemma bus_inv_init: "bus_inv bus_init"
  by (simp add: bus_inv_def bus_init_def bus_wf_new pending_async_def) (simp add: NewEventBus_def)

lemma bus_inv_step:
  assumes "bus_step fmatch w w'" "bus_inv w"
  shows "bus_inv w'"
  using assms
proof (cases rule: bus_step.cases)
  case (subscribe name h opts b c)
  then show ?thesis
    using assms(2) bus_wf_Subscribe [of "w_bus w"] Subscribe_wg [of "w_bus w"]
    by (auto simp: bus_inv_def pending_async_def)
next
  case (wildcard name h opts b c)
  then show ?thesis
    using assms(2) bus_wf_Wildcard [of "w_bus w"] SubscribeWildcard_wg [of fmatch "w_bus w"]
    by (auto simp: bus_inv_def pending_async_def)
next
  case (cancel name sub)
  then show ?thesis
    using assms(2) bus_wf_unsubscribe [of "w_bus w"]
    by (auto simp: bus_inv_def pending_async_def) (simp add: unsubscribe_def)
next
  case (cancel_wildcard name sub)
  then show ?thesis
    using assms(2) bus_wf_unsubscribeWildcard [of "w_bus w"]
    by (auto simp: bus_inv_def pending_async_def) (simp add: unsubscribeWildcard_def)
next
  case (publish order name b targets)
  then show ?thesis
    using assms(2) by (auto simp: bus_inv_def pending_async_def publish_locked_Inr cong: bus_wf_cong)
next
  case (task_done ts s us)
  then show ?thesis
    using assms(2) by (auto simp: bus_inv_def pending_async_def cong: bus_wf_cong)
next
  case close
  then show ?thesis
    using assms(2) by (auto simp: bus_inv_def pending_async_def bus_Close_def cong: bus_wf_cong)
qed (auto simp: bus_inv_def pending_async_def)

lemma bus_inv_reach: "rtranclp (bus_step fmatch) bus_init w \<Longrightarrow> bus_inv w"
  by (induction rule: rtranclp_induct) (auto simp: bus_inv_init intro: bus_inv_step)

text \<open>Once the bus is closed, nothing is added to what is pending.\<close>

lemma closed_step:
  assumes "bus_step fmatch w w'" "b_closed (w_bus w)"
  shows "b_closed (w_bus w') \<and> pending_async w' \<le> pending_async w"
  using assms
  by (cases rule: bus_step.cases)
    (auto simp: pending_async_def Subscribe_Inr SubscribeWildcard_Inr publish_locked_Inr unsubscribe_def
      unsubscribeWildcard_def bus_Close_def)

lemma closed_reach:
  "rtranclp (bus_step fmatch) w w' \<Longrightarrow> b_closed (w_bus w) \<Longrightarrow>
    b_closed (w_bus w') \<and> pending_async w' \<le> pending_async w"
proof (induction rule: rtranclp_induct)
  case (step y z)
  then show ?case using closed_step [OF step(2)] by (auto intro: order_trans)
qed simp

lemma dispatch_all_split:
  "map fst (fst (dispatch_all run ev ts)) = filter (\<lambda>s. \<not> sub_async s) ts"
  "snd (dispatch_all run ev ts) = filter sub_async ts"
  by (induction ts) (auto simp: split_beta Let_def)

subsection \<open>Properties\<close>

text \<open>C4: \<open>Close\<close> really waits: in every interleaving of publishers, subscribers, asynchronous
  handlers and closers that starts from a new bus, once the bus is closed and its wait group is at
  zero (which is when \<open>Close\<close> returns), no asynchronous handler is running or still to be started,
  and that remains so in every later state.\<close>

theorem close_waits_for_handlers:
  assumes "rtranclp (bus_step fmatch) bus_init w" "b_closed (w_bus w)" "b_wg (w_bus w) = 0"
    and "rtranclp (bus_step fmatch) w w'"
  shows "w_tasks w' = [] \<and> (\<forall>ts \<in> set (w_pub w'). filter sub_async ts = []) \<and> b_wg (w_bus w') = 0"
proof -
  have inv: "bus_inv w" "bus_inv w'"
    using assms(1,4) bus_inv_reach by (metis, metis rtranclp_trans)
  have "pending_async w' = 0"
    using closed_reach [OF assms(4,2)] inv(1) assms(3) by (simp add: bus_inv_def)
  then show ?thesis
    using inv(2) by (auto simp: bus_inv_def pending_async_def)
qed

theorem close_waits_for_handlers_witness:
  "let w = bus_init\<lparr>w_bus := bus_Close (w_bus bus_init)\<rparr> :: unit world in
     rtranclp (bus_step (\<lambda>_ _. Inr True)) bus_init w \<and> b_closed (w_bus w) \<and> b_wg (w_bus w) = 0 \<and> w_tasks w = []"
proof -
  let ?w = "bus_init\<lparr>w_bus := bus_Close (w_bus bus_init)\<rparr> :: unit world"
  have r: "rtranclp (bus_step (\<lambda>_ _. Inr True)) bus_init ?w"
    by (rule r_into_rtranclp) (rule bus_step.close)
  have c: "b_closed (w_bus ?w)" "b_wg (w_bus ?w) = 0"
    by (simp_all add: bus_Close_def bus_init_def NewEventBus_def)
  show ?thesis
    using close_waits_for_handlers [OF r c rtranclp.rtrancl_refl] r c by (simp add: Let_def)
qed

text \<open>C5: In every reachable state the wait group counts exactly the asynchronous handlers that were
  collected by a publisher and have not finished, and every exact-name subscriber list is sorted by
  descending priority, holds each subscriber once and has at most a thousand entries.\<close>

theorem bus_invariant:
  assumes "rtranclp (bus_step fmatch) bus_init w"
  shows "b_wg (w_bus w) = length (w_tasks w) + length (filter sub_async (concat (w_pub w)))
       \<and> sorted (map (\<lambda>s. - sub_priority s) (b_subscribers (w_bus w) name))
       \<and> distinct (map sub_id (b_subscribers (w_bus w) name))
       \<and> length (b_subscribers (w_bus w) name) \<le> 1000"
proof -
  have "length (filter sub_async (concat tss)) = sum_list (map (\<lambda>ts. length (filter sub_async ts)) tss)"
    for tss :: "'a subscriber list list"
    by (induction tss) auto
  then show ?thesis
    using bus_inv_reach [OF assms]
    by (auto simp: bus_inv_def pending_async_def bus_wf_def subs_ok_def maxSubscribersPerEvent_def)
qed

theorem bus_invariant_witness:
  "rtranclp (bus_step (\<lambda>_ _. Inr True)) bus_init (bus_init :: unit world) \<and>
   b_wg (w_bus (bus_init :: unit world)) = 0"
  using bus_invariant [of "\<lambda>_ _. Inr True" "bus_init :: unit world"]
  by (simp add: bus_init_def)

text \<open>Where a new subscriber goes: on a well-formed bus that is open and below the limit,
  \<open>Subscribe\<close> puts it behind all subscribers of the same event with the same or a higher priority and
  before all with a lower one, touching no other list; cancelling it gives back the list as it was,
  and cancelling again changes nothing.\<close>

lemma subscribe_position:
  assumes "bus_wf b" "Subscribe b name h opts = Inr (b', (n, sub))"
  shows "b_subscribers b' name =
           takeWhile (\<lambda>s. sub_priority s \<ge> sub_priority sub) (b_subscribers b name) @ [sub] @
           dropWhile (\<lambda>s. sub_priority s \<ge> sub_priority sub) (b_subscribers b name)
       \<and> (\<forall>m. m \<noteq> name \<longrightarrow> b_subscribers b' m = b_subscribers b m) \<and> b_patterns b' = b_patterns b
       \<and> b_subscribers (unsubscribe b' n sub) = b_subscribers b
       \<and> unsubscribe (unsubscribe b' n sub) n sub = unsubscribe b' n sub"
proof -
  let ?ss = "b_subscribers b name"
  have b': "b' = b\<lparr>b_subscribers := (b_subscribers b)(name := sort_subs (?ss @ [sub])), b_next := Suc (b_next b)\<rparr>"
    and n: "n = name" "sub_id sub = b_next b"
    using assms(2) by (auto simp: Subscribe_Inr)
  have ok: "subs_ok (b_next b) ?ss" using assms(1) by (simp add: bus_wf_def)
  have pos: "sort_subs (?ss @ [sub]) = takeWhile (\<lambda>s. sub_priority s \<ge> sub_priority sub) ?ss @ [sub] @
      dropWhile (\<lambda>s. sub_priority s \<ge> sub_priority sub) ?ss"
    using ok by (intro sort_subs_snoc) (simp add: subs_ok_def)
  have new: "\<forall>s \<in> set ?ss. sub_id s \<noteq> sub_id sub"
    using ok n(2) by (auto simp: subs_ok_def list_all_iff)
  have d: "distinct (map sub_id (sort_subs (?ss @ [sub])))"
    using subs_ok_snoc [OF ok n(2)] by (simp add: subs_ok_def)
  have "filter (\<lambda>s. sub_id s \<noteq> sub_id sub) ?ss = ?ss"
    using new by (simp add: filter_id_conv)
  moreover have "filter P (sort_subs (?ss @ [sub])) = filter P ?ss" if "\<not> P sub" for P
    unfolding pos using that by (simp add: filter_split_While)
  ultimately have rem: "remove_sub sub (sort_subs (?ss @ [sub])) = ?ss"
    using remove_sub_filter [OF d, of sub] by simp
  have "remove_sub sub ?ss = ?ss"
    using remove_sub_filter [of ?ss sub] ok new by (simp add: subs_ok_def filter_id_conv)
  then show ?thesis
    using pos rem by (simp add: b' n(1) unsubscribe_def)
qed

lemma subscribe_position_example:
  "\<exists>b' n sub. bus_wf (NewEventBus :: unit bus) \<and> Subscribe (NewEventBus :: unit bus) ''e'' () [] = Inr (b', (n, sub)) \<and>
     b_subscribers b' ''e'' = [sub]"
proof -
  let ?sub = "new_subscriber NewEventBus () []"
  let ?b = "NewEventBus\<lparr>b_subscribers := (\<lambda>_. [])(''e'' := sort_subs ([] @ [?sub])), b_next := Suc 0\<rparr> :: unit bus"
  have s: "Subscribe NewEventBus ''e'' () [] = Inr (?b, (''e'', ?sub))"
    by (simp add: Subscribe_def NewEventBus_def maxSubscribersPerEvent_def Let_def)
  have "b_subscribers ?b ''e'' = [?sub]"
    using subscribe_position [OF bus_wf_new s] by (simp add: NewEventBus_def)
  then show ?thesis using s bus_wf_new by blast
qed

text \<open>One publication, on an open bus: every target runs in the publisher's goroutine exactly
  once, in the order of the target list, unless it is asynchronous, in which case it is started in a
  goroutine of its own and was registered with the wait group before; a handler that fails or panics
  stops none of the others. On a closed bus nothing runs and the error is \<open>ErrClosed\<close>.\<close>

lemma publish_runs_all:
  "case Publish fmatch order run now b ev of
     Inr (b', sync, spawned) \<Rightarrow>
       \<not> b_closed b \<and>
       map fst sync = filter (\<lambda>s. \<not> sub_async s) (publish_targets fmatch order b (ev_Name ev)) \<and>
       spawned = filter sub_async (publish_targets fmatch order b (ev_Name ev)) \<and>
       b' = b\<lparr>b_wg := b_wg b + length spawned\<rparr>
   | Inl e \<Rightarrow> b_closed b \<and> errors_is e ErrClosed"
proof -
  have "ev_Name (stamp now ev) = ev_Name ev" by (simp add: stamp_def split: option.splits)
  then show ?thesis
    using dispatch_all_split [of run "stamp now ev"]
    by (auto simp: Publish_def publish_locked_def Let_def ErrClosed_def split_beta)
qed

text \<open>A subscriber registered with no options, or with only \<open>Async\<close> set, gets the lowest
  priority, so that a subscriber with \<open>PriorityNormal\<close> registered after it is called before it.\<close>

lemma default_priority_is_low:
  "opt_Priority (resolveOptions []) = PriorityLow \<and>
   (case Subscribe NewEventBus ''e'' ''first'' [] of
      Inr (b, _) \<Rightarrow>
        (case Subscribe b ''e'' ''second'' [\<lparr>opt_Async = False, opt_Priority = PriorityNormal\<rparr>] of
           Inr (b', _) \<Rightarrow> map sub_handler (b_subscribers b' ''e'') = [''second'', ''first'']
         | Inl _ \<Rightarrow> False)
    | Inl _ \<Rightarrow> False)"
  by (simp add: resolveOptions_def PriorityLow_def PriorityNormal_def Subscribe_def NewEventBus_def
      maxSubscribersPerEvent_def new_subscriber_def sort_subs_def Let_def)

end
