(* ===== verification/Locker.thy ===== *)
theory Locker
  imports Go_Errors
begin

section \<open>Locks\<close>

text \<open>
  \<^verbatim>\<open>pkg/lock\<close>. Times and durations are integers (nanoseconds); the current time is an argument of
  each call, read in the source before the mutex is taken, so successive calls need not see
  increasing times. \<open>generateToken\<close> is an argument as well: the token or the error of the random
  source. The locale \<open>locker\<close> is the contract of the \<open>Locker\<close> interface, with mutual exclusion as
  its consequence; the memory locker interprets it. The Redis locker wraps the third-party
  \<^verbatim>\<open>redislock\<close>, whose calls are parameters.
\<close>

definition ErrLockNotHeld :: gerr where
  "ErrLockNotHeld = Sentinel ''lock: not held''"

subsection \<open>Options\<close>

record lock_Options =
  lo_TTL :: int

type_synonym lock_Option = "lock_Options \<Rightarrow> lock_Options"

definition WithTTL :: "int \<Rightarrow> lock_Option" where
  "WithTTL ttl = (\<lambda>q. q\<lparr>lo_TTL := ttl\<rparr>)"

definition defaultTTL :: int where
  "defaultTTL = 30 * 1000000000"

definition lock_applyOptions :: "lock_Option list \<Rightarrow> lock_Options" where
  "lock_applyOptions opts =
     (let o1 = fold (\<lambda>opt q. opt q) opts \<lparr>lo_TTL = defaultTTL\<rparr>
      in if lo_TTL o1 \<le> 0 then o1\<lparr>lo_TTL := defaultTTL\<rparr> else o1)"

lemma lock_applyOptions_pos: "0 < lo_TTL (lock_applyOptions opts)"
  by (simp add: lock_applyOptions_def Let_def defaultTTL_def)

lemma lock_applyOptions_WithTTL:
  "lo_TTL (lock_applyOptions [WithTTL ttl]) = (if ttl \<le> 0 then defaultTTL else ttl)"
  by (simp add: lock_applyOptions_def Let_def WithTTL_def)

subsection \<open>The memory locker\<close>

record memoryEntry =
  me_token :: string
  me_expireAt :: int

type_synonym memoryLocker = "string \<rightharpoonup> memoryEntry"

record memoryLock =
  ml_key :: string
  ml_token :: string

definition NewMemoryLocker :: memoryLocker where
  "NewMemoryLocker = (\<lambda>_. None)"

definition memory_Lock ::
  "(gerr, string) result \<Rightarrow> int \<Rightarrow> memoryLocker \<Rightarrow> string \<Rightarrow> lock_Option list \<Rightarrow>
    (gerr, memoryLock) result \<times> memoryLocker" where
  "memory_Lock generated now l key opts =
     (let o1 = lock_applyOptions opts in
      case generated of
        Inl err \<Rightarrow> (Inl err, l)
      | Inr token \<Rightarrow>
          (if (case l key of None \<Rightarrow> False | Some e \<Rightarrow> now < me_expireAt e) then (Inl ErrLockNotHeld, l)
           else (Inr \<lparr>ml_key = key, ml_token = token\<rparr>,
                 l(key \<mapsto> \<lparr>me_token = token, me_expireAt = now + lo_TTL o1\<rparr>))))"

definition memory_Release :: "memoryLocker \<Rightarrow> memoryLock \<Rightarrow> gerr option \<times> memoryLocker" where
  "memory_Release l lk =
     (case l (ml_key lk) of
        None \<Rightarrow> (None, l)
      | Some e \<Rightarrow> if me_token e \<noteq> ml_token lk then (None, l) else (None, l(ml_key lk := None)))"

subsection \<open>The Redis locker\<close>

text \<open>\<open>obtained\<close> is the answer of \<^verbatim>\<open>redislock.Client.Obtain\<close> and \<open>released\<close> that of
  \<^verbatim>\<open>Lock.Release\<close>; the two sentinels are the ones of \<^verbatim>\<open>redislock\<close>.\<close>

definition redislock_ErrNotObtained :: gerr where
  "redislock_ErrNotObtained = Sentinel ''redislock: not obtained''"
definition redislock_ErrLockNotHeld :: gerr where
  "redislock_ErrLockNotHeld = Sentinel ''redislock: lock not held''"

definition redis_Lock :: "(string \<Rightarrow> int \<Rightarrow> (gerr, 'lk) result) \<Rightarrow> string \<Rightarrow> lock_Option list \<Rightarrow> (gerr, 'lk) result" where
  "redis_Lock obtainer key opts =
     (let o1 = lock_applyOptions opts in
      case obtainer key (lo_TTL o1) of
        Inl err \<Rightarrow> if errors_is err redislock_ErrNotObtained then Inl ErrLockNotHeld
                   else Inl (wrapl ''lock: obtain redis lock'' err)
      | Inr lock \<Rightarrow> Inr lock)"

definition redis_Release :: "('lk \<Rightarrow> gerr option) \<Rightarrow> 'lk option \<Rightarrow> gerr option" where
  "redis_Release release lk =
     (case lk of
        None \<Rightarrow> None
      | Some lock \<Rightarrow>
          (case release lock of
             Some err \<Rightarrow> if \<not> errors_is err redislock_ErrLockNotHeld
                         then Some (wrapl ''lock: release redis lock'' err) else None
           | None \<Rightarrow> None))"

text \<open>The factory: an interface value holding a client, a typed nil, or nil.\<close>

datatype 'c universal_client = NilClient | TypedNil | RedisClient 'c

datatype 'c made_locker = MadeMemory | MadeRedis 'c

fun isNilRedisClient :: "'c universal_client \<Rightarrow> bool" where
  "isNilRedisClient NilClient = True"
| "isNilRedisClient TypedNil = True"
| "isNilRedisClient (RedisClient c) = False"

definition LockerFactory_Create :: "'c universal_client \<Rightarrow> 'c universal_client made_locker" where
  "LockerFactory_Create c = (if isNilRedisClient c then MadeMemory else MadeRedis c)"

subsection \<open>The contract of a locker\<close>

text \<open>\<open>holder s t key\<close> is the token that holds the key at time \<open>t\<close>.\<close>

locale locker =
  fixes lock :: "'s \<Rightarrow> int \<Rightarrow> string \<Rightarrow> int \<Rightarrow> string \<Rightarrow> bool \<times> 's"
    and release :: "'s \<Rightarrow> string \<Rightarrow> string \<Rightarrow> 's"
    and holder :: "'s \<Rightarrow> int \<Rightarrow> string \<Rightarrow> string option"
  assumes lock_iff: "fst (lock s now k ttl tok) \<longleftrightarrow> holder s now k = None"
    and lock_fail: "\<not> fst (lock s now k ttl tok) \<Longrightarrow> snd (lock s now k ttl tok) = s"
    and lock_holder: "fst (lock s now k ttl tok) \<Longrightarrow> t < now + ttl \<Longrightarrow> holder (snd (lock s now k ttl tok)) t k = Some tok"
    and lock_other: "k' \<noteq> k \<Longrightarrow> holder (snd (lock s now k ttl tok)) t k' = holder s t k'"
    and release_own: "holder s t k = Some tok \<Longrightarrow> holder (release s k tok) t k = None"
    and release_foreign: "holder s t k = Some tok' \<Longrightarrow> tok' \<noteq> tok \<or> k' \<noteq> k \<Longrightarrow> holder (release s k' tok) t k = Some tok'"
begin

text \<open>A call on the locker, by anybody: take a key, or give one back.\<close>

definition apply_call :: "(string \<times> string \<times> (int \<times> int) option) \<Rightarrow> 's \<Rightarrow> 's" where
  "apply_call c s = (case c of (k, tok, Some (now, ttl)) \<Rightarrow> snd (lock s now k ttl tok)
                             | (k, tok, None) \<Rightarrow> release s k tok)"

text \<open>While a token holds a key up to time \<open>e\<close>, no call made before \<open>e\<close> that is not the owner's
  release takes it away.\<close>

lemma holder_stable:
  assumes "\<forall>t < e. holder s t k = Some tok"
    and "\<forall>c \<in> set cs. (snd (snd c) = None \<longrightarrow> fst c = k \<longrightarrow> fst (snd c) \<noteq> tok)
                      \<and> (\<forall>now ttl. snd (snd c) = Some (now, ttl) \<longrightarrow> fst c = k \<longrightarrow> now < e)"
  shows "\<forall>t < e. holder (fold apply_call cs s) t k = Some tok"
  using assms
proof (induction cs arbitrary: s)
  case Nil
  then show ?case by simp
next
  case (Cons c cs)
  obtain k' tok' o' where c: "c = (k', tok', o')" by (cases c)
  have "\<forall>t < e. holder (apply_call c s) t k = Some tok"
  proof (cases o')
    case None
    then show ?thesis
      using Cons.prems c release_foreign by (auto simp: apply_call_def)
  next
    case (Some p)
    then obtain now ttl where p: "o' = Some (now, ttl)" by (cases p) auto
    show ?thesis
    proof (cases "k' = k")
      case True
      then have "now < e" using Cons.prems(2) c p by auto
      then have "holder s now k = Some tok" using Cons.prems(1) by blast
      then have "\<not> fst (lock s now k ttl tok')" by (simp add: lock_iff)
      then show ?thesis using Cons.prems(1) c p True lock_fail by (simp add: apply_call_def)
    next
      case False
      then show ?thesis using Cons.prems(1) c p lock_other by (simp add: apply_call_def)
    qed
  qed
  then show ?case using Cons by simp
qed

lemma mutual_exclusion:
  assumes "fst (lock s now k ttl tok)"
    and "\<forall>c \<in> set cs. (snd (snd c) = None \<longrightarrow> fst c = k \<longrightarrow> fst (snd c) \<noteq> tok)
                      \<and> (\<forall>n d. snd (snd c) = Some (n, d) \<longrightarrow> fst c = k \<longrightarrow> n < now + ttl)"
    and "t < now + ttl"
  shows "\<not> fst (lock (fold apply_call cs (snd (lock s now k ttl tok))) t k d tok')"
proof -
  have "\<forall>t < now + ttl. holder (snd (lock s now k ttl tok)) t k = Some tok"
    using assms(1) lock_holder by blast
  then have "holder (fold apply_call cs (snd (lock s now k ttl tok))) t k = Some tok"
    using holder_stable [OF _ assms(2)] assms(3) by blast
  then show ?thesis by (simp add: lock_iff)
qed

lemma release_frees:
  assumes "fst (lock s now k ttl tok)" "t < now + ttl"
  shows "fst (lock (release (snd (lock s now k ttl tok)) k tok) t k d tok')"
  using release_own [OF lock_holder [OF assms]] by (simp add: lock_iff)

end

subsection \<open>The memory locker keeps the contract\<close>

definition mem_lock :: "memoryLocker \<Rightarrow> int \<Rightarrow> string \<Rightarrow> int \<Rightarrow> string \<Rightarrow> bool \<times> memoryLocker" where
  "mem_lock l now k ttl tok =
     (let r = memory_Lock (Inr tok) now l k [WithTTL ttl] in (is_ok (fst r), snd r))"

definition mem_release :: "memoryLocker \<Rightarrow> string \<Rightarrow> string \<Rightarrow> memoryLocker" where
  "mem_release l k tok = snd (memory_Release l \<lparr>ml_key = k, ml_token = tok\<rparr>)"

definition mem_holder :: "memoryLocker \<Rightarrow> int \<Rightarrow> string \<Rightarrow> string option" where
  "mem_holder l t k =
     (case l k of None \<Rightarrow> None | Some e \<Rightarrow> if t < me_expireAt e then Some (me_token e) else None)"

interpretation mem: locker mem_lock mem_release mem_holder
proof unfold_locales
  show "fst (mem_lock s now k ttl tok) = (mem_holder s now k = None)" for s now k ttl tok
    by (simp add: mem_lock_def memory_Lock_def mem_holder_def Let_def split: option.split)
  show "\<not> fst (mem_lock s now k ttl tok) \<Longrightarrow> snd (mem_lock s now k ttl tok) = s" for s now k ttl tok
    by (simp add: mem_lock_def memory_Lock_def Let_def split: option.splits if_splits)
  show "mem_holder (snd (mem_lock s now k ttl tok)) t k = Some tok"
    if "fst (mem_lock s now k ttl tok)" "t < now + ttl" for s now k ttl tok t
    using that
    by (auto simp: mem_lock_def memory_Lock_def mem_holder_def Let_def lock_applyOptions_WithTTL defaultTTL_def
        split: option.splits if_splits)
  show "mem_holder (snd (mem_lock s now k ttl tok)) t k' = mem_holder s t k'" if "k' \<noteq> k" for s now k ttl tok t k'
    using that by (simp add: mem_lock_def memory_Lock_def mem_holder_def Let_def)
  show "mem_holder (mem_release s k tok) t k = None" if "mem_holder s t k = Some tok" for s t k tok
    using that by (auto simp: mem_release_def memory_Release_def mem_holder_def split: option.splits if_splits)
  show "mem_holder (mem_release s k' tok) t k = Some tok'"
    if "mem_holder s t k = Some tok'" "tok' \<noteq> tok \<or> k' \<noteq> k" for s t k tok tok' k'
    using that by (auto simp: mem_release_def memory_Release_def mem_holder_def split: option.splits if_splits)
qed

text \<open>A call on the memory locker: a key, the caller's token, and either the clock and the TTL of a
  \<open>Lock\<close> or nothing for a \<open>Release\<close>.\<close>

definition mem_call :: "string \<times> string \<times> (int \<times> int) option \<Rightarrow> memoryLocker \<Rightarrow> memoryLocker" where
  "mem_call c l =
     (case c of
        (k, tok, Some (now, ttl)) \<Rightarrow> snd (memory_Lock (Inr tok) now l k [WithTTL ttl])
      | (k, tok, None) \<Rightarrow> snd (memory_Release l \<lparr>ml_key = k, ml_token = tok\<rparr>))"

lemma mem_call_apply: "mem_call = mem.apply_call"
  by (intro ext) (auto simp: mem_call_def mem.apply_call_def mem_lock_def mem_release_def Let_def split: option.splits)

text \<open>C6: Mutual exclusion of the memory locker: after a successful \<open>Lock\<close> of a key, whatever calls
  other holders make (locks of this key before it expires, locks and releases of other keys,
  releases of this key with other tokens, late ones included), every \<open>Lock\<close> of the key before the
  TTL has passed is refused with \<open>ErrLockNotHeld\<close>. After the owner's own release the next \<open>Lock\<close>
  succeeds.\<close>

theorem memory_lock_exclusive:
  assumes "memory_Lock (Inr tok) now l key [WithTTL ttl] = (Inr lk, l1)"
    and "\<forall>c \<in> set cs. (snd (snd c) = None \<longrightarrow> fst c = key \<longrightarrow> fst (snd c) \<noteq> tok)
                      \<and> (\<forall>n d. snd (snd c) = Some (n, d) \<longrightarrow> fst c = key \<longrightarrow> n < now + ttl)"
    and "t < now + ttl"
  shows "fst (memory_Lock (Inr tok') t (fold mem_call cs l1) key opts) = Inl ErrLockNotHeld
       \<and> is_ok (fst (memory_Lock (Inr tok') t (snd (memory_Release l1 lk)) key opts))"
proof -
  have l: "fst (mem_lock l now key ttl tok)" "snd (mem_lock l now key ttl tok) = l1"
    using assms(1) by (simp_all add: mem_lock_def)
  have lk: "lk = \<lparr>ml_key = key, ml_token = tok\<rparr>"
    using assms(1) by (auto simp: memory_Lock_def Let_def split: if_splits)
  have "\<not> fst (mem_lock (fold mem_call cs l1) t key 1 tok')"
    using mem.mutual_exclusion [OF l(1) assms(2,3)] by (simp add: l(2) mem_call_apply)
  then have "fst (memory_Lock (Inr tok') t (fold mem_call cs l1) key opts) = Inl ErrLockNotHeld"
    by (auto simp: mem_lock_def memory_Lock_def Let_def split: option.splits if_splits)
  moreover have "fst (mem_lock (mem_release l1 key tok) t key 1 tok')"
    using mem.release_frees [OF l(1) assms(3)] by (simp add: l(2))
  then have "is_ok (fst (memory_Lock (Inr tok') t (snd (memory_Release l1 lk)) key opts))"
    by (auto simp: mem_lock_def mem_release_def memory_Lock_def lk Let_def split: option.splits if_splits)
  ultimately show ?thesis ..
qed

theorem memory_lock_exclusive_witness:
  "fst (memory_Lock (Inr ''b'') 3 (fold mem_call [(''k'', ''b'', None)]
      (snd (memory_Lock (Inr ''a'') 0 NewMemoryLocker ''k'' [WithTTL 10]))) ''k'' []) = Inl ErrLockNotHeld"
proof -
  let ?r = "memory_Lock (Inr ''a'') 0 NewMemoryLocker ''k'' [WithTTL 10]"
  have "?r = (Inr \<lparr>ml_key = ''k'', ml_token = ''a''\<rparr>, snd ?r)"
    by (simp add: memory_Lock_def NewMemoryLocker_def Let_def)
  from memory_lock_exclusive [OF this, of "[(''k'', ''b'', None)]" 3 "''b''" "[]"] show ?thesis by simp
qed

text \<open>Releasing a Redis lock fails exactly when the backend fails for a reason other than the lock
  being lost, and the error then still identifies that reason.\<close>

lemma redis_Release_errors:
  "redis_Release release (Some lk) = None \<longleftrightarrow>
     (case release lk of None \<Rightarrow> True | Some e \<Rightarrow> errors_is e redislock_ErrLockNotHeld)"
  "redis_Release release (Some lk) = Some e \<Longrightarrow> \<exists>d. release lk = Some d \<and> errors_is e d"
proof -
  have "errors_is (wrapl t d) d" for t d
    by (simp add: wrapl_def errors_is_unfold [of "Errorf _ _"])
  then show "redis_Release release (Some lk) = Some e \<Longrightarrow> \<exists>d. release lk = Some d \<and> errors_is e d"
    by (auto simp: redis_Release_def split: option.splits if_splits)
qed (auto simp: redis_Release_def split: option.splits)

subsection \<open>Keys of the program\<close>

text \<open>\<^verbatim>\<open>internal/lock/keys.go\<close>: two addresses share the lock of registration only if they are equal.\<close>

definition UserRegisterKey :: "string \<Rightarrow> string" where
  "UserRegisterKey email = ''user:register:email:'' @ email"

lemma UserRegisterKey_inject: "UserRegisterKey a = UserRegisterKey b \<longleftrightarrow> a = b"
  by (simp add: UserRegisterKey_def)

end
