(* ===== verification/Scheduler.thy ===== *)
theory Scheduler
  imports Locker
begin

section \<open>The cron scheduler and its leader lock\<close>

text \<open>
  \<^verbatim>\<open>pkg/scheduler\<close>. The lock providers and the options are functions. \<open>Start\<close>, \<open>Stop\<close> and the
  heartbeat goroutine share \<open>cronStarted\<close>, the cron instance and the lock, so they are modelled as
  a step relation on \<open>sched\<close>: \<open>pc\<close> is the position of the goroutine that calls \<open>Start\<close> and
  \<open>Stop\<close> (the application calls them one after the other), \<open>hb\<close> that of the heartbeat. Each step is
  one statement of the source that touches shared state. What the lock provider, the jobs and the
  clock do is left open: every outcome is a step. The parameter \<open>early\<close> says whether the heartbeat
  may find the lock lost before \<open>Start\<close> has recorded that cron runs, which needs the renew interval
  to elapse between two adjacent statements of \<open>Start\<close>.
\<close>

subsection \<open>Lock providers\<close>

definition sched_ErrLockNotHeld :: gerr where
  "sched_ErrLockNotHeld = Sentinel ''scheduler: lock not held''"

definition Noop_Acquire :: "(gerr, bool) result" where "Noop_Acquire = Inr True"
definition Noop_Renew :: "gerr option" where "Noop_Renew = None"
definition Noop_Release :: "gerr option" where "Noop_Release = None"

definition defaultRedisLockTTL :: int where
  "defaultRedisLockTTL = 30 * 1000000000"

definition sched_WithTTL :: "int \<Rightarrow> int \<Rightarrow> int" where
  "sched_WithTTL ttl old = (if ttl > 0 then ttl else old)"

text \<open>\<open>rp_lock\<close> is the handle of the \<^verbatim>\<open>redislock\<close> lock, set after a successful \<open>Acquire\<close>.\<close>

record 'lk redisLockProvider =
  rp_key :: string
  rp_ttl :: int
  rp_lock :: "'lk option"

definition NewRedisLock :: "bool \<Rightarrow> string \<Rightarrow> (int \<Rightarrow> int) list \<Rightarrow> (string, 'lk redisLockProvider) result" where
  "NewRedisLock client_nil key opts =
     (if client_nil then Inl ''scheduler: NewRedisLock: redis client is nil''
      else if key = '''' then Inl ''scheduler: NewRedisLock: lock key is empty''
      else Inr \<lparr>rp_key = key, rp_ttl = fold (\<lambda>opt q. opt q) opts defaultRedisLockTTL, rp_lock = None\<rparr>)"

definition redis_Acquire ::
  "(string \<Rightarrow> int \<Rightarrow> (gerr, 'lk) result) \<Rightarrow> 'lk redisLockProvider \<Rightarrow> (gerr, bool) result \<times> 'lk redisLockProvider" where
  "redis_Acquire obtainer p =
     (case obtainer (rp_key p) (rp_ttl p) of
        Inl err \<Rightarrow> if errors_is err redislock_ErrNotObtained then (Inr False, p)
                   else (Inl (wrapl ''scheduler: obtain lock'' err), p)
      | Inr lock \<Rightarrow> (Inr True, p\<lparr>rp_lock := Some lock\<rparr>))"

definition redis_Renew :: "('lk \<Rightarrow> int \<Rightarrow> gerr option) \<Rightarrow> 'lk redisLockProvider \<Rightarrow> gerr option" where
  "redis_Renew refresh p =
     (case rp_lock p of
        None \<Rightarrow> Some sched_ErrLockNotHeld
      | Some lock \<Rightarrow>
          (case refresh lock (rp_ttl p) of
             None \<Rightarrow> None
           | Some err \<Rightarrow> if errors_is err redislock_ErrNotObtained then Some sched_ErrLockNotHeld
                         else Some (wrapl ''scheduler: renew lock'' err)))"

definition redis_ReleaseLeader ::
  "('lk \<Rightarrow> gerr option) \<Rightarrow> 'lk redisLockProvider \<Rightarrow> gerr option \<times> 'lk redisLockProvider" where
  "redis_ReleaseLeader release p =
     (case rp_lock p of
        None \<Rightarrow> (None, p)
      | Some lock \<Rightarrow>
          (case release lock of
             Some err \<Rightarrow> if \<not> errors_is err redislock_ErrLockNotHeld
                         then (Some (wrapl ''scheduler: release lock'' err), p)
                         else (None, p\<lparr>rp_lock := None\<rparr>)
           | None \<Rightarrow> (None, p\<lparr>rp_lock := None\<rparr>)))"

lemma redis_provider_cycle:
  assumes "redis_Acquire obtainer p = (Inr True, p1)"
  shows "rp_lock p1 \<noteq> None" "redis_Renew (\<lambda>_ _. None) p1 = None"
    "snd (redis_ReleaseLeader (\<lambda>_. None) p1) = p1\<lparr>rp_lock := None\<rparr>"
    "redis_Renew refresh (snd (redis_ReleaseLeader (\<lambda>_. None) p1)) = Some sched_ErrLockNotHeld"
  using assms
  by (auto simp: redis_Acquire_def redis_Renew_def redis_ReleaseLeader_def split: sum.splits if_splits)

subsection \<open>Options\<close>

definition defaultLockRenewInterval :: int where
  "defaultLockRenewInterval = 10 * 1000000000"

text \<open>A nil logger or lock is \<open>None\<close>; \<open>nop\<close> and \<open>noop\<close> are the defaults of the source.\<close>

record ('log, 'lock) sched_options =
  so_log :: "'log option"
  so_lock :: "'lock option"
  so_lockRenewInterval :: int

definition WithLogger :: "'log option \<Rightarrow> ('log, 'lock) sched_options \<Rightarrow> ('log, 'lock) sched_options" where
  "WithLogger log q = q\<lparr>so_log := log\<rparr>"

definition WithLock :: "'lock option \<Rightarrow> ('log, 'lock) sched_options \<Rightarrow> ('log, 'lock) sched_options" where
  "WithLock lock q = q\<lparr>so_lock := lock\<rparr>"

definition WithLockRenewInterval :: "int \<Rightarrow> ('log, 'lock) sched_options \<Rightarrow> ('log, 'lock) sched_options" where
  "WithLockRenewInterval d q = (if d > 0 then q\<lparr>so_lockRenewInterval := d\<rparr> else q)"

definition sched_applyOptions ::
  "'log \<Rightarrow> 'lock \<Rightarrow> (('log, 'lock) sched_options \<Rightarrow> ('log, 'lock) sched_options) list \<Rightarrow> ('log, 'lock) sched_options" where
  "sched_applyOptions nop noop opts =
     (let q = fold (\<lambda>opt q. opt q) opts
                \<lparr>so_log = Some nop, so_lock = Some noop, so_lockRenewInterval = defaultLockRenewInterval\<rparr>;
          q = (case so_log q of None \<Rightarrow> q\<lparr>so_log := Some nop\<rparr> | Some _ \<Rightarrow> q)
      in case so_lock q of None \<Rightarrow> q\<lparr>so_lock := Some noop\<rparr> | Some _ \<Rightarrow> q)"

text \<open>Whatever options are given, the scheduler has a logger and a lock.\<close>

lemma sched_applyOptions_total:
  "so_log (sched_applyOptions nop noop opts) \<noteq> None" "so_lock (sched_applyOptions nop noop opts) \<noteq> None"
  by (auto simp: sched_applyOptions_def Let_def split: option.splits)

subsection \<open>The state machine\<close>

text \<open>Positions in \<open>Start\<close> (after acquiring the lock, after starting the heartbeat, after starting
  cron, initialising job \<open>i\<close>, on the failure path), running, and in \<open>Stop\<close>/\<open>releaseLock\<close>.\<close>

datatype spc =
    PIdle | PAcquired | PHeartbeat | PCron | PInit nat | PFailStop | PFailStore
  | PRunning | PStopCron | PStopStore | PRelease | PWaiting

text \<open>The heartbeat: absent, waiting for the ticker or for cancellation, about to stop cron, about to
  clear \<open>cronStarted\<close>, or gone (having found the lock lost, or cancelled).\<close>

datatype hbpc = HbNone | HbRun | HbStopping | HbStoring | HbGone bool

record sched =
  pc :: spc
  hb :: hbpc
  cancelled :: bool
  cronRunning :: bool
  cronStarted :: bool
  lockOwned :: bool

definition sched_new :: sched where
  "sched_new = \<lparr>pc = PIdle, hb = HbNone, cancelled = False, cronRunning = False, cronStarted = False, lockOwned = False\<rparr>"

inductive sched_step :: "bool \<Rightarrow> nat \<Rightarrow> sched \<Rightarrow> sched \<Rightarrow> bool"
  for early :: bool and njobs :: nat where
  not_leader: "pc s = PIdle \<Longrightarrow> sched_step early njobs s s"
| acquire: "pc s = PIdle \<Longrightarrow> sched_step early njobs s (s\<lparr>pc := PAcquired, lockOwned := True\<rparr>)"
| start_hb: "pc s = PAcquired \<Longrightarrow> sched_step early njobs s (s\<lparr>pc := PHeartbeat, hb := HbRun, cancelled := False\<rparr>)"
| start_cron: "pc s = PHeartbeat \<Longrightarrow> sched_step early njobs s (s\<lparr>pc := PCron, cronRunning := True\<rparr>)"
| store_started: "pc s = PCron \<Longrightarrow> sched_step early njobs s (s\<lparr>pc := PInit 0, cronStarted := True\<rparr>)"
| job_ok: "pc s = PInit i \<Longrightarrow> i < njobs \<Longrightarrow> sched_step early njobs s (s\<lparr>pc := PInit (Suc i)\<rparr>)"
| job_fails: "pc s = PInit i \<Longrightarrow> i < njobs \<Longrightarrow> sched_step early njobs s (s\<lparr>pc := PFailStop\<rparr>)"
| jobs_done: "pc s = PInit njobs \<Longrightarrow> sched_step early njobs s (s\<lparr>pc := PRunning\<rparr>)"
| fail_stop: "pc s = PFailStop \<Longrightarrow> sched_step early njobs s (s\<lparr>pc := PFailStore, cronRunning := False\<rparr>)"
| fail_store: "pc s = PFailStore \<Longrightarrow> sched_step early njobs s (s\<lparr>pc := PRelease, cronStarted := False\<rparr>)"
| stop: "pc s = PRunning \<or> pc s = PIdle \<Longrightarrow>
    sched_step early njobs s (s\<lparr>pc := if cronStarted s then PStopCron else PRelease\<rparr>)"
| stop_cron: "pc s = PStopCron \<Longrightarrow> sched_step early njobs s (s\<lparr>pc := PStopStore, cronRunning := False\<rparr>)"
| stop_store: "pc s = PStopStore \<Longrightarrow> sched_step early njobs s (s\<lparr>pc := PRelease, cronStarted := False\<rparr>)"
| release_none: "pc s = PRelease \<Longrightarrow> \<not> lockOwned s \<Longrightarrow> sched_step early njobs s (s\<lparr>pc := PIdle\<rparr>)"
| release_cancel: "pc s = PRelease \<Longrightarrow> lockOwned s \<Longrightarrow> sched_step early njobs s (s\<lparr>pc := PWaiting, cancelled := True\<rparr>)"
| release_done: "pc s = PWaiting \<Longrightarrow> hb s = HbNone \<or> hb s = HbGone l \<Longrightarrow>
    sched_step early njobs s (s\<lparr>pc := PIdle, hb := HbNone, lockOwned := False\<rparr>)"
| renewed: "hb s = HbRun \<Longrightarrow> sched_step early njobs s s"
| lost: "hb s = HbRun \<Longrightarrow> early \<or> pc s \<noteq> PHeartbeat \<and> pc s \<noteq> PCron \<Longrightarrow>
    sched_step early njobs s (s\<lparr>hb := HbStopping\<rparr>)"
| lost_stop: "hb s = HbStopping \<Longrightarrow> sched_step early njobs s (s\<lparr>hb := HbStoring, cronRunning := False\<rparr>)"
| lost_store: "hb s = HbStoring \<Longrightarrow> sched_step early njobs s (s\<lparr>hb := HbGone True, cronStarted := False\<rparr>)"
| hb_cancelled: "hb s = HbRun \<Longrightarrow> cancelled s \<Longrightarrow> sched_step early njobs s (s\<lparr>hb := HbGone False\<rparr>)"

subsection \<open>Invariant\<close>

text \<open>While jobs are initialised or running, cron runs as long as the heartbeat has not found the lock
  lost, and \<open>cronStarted\<close> follows it.\<close>

definition hb_live :: "sched \<Rightarrow> bool" where
  "hb_live s \<longleftrightarrow> lockOwned s \<and> \<not> cancelled s \<and>
     (case hb s of
        HbRun \<Rightarrow> cronRunning s \<and> cronStarted s
      | HbStopping \<Rightarrow> cronStarted s
      | HbStoring \<Rightarrow> \<not> cronRunning s \<and> cronStarted s
      | HbGone l \<Rightarrow> l \<and> \<not> cronRunning s \<and> \<not> cronStarted s
      | HbNone \<Rightarrow> False)"

definition hb_present :: "sched \<Rightarrow> bool" where
  "hb_present s \<longleftrightarrow> lockOwned s \<and> \<not> cancelled s \<and> hb s \<noteq> HbNone \<and> hb s \<noteq> HbGone False"

fun sched_at :: "spc \<Rightarrow> sched \<Rightarrow> bool" where
  "sched_at PIdle s = (hb s = HbNone \<and> \<not> lockOwned s \<and> \<not> cronRunning s \<and> \<not> cronStarted s)"
| "sched_at PAcquired s = (hb s = HbNone \<and> lockOwned s \<and> \<not> cronRunning s \<and> \<not> cronStarted s)"
| "sched_at PHeartbeat s = (hb s = HbRun \<and> \<not> cancelled s \<and> lockOwned s \<and> \<not> cronRunning s \<and> \<not> cronStarted s)"
| "sched_at PCron s = (hb s = HbRun \<and> \<not> cancelled s \<and> lockOwned s \<and> cronRunning s \<and> \<not> cronStarted s)"
| "sched_at (PInit i) s = hb_live s"
| "sched_at PFailStop s = hb_live s"
| "sched_at PRunning s = hb_live s"
| "sched_at PStopCron s = hb_live s"
| "sched_at PFailStore s = (hb_present s \<and> \<not> cronRunning s)"
| "sched_at PStopStore s = (hb_present s \<and> \<not> cronRunning s)"
| "sched_at PRelease s = ((hb_present s \<or> \<not> lockOwned s \<and> hb s = HbNone) \<and> \<not> cronRunning s \<and> \<not> cronStarted s)"
| "sched_at PWaiting s = (lockOwned s \<and> hb s \<noteq> HbNone \<and> \<not> cronRunning s \<and> \<not> cronStarted s)"

definition sched_inv :: "sched \<Rightarrow> bool" where
  "sched_inv s \<longleftrightarrow> sched_at (pc s) s"

lemmas sched_inv_defs = sched_inv_def hb_live_def hb_present_def

lemma sched_inv_new: "sched_inv sched_new"
  by (simp add: sched_inv_def sched_new_def)

lemma sched_inv_step:
  assumes "sched_step False njobs s s'" "sched_inv s"
  shows "sched_inv s'"
  using assms
proof (cases rule: sched_step.cases)
  case lost
  then show ?thesis using assms(2) by (cases "pc s") (simp_all add: sched_inv_defs)
next
  case lost_stop
  then show ?thesis using assms(2) by (cases "pc s") (simp_all add: sched_inv_defs)
next
  case lost_store
  then show ?thesis using assms(2) by (cases "pc s") (simp_all add: sched_inv_defs)
next
  case hb_cancelled
  then show ?thesis using assms(2) by (cases "pc s") (simp_all add: sched_inv_defs)
qed (use assms(2) in \<open>auto simp: sched_inv_defs split: hbpc.splits\<close>)

lemma sched_inv_reach: "rtranclp (sched_step False njobs) sched_new s \<Longrightarrow> sched_inv s"
  by (induction rule: rtranclp_induct) (auto simp: sched_inv_new intro: sched_inv_step)

subsection \<open>Properties\<close>

lemma sched_inv_running: "sched_inv s \<Longrightarrow> cronRunning s \<Longrightarrow> lockOwned s \<and> hb s \<noteq> HbStoring \<and> hb s \<noteq> HbGone True"
  by (cases "pc s") (auto simp: sched_inv_defs split: hbpc.splits)


text \<open>A start and a stop, with one job.\<close>

lemma sched_run_example:
  "rtranclp (sched_step False 1) sched_new
     \<lparr>pc = PRunning, hb = HbRun, cancelled = False, cronRunning = True, cronStarted = True, lockOwned = True\<rparr>"
proof -
  let ?s = "\<lambda>p h c st l. \<lparr>pc = p, hb = h, cancelled = False, cronRunning = c, cronStarted = st, lockOwned = l\<rparr>"
  let ?R = "sched_step False 1"
  have "?R sched_new (?s PAcquired HbNone False False True)"
    using sched_step.acquire [of sched_new] by (simp add: sched_new_def)
  moreover have "?R (?s PAcquired HbNone False False True) (?s PHeartbeat HbRun False False True)"
    using sched_step.start_hb [of "?s PAcquired HbNone False False True"] by simp
  moreover have "?R (?s PHeartbeat HbRun False False True) (?s PCron HbRun True False True)"
    using sched_step.start_cron [of "?s PHeartbeat HbRun False False True"] by simp
  moreover have "?R (?s PCron HbRun True False True) (?s (PInit 0) HbRun True True True)"
    using sched_step.store_started [of "?s PCron HbRun True False True"] by simp
  moreover have "?R (?s (PInit 0) HbRun True True True) (?s (PInit 1) HbRun True True True)"
    using sched_step.job_ok [of "?s (PInit 0) HbRun True True True" 0 1] by simp
  moreover have "?R (?s (PInit 1) HbRun True True True) (?s PRunning HbRun True True True)"
    using sched_step.jobs_done [of "?s (PInit 1) HbRun True True True" 1] by simp
  ultimately have "successively ?R [sched_new, ?s PAcquired HbNone False False True, ?s PHeartbeat HbRun False False True,
      ?s PCron HbRun True False True, ?s (PInit 0) HbRun True True True, ?s (PInit 1) HbRun True True True,
      ?s PRunning HbRun True True True]"
    by simp
  from rtranclp_path [OF this] show ?thesis by simp
qed


text \<open>Without that restriction leadership fails: the heartbeat is started before cron. If it finds
  the lock lost in between, it stops a cron that does not run yet, \<open>Start\<close> then starts it, and the
  heartbeat clears \<open>cronStarted\<close> last. A later \<open>Stop\<close> sees \<open>cronStarted\<close> false, leaves cron running
  and gives the lock back: cron runs for good without the lock.\<close>

lemma scheduler_lost_lock_race:
  "\<exists>s. rtranclp (sched_step True 0) sched_new s \<and> pc s = PIdle \<and> cronRunning s \<and> \<not> lockOwned s \<and> hb s = HbNone"
proof -
  let ?s = "\<lambda>p h k c st l. \<lparr>pc = p, hb = h, cancelled = k, cronRunning = c, cronStarted = st, lockOwned = l\<rparr>"
  let ?R = "sched_step True 0"
  have "?R sched_new (?s PAcquired HbNone False False False True)"
    using sched_step.acquire [of sched_new] by (simp add: sched_new_def)
  moreover have "?R (?s PAcquired HbNone False False False True) (?s PHeartbeat HbRun False False False True)"
    using sched_step.start_hb [of "?s PAcquired HbNone False False False True"] by simp
  moreover have "?R (?s PHeartbeat HbRun False False False True) (?s PHeartbeat HbStopping False False False True)"
    using sched_step.lost [of "?s PHeartbeat HbRun False False False True" True] by simp
  moreover have "?R (?s PHeartbeat HbStopping False False False True) (?s PHeartbeat HbStoring False False False True)"
    using sched_step.lost_stop [of "?s PHeartbeat HbStopping False False False True"] by simp
  moreover have "?R (?s PHeartbeat HbStoring False False False True) (?s PCron HbStoring False True False True)"
    using sched_step.start_cron [of "?s PHeartbeat HbStoring False False False True"] by simp
  moreover have "?R (?s PCron HbStoring False True False True) (?s (PInit 0) HbStoring False True True True)"
    using sched_step.store_started [of "?s PCron HbStoring False True False True"] by simp
  moreover have "?R (?s (PInit 0) HbStoring False True True True) (?s (PInit 0) (HbGone True) False True False True)"
    using sched_step.lost_store [of "?s (PInit 0) HbStoring False True True True"] by simp
  moreover have "?R (?s (PInit 0) (HbGone True) False True False True) (?s PRunning (HbGone True) False True False True)"
    using sched_step.jobs_done [of "?s (PInit 0) (HbGone True) False True False True" 0] by simp
  moreover have "?R (?s PRunning (HbGone True) False True False True) (?s PRelease (HbGone True) False True False True)"
    using sched_step.stop [of "?s PRunning (HbGone True) False True False True"] by simp
  moreover have "?R (?s PRelease (HbGone True) False True False True) (?s PWaiting (HbGone True) True True False True)"
    using sched_step.release_cancel [of "?s PRelease (HbGone True) False True False True"] by simp
  moreover have "?R (?s PWaiting (HbGone True) True True False True) (?s PIdle HbNone True True False False)"
    using sched_step.release_done [of "?s PWaiting (HbGone True) True True False True" True] by simp
  ultimately have "successively ?R [sched_new, ?s PAcquired HbNone False False False True,
      ?s PHeartbeat HbRun False False False True, ?s PHeartbeat HbStopping False False False True,
      ?s PHeartbeat HbStoring False False False True, ?s PCron HbStoring False True False True,
      ?s (PInit 0) HbStoring False True True True, ?s (PInit 0) (HbGone True) False True False True,
      ?s PRunning (HbGone True) False True False True, ?s PRelease (HbGone True) False True False True,
      ?s PWaiting (HbGone True) True True False True, ?s PIdle HbNone True True False False]"
    by simp
  from rtranclp_path [OF this] have "rtranclp ?R sched_new (?s PIdle HbNone True True False False)" by simp
  then show ?thesis by (intro exI [of _ "?s PIdle HbNone True True False False"]) simp
qed

end
