(* ===== verification/Cache.thy ===== *)
theory Cache
  imports Go_Errors
begin

section \<open>The cache library\<close>

text \<open>
  \<^verbatim>\<open>pkg/cache\<close>. A cache is a record of its methods over a state. The backends are third-party: the
  in-process store (Ristretto) and the Redis client are the parameter records \<open>ristretto\<close> and
  \<open>redis_api\<close>, JSON is a pair of functions. Stores may lose entries at any time (eviction,
  expiry), so the contract \<open>cache_contract\<close> of the \<open>Cache\<close> interface only bounds what a hit may
  return: it is proved inside the locale that any run of a cache refines a plain map, and the
  memory, Redis, no-op and two-level caches are shown to keep the contract.
\<close>

subsection \<open>Errors\<close>

definition ErrCacheMiss :: gerr where "ErrCacheMiss = Sentinel ''cache: key not found''"
definition ErrCacheUnavailable :: gerr where "ErrCacheUnavailable = Sentinel ''cache: service unavailable''"
definition ErrInvalidKey :: gerr where "ErrInvalidKey = Sentinel ''cache: invalid key''"

definition IsCacheMiss :: "gerr \<Rightarrow> bool" where "IsCacheMiss err = errors_is err ErrCacheMiss"
definition IsInvalidKey :: "gerr \<Rightarrow> bool" where "IsInvalidKey err = errors_is err ErrInvalidKey"
definition IsCacheUnavailable :: "gerr \<Rightarrow> bool" where "IsCacheUnavailable err = errors_is err ErrCacheUnavailable"

subsection \<open>The interface\<close>

record ('s, 'v) Cache =
  c_Get :: "'s \<Rightarrow> string \<Rightarrow> (gerr, 'v) result \<times> 's"
  c_Set :: "'s \<Rightarrow> string \<Rightarrow> 'v \<Rightarrow> int \<Rightarrow> gerr option \<times> 's"
  c_Delete :: "'s \<Rightarrow> string \<Rightarrow> gerr option \<times> 's"
  c_Exists :: "'s \<Rightarrow> string \<Rightarrow> (gerr, bool) result \<times> 's"

subsection \<open>No-op cache\<close>

definition nop_Cache :: "('s, 'v) Cache" where
  "nop_Cache =
     \<lparr>c_Get = (\<lambda>s key. (Inl ErrCacheMiss, s)), c_Set = (\<lambda>s key value ttl. (None, s)),
      c_Delete = (\<lambda>s key. (None, s)), c_Exists = (\<lambda>s key. (Inr False, s))\<rparr>"

subsection \<open>Memory cache\<close>

record ('s, 'v) ristretto =
  ris_Get :: "'s \<Rightarrow> string \<Rightarrow> 'v option"
  ris_SetWithTTL :: "'s \<Rightarrow> string \<Rightarrow> 'v \<Rightarrow> int \<Rightarrow> int \<Rightarrow> 's"
  ris_Del :: "'s \<Rightarrow> string \<Rightarrow> 's"
  ris_New :: "(gerr, 's) result"

definition memory_Get :: "('s, 'v) ristretto \<Rightarrow> 's \<Rightarrow> string \<Rightarrow> (gerr, 'v) result \<times> 's" where
  "memory_Get api s key =
     (if key = '''' then (Inl ErrInvalidKey, s)
      else case ris_Get api s key of None \<Rightarrow> (Inl ErrCacheMiss, s) | Some v \<Rightarrow> (Inr v, s))"

text \<open>\<open>SetWithTTL\<close> followed by \<open>Wait\<close>: the cost is always 1.\<close>

definition memory_Set :: "('s, 'v) ristretto \<Rightarrow> 's \<Rightarrow> string \<Rightarrow> 'v \<Rightarrow> int \<Rightarrow> gerr option \<times> 's" where
  "memory_Set api s key value ttl =
     (if key = '''' then (Some ErrInvalidKey, s) else (None, ris_SetWithTTL api s key value 1 ttl))"

definition memory_Delete :: "('s, 'v) ristretto \<Rightarrow> 's \<Rightarrow> string \<Rightarrow> gerr option \<times> 's" where
  "memory_Delete api s key = (if key = '''' then (Some ErrInvalidKey, s) else (None, ris_Del api s key))"

definition memory_Exists :: "('s, 'v) ristretto \<Rightarrow> 's \<Rightarrow> string \<Rightarrow> (gerr, bool) result \<times> 's" where
  "memory_Exists api s key =
     (if key = '''' then (Inl ErrInvalidKey, s) else (Inr (ris_Get api s key \<noteq> None), s))"

text \<open>\<open>Clear\<close> replaces the store by a new one and keeps the old one when that fails.\<close>

definition memory_Clear :: "('s, 'v) ristretto \<Rightarrow> 's \<Rightarrow> gerr option \<times> 's" where
  "memory_Clear api s =
     (case ris_New api of
        Inl err \<Rightarrow> (Some (wrapl ''failed to recreate cache'' err), s)
      | Inr new \<Rightarrow> (None, new))"

definition NewMemoryCache :: "('s, 'v) ristretto \<Rightarrow> (gerr, 's) result" where
  "NewMemoryCache api =
     (case ris_New api of Inl err \<Rightarrow> Inl (wrapl ''failed to create ristretto cache'' err) | Inr s \<Rightarrow> Inr s)"

definition memory_Cache :: "('s, 'v) ristretto \<Rightarrow> ('s, 'v) Cache" where
  "memory_Cache api =
     \<lparr>c_Get = memory_Get api, c_Set = memory_Set api, c_Delete = memory_Delete api, c_Exists = memory_Exists api\<rparr>"

subsection \<open>Redis cache\<close>

definition redis_Nil :: gerr where "redis_Nil = Sentinel ''redis: nil''"

record 's redis_api =
  rd_Get :: "'s \<Rightarrow> string \<Rightarrow> (gerr, string) result"
  rd_Set :: "'s \<Rightarrow> string \<Rightarrow> string \<Rightarrow> int \<Rightarrow> gerr option \<times> 's"
  rd_Del :: "'s \<Rightarrow> string list \<Rightarrow> gerr option \<times> 's"
  rd_Exists :: "'s \<Rightarrow> string \<Rightarrow> (gerr, int) result"
  rd_Scan :: "'s \<Rightarrow> nat \<Rightarrow> string \<Rightarrow> (gerr, string list \<times> nat) result"

text \<open>\<^verbatim>\<open>json.Marshal\<close> and \<^verbatim>\<open>json.Unmarshal\<close> of an \<open>any\<close>.\<close>

record 'v json_api =
  js_Marshal :: "'v \<Rightarrow> (gerr, string) result"
  js_Unmarshal :: "string \<Rightarrow> (gerr, 'v) result"

record RedisCache =
  rc_prefix :: string
  rc_ttl :: int
  rc_ownsClient :: bool

definition newRedisCache :: "string \<Rightarrow> int \<Rightarrow> bool \<Rightarrow> RedisCache" where
  "newRedisCache keyPrefix cfgTTL ownsClient =
     \<lparr>rc_prefix = (if keyPrefix \<noteq> '''' then keyPrefix else ''app:''),
      rc_ttl = (if cfgTTL > 0 then cfgTTL else 3600 * 1000000000), rc_ownsClient = ownsClient\<rparr>"

text \<open>\<open>ping\<close> is the answer of the connection check.\<close>

definition NewRedisCache :: "gerr option \<Rightarrow> string \<Rightarrow> int \<Rightarrow> (gerr, RedisCache) result" where
  "NewRedisCache ping keyPrefix cfgTTL =
     (case ping of
        Some err \<Rightarrow> Inl (wrapl ''failed to connect to Redis'' err)
      | None \<Rightarrow> Inr (newRedisCache keyPrefix cfgTTL True))"

definition NewRedisCacheFromClient :: "bool \<Rightarrow> string \<Rightarrow> int \<Rightarrow> (gerr, RedisCache) result" where
  "NewRedisCacheFromClient client_nil keyPrefix cfgTTL =
     (if client_nil then Inl (Errorf ''redis client is required'' [])
      else Inr (newRedisCache keyPrefix cfgTTL False))"

definition buildKey :: "RedisCache \<Rightarrow> string \<Rightarrow> string" where
  "buildKey c key = rc_prefix c @ key"

definition redis_Get ::
  "'s redis_api \<Rightarrow> 'v json_api \<Rightarrow> RedisCache \<Rightarrow> 's \<Rightarrow> string \<Rightarrow> (gerr, 'v) result \<times> 's" where
  "redis_Get api js c s key =
     (if key = '''' then (Inl ErrInvalidKey, s)
      else case rd_Get api s (buildKey c key) of
        Inl err \<Rightarrow>
          (if errors_is err redis_Nil then (Inl ErrCacheMiss, s)
           else (Inl (CacheErr ''REDIS_GET_ERROR'' ''failed to get value from Redis'' (Some err)), s))
      | Inr data \<Rightarrow>
          (case js_Unmarshal js data of
             Inl err \<Rightarrow> (Inl (CacheErr ''REDIS_UNMARSHAL_ERROR'' ''failed to unmarshal cached value'' (Some err)), s)
           | Inr v \<Rightarrow> (Inr v, s)))"

definition redis_Set ::
  "'s redis_api \<Rightarrow> 'v json_api \<Rightarrow> RedisCache \<Rightarrow> 's \<Rightarrow> string \<Rightarrow> 'v \<Rightarrow> int \<Rightarrow> gerr option \<times> 's" where
  "redis_Set api js c s key value ttl =
     (if key = '''' then (Some ErrInvalidKey, s)
      else let ttl = (if ttl \<le> 0 then rc_ttl c else ttl)
        in case js_Marshal js value of
             Inl err \<Rightarrow> (Some (CacheErr ''REDIS_MARSHAL_ERROR'' ''failed to marshal value'' (Some err)), s)
           | Inr data \<Rightarrow>
               (case rd_Set api s (buildKey c key) data ttl of
                  (Some err, s') \<Rightarrow> (Some (CacheErr ''REDIS_SET_ERROR'' ''failed to set value to Redis'' (Some err)), s')
                | (None, s') \<Rightarrow> (None, s')))"

definition redis_Delete :: "'s redis_api \<Rightarrow> RedisCache \<Rightarrow> 's \<Rightarrow> string \<Rightarrow> gerr option \<times> 's" where
  "redis_Delete api c s key =
     (if key = '''' then (Some ErrInvalidKey, s)
      else case rd_Del api s [buildKey c key] of
        (Some err, s') \<Rightarrow> (Some (CacheErr ''REDIS_DELETE_ERROR'' ''failed to delete value from Redis'' (Some err)), s')
      | (None, s') \<Rightarrow> (None, s'))"

definition redis_Exists :: "'s redis_api \<Rightarrow> RedisCache \<Rightarrow> 's \<Rightarrow> string \<Rightarrow> (gerr, bool) result \<times> 's" where
  "redis_Exists api c s key =
     (if key = '''' then (Inl ErrInvalidKey, s)
      else case rd_Exists api s (buildKey c key) of
        Inl err \<Rightarrow> (Inl (CacheErr ''REDIS_EXISTS_ERROR'' ''failed to check existence in Redis'' (Some err)), s)
      | Inr count \<Rightarrow> (Inr (count > 0), s))"

text \<open>The cursor loop of \<open>Clear\<close> ends when the server returns the cursor 0, which nothing in the
  code enforces: the fuel bounds the number of pages, and \<open>None\<close> means it did not suffice.\<close>

fun redis_Clear :: "nat \<Rightarrow> 's redis_api \<Rightarrow> RedisCache \<Rightarrow> nat \<Rightarrow> 's \<Rightarrow> (gerr option \<times> 's) option" where
  "redis_Clear 0 api c cursor s = None"
| "redis_Clear (Suc fuel) api c cursor s =
     (case rd_Scan api s cursor (rc_prefix c @ ''*'') of
        Inl err \<Rightarrow> Some (Some (CacheErr ''REDIS_CLEAR_ERROR'' ''failed to scan keys in Redis'' (Some err)), s)
      | Inr (keys, nextCursor) \<Rightarrow>
          (case (if keys \<noteq> [] then rd_Del api s keys else (None, s)) of
             (Some err, s') \<Rightarrow> Some (Some (CacheErr ''REDIS_CLEAR_ERROR'' ''failed to delete keys in Redis'' (Some err)), s')
           | (None, s') \<Rightarrow> if nextCursor = 0 then Some (None, s') else redis_Clear fuel api c nextCursor s'))"

definition redis_Cache :: "'s redis_api \<Rightarrow> 'v json_api \<Rightarrow> RedisCache \<Rightarrow> ('s, 'v) Cache" where
  "redis_Cache api js c =
     \<lparr>c_Get = redis_Get api js c, c_Set = redis_Set api js c, c_Delete = redis_Delete api c,
      c_Exists = redis_Exists api c\<rparr>"

subsection \<open>Two-level cache\<close>

text \<open>The state is that of the two levels and the warm-up writes that \<open>Get\<close> has started and that
  have not run yet.\<close>

record ('s1, 's2, 'v) multi =
  m_l1 :: 's1
  m_l2 :: 's2
  m_warm :: "(string \<times> 'v) list"

definition multi_Get ::
  "('s1, 'v) Cache \<Rightarrow> ('s2, 'v) Cache \<Rightarrow> ('s1, 's2, 'v) multi \<Rightarrow> string \<Rightarrow> (gerr, 'v) result \<times> ('s1, 's2, 'v) multi" where
  "multi_Get c1 c2 m key =
     (case c_Get c1 (m_l1 m) key of
        (Inr value, s1) \<Rightarrow> (Inr value, m\<lparr>m_l1 := s1\<rparr>)
      | (Inl _, s1) \<Rightarrow>
          (case c_Get c2 (m_l2 m) key of
             (Inl err, s2) \<Rightarrow> (Inl err, m\<lparr>m_l1 := s1, m_l2 := s2\<rparr>)
           | (Inr value, s2) \<Rightarrow> (Inr value, m\<lparr>m_l1 := s1, m_l2 := s2, m_warm := m_warm m @ [(key, value)]\<rparr>)))"

text \<open>One warm-up goroutine runs: five minutes, error ignored.\<close>

fun multi_warmup :: "('s1, 'v) Cache \<Rightarrow> ('s1, 's2, 'v) multi \<Rightarrow> ('s1, 's2, 'v) multi" where
  "multi_warmup c1 m =
     (case m_warm m of
        [] \<Rightarrow> m
      | (key, value) # ws \<Rightarrow>
          m\<lparr>m_l1 := snd (c_Set c1 (m_l1 m) key value (300 * 1000000000)), m_warm := ws\<rparr>)"

definition multi_Set ::
  "('s1, 'v) Cache \<Rightarrow> ('s2, 'v) Cache \<Rightarrow> ('s1, 's2, 'v) multi \<Rightarrow> string \<Rightarrow> 'v \<Rightarrow> int \<Rightarrow> gerr option \<times> ('s1, 's2, 'v) multi" where
  "multi_Set c1 c2 m key value ttl =
     (let (e1, s1) = c_Set c1 (m_l1 m) key value ttl; (e2, s2) = c_Set c2 (m_l2 m) key value ttl
      in (errors_join [e1, e2], m\<lparr>m_l1 := s1, m_l2 := s2\<rparr>))"

definition multi_Delete ::
  "('s1, 'v) Cache \<Rightarrow> ('s2, 'v) Cache \<Rightarrow> ('s1, 's2, 'v) multi \<Rightarrow> string \<Rightarrow> gerr option \<times> ('s1, 's2, 'v) multi" where
  "multi_Delete c1 c2 m key =
     (let (e1, s1) = c_Delete c1 (m_l1 m) key; (e2, s2) = c_Delete c2 (m_l2 m) key
      in (errors_join [e1, e2], m\<lparr>m_l1 := s1, m_l2 := s2\<rparr>))"

definition multi_Exists ::
  "('s1, 'v) Cache \<Rightarrow> ('s2, 'v) Cache \<Rightarrow> ('s1, 's2, 'v) multi \<Rightarrow> string \<Rightarrow> (gerr, bool) result \<times> ('s1, 's2, 'v) multi" where
  "multi_Exists c1 c2 m key =
     (case c_Exists c1 (m_l1 m) key of
        (r, s1) \<Rightarrow>
          if r = Inr True then (Inr True, m\<lparr>m_l1 := s1\<rparr>)
          else (case c_Exists c2 (m_l2 m) key of (r2, s2) \<Rightarrow> (r2, m\<lparr>m_l1 := s1, m_l2 := s2\<rparr>)))"

text \<open>The two-level cache when every warm-up runs before the next call: nothing is ever pending
  between calls.\<close>

definition multi_at :: "'s1 \<times> 's2 \<Rightarrow> ('s1, 's2, 'v) multi" where
  "multi_at p = \<lparr>m_l1 = fst p, m_l2 = snd p, m_warm = []\<rparr>"

definition multi_levels :: "('s1, 's2, 'v) multi \<Rightarrow> 's1 \<times> 's2" where
  "multi_levels m = (m_l1 m, m_l2 m)"

definition multi_Cache :: "('s1, 'v) Cache \<Rightarrow> ('s2, 'v) Cache \<Rightarrow> ('s1 \<times> 's2, 'v) Cache" where
  "multi_Cache c1 c2 =
     \<lparr>c_Get = (\<lambda>p key. case multi_Get c1 c2 (multi_at p) key of (r, m) \<Rightarrow> (r, multi_levels (multi_warmup c1 m))),
      c_Set = (\<lambda>p key v ttl. map_prod id multi_levels (multi_Set c1 c2 (multi_at p) key v ttl)),
      c_Delete = (\<lambda>p key. map_prod id multi_levels (multi_Delete c1 c2 (multi_at p) key)),
      c_Exists = (\<lambda>p key. map_prod id multi_levels (multi_Exists c1 c2 (multi_at p) key))\<rparr>"

subsection \<open>Keys and the factory\<close>

definition Generate :: "string \<Rightarrow> string list \<Rightarrow> string" where
  "Generate pre parts = (if parts = [] then pre else pre @ concat (map (\<lambda>p. CHR '':'' # p) parts))"

record FactoryConfig =
  fc_Enabled :: bool
  fc_Driver :: string
  fc_KeyPrefix :: string
  fc_DefaultTTL :: int
  fc_HasClient :: bool

datatype 's1 made_cache = MadeNop | MadeMem 's1 | MadeRed RedisCache | MadeMulti 's1 RedisCache

definition newRedisLayer :: "gerr option \<Rightarrow> FactoryConfig \<Rightarrow> (gerr, RedisCache) result" where
  "newRedisLayer ping cfg =
     (if fc_HasClient cfg then NewRedisCacheFromClient False (fc_KeyPrefix cfg) (fc_DefaultTTL cfg)
      else NewRedisCache ping (fc_KeyPrefix cfg) (fc_DefaultTTL cfg))"

definition Factory_Create ::
  "('s1, 'v) ristretto \<Rightarrow> gerr option \<Rightarrow> FactoryConfig \<Rightarrow> (gerr, 's1 made_cache) result" where
  "Factory_Create api ping cfg =
     (if \<not> fc_Enabled cfg then Inr MadeNop
      else if fc_Driver cfg = ''memory'' then
        (case NewMemoryCache api of Inl err \<Rightarrow> Inl err | Inr s \<Rightarrow> Inr (MadeMem s))
      else if fc_Driver cfg = ''redis'' then
        (case newRedisLayer ping cfg of Inl err \<Rightarrow> Inl err | Inr c \<Rightarrow> Inr (MadeRed c))
      else if fc_Driver cfg = ''multi'' then
        (case NewMemoryCache api of
           Inl err \<Rightarrow> Inl err
         | Inr s \<Rightarrow> (case newRedisLayer ping cfg of Inl err \<Rightarrow> Inl err | Inr c \<Rightarrow> Inr (MadeMulti s c)))
      else Inl (Errorf (''unsupported cache driver: '' @ fc_Driver cfg) []))"

subsection \<open>Client calls\<close>

text \<open>A call of \<open>Get\<close>, \<open>Delete\<close> or \<open>Set\<close>, and what it does to the map of values last written.\<close>

type_synonym 'v cache_op = "string \<times> 'v option option"

definition cache_call :: "('s, 'v) Cache \<Rightarrow> 'v cache_op \<Rightarrow> 's \<Rightarrow> gerr option \<times> 's" where
  "cache_call C c s =
     (case c of (k, None) \<Rightarrow> (None, snd (c_Get C s k))
      | (k, Some None) \<Rightarrow> c_Delete C s k
      | (k, Some (Some v)) \<Rightarrow> c_Set C s k v 0)"

definition cache_spec :: "'v cache_op \<Rightarrow> (string \<Rightarrow> 'v option) \<Rightarrow> string \<Rightarrow> 'v option" where
  "cache_spec c m = (case c of (k, None) \<Rightarrow> m | (k, Some None) \<Rightarrow> m(k := None) | (k, Some (Some v)) \<Rightarrow> m(k \<mapsto> v))"

inductive cache_run :: "('s, 'v) Cache \<Rightarrow> 's \<Rightarrow> 'v cache_op list \<Rightarrow> 's \<Rightarrow> bool" for C :: "('s, 'v) Cache" where
  run_Nil: "cache_run C s [] s"
| run_Cons: "cache_call C c s = (None, s1) \<Longrightarrow> cache_run C s1 cs s2 \<Longrightarrow> cache_run C s (c # cs) s2"

subsection \<open>The contract of a cache\<close>

text \<open>\<open>view s k\<close> are the values that a hit on \<open>k\<close> may return in state \<open>s\<close>; \<open>rep v w\<close> says that a
  stored \<open>v\<close> may come back as \<open>w\<close> (JSON turns a struct into a map, for instance).\<close>

locale cache_contract =
  fixes C :: "('s, 'v) Cache"
    and view :: "'s \<Rightarrow> string \<Rightarrow> 'v set"
    and rep :: "'v \<Rightarrow> 'v \<Rightarrow> bool"
  assumes get_view: "c_Get C s k = (Inr w, s') \<Longrightarrow> w \<in> view s k"
    and get_state: "c_Get C s k = (r, s') \<Longrightarrow> w \<in> view s' k' \<Longrightarrow> \<exists>u \<in> view s k'. u = w \<or> rep u w"
    and set_view: "c_Set C s k v ttl = (None, s') \<Longrightarrow> w \<in> view s' k' \<Longrightarrow>
      (k' = k \<and> rep v w) \<or> (k' \<noteq> k \<and> w \<in> view s k')"
    and set_any: "c_Set C s k v ttl = (e, s') \<Longrightarrow> w \<in> view s' k' \<Longrightarrow> (k' = k \<and> rep v w) \<or> w \<in> view s k'"
    and delete_view: "c_Delete C s k = (None, s') \<Longrightarrow> w \<in> view s' k' \<Longrightarrow> k' \<noteq> k \<and> w \<in> view s k'"
    and rep_trans: "rep u v \<Longrightarrow> rep v w \<Longrightarrow> rep u w"
begin

definition sees :: "'s \<Rightarrow> (string \<Rightarrow> 'v option) \<Rightarrow> bool" where
  "sees s m \<longleftrightarrow> (\<forall>k. \<forall>w \<in> view s k. \<exists>v. m k = Some v \<and> rep v w)"

lemma call_refines:
  assumes "sees s m" "cache_call C c s = (None, s')"
  shows "sees s' (cache_spec c m)"
proof -
  obtain k a where c: "c = (k, a)" by (cases c)
  show ?thesis
  proof (cases a)
    case None
    obtain r where "c_Get C s k = (r, s')"
      using assms(2) c None by (cases "c_Get C s k") (simp add: cache_call_def)
    then show ?thesis
      using assms(1) c None unfolding sees_def cache_spec_def by simp (metis get_state rep_trans)
  next
    case (Some b)
    show ?thesis
    proof (cases b)
      case None
      then have "c_Delete C s k = (None, s')" using assms(2) c Some by (simp add: cache_call_def)
      then show ?thesis
        using assms(1) c Some None delete_view unfolding sees_def cache_spec_def by simp
    next
      case (Some v)
      then have "c_Set C s k v 0 = (None, s')" using assms(2) c \<open>a = Some b\<close> by (simp add: cache_call_def)
      then show ?thesis
        using assms(1) c Some \<open>a = Some b\<close> set_view unfolding sees_def cache_spec_def by simp metis
    qed
  qed
qed

lemma run_refines: "cache_run C s cs s' \<Longrightarrow> sees s m \<Longrightarrow> sees s' (fold cache_spec cs m)"
  by (induction arbitrary: m rule: cache_run.induct) (auto dest: call_refines)

lemma hit_is_last_write:
  assumes "cache_run C s cs s'" "sees s m" "c_Get C s' k = (Inr w, s'')"
  shows "\<exists>v. fold cache_spec cs m k = Some v \<and> rep v w"
  using run_refines [OF assms(1,2)] get_view [OF assms(3)] by (simp add: sees_def)

end

subsection \<open>The caches keep the contract\<close>

interpretation nop: cache_contract "nop_Cache :: ('s, 'v) Cache" "\<lambda>s k. {}" "(=)"
  by unfold_locales (auto simp: nop_Cache_def)

text \<open>What the memory cache relies on in Ristretto: a get after a set or a delete returns nothing else
  than what was there or was just set; a deleted key is gone.\<close>

definition ristretto_ok :: "('s, 'v) ristretto \<Rightarrow> bool" where
  "ristretto_ok api \<longleftrightarrow>
     (\<forall>s k v c ttl k' w. ris_Get api (ris_SetWithTTL api s k v c ttl) k' = Some w \<longrightarrow>
        (k' = k \<and> w = v) \<or> (k' \<noteq> k \<and> ris_Get api s k' = Some w)) \<and>
     (\<forall>s k k' w. ris_Get api (ris_Del api s k) k' = Some w \<longrightarrow> k' \<noteq> k \<and> ris_Get api s k' = Some w)"

lemma ristretto_ok_set:
  "ristretto_ok api \<Longrightarrow> ris_Get api (ris_SetWithTTL api s k v c ttl) k' = Some w \<Longrightarrow>
    k' = k \<and> v = w \<or> k' \<noteq> k \<and> ris_Get api s k' = Some w"
  unfolding ristretto_ok_def by metis

lemma ristretto_ok_del:
  "ristretto_ok api \<Longrightarrow> ris_Get api (ris_Del api s k) k' = Some w \<Longrightarrow> k' \<noteq> k \<and> ris_Get api s k' = Some w"
  unfolding ristretto_ok_def by metis

definition memory_view :: "('s, 'v) ristretto \<Rightarrow> 's \<Rightarrow> string \<Rightarrow> 'v set" where
  "memory_view api s k = set_option (ris_Get api s k)"

lemma memory_contract:
  assumes "ristretto_ok api"
  shows "cache_contract (memory_Cache api) (memory_view api) (=)"
proof
  fix s k r s' k' w v ttl e
  show "c_Get (memory_Cache api) s k = (Inr w, s') \<Longrightarrow> w \<in> memory_view api s k"
    by (auto simp: memory_Cache_def memory_view_def memory_Get_def split: if_splits option.splits)
  show "c_Get (memory_Cache api) s k = (r, s') \<Longrightarrow> w \<in> memory_view api s' k' \<Longrightarrow>
      \<exists>u \<in> memory_view api s k'. u = w \<or> u = w"
    by (auto simp: memory_Cache_def memory_view_def memory_Get_def split: if_splits option.splits)
  show "c_Set (memory_Cache api) s k v ttl = (None, s') \<Longrightarrow> w \<in> memory_view api s' k' \<Longrightarrow>
      k' = k \<and> v = w \<or> k' \<noteq> k \<and> w \<in> memory_view api s k'"
    using ristretto_ok_set [OF assms, of s k v 1 ttl k' w]
    by (auto simp: memory_Cache_def memory_view_def memory_Set_def elem_set split: if_splits)
  show "c_Set (memory_Cache api) s k v ttl = (e, s') \<Longrightarrow> w \<in> memory_view api s' k' \<Longrightarrow>
      k' = k \<and> v = w \<or> w \<in> memory_view api s k'"
    using ristretto_ok_set [OF assms, of s k v 1 ttl k' w]
    by (auto simp: memory_Cache_def memory_view_def memory_Set_def elem_set split: if_splits)
  show "c_Delete (memory_Cache api) s k = (None, s') \<Longrightarrow> w \<in> memory_view api s' k' \<Longrightarrow>
      k' \<noteq> k \<and> w \<in> memory_view api s k'"
    using ristretto_ok_del [OF assms, of s k k' w]
    by (auto simp: memory_Cache_def memory_view_def memory_Delete_def elem_set split: if_splits)
qed simp

text \<open>The same for Redis, and for the JSON pair: \<open>rep\<close> is the effect of one round trip.\<close>

definition redis_ok :: "'s redis_api \<Rightarrow> bool" where
  "redis_ok api \<longleftrightarrow>
     (\<forall>s k d ttl e s' k' w. rd_Set api s k d ttl = (e, s') \<and> rd_Get api s' k' = Inr w \<longrightarrow>
        (k' = k \<and> w = d) \<or> ((k' \<noteq> k \<or> e \<noteq> None) \<and> rd_Get api s k' = Inr w)) \<and>
     (\<forall>s k s' k' w. rd_Del api s [k] = (None, s') \<and> rd_Get api s' k' = Inr w \<longrightarrow> k' \<noteq> k \<and> rd_Get api s k' = Inr w)"

definition json_rep :: "'v json_api \<Rightarrow> 'v \<Rightarrow> 'v \<Rightarrow> bool" where
  "json_rep js v w \<longleftrightarrow> (\<exists>d. js_Marshal js v = Inr d \<and> js_Unmarshal js d = Inr w)"

definition json_stable :: "'v json_api \<Rightarrow> bool" where
  "json_stable js \<longleftrightarrow> (\<forall>u v w. json_rep js u v \<and> json_rep js v w \<longrightarrow> json_rep js u w)"

definition redis_view :: "'s redis_api \<Rightarrow> 'v json_api \<Rightarrow> RedisCache \<Rightarrow> 's \<Rightarrow> string \<Rightarrow> 'v set" where
  "redis_view api js c s k = {w. k \<noteq> '''' \<and> (\<exists>d. rd_Get api s (buildKey c k) = Inr d \<and> js_Unmarshal js d = Inr w)}"

lemma redis_ok_set:
  "redis_ok api \<Longrightarrow> rd_Set api s k d ttl = (e, s') \<Longrightarrow> rd_Get api s' k' = Inr w \<Longrightarrow>
    k' = k \<and> w = d \<or> (k' \<noteq> k \<or> e \<noteq> None) \<and> rd_Get api s k' = Inr w"
  unfolding redis_ok_def by metis

lemma redis_ok_del:
  "redis_ok api \<Longrightarrow> rd_Del api s [k] = (None, s') \<Longrightarrow> rd_Get api s' k' = Inr w \<Longrightarrow> k' \<noteq> k \<and> rd_Get api s k' = Inr w"
  unfolding redis_ok_def by metis

lemma redis_Set_cases:
  assumes "redis_Set api js c s k v ttl = (e, s')"
  obtains "s' = s" "e \<noteq> None"
  | d ttl' e' where "js_Marshal js v = Inr d" "rd_Set api s (buildKey c k) d ttl' = (e', s')" "e' = None \<longleftrightarrow> e = None"
  using assms by (auto simp: redis_Set_def Let_def split: if_splits sum.splits prod.splits option.splits)

lemma redis_Delete_None:
  "redis_Delete api c s k = (None, s') \<Longrightarrow> rd_Del api s [buildKey c k] = (None, s')"
  by (auto simp: redis_Delete_def split: if_splits prod.splits option.splits)

lemma buildKey_inj [simp]: "buildKey c k = buildKey c k' \<longleftrightarrow> k = k'"
  by (simp add: buildKey_def)

lemma redis_Set_view:
  assumes "redis_ok api" "redis_Set api js c s k v ttl = (e, s')" "w \<in> redis_view api js c s' k'"
  shows "k' = k \<and> json_rep js v w \<or> (k' \<noteq> k \<or> e \<noteq> None) \<and> w \<in> redis_view api js c s k'"
  using assms(2)
proof (cases rule: redis_Set_cases)
  case (2 d ttl' e')
  obtain x where x: "k' \<noteq> ''''" "rd_Get api s' (buildKey c k') = Inr x" "js_Unmarshal js x = Inr w"
    using assms(3) by (auto simp: redis_view_def)
  show ?thesis
    using redis_ok_set [OF assms(1) 2(2) x(2)] x 2(1,3) by (auto simp: redis_view_def json_rep_def)
qed (use assms(3) in simp)

lemma redis_contract:
  assumes "redis_ok api" "json_stable js"
  shows "cache_contract (redis_Cache api js c) (redis_view api js c) (json_rep js)"
proof
  fix s k r s' k' w v ttl e
  show "c_Get (redis_Cache api js c) s k = (Inr w, s') \<Longrightarrow> w \<in> redis_view api js c s k"
    by (auto simp: redis_Cache_def redis_Get_def redis_view_def split: if_splits sum.splits)
  show "c_Get (redis_Cache api js c) s k = (r, s') \<Longrightarrow> w \<in> redis_view api js c s' k' \<Longrightarrow>
      \<exists>u \<in> redis_view api js c s k'. u = w \<or> json_rep js u w"
    by (auto simp: redis_Cache_def redis_Get_def split: if_splits sum.splits)
  show "c_Set (redis_Cache api js c) s k v ttl = (None, s') \<Longrightarrow> w \<in> redis_view api js c s' k' \<Longrightarrow>
      k' = k \<and> json_rep js v w \<or> k' \<noteq> k \<and> w \<in> redis_view api js c s k'"
    using redis_Set_view [OF assms(1)] by (fastforce simp: redis_Cache_def)
  show "c_Set (redis_Cache api js c) s k v ttl = (e, s') \<Longrightarrow> w \<in> redis_view api js c s' k' \<Longrightarrow>
      k' = k \<and> json_rep js v w \<or> w \<in> redis_view api js c s k'"
    using redis_Set_view [OF assms(1)] by (fastforce simp: redis_Cache_def)
  show "c_Delete (redis_Cache api js c) s k = (None, s') \<Longrightarrow> w \<in> redis_view api js c s' k' \<Longrightarrow>
      k' \<noteq> k \<and> w \<in> redis_view api js c s k'"
    using redis_ok_del [OF assms(1)]
    by (fastforce simp: redis_Cache_def redis_view_def dest!: redis_Delete_None)
  show "json_rep js u v \<Longrightarrow> json_rep js v w \<Longrightarrow> json_rep js u w" for u
    using assms(2) unfolding json_stable_def by blast
qed

text \<open>The two-level cache, when warm-ups run at once, over a first level that gives values back
  unchanged.\<close>

definition multi_view ::
  "('s1 \<Rightarrow> string \<Rightarrow> 'v set) \<Rightarrow> ('s2 \<Rightarrow> string \<Rightarrow> 'v set) \<Rightarrow> 's1 \<times> 's2 \<Rightarrow> string \<Rightarrow> 'v set" where
  "multi_view v1 v2 p k = v1 (fst p) k \<union> v2 (snd p) k"

definition multi_rep :: "('v \<Rightarrow> 'v \<Rightarrow> bool) \<Rightarrow> 'v \<Rightarrow> 'v \<Rightarrow> bool" where
  "multi_rep rep v w \<longleftrightarrow> v = w \<or> rep v w"

text \<open>The three ways a \<open>Get\<close> can go: a hit in the first level, a miss in both, or a hit in the second
  level that is copied to the first.\<close>

lemma multi_Get_cases:
  assumes "c_Get (multi_Cache c1 c2) (s1, s2) k = (r, p')"
  obtains v s1' where "c_Get c1 s1 k = (Inr v, s1')" "r = Inr v" "p' = (s1', s2)"
  | e s1' e2 s2' where "c_Get c1 s1 k = (Inl e, s1')" "c_Get c2 s2 k = (Inl e2, s2')" "r = Inl e2" "p' = (s1', s2')"
  | e s1' v s2' where "c_Get c1 s1 k = (Inl e, s1')" "c_Get c2 s2 k = (Inr v, s2')" "r = Inr v"
      "p' = (snd (c_Set c1 s1' k v (300 * 1000000000)), s2')"
  using assms
  by (auto simp: multi_Cache_def multi_Get_def multi_at_def multi_levels_def split: prod.splits sum.splits)

lemma multi_contract:
  fixes c1 :: "('s1, 'v) Cache" and c2 :: "('s2, 'v) Cache"
  assumes c1: "cache_contract c1 v1 (=)" and c2: "cache_contract c2 v2 rep"
  shows "cache_contract (multi_Cache c1 c2) (multi_view v1 v2) (multi_rep rep)"
proof
  fix p :: "'s1 \<times> 's2" and k w p' r k'
  obtain s1 s2 where p: "p = (s1, s2)" by (cases p)
  show "w \<in> multi_view v1 v2 p k" if "c_Get (multi_Cache c1 c2) p k = (Inr w, p')"
    using that [unfolded p]
  proof (cases rule: multi_Get_cases)
    case 1
    then show ?thesis using cache_contract.get_view [OF c1] by (auto simp: multi_view_def p)
  next
    case 3
    then show ?thesis using cache_contract.get_view [OF c2] by (auto simp: multi_view_def p)
  qed simp
  show "\<exists>u \<in> multi_view v1 v2 p k'. u = w \<or> multi_rep rep u w"
    if get: "c_Get (multi_Cache c1 c2) p k = (r, p')" and w: "w \<in> multi_view v1 v2 p' k'"
    using get [unfolded p]
  proof (cases rule: multi_Get_cases)
    case 1
    then show ?thesis
      using w cache_contract.get_state [OF c1 1(1)] by (fastforce simp: multi_view_def p)
  next
    case 2
    then show ?thesis
      using w cache_contract.get_state [OF c1 2(1)] cache_contract.get_state [OF c2 2(2)]
      by (fastforce simp: multi_view_def multi_rep_def p)
  next
    case (3 e s1' v s2')
    obtain e1 s1'' where set: "c_Set c1 s1' k v (300 * 1000000000) = (e1, s1'')" by fastforce
    have "v \<in> v2 s2 k" using cache_contract.get_view [OF c2 3(2)] .
    moreover have "(k' = k \<and> v = w) \<or> w \<in> v1 s1' k'" if "w \<in> v1 s1'' k'"
      using cache_contract.set_any [OF c1 set that] .
    ultimately show ?thesis
      using w 3(4) set cache_contract.get_state [OF c1 3(1)] cache_contract.get_state [OF c2 3(2)]
      by (fastforce simp: multi_view_def multi_rep_def p)
  qed
next
  fix p :: "'s1 \<times> 's2" and k v ttl e p' w k'
  obtain s1 s2 where p: "p = (s1, s2)" by (cases p)
  obtain e1 s1' e2 s2' where s: "c_Set c1 s1 k v ttl = (e1, s1')" "c_Set c2 s2 k v ttl = (e2, s2')" by fastforce
  have m: "c_Set (multi_Cache c1 c2) p k v ttl = (errors_join [e1, e2], (s1', s2'))"
    by (simp add: multi_Cache_def multi_Set_def multi_at_def multi_levels_def p s)
  show "k' = k \<and> multi_rep rep v w \<or> k' \<noteq> k \<and> w \<in> multi_view v1 v2 p k'"
    if "c_Set (multi_Cache c1 c2) p k v ttl = (None, p')" "w \<in> multi_view v1 v2 p' k'"
  proof -
    have "e1 = None" "e2 = None" using that(1) m errors_join_None [of "[e1, e2]"] by auto
    then show ?thesis
      using that m s cache_contract.set_view [OF c1, of s1 k v ttl s1' w k']
        cache_contract.set_view [OF c2, of s2 k v ttl s2' w k'] p
      by (auto simp: multi_view_def multi_rep_def)
  qed
  show "k' = k \<and> multi_rep rep v w \<or> w \<in> multi_view v1 v2 p k'"
    if "c_Set (multi_Cache c1 c2) p k v ttl = (e, p')" "w \<in> multi_view v1 v2 p' k'"
    using that m cache_contract.set_any [OF c1 s(1), of w k'] cache_contract.set_any [OF c2 s(2), of w k'] p
    by (auto simp: multi_view_def multi_rep_def)
next
  fix p :: "'s1 \<times> 's2" and k p' w k'
  obtain s1 s2 where p: "p = (s1, s2)" by (cases p)
  obtain e1 s1' e2 s2' where s: "c_Delete c1 s1 k = (e1, s1')" "c_Delete c2 s2 k = (e2, s2')" by fastforce
  assume d: "c_Delete (multi_Cache c1 c2) p k = (None, p')" and w: "w \<in> multi_view v1 v2 p' k'"
  have "e1 = None" "e2 = None" "p' = (s1', s2')"
    using d errors_join_None [of "[e1, e2]"]
    by (auto simp: multi_Cache_def multi_Delete_def multi_at_def multi_levels_def p s)
  then show "k' \<noteq> k \<and> w \<in> multi_view v1 v2 p k'"
    using w s cache_contract.delete_view [OF c1, of s1 k s1' w k'] cache_contract.delete_view [OF c2, of s2 k s2' w k'] p
    by (auto simp: multi_view_def)
next
  show "multi_rep rep u v \<Longrightarrow> multi_rep rep v w \<Longrightarrow> multi_rep rep u w" for u v w
    using cache_contract.rep_trans [OF c2] by (auto simp: multi_rep_def)
qed

subsection \<open>Reference backends\<close>

text \<open>A store that never loses an entry, as the in-process store and as the Redis server, and strings
  as JSON values.\<close>

definition ref_ristretto :: "(string \<Rightarrow> 'v option, 'v) ristretto" where
  "ref_ristretto =
     \<lparr>ris_Get = (\<lambda>s k. s k), ris_SetWithTTL = (\<lambda>s k v cost ttl. s(k := Some v)), ris_Del = (\<lambda>s k. s(k := None)),
      ris_New = Inr (\<lambda>_. None)\<rparr>"

definition ref_redis :: "(string \<Rightarrow> string option) redis_api" where
  "ref_redis =
     \<lparr>rd_Get = (\<lambda>s k. case s k of None \<Rightarrow> Inl redis_Nil | Some d \<Rightarrow> Inr d),
      rd_Set = (\<lambda>s k d ttl. (None, s(k := Some d))),
      rd_Del = (\<lambda>s ks. (None, \<lambda>k. if k \<in> set ks then None else s k)),
      rd_Exists = (\<lambda>s k. Inr (if s k = None then 0 else 1)),
      rd_Scan = (\<lambda>s cursor pat. Inr ([], 0))\<rparr>"

definition ref_json :: "string json_api" where
  "ref_json = \<lparr>js_Marshal = (\<lambda>v. Inr v), js_Unmarshal = (\<lambda>d. Inr d)\<rparr>"

lemma ref_ok [simp]: "ristretto_ok ref_ristretto" "redis_ok ref_redis" "json_stable ref_json"
  by (auto simp: ristretto_ok_def ref_ristretto_def redis_ok_def ref_redis_def json_stable_def json_rep_def ref_json_def
      split: if_splits option.splits)

interpretation mem: cache_contract "memory_Cache ref_ristretto" "memory_view ref_ristretto" "(=)"
  by (rule memory_contract) simp

interpretation red: cache_contract "redis_Cache ref_redis ref_json c" "redis_view ref_redis ref_json c" "json_rep ref_json"
  for c by (rule redis_contract) simp_all

interpretation multi: cache_contract "multi_Cache (memory_Cache ref_ristretto) (redis_Cache ref_redis ref_json c)"
    "multi_view (memory_view ref_ristretto) (redis_view ref_redis ref_json c)" "multi_rep (json_rep ref_json)"
  for c by (rule multi_contract [OF memory_contract redis_contract]) simp_all

subsection \<open>Properties\<close>


definition demo_cache :: "((string \<Rightarrow> string option) \<times> (string \<Rightarrow> string option), string) Cache" where
  "demo_cache = multi_Cache (memory_Cache ref_ristretto) (redis_Cache ref_redis ref_json (newRedisCache '''' 0 False))"

lemmas demo_cache_defs = demo_cache_def multi_Cache_def multi_Get_def multi_Set_def multi_Delete_def multi_at_def
  multi_levels_def memory_Cache_def memory_Get_def memory_Set_def memory_Delete_def redis_Cache_def redis_Get_def
  redis_Set_def redis_Delete_def ref_ristretto_def ref_redis_def ref_json_def newRedisCache_def buildKey_def
  errors_join_def map_filter_simps cache_call_def redis_Nil_def


text \<open>When a warm-up does not run at once the guarantee is lost: a \<open>Get\<close> that hits the second level
  starts a warm-up, a \<open>Delete\<close> of the key removes it from both levels, the warm-up then writes the
  deleted value into the first level, and the next \<open>Get\<close> returns it.\<close>

lemma multi_warmup_resurrects:
  "let c1 = memory_Cache ref_ristretto; c2 = redis_Cache ref_redis ref_json (newRedisCache '''' 0 False);
       m0 = \<lparr>m_l1 = (\<lambda>_. None), m_l2 = (\<lambda>_. None)(''app:k'' := Some ''v''), m_warm = []\<rparr>;
       (r1, m1) = multi_Get c1 c2 m0 ''k'';
       (e, m2) = multi_Delete c1 c2 m1 ''k'';
       m3 = multi_warmup c1 m2
   in r1 = Inr ''v'' \<and> e = None \<and> fst (multi_Get c1 c2 m2 ''k'') = Inl ErrCacheMiss \<and>
      fst (multi_Get c1 c2 m3 ''k'') = Inr ''v''"
  by (simp add: demo_cache_defs Let_def)

text \<open>Generated keys can be taken apart again: for a prefix and parts without a colon, splitting
  the key at colons gives them back, so that different prefixes or parts have different keys.\<close>

lemma cache_key_roundtrip:
  assumes "CHR '':'' \<notin> set pre" "\<forall>p \<in> set parts. CHR '':'' \<notin> set p"
  shows "splitc (CHR '':'') (Generate pre parts) = pre # parts"
proof -
  have "pre @ concat (map (\<lambda>p. CHR '':'' # p) ps) = join [CHR '':''] (pre # ps)" for pre ps
    by (induction ps arbitrary: pre) (simp_all add: join_Cons_head)
  then have "Generate pre parts = join [CHR '':''] (pre # parts)" by (auto simp: Generate_def)
  then show ?thesis using splitc_join [of "pre # parts" "CHR '':''"] assms by auto
qed

lemma cache_key_roundtrip_example:
  "splitc (CHR '':'') (Generate ''user'' [''123'', ''profile'']) = [''user'', ''123'', ''profile'']"
  by (rule cache_key_roundtrip) simp_all

text \<open>\<open>Clear\<close> of the Redis cache returns whenever the cursors of the server decrease in some measure.\<close>

lemma redis_Clear_returns:
  assumes "\<And>s c keys n. rd_Scan api s c (rc_prefix rc @ ''*'') = Inr (keys, n) \<Longrightarrow> n = 0 \<or> rank n < (rank c :: nat)"
  shows "redis_Clear (Suc (rank c)) api rc c s \<noteq> None"
proof -
  have "rank c < fuel \<Longrightarrow> redis_Clear fuel api rc c s \<noteq> None" for fuel
  proof (induction fuel arbitrary: c s)
    case (Suc fuel)
    then show ?case
      using assms [of s c] by (auto split: sum.splits prod.splits option.splits dest!: assms)
  qed simp
  then show ?thesis by blast
qed

end
