(* ===== verification/Captcha.thy ===== *)
theory Captcha
  imports Cache
begin

section \<open>Captchas\<close>

text \<open>
  \<^verbatim>\<open>pkg/captcha\<close>. The image captcha keeps the answers in a \<open>base64Captcha.Store\<close>; \<open>cacheStore\<close>
  adapts a cache to it. An \<open>any\<close> of the cache is a string, nil or something else. Drawing the image
  and choosing identifier and answer is done by the third-party library, a parameter of \<open>Generate\<close>.
\<close>

datatype 'o any_val = AStr string | ANil | AOther 'o

definition ErrNotFound :: gerr where "ErrNotFound = Sentinel ''captcha: not found or expired''"
definition ErrNotMatched :: gerr where "ErrNotMatched = Sentinel ''captcha: answer not matched''"

definition defaultExpireTTL :: int where "defaultExpireTTL = 300 * 1000000000"

subsection \<open>Options\<close>

record 'st captcha_Options =
  co_Store :: "'st option"
  co_Length :: int
  co_Width :: int
  co_Height :: int
  co_NoiseCount :: int
  co_ExpireTTL :: int

definition WithStore :: "'st option \<Rightarrow> 'st captcha_Options \<Rightarrow> 'st captcha_Options" where
  "WithStore st q = q\<lparr>co_Store := st\<rparr>"

definition WithLength :: "int \<Rightarrow> 'st captcha_Options \<Rightarrow> 'st captcha_Options" where
  "WithLength n q = q\<lparr>co_Length := n\<rparr>"

definition WithSize :: "int \<Rightarrow> int \<Rightarrow> 'st captcha_Options \<Rightarrow> 'st captcha_Options" where
  "WithSize w h q = q\<lparr>co_Width := w, co_Height := h\<rparr>"

definition WithNoiseCount :: "int \<Rightarrow> 'st captcha_Options \<Rightarrow> 'st captcha_Options" where
  "WithNoiseCount n q = q\<lparr>co_NoiseCount := n\<rparr>"

definition WithExpireTTL :: "int \<Rightarrow> 'st captcha_Options \<Rightarrow> 'st captcha_Options" where
  "WithExpireTTL ttl q = q\<lparr>co_ExpireTTL := ttl\<rparr>"

definition captcha_applyOptions :: "('st captcha_Options \<Rightarrow> 'st captcha_Options) list \<Rightarrow> 'st captcha_Options" where
  "captcha_applyOptions opts =
     (let q = fold (\<lambda>opt q. opt q) opts
                \<lparr>co_Store = None, co_Length = 4, co_Width = 120, co_Height = 32, co_NoiseCount = 6,
                 co_ExpireTTL = defaultExpireTTL\<rparr>;
          q = (if co_Length q \<le> 0 then q\<lparr>co_Length := 4\<rparr> else q);
          q = (if co_Width q \<le> 0 then q\<lparr>co_Width := 120\<rparr> else q);
          q = (if co_Height q \<le> 0 then q\<lparr>co_Height := 32\<rparr> else q);
          q = (if co_NoiseCount q < 0 then q\<lparr>co_NoiseCount := 6\<rparr> else q)
      in if co_ExpireTTL q \<le> 0 then q\<lparr>co_ExpireTTL := defaultExpireTTL\<rparr> else q)"

lemma captcha_applyOptions_valid:
  "0 < co_Length (captcha_applyOptions opts) \<and> 0 < co_Width (captcha_applyOptions opts) \<and>
   0 < co_Height (captcha_applyOptions opts) \<and> 0 \<le> co_NoiseCount (captcha_applyOptions opts) \<and>
   0 < co_ExpireTTL (captcha_applyOptions opts)"
  by (simp add: captcha_applyOptions_def Let_def defaultExpireTTL_def)

subsection \<open>The store over a cache\<close>

definition NewCacheStore :: "int \<Rightarrow> int" where
  "NewCacheStore ttl = (if ttl \<le> 0 then defaultExpireTTL else ttl)"

definition store_key :: "string \<Rightarrow> string" where
  "store_key i = ''captcha:'' @ i"

definition store_Set ::
  "('s, 'o any_val) Cache \<Rightarrow> int \<Rightarrow> 's \<Rightarrow> string \<Rightarrow> string \<Rightarrow> gerr option \<times> 's" where
  "store_Set C ttl s i v =
     (if i = '''' then (None, s)
      else case c_Set C s (store_key i) (AStr v) ttl of
        (Some err, s') \<Rightarrow> (Some (wrapl ''captcha: cache store set'' err), s')
      | (None, s') \<Rightarrow> (None, s'))"

definition store_Get :: "('s, 'o any_val) Cache \<Rightarrow> 's \<Rightarrow> string \<Rightarrow> bool \<Rightarrow> string \<times> 's" where
  "store_Get C s i clear =
     (if i = '''' then ('''', s)
      else case c_Get C s (store_key i) of
        (Inr (AStr ans), s') \<Rightarrow> (ans, if clear then snd (c_Delete C s' (store_key i)) else s')
      | (_, s') \<Rightarrow> ('''', s'))"

definition stringsEqualFoldTrim :: "string \<Rightarrow> string \<Rightarrow> bool" where
  "stringsEqualFoldTrim a b = equal_fold (trim_space a) (trim_space b)"

definition store_Verify :: "('s, 'o any_val) Cache \<Rightarrow> 's \<Rightarrow> string \<Rightarrow> string \<Rightarrow> bool \<Rightarrow> bool \<times> 's" where
  "store_Verify C s i answer clear =
     (case store_Get C s i clear of (vv, s') \<Rightarrow> (equal_fold (trim_space vv) (trim_space answer), s'))"

subsection \<open>The captcha\<close>

record Image =
  im_ID :: string
  im_Content :: string
  im_ExpiresIn :: int

text \<open>\<open>generated\<close> is the answer of the library, which stores the solution itself.\<close>

definition captcha_Generate :: "int \<Rightarrow> (gerr, string \<times> string) result \<Rightarrow> (gerr, Image) result" where
  "captcha_Generate expireTTL generated =
     (case generated of
        Inl err \<Rightarrow> Inl (wrapl ''captcha: generate'' err)
      | Inr (i, b64s) \<Rightarrow> Inr \<lparr>im_ID = i, im_Content = b64s, im_ExpiresIn = go_div expireTTL 1000000000\<rparr>)"

definition captcha_Verify :: "('s, 'o any_val) Cache \<Rightarrow> 's \<Rightarrow> string \<Rightarrow> string \<Rightarrow> gerr option \<times> 's" where
  "captcha_Verify C s i answer =
     (case store_Get C s i False of
        (stored, s1) \<Rightarrow>
          if stored = '''' then (Some ErrNotFound, s1)
          else if \<not> stringsEqualFoldTrim stored answer
            then (Some ErrNotMatched, snd (store_Get C s1 i True))
          else (None, snd (store_Get C s1 i True)))"

subsection \<open>Lemmas\<close>

lemma store_Get_answer:
  assumes "store_Get C s i clear = (a, s')" "a \<noteq> ''''"
  obtains s1 where "c_Get C s (store_key i) = (Inr (AStr a), s1)" "i \<noteq> ''''"
    "s' = (if clear then snd (c_Delete C s1 (store_key i)) else s1)"
  using assms by (auto simp: store_Get_def split: if_splits prod.splits sum.splits any_val.splits)

text \<open>What a \<open>Get\<close> returns in a state.\<close>

definition cache_hits :: "('s, 'v) Cache \<Rightarrow> 's \<Rightarrow> string \<Rightarrow> 'v set" where
  "cache_hits C s k = {v. fst (c_Get C s k) = Inr v}"

text \<open>The stored answer of a captcha: empty when there is none.\<close>

definition stored_answer :: "('s, 'o any_val) Cache \<Rightarrow> 's \<Rightarrow> string \<Rightarrow> string" where
  "stored_answer C s i = fst (store_Get C s i False)"

lemma stored_answer_iff:
  assumes "a \<noteq> ''''"
  shows "stored_answer C s i = a \<longleftrightarrow> i \<noteq> '''' \<and> AStr a \<in> cache_hits C s (store_key i)"
  using assms
  by (auto simp: stored_answer_def cache_hits_def store_Get_def split: prod.splits sum.splits any_val.splits)

lemma stored_answer_mono:
  assumes "\<And>w. w \<in> cache_hits C s' (store_key i) \<Longrightarrow> w \<in> cache_hits C s (store_key i)" "stored_answer C s i = ''''"
  shows "stored_answer C s' i = ''''"
  using assms stored_answer_iff [of "stored_answer C s' i" C s' i] stored_answer_iff [of "stored_answer C s' i" C s i]
  by metis

lemma get_hits_mono:
  assumes "cache_contract C (cache_hits C) (=)" "c_Get C s k = (r, s')" "w \<in> cache_hits C s' k'"
  shows "w \<in> cache_hits C s k'"
  using cache_contract.get_state [OF assms] by auto

lemma store_Get_mono:
  assumes con: "cache_contract C (cache_hits C) (=)" and del: "\<forall>s. fst (c_Delete C s (store_key i)) = None"
  shows "w \<in> cache_hits C (snd (store_Get C s i clear)) k' \<Longrightarrow> w \<in> cache_hits C s k'"
proof -
  obtain r s1 where g: "c_Get C s (store_key i) = (r, s1)" by force
  have d: "c_Delete C s1 (store_key i) = (None, snd (c_Delete C s1 (store_key i)))"
    using del by (simp add: prod_eq_iff)
  show "w \<in> cache_hits C (snd (store_Get C s i clear)) k' \<Longrightarrow> w \<in> cache_hits C s k'"
    using get_hits_mono [OF con g, of w k'] cache_contract.delete_view [OF con d, of w k']
    by (auto simp: store_Get_def g split: if_splits sum.splits any_val.splits)
qed

lemma store_Get_cleared:
  assumes con: "cache_contract C (cache_hits C) (=)" and del: "\<forall>s. fst (c_Delete C s (store_key i)) = None"
  shows "stored_answer C (snd (store_Get C s i True)) i = ''''"
proof (cases "stored_answer C s i = ''''")
  case True
  then show ?thesis using store_Get_mono [OF con del] by (rule stored_answer_mono [rotated])
next
  case False
  then obtain a s1 where g: "c_Get C s (store_key i) = (Inr (AStr a), s1)" and i: "i \<noteq> ''''"
    by (auto simp: stored_answer_def store_Get_def split: prod.splits sum.splits any_val.splits if_splits)
  have d: "c_Delete C s1 (store_key i) = (None, snd (c_Delete C s1 (store_key i)))"
    using del by (simp add: prod_eq_iff)
  then have "cache_hits C (snd (store_Get C s i True)) (store_key i) = {}"
    using cache_contract.delete_view [OF con d] by (auto simp: store_Get_def g i)
  then show ?thesis
    using stored_answer_iff [of "stored_answer C (snd (store_Get C s i True)) i" C] by blast
qed

lemma captcha_Verify_fst:
  "fst (captcha_Verify C s i answer) =
     (if stored_answer C s i = '''' then Some ErrNotFound
      else if stringsEqualFoldTrim (stored_answer C s i) answer then None else Some ErrNotMatched)"
  by (simp add: captcha_Verify_def stored_answer_def split_beta)

lemma captcha_Verify_consumes:
  assumes con: "cache_contract C (cache_hits C) (=)" and del: "\<forall>s. fst (c_Delete C s (store_key i)) = None"
  shows "stored_answer C (snd (captcha_Verify C s i answer)) i = ''''"
proof (cases "stored_answer C s i = ''''")
  case True
  then have "stored_answer C (snd (store_Get C s i False)) i = ''''"
    using store_Get_mono [OF con del] by (rule stored_answer_mono [rotated])
  then show ?thesis using True by (simp add: captcha_Verify_def stored_answer_def split_beta)
next
  case False
  then have "snd (captcha_Verify C s i answer) = snd (store_Get C (snd (store_Get C s i False)) i True)"
    by (simp add: captcha_Verify_def stored_answer_def split_beta)
  then show ?thesis using store_Get_cleared [OF con del] by simp
qed

subsection \<open>Properties\<close>


definition demo_store :: "(string \<Rightarrow> unit any_val option, unit any_val) Cache" where
  "demo_store = memory_Cache ref_ristretto"

lemma demo_store_contract: "cache_contract demo_store (cache_hits demo_store) (=)"
proof -
  have "cache_hits demo_store = (\<lambda>s k. if k = '''' then {} else set_option (s k))"
    by (intro ext) (auto simp: cache_hits_def demo_store_def memory_Cache_def memory_Get_def ref_ristretto_def
        split: option.splits)
  then show ?thesis
    by unfold_locales
      (auto simp: demo_store_def memory_Cache_def memory_Get_def memory_Set_def memory_Delete_def ref_ristretto_def
        split: if_splits option.splits)
qed


text \<open>When the backend refuses the deletion, the error is dropped and the captcha stays valid: the
  same answer is accepted again.\<close>

lemma captcha_replay_when_delete_fails:
  "let C = demo_store\<lparr>c_Delete := (\<lambda>s k. (Some (Sentinel ''i/o timeout''), s))\<rparr>;
       s = snd (store_Set C 1 (\<lambda>_. None) ''id'' ''abcd'')
   in fst (captcha_Verify C s ''id'' ''abcd'') = None \<and>
      fst (captcha_Verify C (snd (captcha_Verify C s ''id'' ''abcd'')) ''id'' ''abcd'') = None"
  by (simp add: Let_def captcha_Verify_def store_Get_def store_Set_def store_key_def demo_store_def memory_Cache_def
      memory_Get_def memory_Set_def ref_ristretto_def stringsEqualFoldTrim_def)

end
