(* ===== verification/Protocol.thy ===== *)
theory Protocol
  imports Go_Errors "HOL-Library.Word"
begin

section \<open>The binary protocol\<close>

text \<open>
  \<^verbatim>\<open>internal/protocol\<close>: the 20-byte header in big-endian order, the CRC-32 of the payload, encoding
  and decoding. Bytes are \<open>8 word\<close>, the header fields are words of their width, and the conversion
  \<open>uint32(len(payload))\<close> truncates as in the source. The payload codecs (JSON, Gob) belong to the
  standard library and are the record \<open>Codec\<close> with the law of a round trip as a hypothesis.
\<close>

unbundle bit_operations_syntax

type_synonym bytes = "8 word list"

definition MagicNumber :: "32 word" where "MagicNumber = 0x54435053"
definition ProtocolHeaderSize :: nat where "ProtocolHeaderSize = 20"
definition ProtocolVersion :: "8 word" where "ProtocolVersion = 1"
definition CodecTypeJSON :: "8 word" where "CodecTypeJSON = 0"
definition CodecTypeBinary :: "8 word" where "CodecTypeBinary = 1"

definition ErrInvalidMagicNumber :: gerr where "ErrInvalidMagicNumber = Sentinel ''invalid magic number''"
definition ErrInvalidChecksum :: gerr where "ErrInvalidChecksum = Sentinel ''invalid checksum''"
definition ErrInvalidMessageSize :: gerr where "ErrInvalidMessageSize = Sentinel ''invalid message size''"

record ProtocolHeader =
  h_Magic :: "32 word"
  h_Version :: "8 word"
  h_Type :: "8 word"
  h_MessageID :: "32 word"
  h_Codec :: "8 word"
  h_Reserved :: "8 word"
  h_DataLength :: "32 word"
  h_Checksum :: "32 word"

record 'v Codec =
  cd_Encode :: "'v \<Rightarrow> (gerr, bytes) result"
  cd_Decode :: "bytes \<Rightarrow> (gerr, 'v) result"
  cd_isBinary :: bool

record 'v CustomProtocol =
  p_codec :: "'v Codec"
  p_codecType :: "8 word"

definition NewCustomProtocol :: "'v Codec \<Rightarrow> 'v CustomProtocol" where
  "NewCustomProtocol codec =
     \<lparr>p_codec = codec, p_codecType = (if cd_isBinary codec then CodecTypeBinary else CodecTypeJSON)\<rparr>"

subsection \<open>CRC-32 (IEEE)\<close>

definition crc_bit :: "32 word \<Rightarrow> 32 word" where
  "crc_bit c = (if bit c 0 then drop_bit 1 c XOR 0xEDB88320 else drop_bit 1 c)"

definition crc_byte :: "32 word \<Rightarrow> 8 word \<Rightarrow> 32 word" where
  "crc_byte c b = (crc_bit ^^ 8) (c XOR ucast b)"

definition ChecksumIEEE :: "bytes \<Rightarrow> 32 word" where
  "ChecksumIEEE bs = NOT (foldl crc_byte (NOT 0) bs)"

subsection \<open>Big-endian words\<close>

definition be32 :: "32 word \<Rightarrow> bytes" where
  "be32 w = [ucast (drop_bit 24 w), ucast (drop_bit 16 w), ucast (drop_bit 8 w), ucast w]"

definition rd32 :: "8 word \<Rightarrow> 8 word \<Rightarrow> 8 word \<Rightarrow> 8 word \<Rightarrow> 32 word" where
  "rd32 a b c d = push_bit 24 (ucast a) OR push_bit 16 (ucast b) OR push_bit 8 (ucast c) OR ucast d"

lemma byte_bit_high: "8 \<le> n \<Longrightarrow> \<not> bit (b :: 8 word) n"
  using bit_imp_le_length [of b n] by auto

lemma bit_rd32:
  assumes "n < 32"
  shows "bit (rd32 a b c d) n \<longleftrightarrow>
    (if n < 8 then bit d n else if n < 16 then bit c (n - 8) else if n < 24 then bit b (n - 16) else bit a (n - 24))"
  using assms byte_bit_high [of "n - 8" c] byte_bit_high [of "n - 16" b] byte_bit_high [of n d]
  by (simp add: rd32_def bit_or_iff bit_push_bit_iff bit_ucast_iff) linarith

lemma rd32_be32:
  "rd32 (ucast (drop_bit 24 w)) (ucast (drop_bit 16 w)) (ucast (drop_bit 8 w)) (ucast (w :: 32 word)) = w"
  by (rule bit_word_eqI) (simp add: bit_rd32 bit_ucast_iff bit_drop_bit_eq, auto)

lemma be32_rd32: "be32 (rd32 a b c d) = [a, b, c, d]"
  unfolding be32_def
  by (simp; intro conjI; rule bit_word_eqI; simp add: bit_ucast_iff bit_drop_bit_eq bit_rd32)

subsection \<open>Encoding and decoding\<close>

definition header_bytes :: "ProtocolHeader \<Rightarrow> bytes" where
  "header_bytes h =
     be32 (h_Magic h) @ [h_Version h, h_Type h] @ be32 (h_MessageID h) @ [h_Codec h, h_Reserved h] @
     be32 (h_DataLength h) @ be32 (h_Checksum h)"

definition Encode :: "'v CustomProtocol \<Rightarrow> 8 word \<Rightarrow> 32 word \<Rightarrow> 'v \<Rightarrow> (gerr, bytes) result" where
  "Encode p msgType messageID v =
     (case cd_Encode (p_codec p) v of
        Inl err \<Rightarrow> Inl err
      | Inr payload \<Rightarrow>
          (let header = \<lparr>h_Magic = MagicNumber, h_Version = ProtocolVersion, h_Type = msgType,
                         h_MessageID = messageID, h_Codec = p_codecType p, h_Reserved = 0,
                         h_DataLength = of_nat (length payload), h_Checksum = ChecksumIEEE payload\<rparr>
           in Inr (header_bytes header @ payload)))"

text \<open>Reading the header fields from the front; the length was checked before, so no read fails.\<close>

definition read_header :: "bytes \<Rightarrow> ProtocolHeader" where
  "read_header d =
     \<lparr>h_Magic = rd32 (d ! 0) (d ! 1) (d ! 2) (d ! 3), h_Version = d ! 4, h_Type = d ! 5,
      h_MessageID = rd32 (d ! 6) (d ! 7) (d ! 8) (d ! 9), h_Codec = d ! 10, h_Reserved = d ! 11,
      h_DataLength = rd32 (d ! 12) (d ! 13) (d ! 14) (d ! 15),
      h_Checksum = rd32 (d ! 16) (d ! 17) (d ! 18) (d ! 19)\<rparr>"

definition show_byte :: "8 word \<Rightarrow> string" where
  "show_byte b = show_nat (unat b)"

definition Decode :: "'v CustomProtocol \<Rightarrow> bytes \<Rightarrow> (gerr, 'v) result" where
  "Decode p data =
     (if length data < ProtocolHeaderSize then Inl ErrInvalidMessageSize
      else let header = read_header data; payload = drop ProtocolHeaderSize data
        in if h_Magic header \<noteq> MagicNumber then Inl ErrInvalidMagicNumber
           else if h_Version header \<noteq> ProtocolVersion
             then Inl (Errorf (''unsupported protocol version: '' @ show_byte (h_Version header) @ '', expected ''
                               @ show_byte ProtocolVersion) [])
           else if h_Codec header \<noteq> p_codecType p
             then Inl (Errorf (''codec type mismatch: expected '' @ show_byte (p_codecType p) @ '', got ''
                               @ show_byte (h_Codec header)) [])
           else if of_nat (length data - ProtocolHeaderSize) \<noteq> h_DataLength header then Inl ErrInvalidMessageSize
           else if ChecksumIEEE payload \<noteq> h_Checksum header then Inl ErrInvalidChecksum
           else cd_Decode (p_codec p) payload)"

definition ParseHeader :: "bytes \<Rightarrow> (gerr, ProtocolHeader) result" where
  "ParseHeader data =
     (if length data < ProtocolHeaderSize then Inl ErrInvalidMessageSize
      else let header = read_header data
        in if h_Magic header \<noteq> MagicNumber then Inl ErrInvalidMagicNumber else Inr header)"

subsection \<open>Lemmas\<close>

lemma header_bytes_length [simp]: "length (header_bytes h) = 20"
  by (simp add: header_bytes_def be32_def)

lemma read_header_bytes: "read_header (header_bytes h @ payload) = h"
  by (simp add: read_header_def header_bytes_def be32_def rd32_be32)

lemma header_bytes_read:
  assumes "20 \<le> length d"
  shows "header_bytes (read_header d) = take 20 d"
proof -
  obtain d0 d1 d2 d3 d4 d5 d6 d7 d8 d9 r where d: "d = d0 # d1 # d2 # d3 # d4 # d5 # d6 # d7 # d8 # d9 # r"
    and r: "10 \<le> length r"
    using assms by (auto simp: numeral_eq_Suc Suc_le_length_iff)
  moreover obtain e0 e1 e2 e3 e4 e5 e6 e7 e8 e9 t where "r = e0 # e1 # e2 # e3 # e4 # e5 # e6 # e7 # e8 # e9 # t"
    using r by (auto simp: numeral_eq_Suc Suc_le_length_iff)
  ultimately show ?thesis
    by (simp add: header_bytes_def read_header_def be32_rd32)
qed

text \<open>One bit step of the CRC can be undone: the top bit of the result tells which case applied.\<close>

lemma crc_bit_top: "bit (crc_bit c) 31 \<longleftrightarrow> bit c 0"
  by (auto simp: crc_bit_def bit_simps dest: bit_imp_le_length)

lemma xor_right_cancel: "a XOR c = b XOR c \<longleftrightarrow> a = (b :: 'a :: len word)"
  by (metis xor.assoc xor.right_neutral xor_self_eq)

lemma crc_bit_inj: "crc_bit c = crc_bit d \<Longrightarrow> c = d"
proof -
  assume eq: "crc_bit c = crc_bit d"
  then have low: "bit c 0 = bit d 0" using crc_bit_top by metis
  have "drop_bit 1 c = drop_bit 1 d"
    using eq low by (auto simp: crc_bit_def xor_right_cancel split: if_splits)
  then have "bit c (Suc n) = bit d (Suc n)" for n
    by (metis bit_drop_bit_eq plus_1_eq_Suc comp_apply)
  then show "c = d" using low by (intro bit_word_eqI) (metis not0_implies_Suc)
qed

lemma crc_byte_inj: "crc_byte c b = crc_byte d b' \<longleftrightarrow> c XOR ucast b = d XOR ucast b'"
proof -
  have "inj (crc_bit ^^ 8)" using crc_bit_inj by (intro inj_fn) (auto intro: injI)
  then show ?thesis unfolding crc_byte_def by (simp add: inj_eq)
qed

lemma foldl_crc_inj: "foldl crc_byte c bs = foldl crc_byte d bs \<longleftrightarrow> c = d"
  by (induction bs arbitrary: c d) (auto simp: crc_byte_inj xor_right_cancel)

lemma ucast_byte_inj:
  assumes "ucast b = (ucast b' :: 32 word)"
  shows "b = (b' :: 8 word)"
proof (rule bit_word_eqI)
  fix n :: nat
  assume n: "n < LENGTH(8)"
  have "bit (ucast b :: 32 word) n = bit (ucast b' :: 32 word) n" by (simp add: assms)
  with n show "bit b n = bit b' n" by (simp add: bit_ucast_iff)
qed

lemma crc_byte_differs: "crc_byte c b = crc_byte c b' \<longleftrightarrow> b = b'"
proof -
  have "ucast b XOR c = ucast b' XOR c \<longleftrightarrow> b = b'"
    using ucast_byte_inj [of b b'] by (auto simp: xor_right_cancel)
  then show ?thesis unfolding crc_byte_inj by (simp add: xor.commute)
qed

lemma ChecksumIEEE_update:
  assumes "i < length bs" "b \<noteq> bs ! i"
  shows "ChecksumIEEE (bs[i := b]) \<noteq> ChecksumIEEE bs"
proof -
  have "foldl crc_byte c (bs[i := b]) \<noteq> foldl crc_byte c bs" for c
  proof -
    have bs: "bs = take i bs @ bs ! i # drop (Suc i) bs" and up: "bs[i := b] = take i bs @ b # drop (Suc i) bs"
      using assms(1) by (simp_all add: id_take_nth_drop upd_conv_take_nth_drop)
    have "foldl crc_byte c (bs[i := b]) = foldl crc_byte (crc_byte (foldl crc_byte c (take i bs)) b) (drop (Suc i) bs)"
      by (subst up) simp
    moreover have "foldl crc_byte c bs = foldl crc_byte (crc_byte (foldl crc_byte c (take i bs)) (bs ! i)) (drop (Suc i) bs)"
      by (subst bs) simp
    ultimately show ?thesis
      using assms(2) by (simp add: foldl_crc_inj crc_byte_differs)
  qed
  then show ?thesis
    unfolding ChecksumIEEE_def by (metis bit.double_compl)
qed

lemma Encode_Inr:
  "Encode p t i v = Inr d \<longleftrightarrow>
     (\<exists>payload. cd_Encode (p_codec p) v = Inr payload \<and>
        d = header_bytes \<lparr>h_Magic = MagicNumber, h_Version = ProtocolVersion, h_Type = t, h_MessageID = i,
              h_Codec = p_codecType p, h_Reserved = 0, h_DataLength = of_nat (length payload),
              h_Checksum = ChecksumIEEE payload\<rparr> @ payload)"
  by (auto simp: Encode_def Let_def split: sum.splits)

lemma Decode_frame:
  "Decode p (header_bytes h @ payload) =
     (if h_Magic h \<noteq> MagicNumber then Inl ErrInvalidMagicNumber
      else if h_Version h \<noteq> ProtocolVersion
        then Inl (Errorf (''unsupported protocol version: '' @ show_byte (h_Version h) @ '', expected ''
                          @ show_byte ProtocolVersion) [])
      else if h_Codec h \<noteq> p_codecType p
        then Inl (Errorf (''codec type mismatch: expected '' @ show_byte (p_codecType p) @ '', got ''
                          @ show_byte (h_Codec h)) [])
      else if of_nat (length payload) \<noteq> h_DataLength h then Inl ErrInvalidMessageSize
      else if ChecksumIEEE payload \<noteq> h_Checksum h then Inl ErrInvalidChecksum
      else cd_Decode (p_codec p) payload)"
  by (simp add: Decode_def Let_def ProtocolHeaderSize_def read_header_bytes)

subsection \<open>Properties\<close>

text \<open>C10: Decoding inverts encoding: for a codec that reads back what it wrote, every encoded message,
  whatever its type, identifier and size, decodes to the value it was made from, and its header shows
  the type and the identifier.\<close>

theorem protocol_roundtrip:
  assumes "Encode p msgType messageID v = Inr data"
    and "\<And>payload. cd_Encode (p_codec p) v = Inr payload \<Longrightarrow> cd_Decode (p_codec p) payload = Inr v"
  shows "Decode p data = Inr v \<and>
         (\<exists>h. ParseHeader data = Inr h \<and> h_Type h = msgType \<and> h_MessageID h = messageID)"
  using assms
  by (auto simp: Encode_Inr Decode_frame ParseHeader_def ProtocolHeaderSize_def read_header_bytes Let_def)

definition demo_protocol :: "bytes CustomProtocol" where
  "demo_protocol = NewCustomProtocol \<lparr>cd_Encode = Inr, cd_Decode = Inr, cd_isBinary = True\<rparr>"

theorem protocol_roundtrip_witness:
  "\<exists>data. Encode demo_protocol 2 7 [1, 2, 3] = Inr data \<and> Decode demo_protocol data = Inr [1, 2, 3]"
proof -
  obtain data where d: "Encode demo_protocol 2 7 [1, 2, 3] = Inr data"
    by (auto simp: Encode_Inr demo_protocol_def NewCustomProtocol_def)
  have "cd_Encode (p_codec demo_protocol) [1, 2, 3] = Inr pl \<Longrightarrow> cd_Decode (p_codec demo_protocol) pl = Inr [1, 2, 3]" for pl
    by (simp add: demo_protocol_def NewCustomProtocol_def)
  from protocol_roundtrip [OF d this] d show ?thesis by blast
qed

text \<open>\<open>Decode\<close> accepts nothing but well-formed frames: an accepted message consists of the magic
  number, the current version, the codec's own type, the true payload length (modulo $2^{32}$) and
  the true checksum around a payload that the codec accepts; only the message type, the identifier
  and the reserved byte are free.\<close>

lemma Decode_accepts_only_frames:
  assumes "Decode p data = Inr v"
  shows "\<exists>t i r payload.
      data = be32 0x54435053 @ [1, t] @ be32 i @ [p_codecType p, r] @ be32 (of_nat (length payload)) @
             be32 (ChecksumIEEE payload) @ payload \<and>
      cd_Decode (p_codec p) payload = Inr v"
proof -
  have len: "20 \<le> length data"
    using assms by (auto simp: Decode_def ProtocolHeaderSize_def split: if_splits)
  define h where "h = read_header data"
  have d: "data = header_bytes h @ drop 20 data"
    using header_bytes_read [OF len] by (simp add: h_def)
  have "h_Magic h = MagicNumber \<and> h_Version h = ProtocolVersion \<and> h_Codec h = p_codecType p \<and>
      of_nat (length (drop 20 data)) = h_DataLength h \<and> ChecksumIEEE (drop 20 data) = h_Checksum h \<and>
      cd_Decode (p_codec p) (drop 20 data) = Inr v"
    using assms unfolding Decode_frame [of p h "drop 20 data", folded d] by (auto split: if_splits)
  then show ?thesis
    using d by (intro exI [of _ "h_Type h"] exI [of _ "h_MessageID h"] exI [of _ "h_Reserved h"] exI [of _ "drop 20 data"])
      (auto simp: header_bytes_def MagicNumber_def ProtocolVersion_def)
qed

lemma Decode_accepts_only_frames_example:
  "\<exists>data t i r payload. Decode demo_protocol data = Inr [5] \<and>
      data = be32 0x54435053 @ [1, t] @ be32 i @ [p_codecType demo_protocol, r] @ be32 (of_nat (length payload)) @
             be32 (ChecksumIEEE payload) @ payload"
proof -
  obtain data where d: "Encode demo_protocol 1 0 [5] = Inr data"
    by (auto simp: Encode_Inr demo_protocol_def NewCustomProtocol_def)
  then have "Decode demo_protocol data = Inr [5]"
    by (auto simp: Encode_Inr Decode_frame demo_protocol_def NewCustomProtocol_def)
  from this Decode_accepts_only_frames [OF this] show ?thesis by blast
qed

text \<open>C11: The checksum detects every corrupted payload byte: if one byte of the payload of an encoded
  message is changed in any way, \<open>Decode\<close> reports \<open>ErrInvalidChecksum\<close> and does not call the
  codec.\<close>

theorem Decode_detects_corruption:
  assumes "Encode p msgType messageID v = Inr data" "20 \<le> i" "i < length data" "b \<noteq> data ! i"
  shows "Decode p (data[i := b]) = Inl ErrInvalidChecksum"
proof -
  obtain pl h where pl: "data = header_bytes h @ pl"
    and h: "h = \<lparr>h_Magic = MagicNumber, h_Version = ProtocolVersion, h_Type = msgType, h_MessageID = messageID,
              h_Codec = p_codecType p, h_Reserved = 0, h_DataLength = of_nat (length pl),
              h_Checksum = ChecksumIEEE pl\<rparr>"
    using assms(1) by (auto simp: Encode_Inr)
  have u: "data[i := b] = header_bytes h @ pl[i - 20 := b]"
    using assms(2) by (simp add: pl list_update_append)
  have "i - 20 < length pl" "b \<noteq> pl ! (i - 20)"
    using assms(2-4) by (auto simp: pl nth_append)
  then have "ChecksumIEEE (pl[i - 20 := b]) \<noteq> ChecksumIEEE pl"
    by (rule ChecksumIEEE_update)
  then show ?thesis unfolding u Decode_frame by (simp add: h)
qed

theorem Decode_detects_corruption_witness:
  "\<exists>data. Encode demo_protocol 1 0 [5, 6] = Inr data \<and> Decode demo_protocol (data[21 := 7]) = Inl ErrInvalidChecksum"
proof -
  obtain data where d: "Encode demo_protocol 1 0 [5, 6] = Inr data"
    by (auto simp: Encode_Inr demo_protocol_def NewCustomProtocol_def)
  then have "21 < length data" "(7 :: 8 word) \<noteq> data ! 21"
    by (auto simp: Encode_Inr demo_protocol_def NewCustomProtocol_def nth_append)
  then show ?thesis using Decode_detects_corruption [OF d, of 21 7] d by simp
qed

end
