(* ===== verification/Lifecycle.thy ===== *)
theory Lifecycle
  imports Go_Errors
begin

section \<open>Application lifecycle\<close>

text \<open>
  \<^verbatim>\<open>internal/app/lifecycle.go\<close> and the run and shutdown parts of \<^verbatim>\<open>app.go\<close>. What hooks and servers
  do is a function on a world \<open>'w\<close>, which also records it; a nil function is \<open>None\<close>. The lists
  \<open>a_started\<close> and \<open>a_stopped\<close> are the fields of \<open>hookStates\<close>. Contexts, timeouts and log lines are
  left out. For the properties the world is the list of calls made so far, and the outcome of each
  call an arbitrary function of it.
\<close>

subsection \<open>Hooks\<close>

record 'w Hook =
  hk_Name :: string
  hk_OnStart :: "('w \<Rightarrow> gerr option \<times> 'w) option"
  hk_OnStop :: "('w \<Rightarrow> gerr option \<times> 'w) option"

record 'w App =
  a_hooks :: "'w Hook list"
  a_started :: "bool list"
  a_stopped :: "bool list"
  a_world :: 'w

definition hook_label :: "'w Hook \<Rightarrow> nat \<Rightarrow> string" where
  "hook_label h i = (if hk_Name h \<noteq> '''' then hk_Name h else ''hook '' @ show_nat i)"

definition addHook :: "'w App \<Rightarrow> 'w Hook \<Rightarrow> 'w App" where
  "addHook a h =
     a\<lparr>a_hooks := a_hooks a @ [h], a_started := a_started a @ [False], a_stopped := a_stopped a @ [False]\<rparr>"

definition stopHookAt :: "'w App \<Rightarrow> nat \<Rightarrow> gerr option \<times> 'w App" where
  "stopHookAt a i =
     (if a_stopped a ! i then (None, a)
      else let hook = a_hooks a ! i in
        case hk_OnStop hook of
          None \<Rightarrow> (None, a)
        | Some onStop \<Rightarrow>
            if hk_OnStart hook \<noteq> None \<and> \<not> a_started a ! i then (None, a)
            else (case onStop (a_world a) of
                (Some err, w) \<Rightarrow> (Some (wrapl (hook_label hook i @ '' OnStop'') err), a\<lparr>a_world := w\<rparr>)
              | (None, w) \<Rightarrow> (None, a\<lparr>a_world := w, a_stopped := (a_stopped a)[i := True]\<rparr>)))"

text \<open>The loops of \<open>rollbackStartedHooks\<close> and \<open>stopHooks\<close>: the errors are collected.\<close>

fun stop_loop :: "nat list \<Rightarrow> 'w App \<Rightarrow> gerr option list \<times> 'w App" where
  "stop_loop [] a = ([], a)"
| "stop_loop (i # is) a =
     (let (err, a1) = stopHookAt a i; (errs, a2) = stop_loop is a1 in (err # errs, a2))"

definition rollbackStartedHooks :: "'w App \<Rightarrow> nat \<Rightarrow> gerr option \<times> 'w App" where
  "rollbackStartedHooks a failedIndex =
     (let (errs, a') = stop_loop (rev [0..<failedIndex]) a in (errors_join errs, a'))"

definition stopHooks :: "'w App \<Rightarrow> gerr option \<times> 'w App" where
  "stopHooks a = (let (errs, a') = stop_loop (rev [0..<length (a_hooks a)]) a in (errors_join errs, a'))"

fun start_loop :: "nat list \<Rightarrow> 'w App \<Rightarrow> gerr option \<times> 'w App" where
  "start_loop [] a = (None, a)"
| "start_loop (i # is) a =
     (let hook = a_hooks a ! i in
      case hk_OnStart hook of
        None \<Rightarrow> start_loop is a
      | Some onStart \<Rightarrow>
          (case onStart (a_world a) of
             (Some err, w) \<Rightarrow>
               (let (rollbackErr, a') = rollbackStartedHooks (a\<lparr>a_world := w\<rparr>) i
                in (errors_join [Some (wrapl (hook_label hook i @ '' OnStart'') err), rollbackErr], a'))
           | (None, w) \<Rightarrow> start_loop is (a\<lparr>a_world := w, a_started := (a_started a)[i := True]\<rparr>)))"

definition startHooks :: "'w App \<Rightarrow> gerr option \<times> 'w App" where
  "startHooks a = start_loop [0..<length (a_hooks a)] a"

subsection \<open>Running the application\<close>

text \<open>The servers that are wired and enabled (\<open>None\<close> otherwise), and the two application events.
  \<open>http_exit\<close> is what the HTTP server's goroutine ends with, if it fails before the signal.\<close>

record 'w Servers =
  sv_tcp :: "(('w \<Rightarrow> gerr option \<times> 'w) \<times> ('w \<Rightarrow> gerr option \<times> 'w)) option"
  sv_udp :: "(('w \<Rightarrow> gerr option \<times> 'w) \<times> ('w \<Rightarrow> gerr option \<times> 'w)) option"
  sv_http_shutdown :: "('w \<Rightarrow> gerr option \<times> 'w) option"
  sv_http_exit :: "gerr option"
  sv_publishStarted :: "'w \<Rightarrow> gerr option \<times> 'w"
  sv_publishStopped :: "'w \<Rightarrow> gerr option \<times> 'w"

definition on_world :: "('w \<Rightarrow> gerr option \<times> 'w) \<Rightarrow> string \<Rightarrow> 'w App \<Rightarrow> gerr option \<times> 'w App" where
  "on_world f label a =
     (case f (a_world a) of (e, w) \<Rightarrow> (map_option (wrapl label) e, a\<lparr>a_world := w\<rparr>))"

definition shutdown :: "'w Servers \<Rightarrow> bool \<Rightarrow> 'w App \<Rightarrow> gerr option \<times> 'w App" where
  "shutdown sv appStarted a =
     (let (e1, a) = (case sv_http_shutdown sv of None \<Rightarrow> (None, a) | Some f \<Rightarrow> on_world f ''http shutdown'' a);
          (e2, a) = (case sv_tcp sv of None \<Rightarrow> (None, a) | Some s \<Rightarrow> on_world (snd s) ''tcp stop'' a);
          (e3, a) = (case sv_udp sv of None \<Rightarrow> (None, a) | Some s \<Rightarrow> on_world (snd s) ''udp stop'' a);
          (e4, a) = (if appStarted then on_world (sv_publishStopped sv) ''publish app stopped'' a else (None, a));
          (e5, a) = stopHooks a
      in (errors_join [e1, e2, e3, e4, e5], a))"

definition startServers :: "'w Servers \<Rightarrow> 'w App \<Rightarrow> gerr option \<times> 'w App" where
  "startServers sv a =
     (let (e1, a) = (case sv_tcp sv of None \<Rightarrow> (None, a) | Some s \<Rightarrow> on_world (fst s) ''failed to start TCP server'' a)
      in if e1 \<noteq> None then (e1, a)
         else let (e2, a) = (case sv_udp sv of None \<Rightarrow> (None, a)
                             | Some s \<Rightarrow> on_world (fst s) ''failed to start UDP server'' a)
           in if e2 \<noteq> None
              then (e2, case sv_tcp sv of None \<Rightarrow> a | Some s \<Rightarrow> snd (on_world (snd s) '''' a))
              else (None, a))"

definition Run :: "'w Servers \<Rightarrow> 'w App \<Rightarrow> gerr option \<times> 'w App" where
  "Run sv a =
     (case startHooks a of
        (Some err, a) \<Rightarrow> (Some (wrapl ''startup failed'' err), snd (shutdown sv False a))
      | (None, a) \<Rightarrow>
          (case sv_publishStarted sv (a_world a) of
             (Some err, w) \<Rightarrow> (Some err, snd (shutdown sv False (a\<lparr>a_world := w\<rparr>)))
           | (None, w) \<Rightarrow>
               (case startServers sv (a\<lparr>a_world := w\<rparr>) of
                  (Some err, a) \<Rightarrow> (Some err, snd (shutdown sv True a))
                | (None, a) \<Rightarrow>
                    (case shutdown sv True a of
                       (Some err, a) \<Rightarrow> (Some err, a)
                     | (None, a) \<Rightarrow>
                         (if sv_http_shutdown sv \<noteq> None \<and> sv_http_exit sv \<noteq> None
                          then (Some (Errorf ''HTTP server exited with error'' []), a) else (None, a))))))"

text \<open>\<open>maxShutdownTimeout\<close>: the largest of 30 seconds and the timeouts of the enabled servers.\<close>

definition maxShutdownTimeout :: "(bool \<times> int) list \<Rightarrow> int" where
  "maxShutdownTimeout servers =
     fold (\<lambda>(enabled, d) m. if enabled then (if d > m then d else m) else m) servers (30 * 1000000000)"

definition addrOf :: "string \<Rightarrow> int \<Rightarrow> string" where
  "addrOf host port = host @ '':'' @ show_int port"

subsection \<open>Calls as the world\<close>

datatype call = CStart nat bool | CStop nat bool

text \<open>Hook \<open>i\<close> has the functions that \<open>hs\<close> and \<open>hp\<close> say; \<open>fs\<close> and \<open>fp\<close> give the outcome of a call
  from the calls made before it.\<close>

definition logged_hook ::
  "(nat \<Rightarrow> bool) \<Rightarrow> (nat \<Rightarrow> bool) \<Rightarrow> (nat \<Rightarrow> call list \<Rightarrow> gerr option) \<Rightarrow> (nat \<Rightarrow> call list \<Rightarrow> gerr option) \<Rightarrow>
    nat \<Rightarrow> call list Hook" where
  "logged_hook hs hp fs fp i =
     \<lparr>hk_Name = '''',
      hk_OnStart = (if hs i then Some (\<lambda>w. (fs i w, w @ [CStart i (fs i w = None)])) else None),
      hk_OnStop = (if hp i then Some (\<lambda>w. (fp i w, w @ [CStop i (fp i w = None)])) else None)\<rparr>"

definition logged_app ::
  "(nat \<Rightarrow> bool) \<Rightarrow> (nat \<Rightarrow> bool) \<Rightarrow> (nat \<Rightarrow> call list \<Rightarrow> gerr option) \<Rightarrow> (nat \<Rightarrow> call list \<Rightarrow> gerr option) \<Rightarrow>
    nat \<Rightarrow> call list App" where
  "logged_app hs hp fs fp n =
     fold (\<lambda>i a. addHook a (logged_hook hs hp fs fp i)) [0..<n] \<lparr>a_hooks = [], a_started = [], a_stopped = [], a_world = []\<rparr>"

lemma logged_app_fields:
  "logged_app hs hp fs fp n =
     \<lparr>a_hooks = map (logged_hook hs hp fs fp) [0..<n], a_started = replicate n False,
      a_stopped = replicate n False, a_world = []\<rparr>"
  by (induction n) (simp_all add: logged_app_def addHook_def flip: replicate_append_same)

subsection \<open>What one stop does\<close>

definition hooks_of :: "call list App \<Rightarrow> (nat \<Rightarrow> bool) \<Rightarrow> (nat \<Rightarrow> bool) \<Rightarrow> (nat \<Rightarrow> call list \<Rightarrow> gerr option) \<Rightarrow>
    (nat \<Rightarrow> call list \<Rightarrow> gerr option) \<Rightarrow> nat \<Rightarrow> bool" where
  "hooks_of a hs hp fs fp n \<longleftrightarrow>
     a_hooks a = map (logged_hook hs hp fs fp) [0..<n] \<and> length (a_started a) = n \<and> length (a_stopped a) = n"

definition stoppable :: "call list App \<Rightarrow> (nat \<Rightarrow> bool) \<Rightarrow> (nat \<Rightarrow> bool) \<Rightarrow> nat \<Rightarrow> bool" where
  "stoppable a hs hp i \<longleftrightarrow> \<not> a_stopped a ! i \<and> hp i \<and> (hs i \<longrightarrow> a_started a ! i)"

lemma stopHookAt_logged:
  assumes "hooks_of a hs hp fs fp n" "i < n"
  shows "snd (stopHookAt a i) =
    (if stoppable a hs hp i
     then a\<lparr>a_world := a_world a @ [CStop i (fp i (a_world a) = None)],
            a_stopped := (a_stopped a)[i := fp i (a_world a) = None]\<rparr>
     else a)"
proof -
  have h: "a_hooks a ! i = logged_hook hs hp fs fp i" and l: "i < length (a_stopped a)"
    using assms by (auto simp: hooks_of_def)
  have "(a_stopped a)[i := False] = a_stopped a" if "\<not> a_stopped a ! i"
    using that by (metis (full_types) list_update_id)
  then show ?thesis
    using l by (auto simp: stopHookAt_def h logged_hook_def stoppable_def Let_def split: option.splits)
qed

lemma stopHookAt_hooks_of:
  assumes "hooks_of a hs hp fs fp n" "i < n"
  shows "hooks_of (snd (stopHookAt a i)) hs hp fs fp n"
  using assms by (simp add: stopHookAt_logged) (simp add: hooks_of_def)

text \<open>Stopping along a list of distinct hooks calls the stoppable ones, each once, in that order.\<close>

fun call_hook :: "call \<Rightarrow> nat" where
  "call_hook (CStart i b) = i"
| "call_hook (CStop i b) = i"

fun is_stop :: "call \<Rightarrow> bool" where
  "is_stop (CStart i b) = False"
| "is_stop (CStop i b) = True"

lemma stop_loop_trace:
  assumes "hooks_of a hs hp fs fp n" "\<forall>i \<in> set is. i < n" "distinct is"
  shows "\<exists>cs. a_world (snd (stop_loop is a)) = a_world a @ cs \<and> list_all is_stop cs \<and>
              map call_hook cs = filter (stoppable a hs hp) is"
  using assms
proof (induction "is" arbitrary: a)
  case Nil
  then show ?case by simp
next
  case (Cons i "is")
  let ?a = "snd (stopHookAt a i)"
  have a: "hooks_of ?a hs hp fs fp n" and i: "i < n" "i \<notin> set is"
    using Cons.prems stopHookAt_hooks_of by auto
  have "stoppable ?a hs hp j = stoppable a hs hp j" if "j \<noteq> i" for j
    using stopHookAt_logged [OF Cons.prems(1) i(1)] that by (simp add: stoppable_def)
  then have same: "filter (stoppable ?a hs hp) is = filter (stoppable a hs hp) is"
    using i(2) by (intro filter_cong refl) metis
  obtain cs where "a_world (snd (stop_loop is ?a)) = a_world ?a @ cs" "list_all is_stop cs"
      "map call_hook cs = filter (stoppable a hs hp) is"
    using Cons.IH [OF a] Cons.prems same by auto
  then show ?case
    using stopHookAt_logged [OF Cons.prems(1) i(1)]
    by (cases "stoppable a hs hp i") (simp_all add: split_beta Let_def)
qed

subsection \<open>Invariant of the calls\<close>

definition starts_first :: "(nat \<Rightarrow> bool) \<Rightarrow> call list \<Rightarrow> bool" where
  "starts_first hs cs \<longleftrightarrow>
     (\<forall>p < length cs. \<forall>i b. cs ! p = CStop i b \<longrightarrow> hs i \<longrightarrow> CStart i True \<in> set (take p cs))"

lemma starts_first_snoc:
  "starts_first hs (cs @ [c]) \<longleftrightarrow>
     starts_first hs cs \<and> (\<forall>i b. c = CStop i b \<longrightarrow> hs i \<longrightarrow> CStart i True \<in> set cs)"
  by (auto simp: starts_first_def nth_append less_Suc_eq)

definition calls_inv ::
  "(nat \<Rightarrow> bool) \<Rightarrow> (nat \<Rightarrow> bool) \<Rightarrow> (nat \<Rightarrow> call list \<Rightarrow> gerr option) \<Rightarrow> (nat \<Rightarrow> call list \<Rightarrow> gerr option) \<Rightarrow>
    nat \<Rightarrow> call list App \<Rightarrow> bool" where
  "calls_inv hs hp fs fp n a \<longleftrightarrow>
     hooks_of a hs hp fs fp n \<and> starts_first hs (a_world a) \<and>
     (\<forall>i < n. count_list (a_world a) (CStop i True) = (if a_stopped a ! i then 1 else 0)) \<and>
     (\<forall>i < n. a_started a ! i \<longrightarrow> CStart i True \<in> set (a_world a))"

lemma calls_inv_init: "calls_inv hs hp fs fp n (logged_app hs hp fs fp n)"
  by (simp add: calls_inv_def hooks_of_def starts_first_def logged_app_fields)

lemma calls_inv_stop:
  assumes "calls_inv hs hp fs fp n a" "i < n"
  shows "calls_inv hs hp fs fp n (snd (stopHookAt a i))"
proof -
  have ho: "hooks_of a hs hp fs fp n" using assms(1) by (simp add: calls_inv_def)
  have ho': "hooks_of (snd (stopHookAt a i)) hs hp fs fp n" by (rule stopHookAt_hooks_of [OF ho assms(2)])
  show ?thesis
  proof (cases "stoppable a hs hp i")
    case True
    let ?b = "fp i (a_world a) = None"
    have eq: "snd (stopHookAt a i) = a\<lparr>a_world := a_world a @ [CStop i ?b], a_stopped := (a_stopped a)[i := ?b]\<rparr>"
      using True by (simp add: stopHookAt_logged [OF ho assms(2)])
    have "length (a_stopped a) = n" using ho by (simp add: hooks_of_def)
    then show ?thesis
      using assms True ho' unfolding calls_inv_def eq
      by (auto simp: starts_first_snoc stoppable_def nth_list_update)
  next
    case False
    then show ?thesis using assms(1) by (simp add: stopHookAt_logged [OF ho assms(2)])
  qed
qed

lemma calls_inv_stop_loop:
  "calls_inv hs hp fs fp n a \<Longrightarrow> \<forall>i \<in> set is. i < n \<Longrightarrow> calls_inv hs hp fs fp n (snd (stop_loop is a))"
  by (induction "is" arbitrary: a) (auto simp: split_beta Let_def intro: calls_inv_stop)

lemma calls_inv_started:
  assumes "calls_inv hs hp fs fp n a" "i < n"
  shows "calls_inv hs hp fs fp n (a\<lparr>a_world := a_world a @ [CStart i b]\<rparr>)"
    and "b \<Longrightarrow> calls_inv hs hp fs fp n
           (a\<lparr>a_world := a_world a @ [CStart i b], a_started := (a_started a)[i := True]\<rparr>)"
  using assms by (auto simp: calls_inv_def starts_first_snoc hooks_of_def nth_list_update)

lemma calls_inv_start_loop:
  "calls_inv hs hp fs fp n a \<Longrightarrow> \<forall>i \<in> set is. i < n \<Longrightarrow> calls_inv hs hp fs fp n (snd (start_loop is a))"
proof (induction "is" arbitrary: a)
  case Nil
  then show ?case by simp
next
  case (Cons i "is")
  then have i: "i < n" and h: "a_hooks a ! i = logged_hook hs hp fs fp i"
    by (auto simp: calls_inv_def hooks_of_def)
  have rb: "calls_inv hs hp fs fp n (snd (rollbackStartedHooks (a\<lparr>a_world := a_world a @ [CStart i False]\<rparr>) i))"
    using calls_inv_stop_loop [OF calls_inv_started(1) [OF Cons.prems(1) i, of False]] i
    by (simp add: rollbackStartedHooks_def split_beta Let_def)
  have ok: "calls_inv hs hp fs fp n
      (snd (start_loop is (a\<lparr>a_world := a_world a @ [CStart i True], a_started := (a_started a)[i := True]\<rparr>)))"
    using Cons.IH calls_inv_started(2) [OF Cons.prems(1) i] Cons.prems(2) by simp
  show ?case
    using rb ok Cons by (auto simp: h logged_hook_def Let_def split_beta split: option.splits)
qed

text \<open>Any sequence of \<open>startHooks\<close> and \<open>stopHooks\<close> calls.\<close>

definition hook_op :: "bool \<Rightarrow> 'w App \<Rightarrow> 'w App" where
  "hook_op start a = snd (if start then startHooks a else stopHooks a)"

lemma calls_inv_ops: "calls_inv hs hp fs fp n a \<Longrightarrow> calls_inv hs hp fs fp n (fold hook_op ops a)"
proof (induction ops arbitrary: a)
  case (Cons b ops)
  have len: "length (a_hooks a) = n" using Cons.prems by (simp add: calls_inv_def hooks_of_def)
  have "calls_inv hs hp fs fp n (hook_op b a)"
    using calls_inv_start_loop [OF Cons.prems, of "[0..<n]"] calls_inv_stop_loop [OF Cons.prems, of "rev [0..<n]"]
    by (auto simp: hook_op_def startHooks_def stopHooks_def len split_beta Let_def)
  then show ?case using Cons.IH by simp
qed simp

subsection \<open>Starting\<close>

lemma start_loop_ok:
  assumes "hooks_of a hs hp fs fp n" "\<forall>i \<in> set is. i < n" "\<forall>i w. hs i \<longrightarrow> i \<in> set is \<longrightarrow> fs i w = None"
  shows "\<exists>st. start_loop is a = (None, a\<lparr>a_world := a_world a @ map (\<lambda>i. CStart i True) (filter hs is), a_started := st\<rparr>) \<and>
           length st = n \<and> (\<forall>j < n. st ! j \<longleftrightarrow> a_started a ! j \<or> j \<in> set is \<and> hs j)"
  using assms
proof (induction "is" arbitrary: a)
  case Nil
  then show ?case by (intro exI [of _ "a_started a"]) (simp add: hooks_of_def)
next
  case (Cons i "is")
  have h: "a_hooks a ! i = logged_hook hs hp fs fp i" and i: "i < n"
    using Cons.prems by (auto simp: hooks_of_def)
  show ?case
  proof (cases "hs i")
    case True
    let ?a = "a\<lparr>a_world := a_world a @ [CStart i True], a_started := (a_started a)[i := True]\<rparr>"
    have "hooks_of ?a hs hp fs fp n" using Cons.prems(1) by (simp add: hooks_of_def)
    then obtain st where st: "start_loop is ?a =
        (None, ?a\<lparr>a_world := a_world ?a @ map (\<lambda>i. CStart i True) (filter hs is), a_started := st\<rparr>)"
        "length st = n" "\<forall>j < n. st ! j \<longleftrightarrow> a_started ?a ! j \<or> j \<in> set is \<and> hs j"
      using Cons.IH [of ?a] Cons.prems by auto
    moreover have "start_loop (i # is) a = start_loop is ?a"
      using True Cons.prems(3) by (simp add: h logged_hook_def)
    ultimately show ?thesis
      using True i Cons.prems(1) by (intro exI [of _ st]) (auto simp: nth_list_update hooks_of_def)
  next
    case False
    moreover have "start_loop (i # is) a = start_loop is a" using False by (simp add: h logged_hook_def)
    ultimately show ?thesis using Cons.IH [OF Cons.prems(1)] Cons.prems(2,3) by auto
  qed
qed

lemma start_loop_append:
  assumes "start_loop xs a = (None, a')"
  shows "start_loop (xs @ ys) a = start_loop ys a'"
  using assms
  by (induction xs arbitrary: a) (auto simp: Let_def split_beta errors_join_None split: option.splits prod.splits)

subsection \<open>Properties\<close>

text \<open>C12: Over any sequence of \<open>startHooks\<close> and \<open>stopHooks\<close> (startup failures with their rollback, a
  shutdown after a failed startup, repeated shutdowns), whatever the hooks return, each \<open>OnStop\<close>
  succeeds at most once, and an \<open>OnStop\<close> of a hook that has an \<open>OnStart\<close> is called only after that
  \<open>OnStart\<close> succeeded.\<close>

theorem hooks_stop_discipline:
  fixes hs hp :: "nat \<Rightarrow> bool" and fs fp :: "nat \<Rightarrow> call list \<Rightarrow> gerr option" and ops :: "bool list"
  assumes "i < n"
  defines "calls \<equiv> a_world (fold hook_op ops (logged_app hs hp fs fp n))"
  shows "count_list calls (CStop i True) \<le> 1 \<and>
         (\<forall>p < length calls. \<forall>b. calls ! p = CStop i b \<longrightarrow> hs i \<longrightarrow> CStart i True \<in> set (take p calls))"
  using calls_inv_ops [OF calls_inv_init, of hs hp fs fp n ops] assms(1)
  by (auto simp: calls_inv_def calls_def starts_first_def)

theorem hooks_stop_discipline_witness:
  "let cs = a_world (fold hook_op [True, False, False] (logged_app (\<lambda>_. True) (\<lambda>_. True) (\<lambda>_ _. None) (\<lambda>_ _. None) 2))
   in cs = [CStart 0 True, CStart 1 True, CStop 1 True, CStop 0 True] \<and> count_list cs (CStop 0 True) \<le> 1"
proof -
  have l: "a_world (fold hook_op [True, False, False] (logged_app (\<lambda>_. True) (\<lambda>_. True) (\<lambda>_ _. None) (\<lambda>_ _. None) 2)) =
      [CStart 0 True, CStart 1 True, CStop 1 True, CStop 0 True]"
    by code_simp
  show ?thesis
    using hooks_stop_discipline [of 0 2 "[True, False, False]" "\<lambda>_. True" "\<lambda>_. True" "\<lambda>_ _. None" "\<lambda>_ _. None"] l
    by (simp add: Let_def)
qed

text \<open>Start order and rollback: if no \<open>OnStart\<close> fails, exactly the hooks that have one are started,
  in order of registration. If \<open>k\<close> is the first that fails, the ones before it were started in order,
  none after it is, and then exactly the hooks before \<open>k\<close> that have an \<open>OnStop\<close> are stopped, each
  once, in reverse order; \<open>startHooks\<close> returns an error, even when every rollback succeeds.\<close>

lemma startHooks_order:
  fixes hs hp :: "nat \<Rightarrow> bool" and g :: "nat \<Rightarrow> gerr option" and fp :: "nat \<Rightarrow> call list \<Rightarrow> gerr option"
  assumes "k < n \<longrightarrow> hs k \<and> g k \<noteq> None" "k \<le> n" "\<forall>i < k. hs i \<longrightarrow> g i = None"
  defines "r \<equiv> startHooks (logged_app hs hp (\<lambda>i _. g i) fp n)"
  shows "if k = n then r = (None, snd r) \<and> a_world (snd r) = map (\<lambda>i. CStart i True) (filter hs [0..<n])
         else fst r \<noteq> None \<and>
              (\<exists>cs. a_world (snd r) = map (\<lambda>i. CStart i True) (filter hs [0..<k]) @ [CStart k False] @ cs \<and>
                    list_all is_stop cs \<and> map call_hook cs = filter hp (rev [0..<k]))"
proof -
  let ?fs = "\<lambda>i _. g i" and ?a = "logged_app hs hp (\<lambda>i _. g i) fp n"
  have ho: "hooks_of ?a hs hp ?fs fp n" by (simp add: hooks_of_def logged_app_fields)
  obtain st where st: "start_loop [0..<k] ?a =
      (None, ?a\<lparr>a_world := map (\<lambda>i. CStart i True) (filter hs [0..<k]), a_started := st\<rparr>)"
    "length st = n" "\<forall>j < n. st ! j \<longleftrightarrow> j < k \<and> hs j"
    using start_loop_ok [OF ho, of "[0..<k]"] assms(2,3) by (auto simp: logged_app_fields)
  show ?thesis
  proof (cases "k = n")
    case True
    then show ?thesis using st by (simp add: r_def startHooks_def logged_app_fields)
  next
    case False
    let ?a1 = "?a\<lparr>a_world := map (\<lambda>i. CStart i True) (filter hs [0..<k]), a_started := st\<rparr>"
    let ?a2 = "?a1\<lparr>a_world := a_world ?a1 @ [CStart k False]\<rparr>"
    have k: "k < n" "hs k" "g k \<noteq> None" using False assms(1,2) by auto
    have idx: "[0..<length (a_hooks ?a)] = [0..<k] @ k # [Suc k..<n]"
      using k(1) upt_add_eq_append [of 0 k "n - k"] by (simp add: logged_app_fields upt_conv_Cons)
    have hk: "a_hooks ?a1 ! k = logged_hook hs hp ?fs fp k" using k(1) by (simp add: logged_app_fields)
    have "r = start_loop (k # [Suc k..<n]) ?a1"
      unfolding r_def startHooks_def idx by (rule start_loop_append [OF st(1)])
    then have r: "fst r \<noteq> None" "snd r = snd (stop_loop (rev [0..<k]) ?a2)"
      using k(2,3) hk
      by (auto simp: logged_hook_def rollbackStartedHooks_def Let_def split_beta)
    have h2: "hooks_of ?a2 hs hp ?fs fp n" using ho st(2) by (simp add: hooks_of_def)
    have "filter (stoppable ?a2 hs hp) (rev [0..<k]) = filter hp (rev [0..<k])"
      using st(3) k(1) by (intro filter_cong refl) (auto simp: stoppable_def logged_app_fields)
    then show ?thesis
      using stop_loop_trace [OF h2, of "rev [0..<k]"] r k(1) False by auto
  qed
qed

lemma startHooks_order_example:
  "\<exists>cs. a_world (snd (startHooks (logged_app (\<lambda>_. True) (\<lambda>_. True) (\<lambda>i _. if i = 1 then Some (Sentinel ''x'') else None) (\<lambda>_ _. None) 3)))
     = map (\<lambda>i. CStart i True) (filter (\<lambda>_. True) [0..<1]) @ [CStart 1 False] @ cs \<and> list_all is_stop cs \<and>
       map call_hook cs = filter (\<lambda>_. True) (rev [0..<1])"
  using startHooks_order [of 1 3 "\<lambda>_. True" "\<lambda>i. if i = 1 then Some (Sentinel ''x'') else None" "\<lambda>_. True" "\<lambda>_ _. None"]
  by (simp del: upt_rec_numeral upt.simps filter_True)

end
