(* ===== verification/App_Config.thy ===== *)
theory App_Config
  imports Complex_Main Go_Errors
begin

section \<open>Application configuration\<close>

text \<open>
  \<^verbatim>\<open>internal/config\<close>: the configuration records, their validation, the masked copy, the list of enabled
  modules and the layered loader. Viper, godotenv and the file system are the parameter records
  \<open>viper_api\<close> and \<open>os_api\<close>; the defaults handed to Viper are the list \<open>setDefaults\<close>. A
  \<open>float64\<close> is a rational, an infinity or NaN, with the comparison of IEEE 754.
\<close>

subsection \<open>Records\<close>

datatype float64 = Fin rat | PosInf | NegInf | NaN

fun f64_less :: "float64 \<Rightarrow> float64 \<Rightarrow> bool" where
  "f64_less (Fin a) (Fin b) = (a < b)"
| "f64_less (Fin a) PosInf = True"
| "f64_less NegInf (Fin b) = True"
| "f64_less NegInf PosInf = True"
| "f64_less a b = False"

record SensitiveBind =
  b_Key :: string
  b_EnvVar :: string

record LoadMeta =
  m_BasePath :: string
  m_OverlayPath :: string
  m_OverlayEnv :: string
  m_DotenvPaths :: "string list"

record SchedulerConfig =
  sch_Enabled :: bool

record CaptchaConfig =
  cpt_Enabled :: bool

record ObjectStorageConfig =
  os_Enabled :: bool
  os_Provider :: string
  os_Bucket :: string
  os_Region :: string
  os_Endpoint :: string
  os_AccessKey :: string
  os_SecretKey :: string
  os_CDNDomain :: string

record PaymentConfig =
  pay_Enabled :: bool

record AppConfig =
  app_Name :: string
  app_Version :: string
  app_Env :: string

record TLSConfig =
  tls_Enabled :: bool
  tls_CertFile :: string
  tls_KeyFile :: string
  tls_MinVersion :: string

record LogConfig =
  log_Level :: string
  log_Format :: string
  log_Output :: string
  log_Filename :: string
  log_MaxSize :: int
  log_MaxBackups :: int
  log_MaxAge :: int
  log_Compress :: bool

record DatabaseConfig =
  db_Driver :: string
  db_Host :: string
  db_Port :: int
  db_User :: string
  db_Password :: string
  db_Database :: string
  db_SSLMode :: string
  db_MaxOpenConns :: int
  db_MaxIdleConns :: int
  db_ConnMaxLife :: int
  db_ConnMaxIdle :: int

record RedisConfig =
  red_Enabled :: bool
  red_Host :: string
  red_Port :: int
  red_Password :: string
  red_DB :: int
  red_PoolSize :: int
  red_MinIdleConns :: int
  red_IdleTimeout :: int

record JWTConfig =
  jwt_Secret :: string
  jwt_AccessTokenTTL :: int
  jwt_RefreshTokenTTL :: int
  jwt_SkipPaths :: "string list"

record RateLimitConfig =
  rl_Enabled :: bool
  rl_Store :: string
  rl_GlobalRPS :: int
  rl_IPRPS :: int
  rl_UserRPS :: int

record MemoryCacheConfig =
  mc_NumCounters :: int
  mc_MaxCost :: int
  mc_BufferItems :: int

record RedisCacheConfig =
  rcc_KeyPrefix :: string
  rcc_DefaultTTL :: int

record TCPConfig =
  tcp_Enabled :: bool
  tcp_Host :: string
  tcp_Port :: int
  tcp_ReadTimeout :: int
  tcp_WriteTimeout :: int
  tcp_HeartbeatInterval :: int
  tcp_HeartbeatTimeout :: int
  tcp_ShutdownTimeout :: int
  tcp_Codec :: string
  tcp_MaxConnections :: int
  tcp_MaxTimeoutCount :: int

record UDPConfig =
  udp_Enabled :: bool
  udp_Host :: string
  udp_Port :: int
  udp_ReadBufferSize :: int
  udp_WriteBufferSize :: int
  udp_ShutdownTimeout :: int
  udp_Codec :: string
  udp_WorkerPoolSize :: int
  udp_SessionCleanupInterval :: int
  udp_SessionInactiveThreshold :: int

record TracingConfig =
  tr_Enabled :: bool
  tr_Endpoint :: string
  tr_SampleRate :: float64

record MetricsConfig =
  met_Enabled :: bool
  met_Path :: string
  met_Labels :: "(string \<times> string) list"

record HTTPConfig =
  http_Enabled :: bool
  http_Host :: string
  http_Port :: int
  http_ReadTimeout :: int
  http_WriteTimeout :: int
  http_ShutdownTimeout :: int
  http_InternalServiceKey :: string
  http_TLS :: TLSConfig

record CacheConfig =
  cch_Enabled :: bool
  cch_Driver :: string
  cch_Memory :: MemoryCacheConfig
  cch_Redis :: RedisCacheConfig

record Config =
  cfg_App :: AppConfig
  cfg_HTTP :: HTTPConfig
  cfg_Log :: LogConfig
  cfg_Database :: DatabaseConfig
  cfg_Redis :: RedisConfig
  cfg_Cache :: CacheConfig
  cfg_JWT :: JWTConfig
  cfg_RateLimit :: RateLimitConfig
  cfg_TCP :: TCPConfig
  cfg_UDP :: UDPConfig
  cfg_Tracing :: TracingConfig
  cfg_Metrics :: MetricsConfig
  cfg_Scheduler :: SchedulerConfig
  cfg_Captcha :: CaptchaConfig
  cfg_ObjectStorage :: ObjectStorageConfig
  cfg_Payment :: PaymentConfig

subsection \<open>Constants\<close>

definition AppName :: string where "AppName = ''app-tpl''"
definition EnvDev :: string where "EnvDev = ''dev''"
definition EnvProd :: string where "EnvProd = ''prod''"
definition EnvTest :: string where "EnvTest = ''test''"
definition DriverMySQL :: string where "DriverMySQL = ''mysql''"
definition DriverPostgreSQL :: string where "DriverPostgreSQL = ''postgres''"
definition DriverPostgres :: string where "DriverPostgres = ''postgresql''"
definition DriverSQLite :: string where "DriverSQLite = ''sqlite''"
definition DriverSQLite3 :: string where "DriverSQLite3 = ''sqlite3''"
definition LogLevels :: "string list" where "LogLevels = [''debug'', ''info'', ''warn'', ''error'']"
definition LogFormats :: "string list" where "LogFormats = [''json'', ''console'']"
definition LogOutputStdout :: string where "LogOutputStdout = ''stdout''"
definition LogOutputFile :: string where "LogOutputFile = ''file''"
definition LogOutputBoth :: string where "LogOutputBoth = ''both''"
definition EnvVarAppEnv :: string where "EnvVarAppEnv = ''APP_ENV''"

lemmas constants = AppName_def EnvDev_def EnvProd_def EnvTest_def DriverMySQL_def DriverPostgreSQL_def
  DriverPostgres_def DriverSQLite_def DriverSQLite3_def LogLevels_def LogFormats_def LogOutputStdout_def
  LogOutputFile_def LogOutputBoth_def EnvVarAppEnv_def

definition SensitiveBinds :: "SensitiveBind list" where
  "SensitiveBinds =
     [\<lparr>b_Key = ''database.password'', b_EnvVar = ''DATABASE_PASSWORD''\<rparr>,
      \<lparr>b_Key = ''redis.password'', b_EnvVar = ''REDIS_PASSWORD''\<rparr>,
      \<lparr>b_Key = ''jwt.secret'', b_EnvVar = ''JWT_SECRET''\<rparr>,
      \<lparr>b_Key = ''http.internal_service_key'', b_EnvVar = ''HTTP_INTERNAL_SERVICE_KEY''\<rparr>,
      \<lparr>b_Key = ''object_storage.access_key'', b_EnvVar = ''OBJECT_STORAGE_ACCESS_KEY''\<rparr>,
      \<lparr>b_Key = ''object_storage.secret_key'', b_EnvVar = ''OBJECT_STORAGE_SECRET_KEY''\<rparr>]"

subsection \<open>Timeouts\<close>

text \<open>The three \<open>GetShutdownTimeout\<close> methods have the same body; nanoseconds, with wrap-around.\<close>

definition shutdown_timeout :: "int \<Rightarrow> int" where
  "shutdown_timeout seconds = (if seconds \<le> 0 then 30 * 1000000000 else wrap64 (seconds * 1000000000))"

definition HTTP_GetShutdownTimeout :: "HTTPConfig \<Rightarrow> int" where
  "HTTP_GetShutdownTimeout c = shutdown_timeout (http_ShutdownTimeout c)"

definition TCP_GetShutdownTimeout :: "TCPConfig \<Rightarrow> int" where
  "TCP_GetShutdownTimeout c = shutdown_timeout (tcp_ShutdownTimeout c)"

definition UDP_GetShutdownTimeout :: "UDPConfig \<Rightarrow> int" where
  "UDP_GetShutdownTimeout c = shutdown_timeout (udp_ShutdownTimeout c)"

subsection \<open>Validation\<close>

definition oneof_error :: "string \<Rightarrow> string list \<Rightarrow> gerr" where
  "oneof_error field allowed = Errorf (field @ '' must be one of: '' @ join '', '' allowed) []"

definition validateOneOf :: "string \<Rightarrow> string \<Rightarrow> string list \<Rightarrow> gerr option" where
  "validateOneOf field v allowed =
     (if v = '''' then None
      else if list_ex (\<lambda>item. v = item) allowed then None
      else Some (oneof_error field allowed))"

definition validateOneOfFold :: "string \<Rightarrow> string \<Rightarrow> string list \<Rightarrow> gerr option" where
  "validateOneOfFold field v allowed =
     (if v = '''' then None
      else if list_ex (\<lambda>item. to_lower v = to_lower item) allowed then None
      else Some (oneof_error field allowed))"

definition validateEnums :: "Config \<Rightarrow> gerr option" where
  "validateEnums c =
     (let l = cfg_Log c; d = cfg_Database c in
      first_error
       ([validateOneOf ''app.env'' (app_Env (cfg_App c)) [EnvDev, EnvProd, EnvTest],
         validateOneOfFold ''log.level'' (log_Level l) LogLevels,
         validateOneOfFold ''log.format'' (log_Format l) LogFormats,
         validateOneOfFold ''log.output'' (log_Output l) [LogOutputStdout, LogOutputFile, LogOutputBoth],
         guard ((equal_fold (log_Output l) LogOutputFile \<or> equal_fold (log_Output l) LogOutputBoth) \<and>
                log_Filename l = '''')
           (Errorf ''log.filename is required when log.output is file or both'' []),
         validateOneOf ''database.driver'' (db_Driver d)
           [DriverSQLite, DriverSQLite3, DriverMySQL, DriverPostgreSQL, DriverPostgres]] @
        (if db_Driver d = DriverPostgreSQL \<or> db_Driver d = DriverPostgres
         then [validateOneOf ''database.ssl_mode'' (db_SSLMode d)
                 [''disable'', ''require'', ''verify-ca'', ''verify-full'']]
         else []) @
        [validateOneOf ''http.tls.min_version'' (tls_MinVersion (http_TLS (cfg_HTTP c))) [''1.2'', ''1.3'']] @
        (if rl_Enabled (cfg_RateLimit c)
         then [validateOneOf ''rate_limit.store'' (rl_Store (cfg_RateLimit c)) [''memory'', ''redis'']] else []) @
        (if cch_Enabled (cfg_Cache c)
         then [validateOneOf ''cache.driver'' (cch_Driver (cfg_Cache c)) [''memory'', ''redis'', ''multi'']]
         else []) @
        (if tcp_Enabled (cfg_TCP c)
         then [validateOneOf ''tcp.codec'' (tcp_Codec (cfg_TCP c)) [''json'', ''binary'']] else []) @
        (if udp_Enabled (cfg_UDP c)
         then [validateOneOf ''udp.codec'' (udp_Codec (cfg_UDP c)) [''json'', ''binary'']] else [])))"

definition bad_port :: "int \<Rightarrow> bool" where
  "bad_port p \<longleftrightarrow> p < 1 \<or> p > 65535"

definition Validate :: "Config \<Rightarrow> gerr option" where
  "Validate c =
     (let h = cfg_HTTP c; d = cfg_Database c; t = cfg_TCP c; u = cfg_UDP c; ca = cfg_Cache c;
          secret = jwt_Secret (cfg_JWT c)
      in first_error
       ([guard (app_Name (cfg_App c) = '''') (Errorf ''app.name is required'' []),
         validateEnums c] @
        (if http_Enabled h
         then [guard (bad_port (http_Port h)) (Errorf ''http.port must be between 1 and 65535'' [])] else []) @
        [guard (db_Driver d = '''') (Errorf ''database.driver is required'' []),
         guard (db_Driver d \<noteq> DriverSQLite \<and> db_Driver d \<noteq> DriverSQLite3 \<and> db_Host d = '''')
           (Errorf ''database.host is required'' []),
         guard (db_Database d = '''') (Errorf ''database.database is required'' [])] @
        (if red_Enabled (cfg_Redis c)
         then [guard (red_Host (cfg_Redis c) = '''') (Errorf ''redis.host is required when redis is enabled'' [])]
         else []) @
        [guard (secret \<noteq> '''' \<and> length secret < 32)
           (Errorf ''jwt.secret must be at least 32 bytes for HS256'' []),
         guard (app_Env (cfg_App c) = EnvProd \<and> secret = '''')
           (Errorf ''jwt.secret is required in production environment'' [])] @
        (if rl_Enabled (cfg_RateLimit c)
         then [guard (rl_Store (cfg_RateLimit c) = ''redis'' \<and> \<not> red_Enabled (cfg_Redis c))
                 (Errorf (''redis must be enabled when rate_limit.store is '' @ go_quote ''redis'') [])]
         else []) @
        (if tls_Enabled (http_TLS h)
         then [guard (tls_CertFile (http_TLS h) = '''') (Errorf ''http.tls.cert_file is required when TLS is enabled'' []),
               guard (tls_KeyFile (http_TLS h) = '''') (Errorf ''http.tls.key_file is required when TLS is enabled'' [])]
         else []) @
        (if tcp_Enabled t
         then [guard (bad_port (tcp_Port t)) (Errorf ''tcp.port must be between 1 and 65535'' []),
               guard (tcp_MaxConnections t \<le> 0) (Errorf ''tcp.max_connections must be positive'' []),
               guard (tcp_MaxTimeoutCount t < 0) (Errorf ''tcp.max_timeout_count must be non-negative'' [])]
         else []) @
        (if udp_Enabled u
         then [guard (bad_port (udp_Port u)) (Errorf ''udp.port must be between 1 and 65535'' []),
               guard (udp_WorkerPoolSize u \<le> 0) (Errorf ''udp.worker_pool_size must be positive'' []),
               guard (udp_SessionCleanupInterval u < 0)
                 (Errorf ''udp.session_cleanup_interval must be non-negative'' []),
               guard (udp_SessionInactiveThreshold u < 0)
                 (Errorf ''udp.session_inactive_threshold must be non-negative'' [])]
         else []) @
        (if cch_Enabled ca
         then [guard ((cch_Driver ca = ''redis'' \<or> cch_Driver ca = ''multi'') \<and> \<not> red_Enabled (cfg_Redis c))
                 (Errorf ''redis must be enabled when using redis or multi cache driver'' [])] @
              (if cch_Driver ca = ''memory'' \<or> cch_Driver ca = ''multi''
               then [guard (mc_NumCounters (cch_Memory ca) \<le> 0)
                       (Errorf ''cache.memory.num_counters must be positive'' []),
                     guard (mc_MaxCost (cch_Memory ca) \<le> 0) (Errorf ''cache.memory.max_cost must be positive'' [])]
               else [])
         else []) @
        (if tr_Enabled (cfg_Tracing c)
         then [guard (tr_Endpoint (cfg_Tracing c) = '''')
                 (Errorf ''tracing.endpoint is required when tracing is enabled'' []),
               guard (f64_less (tr_SampleRate (cfg_Tracing c)) (Fin 0) \<or> f64_less (Fin 1) (tr_SampleRate (cfg_Tracing c)))
                 (Errorf ''tracing.sample_rate must be between 0 and 1'' [])]
         else []) @
        (if met_Enabled (cfg_Metrics c)
         then [guard (met_Path (cfg_Metrics c) = '''') (Errorf ''metrics.path is required when metrics is enabled'' []),
               guard (hd (met_Path (cfg_Metrics c)) \<noteq> CHR ''/'')
                 (Errorf (''metrics.path must start with '' @ go_quote ''/'') [])]
         else [])))"

subsection \<open>Masking and modules\<close>

definition mask :: "string \<Rightarrow> string" where
  "mask s = (if s \<noteq> '''' then ''******'' else s)"

definition MaskedCopy :: "Config \<Rightarrow> Config" where
  "MaskedCopy c =
     c\<lparr>cfg_Database := (cfg_Database c)\<lparr>db_Password := mask (db_Password (cfg_Database c))\<rparr>,
       cfg_Redis := (cfg_Redis c)\<lparr>red_Password := mask (red_Password (cfg_Redis c))\<rparr>,
       cfg_JWT := (cfg_JWT c)\<lparr>jwt_Secret := mask (jwt_Secret (cfg_JWT c))\<rparr>,
       cfg_HTTP := (cfg_HTTP c)\<lparr>http_InternalServiceKey := mask (http_InternalServiceKey (cfg_HTTP c))\<rparr>,
       cfg_ObjectStorage := (cfg_ObjectStorage c)\<lparr>os_AccessKey := mask (os_AccessKey (cfg_ObjectStorage c)),
         os_SecretKey := mask (os_SecretKey (cfg_ObjectStorage c))\<rparr>\<rparr>"

definition EnabledModules :: "Config \<Rightarrow> string list" where
  "EnabledModules c =
     ((if http_Enabled (cfg_HTTP c) then [''http''] else []) @
      (if tcp_Enabled (cfg_TCP c) then [''tcp''] else []) @
      (if udp_Enabled (cfg_UDP c) then [''udp''] else []) @
      (if red_Enabled (cfg_Redis c) then [''redis''] else []) @
      (if cch_Enabled (cfg_Cache c) then [''cache''] else []) @
      (if rl_Enabled (cfg_RateLimit c) then [''rate_limit''] else []) @
      (if tr_Enabled (cfg_Tracing c) then [''tracing''] else []) @
      (if met_Enabled (cfg_Metrics c) then [''metrics''] else []) @
      (if sch_Enabled (cfg_Scheduler c) then [''scheduler''] else []) @
      (if cpt_Enabled (cfg_Captcha c) then [''captcha''] else []) @
      (if os_Enabled (cfg_ObjectStorage c) then [''object_storage''] else []) @
      (if pay_Enabled (cfg_Payment c) then [''payment''] else []))"

subsection \<open>Defaults\<close>

datatype cfgval = VString string | VInt int | VBool bool | VFloat float64 | VList "string list"

definition setDefaults :: "(string \<times> cfgval) list" where
  "setDefaults =
     [(''app.name'', VString ''app-tpl''), (''app.version'', VString ''1.0.0''),
      (''app.env'', VString ''dev''), (''http.enabled'', VBool True), (''http.host'', VString ''0.0.0.0''),
      (''http.port'', VInt 8080), (''http.read_timeout'', VInt 30), (''http.write_timeout'', VInt 30),
      (''http.shutdown_timeout'', VInt 30), (''log.level'', VString ''info''),
      (''log.format'', VString ''json''), (''log.output'', VString ''stdout''),
      (''log.filename'', VString ''logs/app.log''), (''log.max_size'', VInt 100),
      (''log.max_backups'', VInt 30), (''log.max_age'', VInt 7), (''log.compress'', VBool True),
      (''database.driver'', VString ''sqlite''), (''database.max_open_conns'', VInt 25),
      (''database.max_idle_conns'', VInt 10), (''database.conn_max_lifetime'', VInt 300),
      (''database.conn_max_idle_time'', VInt 60), (''redis.enabled'', VBool False),
      (''redis.host'', VString ''localhost''), (''redis.port'', VInt 6379), (''redis.db'', VInt 0),
      (''redis.pool_size'', VInt 10), (''redis.min_idle_conns'', VInt 0), (''redis.idle_timeout'', VInt 300),
      (''cache.enabled'', VBool False), (''cache.driver'', VString ''memory''),
      (''cache.memory.num_counters'', VInt 1000000), (''cache.memory.max_cost'', VInt 100000),
      (''cache.memory.buffer_items'', VInt 64), (''cache.redis.key_prefix'', VString ''app:''),
      (''cache.redis.default_ttl'', VInt 3600), (''jwt.access_token_ttl'', VInt 7200),
      (''jwt.refresh_token_ttl'', VInt 604800), (''jwt.skip_paths'', VList []),
      (''rate_limit.enabled'', VBool False), (''rate_limit.store'', VString ''memory''),
      (''rate_limit.global_rps'', VInt 10000), (''rate_limit.ip_rps'', VInt 100),
      (''rate_limit.user_rps'', VInt 50), (''http.tls.enabled'', VBool False),
      (''http.tls.min_version'', VString ''1.3''), (''tcp.enabled'', VBool False),
      (''tcp.host'', VString ''0.0.0.0''), (''tcp.port'', VInt 9000), (''tcp.read_timeout'', VInt 30),
      (''tcp.write_timeout'', VInt 30), (''tcp.heartbeat_interval'', VInt 30),
      (''tcp.heartbeat_timeout'', VInt 90), (''tcp.shutdown_timeout'', VInt 30),
      (''tcp.codec'', VString ''json''), (''tcp.max_connections'', VInt 10000),
      (''tcp.max_timeout_count'', VInt 10), (''udp.enabled'', VBool False),
      (''udp.host'', VString ''0.0.0.0''), (''udp.port'', VInt 9001), (''udp.read_buffer_size'', VInt 4096),
      (''udp.write_buffer_size'', VInt 4096), (''udp.shutdown_timeout'', VInt 30),
      (''udp.codec'', VString ''json''), (''udp.worker_pool_size'', VInt 100),
      (''udp.session_cleanup_interval'', VInt 300), (''udp.session_inactive_threshold'', VInt 600),
      (''tracing.enabled'', VBool False), (''tracing.sample_rate'', VFloat (Fin 1)),
      (''metrics.enabled'', VBool False), (''metrics.path'', VString ''/metrics''),
      (''scheduler.enabled'', VBool False), (''captcha.enabled'', VBool False),
      (''object_storage.enabled'', VBool False), (''payment.enabled'', VBool False)]"

subsection \<open>Paths\<close>

text \<open>The Unix behaviour of \<^verbatim>\<open>path/filepath\<close>. \<open>path_steps\<close> resolves the elements against a stack of
  kept ones, the last element first.\<close>

fun path_steps :: "bool \<Rightarrow> string list \<Rightarrow> string list \<Rightarrow> string list" where
  "path_steps rooted [] kept = rev kept"
| "path_steps rooted (p # ps) kept =
     (if p = '''' \<or> p = ''.'' then path_steps rooted ps kept
      else if p = ''..'' then
        (case kept of
           [] \<Rightarrow> path_steps rooted ps (if rooted then [] else [''..''])
         | k # ks \<Rightarrow> path_steps rooted ps (if k = ''..'' then p # kept else ks))
      else path_steps rooted ps (p # kept))"

definition path_Clean :: "string \<Rightarrow> string" where
  "path_Clean p =
     (let rooted = has_prefix p ''/''; out = join ''/'' (path_steps rooted (splitc (CHR ''/'') p) [])
      in if rooted then CHR ''/'' # out else if out = '''' then ''.'' else out)"

definition path_Base :: "string \<Rightarrow> string" where
  "path_Base p =
     (if p = '''' then ''.''
      else let q = rev (dropWhile (\<lambda>c. c = CHR ''/'') (rev p))
        in if q = '''' then ''/'' else last (splitc (CHR ''/'') q))"

definition path_Dir :: "string \<Rightarrow> string" where
  "path_Dir p = path_Clean (rev (dropWhile (\<lambda>c. c \<noteq> CHR ''/'') (rev p)))"

definition path_Join :: "string list \<Rightarrow> string" where
  "path_Join ps =
     (let qs = filter (\<lambda>p. p \<noteq> '''') ps in if qs = [] then '''' else path_Clean (join ''/'' qs))"

subsection \<open>Loading\<close>

text \<open>\<open>os_api\<close>: the process environment and the file system, with \<^verbatim>\<open>godotenv.Load\<close>. \<open>viper_api\<close>: a Viper
  instance; reading the bound environment variables happens in \<open>vi_Unmarshal\<close>.\<close>

record 'e os_api =
  os_Getenv :: "'e \<Rightarrow> string \<Rightarrow> string"
  os_Getwd :: "(gerr, string) result"
  os_Stat :: "string \<Rightarrow> gerr option"
  dotenv_Load :: "'e \<Rightarrow> string \<Rightarrow> gerr option \<times> 'e"

record ('v, 'e) viper_api =
  vi_New :: 'v
  vi_SetDefault :: "'v \<Rightarrow> string \<Rightarrow> cfgval \<Rightarrow> 'v"
  vi_BindEnv :: "'v \<Rightarrow> string \<Rightarrow> string \<Rightarrow> (gerr, 'v) result"
  vi_SetConfigFile :: "'v \<Rightarrow> string \<Rightarrow> 'v"
  vi_SetConfigName :: "'v \<Rightarrow> string \<Rightarrow> 'v"
  vi_SetConfigType :: "'v \<Rightarrow> string \<Rightarrow> 'v"
  vi_AddConfigPath :: "'v \<Rightarrow> string \<Rightarrow> 'v"
  vi_ReadInConfig :: "'v \<Rightarrow> gerr option \<times> 'v"
  vi_IsNotFound :: "gerr \<Rightarrow> bool"
  vi_ConfigFileUsed :: "'v \<Rightarrow> string"
  vi_MergeInConfig :: "'v \<Rightarrow> gerr option \<times> 'v"
  vi_Unmarshal :: "'v \<Rightarrow> 'e \<Rightarrow> (gerr, Config) result"

definition path_Abs :: "'e os_api \<Rightarrow> string \<Rightarrow> (gerr, string) result" where
  "path_Abs os p =
     (if has_prefix p ''/'' then Inr (path_Clean p)
      else case os_Getwd os of Inl err \<Rightarrow> Inl err | Inr wd \<Rightarrow> Inr (path_Join [wd, p]))"

fun load_dotenvs :: "'e os_api \<Rightarrow> string list \<Rightarrow> 'e \<Rightarrow> string list \<times> 'e" where
  "load_dotenvs os [] e = ([], e)"
| "load_dotenvs os (path # paths) e =
     (case dotenv_Load os e path of
        (Some err, e') \<Rightarrow> load_dotenvs os paths e'
      | (None, e') \<Rightarrow> (let (loaded, e'') = load_dotenvs os paths e' in (path # loaded, e'')))"

definition dotenv_candidates :: "string \<Rightarrow> string list" where
  "dotenv_candidates overlayEnv =
     (if overlayEnv \<noteq> '''' then [''.env.'' @ overlayEnv, ''./configs/.env.'' @ overlayEnv] else []) @
     [''.env'', ''./configs/.env'']"

definition loadDotenvFiles :: "'e os_api \<Rightarrow> string \<Rightarrow> 'e \<Rightarrow> string list \<times> 'e" where
  "loadDotenvFiles os overlayEnv e = load_dotenvs os (dotenv_candidates overlayEnv) e"

fun bind_all :: "('v, 'e) viper_api \<Rightarrow> SensitiveBind list \<Rightarrow> 'v \<Rightarrow> (gerr, 'v) result" where
  "bind_all vi [] v = Inr v"
| "bind_all vi (b # bs) v =
     (case vi_BindEnv vi v (b_Key b) (b_EnvVar b) of
        Inl err \<Rightarrow> Inl (wrapl (''failed to bind env '' @ b_EnvVar b @ '' -> '' @ b_Key b) err)
      | Inr v' \<Rightarrow> bind_all vi bs v')"

definition bindSensitiveEnvs :: "('v, 'e) viper_api \<Rightarrow> 'v \<Rightarrow> (gerr, 'v) result" where
  "bindSensitiveEnvs vi v = bind_all vi SensitiveBinds v"

text \<open>Reading the primary file: the Viper instance, the recorded path, the directory and whether the
  file is named \<^verbatim>\<open>config.yaml\<close>.\<close>

definition read_base ::
  "'e os_api \<Rightarrow> ('v, 'e) viper_api \<Rightarrow> string \<Rightarrow> 'v \<Rightarrow> (gerr, 'v \<times> string \<times> string \<times> bool) result" where
  "read_base os vi configPath v =
     (if configPath \<noteq> '''' then
        (case path_Abs os configPath of
           Inl err \<Rightarrow> Inl (wrapl ''failed to get absolute path'' err)
         | Inr absPath \<Rightarrow>
             (case vi_ReadInConfig vi (vi_SetConfigFile vi v configPath) of
                (Some err, _) \<Rightarrow> Inl (wrapl ''failed to read config file'' err)
              | (None, v') \<Rightarrow> Inr (v', absPath, path_Dir absPath, equal_fold (path_Base absPath) ''config.yaml'')))
      else
        let configDir = ''./configs'';
            v1 = vi_AddConfigPath vi (vi_AddConfigPath vi
                   (vi_SetConfigType vi (vi_SetConfigName vi v ''config'') ''yaml'') configDir) ''.''
        in case vi_ReadInConfig vi v1 of
             (Some err, v') \<Rightarrow>
               if vi_IsNotFound vi err then Inr (v', '''', configDir, False)
               else Inl (wrapl ''failed to read config file'' err)
           | (None, v') \<Rightarrow>
               let used = vi_ConfigFileUsed vi v'
               in Inr (v', used, path_Dir used, equal_fold (path_Base used) ''config.yaml''))"

definition merge_overlay ::
  "'e os_api \<Rightarrow> ('v, 'e) viper_api \<Rightarrow> string \<Rightarrow> string \<Rightarrow> 'v \<Rightarrow> LoadMeta \<Rightarrow> (gerr, 'v) result \<times> LoadMeta" where
  "merge_overlay os vi overlayEnv configDir v meta =
     (let meta1 = meta\<lparr>m_OverlayEnv := overlayEnv\<rparr>;
          overlayName = ''config.'' @ overlayEnv;
          overlayFile = path_Join [configDir, overlayName @ ''.yaml'']
      in case os_Stat os overlayFile of
           Some err \<Rightarrow> (Inr v, meta1)
         | None \<Rightarrow>
             (case vi_MergeInConfig vi (vi_AddConfigPath vi
                     (vi_SetConfigType vi (vi_SetConfigName vi v overlayName) ''yaml'') configDir) of
                (Some err, _) \<Rightarrow> (Inl (wrapl ''failed to merge environment config'' err), meta1)
              | (None, v') \<Rightarrow>
                  (Inr v', meta1\<lparr>m_OverlayPath :=
                     (case path_Abs os overlayFile of Inl err \<Rightarrow> overlayFile | Inr p \<Rightarrow> p)\<rparr>)))"

definition resolve_env :: "string \<Rightarrow> Config \<Rightarrow> Config" where
  "resolve_env overlayEnv cfg =
     (if overlayEnv \<noteq> '''' then cfg\<lparr>cfg_App := (cfg_App cfg)\<lparr>app_Env := overlayEnv\<rparr>\<rparr>
      else if app_Env (cfg_App cfg) = '''' then cfg\<lparr>cfg_App := (cfg_App cfg)\<lparr>app_Env := EnvDev\<rparr>\<rparr>
      else cfg)"

definition LoadWithMeta ::
  "'e os_api \<Rightarrow> ('v, 'e) viper_api \<Rightarrow> string \<Rightarrow> string \<Rightarrow> 'e \<Rightarrow> (gerr, Config) result \<times> LoadMeta" where
  "LoadWithMeta os vi configPath envOverride e =
     (let v0 = foldl (\<lambda>v (k, d). vi_SetDefault vi v k d) (vi_New vi) setDefaults;
          overlayEnv = (if envOverride = '''' then os_Getenv os e EnvVarAppEnv else envOverride);
          (paths, e') = loadDotenvFiles os overlayEnv e;
          meta = \<lparr>m_BasePath = '''', m_OverlayPath = '''', m_OverlayEnv = '''', m_DotenvPaths = paths\<rparr>
      in case bindSensitiveEnvs vi v0 of
           Inl err \<Rightarrow> (Inl err, meta)
         | Inr v1 \<Rightarrow>
             (case read_base os vi configPath v1 of
                Inl err \<Rightarrow> (Inl err, meta)
              | Inr (v2, basePath, configDir, baseIsConfigYAML) \<Rightarrow>
                  let meta1 = meta\<lparr>m_BasePath := basePath\<rparr>;
                      (r, meta2) = (if overlayEnv \<noteq> '''' \<and> baseIsConfigYAML
                                    then merge_overlay os vi overlayEnv configDir v2 meta1 else (Inr v2, meta1))
                  in case r of
                       Inl err \<Rightarrow> (Inl err, meta2)
                     | Inr v3 \<Rightarrow>
                         (case vi_Unmarshal vi v3 e' of
                            Inl err \<Rightarrow> (Inl (wrapl ''failed to unmarshal config'' err), meta2)
                          | Inr cfg \<Rightarrow> (Inr (resolve_env overlayEnv cfg), meta2))))"

definition LoadWithEnv ::
  "'e os_api \<Rightarrow> ('v, 'e) viper_api \<Rightarrow> string \<Rightarrow> string \<Rightarrow> 'e \<Rightarrow> (gerr, Config) result" where
  "LoadWithEnv os vi configPath envOverride e = fst (LoadWithMeta os vi configPath envOverride e)"

subsection \<open>What validation requires\<close>

definition enum_ok :: "string \<Rightarrow> string list \<Rightarrow> bool" where
  "enum_ok v allowed \<longleftrightarrow> v = '''' \<or> v \<in> set allowed"

definition enum_fold_ok :: "string \<Rightarrow> string list \<Rightarrow> bool" where
  "enum_fold_ok v allowed \<longleftrightarrow> v = '''' \<or> to_lower v \<in> set (map to_lower allowed)"

definition valid_log :: "LogConfig \<Rightarrow> bool" where
  "valid_log l \<longleftrightarrow>
     enum_fold_ok (log_Level l) [''debug'', ''info'', ''warn'', ''error''] \<and>
     enum_fold_ok (log_Format l) [''json'', ''console''] \<and>
     enum_fold_ok (log_Output l) [''stdout'', ''file'', ''both''] \<and>
     (equal_fold (log_Output l) ''file'' \<or> equal_fold (log_Output l) ''both'' \<longrightarrow> log_Filename l \<noteq> '''')"

definition valid_database :: "DatabaseConfig \<Rightarrow> bool" where
  "valid_database d \<longleftrightarrow>
     db_Driver d \<in> {''sqlite'', ''sqlite3'', ''mysql'', ''postgres'', ''postgresql''} \<and> db_Database d \<noteq> '''' \<and>
     (db_Driver d \<in> {''mysql'', ''postgres'', ''postgresql''} \<longrightarrow> db_Host d \<noteq> '''') \<and>
     (db_Driver d \<in> {''postgres'', ''postgresql''} \<longrightarrow>
        enum_ok (db_SSLMode d) [''disable'', ''require'', ''verify-ca'', ''verify-full''])"

definition valid_http :: "HTTPConfig \<Rightarrow> bool" where
  "valid_http h \<longleftrightarrow>
     (http_Enabled h \<longrightarrow> 1 \<le> http_Port h \<and> http_Port h \<le> 65535) \<and>
     enum_ok (tls_MinVersion (http_TLS h)) [''1.2'', ''1.3''] \<and>
     (tls_Enabled (http_TLS h) \<longrightarrow> tls_CertFile (http_TLS h) \<noteq> '''' \<and> tls_KeyFile (http_TLS h) \<noteq> '''')"

definition valid_secret :: "string \<Rightarrow> string \<Rightarrow> bool" where
  "valid_secret env secret \<longleftrightarrow> (if env = ''prod'' then length secret \<ge> 32 else secret = '''' \<or> length secret \<ge> 32)"

definition valid_tcp :: "TCPConfig \<Rightarrow> bool" where
  "valid_tcp t \<longleftrightarrow>
     (tcp_Enabled t \<longrightarrow> 1 \<le> tcp_Port t \<and> tcp_Port t \<le> 65535 \<and> 0 < tcp_MaxConnections t \<and>
        0 \<le> tcp_MaxTimeoutCount t \<and> enum_ok (tcp_Codec t) [''json'', ''binary''])"

definition valid_udp :: "UDPConfig \<Rightarrow> bool" where
  "valid_udp u \<longleftrightarrow>
     (udp_Enabled u \<longrightarrow> 1 \<le> udp_Port u \<and> udp_Port u \<le> 65535 \<and> 0 < udp_WorkerPoolSize u \<and>
        0 \<le> udp_SessionCleanupInterval u \<and> 0 \<le> udp_SessionInactiveThreshold u \<and>
        enum_ok (udp_Codec u) [''json'', ''binary''])"

definition valid_cache :: "bool \<Rightarrow> CacheConfig \<Rightarrow> bool" where
  "valid_cache redis ca \<longleftrightarrow>
     (cch_Enabled ca \<longrightarrow>
        (cch_Driver ca = '''' \<or>
         cch_Driver ca = ''memory'' \<and> 0 < mc_NumCounters (cch_Memory ca) \<and> 0 < mc_MaxCost (cch_Memory ca) \<or>
         cch_Driver ca = ''redis'' \<and> redis \<or>
         cch_Driver ca = ''multi'' \<and> redis \<and> 0 < mc_NumCounters (cch_Memory ca) \<and> 0 < mc_MaxCost (cch_Memory ca)))"

definition valid_rate_limit :: "bool \<Rightarrow> RateLimitConfig \<Rightarrow> bool" where
  "valid_rate_limit redis r \<longleftrightarrow>
     (rl_Enabled r \<longrightarrow> rl_Store r = '''' \<or> rl_Store r = ''memory'' \<or> rl_Store r = ''redis'' \<and> redis)"

definition valid_sample_rate :: "float64 \<Rightarrow> bool" where
  "valid_sample_rate r \<longleftrightarrow> (case r of Fin q \<Rightarrow> 0 \<le> q \<and> q \<le> 1 | NaN \<Rightarrow> True | _ \<Rightarrow> False)"

definition valid_telemetry :: "TracingConfig \<Rightarrow> MetricsConfig \<Rightarrow> bool" where
  "valid_telemetry t m \<longleftrightarrow>
     (tr_Enabled t \<longrightarrow> tr_Endpoint t \<noteq> '''' \<and> valid_sample_rate (tr_SampleRate t)) \<and>
     (met_Enabled m \<longrightarrow> has_prefix (met_Path m) ''/'')"

definition valid_config :: "Config \<Rightarrow> bool" where
  "valid_config c \<longleftrightarrow>
     app_Name (cfg_App c) \<noteq> '''' \<and> enum_ok (app_Env (cfg_App c)) [''dev'', ''prod'', ''test''] \<and>
     valid_log (cfg_Log c) \<and> valid_database (cfg_Database c) \<and> valid_http (cfg_HTTP c) \<and>
     (red_Enabled (cfg_Redis c) \<longrightarrow> red_Host (cfg_Redis c) \<noteq> '''') \<and>
     valid_secret (app_Env (cfg_App c)) (jwt_Secret (cfg_JWT c)) \<and>
     valid_rate_limit (red_Enabled (cfg_Redis c)) (cfg_RateLimit c) \<and>
     valid_tcp (cfg_TCP c) \<and> valid_udp (cfg_UDP c) \<and>
     valid_cache (red_Enabled (cfg_Redis c)) (cfg_Cache c) \<and>
     valid_telemetry (cfg_Tracing c) (cfg_Metrics c)"

subsection \<open>Lemmas\<close>

lemma validateOneOf_None [simp]: "validateOneOf f v allowed = None \<longleftrightarrow> enum_ok v allowed"
  by (auto simp: validateOneOf_def enum_ok_def list_ex_iff)

lemma validateOneOfFold_None [simp]: "validateOneOfFold f v allowed = None \<longleftrightarrow> enum_fold_ok v allowed"
  by (auto simp: validateOneOfFold_def enum_fold_ok_def list_ex_iff)

lemma first_error_Nil_iff: "first_error [] = None"
  by simp

lemma first_error_Cons_None: "first_error (g # gs) = None \<longleftrightarrow> g = None \<and> first_error gs = None"
  by (cases g) auto

lemma first_error_append_None: "first_error (gs @ hs) = None \<longleftrightarrow> first_error gs = None \<and> first_error hs = None"
  by (auto simp: first_error_None)

lemma first_error_if: "first_error (if b then gs else []) = None \<longleftrightarrow> (b \<longrightarrow> first_error gs = None)"
  by simp

lemmas first_error_iffs = first_error_Nil_iff first_error_Cons_None first_error_append_None first_error_if

lemma sample_rate_iff:
  "\<not> (f64_less r (Fin 0) \<or> f64_less (Fin 1) r) \<longleftrightarrow> valid_sample_rate r"
  by (cases r) (auto simp: valid_sample_rate_def not_less)

lemma slash_prefix: "has_prefix p ''/'' \<longleftrightarrow> p \<noteq> '''' \<and> hd p = CHR ''/''"
  by (cases p) (auto simp: has_prefix_iff)

lemma secret_iff:
  "\<not> (s \<noteq> '''' \<and> length s < 32) \<and> \<not> (env = EnvProd \<and> s = '''') \<longleftrightarrow> valid_secret env s"
  by (auto simp: valid_secret_def EnvProd_def not_less)

lemma validateEnums_None:
  "validateEnums c = None \<longleftrightarrow>
     enum_ok (app_Env (cfg_App c)) [''dev'', ''prod'', ''test''] \<and> valid_log (cfg_Log c) \<and>
     enum_ok (db_Driver (cfg_Database c)) [''sqlite'', ''sqlite3'', ''mysql'', ''postgres'', ''postgresql''] \<and>
     (db_Driver (cfg_Database c) \<in> {''postgres'', ''postgresql''} \<longrightarrow>
        enum_ok (db_SSLMode (cfg_Database c)) [''disable'', ''require'', ''verify-ca'', ''verify-full'']) \<and>
     enum_ok (tls_MinVersion (http_TLS (cfg_HTTP c))) [''1.2'', ''1.3''] \<and>
     (rl_Enabled (cfg_RateLimit c) \<longrightarrow> enum_ok (rl_Store (cfg_RateLimit c)) [''memory'', ''redis'']) \<and>
     (cch_Enabled (cfg_Cache c) \<longrightarrow> enum_ok (cch_Driver (cfg_Cache c)) [''memory'', ''redis'', ''multi'']) \<and>
     (tcp_Enabled (cfg_TCP c) \<longrightarrow> enum_ok (tcp_Codec (cfg_TCP c)) [''json'', ''binary'']) \<and>
     (udp_Enabled (cfg_UDP c) \<longrightarrow> enum_ok (udp_Codec (cfg_UDP c)) [''json'', ''binary''])"
  unfolding validateEnums_def Let_def first_error_iffs validateOneOf_None validateOneOfFold_None guard_None
    valid_log_def constants insert_iff empty_iff
  by blast

lemma valid_rate_limit_iff:
  "valid_rate_limit redis r \<longleftrightarrow>
     (rl_Enabled r \<longrightarrow> enum_ok (rl_Store r) [''memory'', ''redis''] \<and> \<not> (rl_Store r = ''redis'' \<and> \<not> redis))"
  by (auto simp: valid_rate_limit_def enum_ok_def)

lemma valid_cache_iff:
  "valid_cache redis ca \<longleftrightarrow>
     (cch_Enabled ca \<longrightarrow> enum_ok (cch_Driver ca) [''memory'', ''redis'', ''multi''] \<and>
        \<not> ((cch_Driver ca = ''redis'' \<or> cch_Driver ca = ''multi'') \<and> \<not> redis) \<and>
        (cch_Driver ca = ''memory'' \<or> cch_Driver ca = ''multi'' \<longrightarrow>
           \<not> mc_NumCounters (cch_Memory ca) \<le> 0 \<and> \<not> mc_MaxCost (cch_Memory ca) \<le> 0))"
  by (auto simp: valid_cache_def enum_ok_def not_le)

lemma valid_database_iff:
  "valid_database d \<longleftrightarrow>
     enum_ok (db_Driver d) [''sqlite'', ''sqlite3'', ''mysql'', ''postgres'', ''postgresql''] \<and>
     (db_Driver d \<in> {''postgres'', ''postgresql''} \<longrightarrow>
        enum_ok (db_SSLMode d) [''disable'', ''require'', ''verify-ca'', ''verify-full'']) \<and>
     db_Driver d \<noteq> '''' \<and>
     \<not> (db_Driver d \<noteq> DriverSQLite \<and> db_Driver d \<noteq> DriverSQLite3 \<and> db_Host d = '''') \<and> db_Database d \<noteq> ''''"
  by (auto simp: valid_database_def enum_ok_def [of "db_Driver d"] constants)

lemma valid_http_iff:
  "valid_http h \<longleftrightarrow>
     (http_Enabled h \<longrightarrow> \<not> bad_port (http_Port h)) \<and> enum_ok (tls_MinVersion (http_TLS h)) [''1.2'', ''1.3''] \<and>
     (tls_Enabled (http_TLS h) \<longrightarrow> tls_CertFile (http_TLS h) \<noteq> '''' \<and> tls_KeyFile (http_TLS h) \<noteq> '''')"
  by (simp add: valid_http_def bad_port_def not_less)

lemma valid_tcp_iff:
  "valid_tcp t \<longleftrightarrow>
     (tcp_Enabled t \<longrightarrow> \<not> bad_port (tcp_Port t) \<and> \<not> tcp_MaxConnections t \<le> 0 \<and> \<not> tcp_MaxTimeoutCount t < 0 \<and>
        enum_ok (tcp_Codec t) [''json'', ''binary''])"
  by (auto simp: valid_tcp_def bad_port_def not_less)

lemma valid_udp_iff:
  "valid_udp u \<longleftrightarrow>
     (udp_Enabled u \<longrightarrow> \<not> bad_port (udp_Port u) \<and> \<not> udp_WorkerPoolSize u \<le> 0 \<and>
        \<not> udp_SessionCleanupInterval u < 0 \<and> \<not> udp_SessionInactiveThreshold u < 0 \<and>
        enum_ok (udp_Codec u) [''json'', ''binary''])"
  by (auto simp: valid_udp_def bad_port_def not_less)

lemma valid_telemetry_iff:
  "valid_telemetry t m \<longleftrightarrow>
     (tr_Enabled t \<longrightarrow> tr_Endpoint t \<noteq> '''' \<and>
        \<not> (f64_less (tr_SampleRate t) (Fin 0) \<or> f64_less (Fin 1) (tr_SampleRate t))) \<and>
     (met_Enabled m \<longrightarrow> met_Path m \<noteq> '''' \<and> hd (met_Path m) = CHR ''/'')"
  by (simp only: valid_telemetry_def sample_rate_iff slash_prefix)

lemma not_neq: "\<not> (x \<noteq> y) \<longleftrightarrow> x = y"
  by simp

text \<open>\<open>Validate\<close> accepts exactly the configurations of the specification.\<close>

lemma Validate_valid: "Validate c = None \<longleftrightarrow> valid_config c"
  unfolding Validate_def Let_def first_error_iffs guard_None validateEnums_None valid_config_def
    valid_rate_limit_iff valid_cache_iff valid_database_iff valid_http_iff valid_tcp_iff valid_udp_iff
    valid_telemetry_iff secret_iff [symmetric] not_neq
  by argo

text \<open>The secrets by their configuration key, as the \<^verbatim>\<open>mapstructure\<close> tags give it.\<close>

definition secret_at :: "string \<Rightarrow> Config \<Rightarrow> string" where
  "secret_at key c =
     (if key = ''database.password'' then db_Password (cfg_Database c)
      else if key = ''redis.password'' then red_Password (cfg_Redis c)
      else if key = ''jwt.secret'' then jwt_Secret (cfg_JWT c)
      else if key = ''http.internal_service_key'' then http_InternalServiceKey (cfg_HTTP c)
      else if key = ''object_storage.access_key'' then os_AccessKey (cfg_ObjectStorage c)
      else os_SecretKey (cfg_ObjectStorage c))"

definition set_secret :: "string \<Rightarrow> string \<Rightarrow> Config \<Rightarrow> Config" where
  "set_secret key s c =
     (if key = ''database.password'' then c\<lparr>cfg_Database := (cfg_Database c)\<lparr>db_Password := s\<rparr>\<rparr>
      else if key = ''redis.password'' then c\<lparr>cfg_Redis := (cfg_Redis c)\<lparr>red_Password := s\<rparr>\<rparr>
      else if key = ''jwt.secret'' then c\<lparr>cfg_JWT := (cfg_JWT c)\<lparr>jwt_Secret := s\<rparr>\<rparr>
      else if key = ''http.internal_service_key''
        then c\<lparr>cfg_HTTP := (cfg_HTTP c)\<lparr>http_InternalServiceKey := s\<rparr>\<rparr>
      else if key = ''object_storage.access_key''
        then c\<lparr>cfg_ObjectStorage := (cfg_ObjectStorage c)\<lparr>os_AccessKey := s\<rparr>\<rparr>
      else c\<lparr>cfg_ObjectStorage := (cfg_ObjectStorage c)\<lparr>os_SecretKey := s\<rparr>\<rparr>)"

lemma mask_simps [simp]: "mask '''' = ''''" "s \<noteq> '''' \<Longrightarrow> mask s = ''******''" "mask (mask s) = mask s"
  by (simp_all add: mask_def)

lemma secret_MaskedCopy: "secret_at key (MaskedCopy c) = mask (secret_at key c)"
  by (simp add: secret_at_def MaskedCopy_def)

lemma MaskedCopy_updates:
  "MaskedCopy (c\<lparr>cfg_Database := (cfg_Database c)\<lparr>db_Password := s\<rparr>\<rparr>) =
     (MaskedCopy c)\<lparr>cfg_Database := (cfg_Database (MaskedCopy c))\<lparr>db_Password := mask s\<rparr>\<rparr>"
  "MaskedCopy (c\<lparr>cfg_Redis := (cfg_Redis c)\<lparr>red_Password := s\<rparr>\<rparr>) =
     (MaskedCopy c)\<lparr>cfg_Redis := (cfg_Redis (MaskedCopy c))\<lparr>red_Password := mask s\<rparr>\<rparr>"
  "MaskedCopy (c\<lparr>cfg_JWT := (cfg_JWT c)\<lparr>jwt_Secret := s\<rparr>\<rparr>) =
     (MaskedCopy c)\<lparr>cfg_JWT := (cfg_JWT (MaskedCopy c))\<lparr>jwt_Secret := mask s\<rparr>\<rparr>"
  "MaskedCopy (c\<lparr>cfg_HTTP := (cfg_HTTP c)\<lparr>http_InternalServiceKey := s\<rparr>\<rparr>) =
     (MaskedCopy c)\<lparr>cfg_HTTP := (cfg_HTTP (MaskedCopy c))\<lparr>http_InternalServiceKey := mask s\<rparr>\<rparr>"
  "MaskedCopy (c\<lparr>cfg_ObjectStorage := (cfg_ObjectStorage c)\<lparr>os_AccessKey := s\<rparr>\<rparr>) =
     (MaskedCopy c)\<lparr>cfg_ObjectStorage := (cfg_ObjectStorage (MaskedCopy c))\<lparr>os_AccessKey := mask s\<rparr>\<rparr>"
  "MaskedCopy (c\<lparr>cfg_ObjectStorage := (cfg_ObjectStorage c)\<lparr>os_SecretKey := s\<rparr>\<rparr>) =
     (MaskedCopy c)\<lparr>cfg_ObjectStorage := (cfg_ObjectStorage (MaskedCopy c))\<lparr>os_SecretKey := mask s\<rparr>\<rparr>"
  by (simp_all add: MaskedCopy_def)

lemma MaskedCopy_set_secret:
  "MaskedCopy (set_secret key s c) = set_secret key (mask s) (MaskedCopy c)"
  unfolding set_secret_def by (simp only: if_distrib [of MaskedCopy] MaskedCopy_updates)

lemma set_secret_same: "set_secret key (secret_at key c) c = c"
  by (simp add: set_secret_def secret_at_def)

lemma MaskedCopy_modules: "EnabledModules (MaskedCopy c) = EnabledModules c"
  unfolding EnabledModules_def MaskedCopy_def by simp

text \<open>The overlay metadata of a load, and that nothing of the overlay is used when it is not selected.\<close>

lemma resolve_env_App:
  "app_Env (cfg_App (resolve_env overlayEnv cfg)) =
     (if overlayEnv \<noteq> '''' then overlayEnv
      else if app_Env (cfg_App cfg) = '''' then EnvDev else app_Env (cfg_App cfg))"
  by (simp add: resolve_env_def)

lemma merge_overlay_meta:
  "merge_overlay os vi env dir v meta = (r, meta') \<Longrightarrow>
     m_OverlayEnv meta' = env \<and> m_BasePath meta' = m_BasePath meta"
  by (auto simp: merge_overlay_def Let_def split: option.splits prod.splits)

lemma read_base_yaml:
  "read_base os vi configPath v = Inr (v', basePath, dir, True) \<Longrightarrow> equal_fold (path_Base basePath) ''config.yaml''"
  by (auto simp: read_base_def Let_def split: if_splits sum.splits option.splits prod.splits)

lemma bind_all_merge [simp]: "bind_all (vi\<lparr>vi_MergeInConfig := f\<rparr>) bs v = bind_all vi bs v"
  by (induction bs arbitrary: v) (auto split: sum.splits)

lemma read_base_merge [simp]:
  "read_base os (vi\<lparr>vi_MergeInConfig := f\<rparr>) configPath v = read_base os vi configPath v"
  by (simp add: read_base_def Let_def split: sum.splits option.splits prod.splits)

lemma read_base_other:
  assumes "configPath \<noteq> ''''" "\<And>p. path_Abs os configPath = Inr p \<Longrightarrow> \<not> equal_fold (path_Base p) ''config.yaml''"
    and "read_base os vi configPath v = Inr (v', basePath, dir, yaml)"
  shows "\<not> yaml"
  using assms by (auto simp: read_base_def split: sum.splits option.splits prod.splits)

lemma LoadWithMeta_success:
  assumes "LoadWithMeta os vi configPath envOverride e = (Inr cfg, meta)"
    and env: "overlayEnv = (if envOverride = '''' then os_Getenv os e EnvVarAppEnv else envOverride)"
  obtains raw where "cfg = resolve_env overlayEnv raw"
    and "m_OverlayEnv meta = '''' \<and> m_OverlayPath meta = '''' \<or>
         overlayEnv \<noteq> '''' \<and> m_OverlayEnv meta = overlayEnv \<and> equal_fold (path_Base (m_BasePath meta)) ''config.yaml''"
proof -
  obtain paths e' where dot: "loadDotenvFiles os overlayEnv e = (paths, e')" by force
  let ?v0 = "foldl (\<lambda>v (k, d). vi_SetDefault vi v k d) (vi_New vi) setDefaults"
  let ?meta = "\<lparr>m_BasePath = '''', m_OverlayPath = '''', m_OverlayEnv = '''', m_DotenvPaths = paths\<rparr>"
  note load = assms(1)[unfolded LoadWithMeta_def Let_def env [symmetric] dot prod.case]
  obtain v1 where v1: "bindSensitiveEnvs vi ?v0 = Inr v1"
    using load by (auto split: sum.splits)
  obtain v2 base dir yaml where v2: "read_base os vi configPath v1 = Inr (v2, base, dir, yaml)"
    using load v1 by (auto split: sum.splits)
  obtain v3 meta3 where v3: "(if overlayEnv \<noteq> '''' \<and> yaml
      then merge_overlay os vi overlayEnv dir v2 (?meta\<lparr>m_BasePath := base\<rparr>) else (Inr v2, ?meta\<lparr>m_BasePath := base\<rparr>))
      = (Inr v3, meta3)"
    using load v1 v2 by (auto split: sum.splits prod.splits if_splits)
  obtain raw where raw: "vi_Unmarshal vi v3 e' = Inr raw" "cfg = resolve_env overlayEnv raw" "meta = meta3"
    using load v1 v2 v3 by (auto split: sum.splits)
  show thesis
  proof (rule that [OF raw(2)])
    show "m_OverlayEnv meta = '''' \<and> m_OverlayPath meta = '''' \<or>
         overlayEnv \<noteq> '''' \<and> m_OverlayEnv meta = overlayEnv \<and> equal_fold (path_Base (m_BasePath meta)) ''config.yaml''"
      using v3 raw(3) read_base_yaml [of os vi configPath v1 v2 base dir] v2
      by (auto split: if_splits dest!: merge_overlay_meta)
  qed
qed

subsection \<open>Properties\<close>

text \<open>A configuration with the default values and a database file, and one Viper whose only layers are
  this configuration and an overlay that enables TCP.\<close>

definition demo_config :: Config where
  "demo_config =
     \<lparr>cfg_App = \<lparr>app_Name = AppName, app_Version = ''1.0.0'', app_Env = EnvDev\<rparr>,
      cfg_HTTP = \<lparr>http_Enabled = True, http_Host = ''0.0.0.0'', http_Port = 8080, http_ReadTimeout = 30,
        http_WriteTimeout = 30, http_ShutdownTimeout = 30, http_InternalServiceKey = '''',
        http_TLS = \<lparr>tls_Enabled = False, tls_CertFile = '''', tls_KeyFile = '''', tls_MinVersion = ''1.3''\<rparr>\<rparr>,
      cfg_Log = \<lparr>log_Level = ''info'', log_Format = ''json'', log_Output = ''stdout'', log_Filename = ''logs/app.log'',
        log_MaxSize = 100, log_MaxBackups = 30, log_MaxAge = 7, log_Compress = True\<rparr>,
      cfg_Database = \<lparr>db_Driver = DriverSQLite, db_Host = '''', db_Port = 0, db_User = '''', db_Password = ''s3cret'',
        db_Database = ''app.db'', db_SSLMode = '''', db_MaxOpenConns = 25, db_MaxIdleConns = 10,
        db_ConnMaxLife = 300, db_ConnMaxIdle = 60\<rparr>,
      cfg_Redis = \<lparr>red_Enabled = False, red_Host = ''localhost'', red_Port = 6379, red_Password = '''', red_DB = 0,
        red_PoolSize = 10, red_MinIdleConns = 0, red_IdleTimeout = 300\<rparr>,
      cfg_Cache = \<lparr>cch_Enabled = False, cch_Driver = ''memory'',
        cch_Memory = \<lparr>mc_NumCounters = 1000000, mc_MaxCost = 100000, mc_BufferItems = 64\<rparr>,
        cch_Redis = \<lparr>rcc_KeyPrefix = ''app:'', rcc_DefaultTTL = 3600\<rparr>\<rparr>,
      cfg_JWT = \<lparr>jwt_Secret = '''', jwt_AccessTokenTTL = 7200, jwt_RefreshTokenTTL = 604800, jwt_SkipPaths = []\<rparr>,
      cfg_RateLimit = \<lparr>rl_Enabled = False, rl_Store = ''memory'', rl_GlobalRPS = 10000, rl_IPRPS = 100, rl_UserRPS = 50\<rparr>,
      cfg_TCP = \<lparr>tcp_Enabled = False, tcp_Host = ''0.0.0.0'', tcp_Port = 9000, tcp_ReadTimeout = 30,
        tcp_WriteTimeout = 30, tcp_HeartbeatInterval = 30, tcp_HeartbeatTimeout = 90, tcp_ShutdownTimeout = 30,
        tcp_Codec = ''json'', tcp_MaxConnections = 10000, tcp_MaxTimeoutCount = 10\<rparr>,
      cfg_UDP = \<lparr>udp_Enabled = False, udp_Host = ''0.0.0.0'', udp_Port = 9001, udp_ReadBufferSize = 4096,
        udp_WriteBufferSize = 4096, udp_ShutdownTimeout = 30, udp_Codec = ''json'', udp_WorkerPoolSize = 100,
        udp_SessionCleanupInterval = 300, udp_SessionInactiveThreshold = 600\<rparr>,
      cfg_Tracing = \<lparr>tr_Enabled = False, tr_Endpoint = '''', tr_SampleRate = Fin 1\<rparr>,
      cfg_Metrics = \<lparr>met_Enabled = False, met_Path = ''/metrics'', met_Labels = []\<rparr>,
      cfg_Scheduler = \<lparr>sch_Enabled = False\<rparr>, cfg_Captcha = \<lparr>cpt_Enabled = False\<rparr>,
      cfg_ObjectStorage = \<lparr>os_Enabled = False, os_Provider = '''', os_Bucket = '''', os_Region = '''', os_Endpoint = '''',
        os_AccessKey = '''', os_SecretKey = '''', os_CDNDomain = ''''\<rparr>,
      cfg_Payment = \<lparr>pay_Enabled = False\<rparr>\<rparr>"

definition demo_os :: "(string \<Rightarrow> string) os_api" where
  "demo_os = \<lparr>os_Getenv = (\<lambda>e k. e k), os_Getwd = Inr ''/srv'', os_Stat = (\<lambda>p. None),
     dotenv_Load = (\<lambda>e p. (Some (Sentinel ''no such file''), e))\<rparr>"

definition demo_viper :: "(bool, string \<Rightarrow> string) viper_api" where
  "demo_viper =
     \<lparr>vi_New = False, vi_SetDefault = (\<lambda>v k d. v), vi_BindEnv = (\<lambda>v k n. Inr v), vi_SetConfigFile = (\<lambda>v p. v),
      vi_SetConfigName = (\<lambda>v p. v), vi_SetConfigType = (\<lambda>v p. v), vi_AddConfigPath = (\<lambda>v p. v),
      vi_ReadInConfig = (\<lambda>v. (None, v)), vi_IsNotFound = (\<lambda>e. False), vi_ConfigFileUsed = (\<lambda>v. ''configs/config.yaml''),
      vi_MergeInConfig = (\<lambda>v. (None, True)),
      vi_Unmarshal = (\<lambda>v e. Inr (demo_config\<lparr>cfg_TCP := (cfg_TCP demo_config)\<lparr>tcp_Enabled := v\<rparr>\<rparr>))\<rparr>"


text \<open>The range check of \<^verbatim>\<open>tracing.sample_rate\<close> lets NaN through: both comparisons are false.\<close>

lemma nan_sample_rate_accepted:
  "Validate (demo_config\<lparr>cfg_Tracing := \<lparr>tr_Enabled = True, tr_Endpoint = ''http://localhost:4317'', tr_SampleRate = r\<rparr>\<rparr>) = None
     \<longleftrightarrow> (r = NaN \<or> (\<exists>q. r = Fin q \<and> 0 \<le> q \<and> q \<le> 1))"
  unfolding Validate_valid
  by (cases r)
    (auto simp: demo_config_def valid_config_def valid_log_def valid_database_def valid_http_def valid_secret_def
      valid_rate_limit_def valid_tcp_def valid_udp_def valid_cache_def valid_telemetry_def valid_sample_rate_def
      enum_ok_def enum_fold_ok_def constants equal_fold_def)

text \<open>C14: The masked copy shows of every bound secret only whether it is set, does not depend on the
  value of a secret that is set, is unchanged by masking again, and lists the same modules.\<close>

theorem MaskedCopy_hides_secrets:
  "(\<forall>b \<in> set SensitiveBinds.
      secret_at (b_Key b) (MaskedCopy c) = (if secret_at (b_Key b) c = '''' then '''' else ''******'') \<and>
      (\<forall>s. s \<noteq> '''' \<and> secret_at (b_Key b) c \<noteq> '''' \<longrightarrow> MaskedCopy (set_secret (b_Key b) s c) = MaskedCopy c)) \<and>
   MaskedCopy (MaskedCopy c) = MaskedCopy c \<and> EnabledModules (MaskedCopy c) = EnabledModules c"
proof (intro conjI ballI allI impI)
  fix b :: SensitiveBind and s :: string
  show "secret_at (b_Key b) (MaskedCopy c) = (if secret_at (b_Key b) c = '''' then '''' else ''******'')"
    by (simp add: secret_MaskedCopy mask_def)
  assume s: "s \<noteq> '''' \<and> secret_at (b_Key b) c \<noteq> ''''"
  have "MaskedCopy c = MaskedCopy (set_secret (b_Key b) (secret_at (b_Key b) c) c)"
    by (simp add: set_secret_same)
  also have "\<dots> = MaskedCopy (set_secret (b_Key b) s c)"
    using s by (simp add: MaskedCopy_set_secret)
  finally show "MaskedCopy (set_secret (b_Key b) s c) = MaskedCopy c" ..
qed (simp_all add: MaskedCopy_modules, simp add: MaskedCopy_def)

theorem MaskedCopy_hides_secrets_witness:
  "MaskedCopy (set_secret ''database.password'' ''other'' demo_config) = MaskedCopy demo_config"
  using MaskedCopy_hides_secrets [of demo_config]
  by (auto simp: SensitiveBinds_def secret_at_def demo_config_def)

text \<open>A successful load resolves \<^verbatim>\<open>app.env\<close> as documented: the command line option wins over the
  environment variable, which wins over the files, and it is never empty; an overlay is recorded only for
  that environment and only when the primary file is named \<^verbatim>\<open>config.yaml\<close>.\<close>

lemma LoadWithMeta_env:
  assumes "LoadWithMeta os vi configPath envOverride e = (Inr cfg, meta)"
  shows "(envOverride \<noteq> '''' \<longrightarrow> app_Env (cfg_App cfg) = envOverride) \<and>
    (envOverride = '''' \<and> os_Getenv os e ''APP_ENV'' \<noteq> '''' \<longrightarrow> app_Env (cfg_App cfg) = os_Getenv os e ''APP_ENV'') \<and>
    app_Env (cfg_App cfg) \<noteq> '''' \<and>
    (m_OverlayEnv meta \<noteq> '''' \<or> m_OverlayPath meta \<noteq> '''' \<longrightarrow>
       m_OverlayEnv meta = app_Env (cfg_App cfg) \<and> equal_fold (path_Base (m_BasePath meta)) ''config.yaml'')"
  by (rule LoadWithMeta_success [OF assms refl]) (auto simp: resolve_env_App constants)

lemma LoadWithMeta_env_example:
  "\<exists>cfg meta. LoadWithMeta demo_os demo_viper ''configs/config.yaml'' '''' (\<lambda>k. if k = ''APP_ENV'' then ''prod'' else '''') =
     (Inr cfg, meta) \<and> app_Env (cfg_App cfg) = ''prod'' \<and> m_OverlayEnv meta = ''prod''"
proof -
  let ?e = "\<lambda>k. if k = ''APP_ENV'' then ''prod'' else ''''"
  let ?l = "LoadWithMeta demo_os demo_viper ''configs/config.yaml'' '''' ?e"
  have "is_ok (fst ?l)" "m_OverlayEnv (snd ?l) \<noteq> ''''"
    by (simp_all add: LoadWithMeta_def demo_os_def demo_viper_def constants loadDotenvFiles_def Let_def
        dotenv_candidates_def bindSensitiveEnvs_def SensitiveBinds_def read_base_def merge_overlay_def path_Abs_def
        has_prefix_def path_Join_def path_Clean_def path_Base_def equal_fold_def setDefaults_def)
  then obtain cfg meta where l: "?l = (Inr cfg, meta)" "m_OverlayEnv meta \<noteq> ''''"
    by (auto simp: is_ok_iff prod_eq_iff)
  show ?thesis
    using LoadWithMeta_env [OF l(1)] l by (auto simp: demo_os_def)
qed

text \<open>Without a selected environment, or with an explicit file of another name than
  \<^verbatim>\<open>config.yaml\<close>, the load is single-file: its result does not depend on what merging would do.\<close>

lemma LoadWithMeta_single_file:
  assumes "envOverride = '''' \<and> os_Getenv os e ''APP_ENV'' = '''' \<or>
    configPath \<noteq> '''' \<and> (\<forall>p. path_Abs os configPath = Inr p \<longrightarrow> \<not> equal_fold (path_Base p) ''config.yaml'')"
  shows "LoadWithMeta os (vi\<lparr>vi_MergeInConfig := f\<rparr>) configPath envOverride e = LoadWithMeta os vi configPath envOverride e"
proof -
  define overlayEnv where "overlayEnv = (if envOverride = '''' then os_Getenv os e EnvVarAppEnv else envOverride)"
  have no: "overlayEnv = '''' \<or> \<not> yaml"
    if "read_base os vi configPath v = Inr (v', base, dir, yaml)" for v v' base dir yaml
    using assms read_base_other [OF _ _ that] by (auto simp: overlayEnv_def constants)
  obtain paths e' where dot: "loadDotenvFiles os overlayEnv e = (paths, e')" by force
  let ?b = "bind_all vi SensitiveBinds (foldl (\<lambda>v (k, d). vi_SetDefault vi v k d) (vi_New vi) setDefaults)"
  note defs = LoadWithMeta_def overlayEnv_def [symmetric] Let_def bindSensitiveEnvs_def dot
  show ?thesis
  proof (cases ?b)
    case (Inl err)
    then show ?thesis unfolding defs by simp
  next
    case v1: (Inr v1)
    show ?thesis
    proof (cases "read_base os vi configPath v1")
      case (Inl err)
      with v1 show ?thesis unfolding defs by simp
    next
      case (Inr r)
      then obtain v' base dir yaml where r: "read_base os vi configPath v1 = Inr (v', base, dir, yaml)"
        by (cases r) auto
      from no [OF r] show ?thesis unfolding defs by (rule disjE) (simp_all add: v1 r split: sum.split)
    qed
  qed
qed

lemma LoadWithMeta_single_file_example:
  "LoadWithMeta demo_os (demo_viper\<lparr>vi_MergeInConfig := (\<lambda>v. (None, True))\<rparr>) ''/etc/app.yaml'' ''prod'' (\<lambda>k. '''') =
   LoadWithMeta demo_os demo_viper ''/etc/app.yaml'' ''prod'' (\<lambda>k. '''')"
  by (rule LoadWithMeta_single_file)
    (simp add: path_Abs_def demo_os_def path_Clean_def path_Base_def equal_fold_def has_prefix_def)

end
