(* ===== verification/User_Cache.thy ===== *)
theory User_Cache
  imports Cache App_Config
begin

section \<open>Business cache\<close>

text \<open>
  \<^verbatim>\<open>internal/cache\<close>: the manager that the application builds from its configuration, the generic
  \<open>get\<close>, \<open>set\<close> and \<open>del\<close> helpers over a key specification, and the typed methods for users of
  \<^verbatim>\<open>internal/model\<close>. The JSON encoding of a user is the parameter record \<open>user_json\<close>; a nil
  pointer is \<open>None\<close> and the zero \<open>time.Time\<close> is \<open>None\<close>. The locale \<open>user_cache\<close> is what the user
  service relies on; every manager over a cache that keeps the cache contract provides it.
\<close>

subsection \<open>Users\<close>

type_synonym gotime = "int option"

record User =
  u_ID :: int
  u_Email :: string
  u_Password :: string
  u_Name :: string
  u_Phone :: string
  u_Status :: int
  u_CreatedAt :: gotime
  u_UpdatedAt :: gotime
  u_DeletedAt :: gotime

datatype bun_query = InsertQuery | UpdateQuery | OtherQuery

definition BeforeAppendModel :: "int \<Rightarrow> bun_query \<Rightarrow> User \<Rightarrow> User" where
  "BeforeAppendModel now q m =
     (case q of
        InsertQuery \<Rightarrow> m\<lparr>u_CreatedAt := Some now, u_UpdatedAt := Some now\<rparr>
      | UpdateQuery \<Rightarrow> m\<lparr>u_UpdatedAt := Some now\<rparr>
      | OtherQuery \<Rightarrow> m)"

subsection \<open>Manager\<close>

record KeySpec =
  ks_Prefix :: string
  ks_TTL :: int

text \<open>The manager's only field besides the stateless key generator is the cache. \<open>uj_any\<close> is the user
  pointer as an \<open>any\<close>; the codec works on documents of type \<open>'j\<close>.\<close>

record ('v, 'j) user_json =
  uj_any :: "User option \<Rightarrow> 'v"
  uj_Marshal :: "'v \<Rightarrow> (gerr, 'j) result"
  uj_Unmarshal :: "'j \<Rightarrow> (gerr, User option) result"

definition decodeAs :: "('v, 'j) user_json \<Rightarrow> 'v \<Rightarrow> (gerr, User option) result" where
  "decodeAs js v =
     (case uj_Marshal js v of
        Inl err \<Rightarrow> Inl (wrapl ''cache: failed to marshal cached value'' err)
      | Inr d \<Rightarrow>
          (case uj_Unmarshal js d of
             Inl err \<Rightarrow> Inl (wrapl ''cache: failed to unmarshal into *model.User'' err)
           | Inr u \<Rightarrow> Inr u))"

definition mgr_get ::
  "('s, 'v) Cache \<Rightarrow> ('v, 'j) user_json \<Rightarrow> KeySpec \<Rightarrow> string list \<Rightarrow> 's \<Rightarrow> (gerr, User option) result \<times> 's" where
  "mgr_get C js spec parts s =
     (case c_Get C s (Generate (ks_Prefix spec) parts) of
        (Inl err, s') \<Rightarrow> (Inl err, s')
      | (Inr v, s') \<Rightarrow> (decodeAs js v, s'))"

definition mgr_set ::
  "('s, 'v) Cache \<Rightarrow> ('v, 'j) user_json \<Rightarrow> KeySpec \<Rightarrow> User option \<Rightarrow> string list \<Rightarrow> 's \<Rightarrow> gerr option \<times> 's" where
  "mgr_set C js spec v parts s = c_Set C s (Generate (ks_Prefix spec) parts) (uj_any js v) (ks_TTL spec)"

definition mgr_del :: "('s, 'v) Cache \<Rightarrow> KeySpec \<Rightarrow> string list \<Rightarrow> 's \<Rightarrow> gerr option \<times> 's" where
  "mgr_del C spec parts s = c_Delete C s (Generate (ks_Prefix spec) parts)"

definition userByID :: KeySpec where
  "userByID = \<lparr>ks_Prefix = ''user:by_id'', ks_TTL = 30 * 60 * 1000000000\<rparr>"

definition userByEmail :: KeySpec where
  "userByEmail = \<lparr>ks_Prefix = ''user:by_email'', ks_TTL = 30 * 60 * 1000000000\<rparr>"

definition GetUserByID :: "('s, 'v) Cache \<Rightarrow> ('v, 'j) user_json \<Rightarrow> 's \<Rightarrow> int \<Rightarrow> (gerr, User option) result \<times> 's" where
  "GetUserByID C js s i = mgr_get C js userByID [show_int i] s"

definition SetUserByID :: "('s, 'v) Cache \<Rightarrow> ('v, 'j) user_json \<Rightarrow> 's \<Rightarrow> int \<Rightarrow> User option \<Rightarrow> gerr option \<times> 's" where
  "SetUserByID C js s i user = mgr_set C js userByID user [show_int i] s"

definition DelUserByID :: "('s, 'v) Cache \<Rightarrow> 's \<Rightarrow> int \<Rightarrow> gerr option \<times> 's" where
  "DelUserByID C s i = mgr_del C userByID [show_int i] s"

definition GetUserByEmail ::
  "('s, 'v) Cache \<Rightarrow> ('v, 'j) user_json \<Rightarrow> 's \<Rightarrow> string \<Rightarrow> (gerr, User option) result \<times> 's" where
  "GetUserByEmail C js s email = mgr_get C js userByEmail [email] s"

definition SetUserByEmail ::
  "('s, 'v) Cache \<Rightarrow> ('v, 'j) user_json \<Rightarrow> 's \<Rightarrow> string \<Rightarrow> User option \<Rightarrow> gerr option \<times> 's" where
  "SetUserByEmail C js s email user = mgr_set C js userByEmail user [email] s"

definition DelUserByEmail :: "('s, 'v) Cache \<Rightarrow> 's \<Rightarrow> string \<Rightarrow> gerr option \<times> 's" where
  "DelUserByEmail C s email = mgr_del C userByEmail [email] s"

text \<open>The methods that services use, and the manager over a cache.\<close>

record 's Manager =
  mg_GetUserByID :: "'s \<Rightarrow> int \<Rightarrow> (gerr, User option) result \<times> 's"
  mg_SetUserByID :: "'s \<Rightarrow> int \<Rightarrow> User option \<Rightarrow> gerr option \<times> 's"
  mg_DelUserByID :: "'s \<Rightarrow> int \<Rightarrow> gerr option \<times> 's"
  mg_DelUserByEmail :: "'s \<Rightarrow> string \<Rightarrow> gerr option \<times> 's"

definition NewManager :: "('s, 'v) Cache \<Rightarrow> ('v, 'j) user_json \<Rightarrow> 's Manager" where
  "NewManager C js =
     \<lparr>mg_GetUserByID = GetUserByID C js, mg_SetUserByID = SetUserByID C js, mg_DelUserByID = DelUserByID C,
      mg_DelUserByEmail = DelUserByEmail C\<rparr>"

text \<open>\<open>client_nil\<close>: no shared client was passed. The options of an own connection only matter to the
  Redis client, whose connection check is \<open>ping\<close>.\<close>

definition NewManagerFromConfig ::
  "('s, 'v) ristretto \<Rightarrow> gerr option \<Rightarrow> Config \<Rightarrow> bool \<Rightarrow> (gerr, 's made_cache) result" where
  "NewManagerFromConfig api ping cfg client_nil =
     Factory_Create api ping
       \<lparr>fc_Enabled = cch_Enabled (cfg_Cache cfg), fc_Driver = cch_Driver (cfg_Cache cfg),
        fc_KeyPrefix = rcc_KeyPrefix (cch_Redis (cfg_Cache cfg)),
        fc_DefaultTTL = wrap64 (rcc_DefaultTTL (cch_Redis (cfg_Cache cfg)) * 1000000000),
        fc_HasClient = (\<not> client_nil)\<rparr>"

subsection \<open>What the service relies on\<close>

definition publicUser :: "User \<Rightarrow> User" where
  "publicUser user = user\<lparr>u_Password := ''''\<rparr>"

lemma publicUser_idem [simp]: "publicUser (publicUser u) = publicUser u"
  by (simp add: publicUser_def)

lemma publicUser_ID [simp]: "u_ID (publicUser u) = u_ID u"
  by (simp add: publicUser_def)

text \<open>\<open>cview s i\<close> are the users that a lookup of \<open>i\<close> may return in state \<open>s\<close>. Caches may forget.\<close>

locale user_cache =
  fixes M :: "'s Manager"
    and cview :: "'s \<Rightarrow> int \<Rightarrow> User option set"
  assumes cget_hit: "mg_GetUserByID M s i = (Inr w, s') \<Longrightarrow> w \<in> cview s i"
    and cget_keeps: "mg_GetUserByID M s i = (r, s') \<Longrightarrow> cview s' j \<subseteq> cview s j"
    and cset_view: "mg_SetUserByID M s i (Some u) = (e, s') \<Longrightarrow> w \<in> cview s' j \<Longrightarrow>
      j = i \<and> w = Some (publicUser u) \<or> w \<in> cview s j"
    and cdel_view: "mg_DelUserByID M s i = (None, s') \<Longrightarrow> w \<in> cview s' j \<Longrightarrow> j \<noteq> i \<and> w \<in> cview s j"
    and cdel_email_keeps: "mg_DelUserByEmail M s m = (None, s') \<Longrightarrow> cview s' j \<subseteq> cview s j"

text \<open>What the manager relies on in the JSON encoding: a stored user, also after the cache's own
  conversion \<open>rep\<close>, decodes to the user without its password (the field has the tag \<^verbatim>\<open>json:"-"\<close>),
  and converting once more changes nothing about what is decoded.\<close>

definition user_json_ok :: "('v, 'j) user_json \<Rightarrow> ('v \<Rightarrow> 'v \<Rightarrow> bool) \<Rightarrow> bool" where
  "user_json_ok js rep \<longleftrightarrow>
     (\<forall>u w. rep (uj_any js (Some u)) w \<longrightarrow> decodeAs js w = Inr (Some (publicUser u))) \<and>
     (\<forall>v w. rep v w \<longrightarrow> decodeAs js v = decodeAs js w)"

definition mgr_view ::
  "('v, 'j) user_json \<Rightarrow> ('s \<Rightarrow> string \<Rightarrow> 'v set) \<Rightarrow> 's \<Rightarrow> int \<Rightarrow> User option set" where
  "mgr_view js view s i = {u. \<exists>v \<in> view s (Generate ''user:by_id'' [show_int i]). decodeAs js v = Inr u}"

lemma id_keys [simp]: "Generate ''user:by_id'' [show_int i] = Generate ''user:by_id'' [show_int j] \<longleftrightarrow> i = j"
  by (auto simp: Generate_def)

lemma id_email_keys [simp]: "Generate ''user:by_id'' [show_int i] \<noteq> Generate ''user:by_email'' [m]"
  by (simp add: Generate_def)

lemmas mgr_defs = GetUserByID_def SetUserByID_def DelUserByID_def DelUserByEmail_def mgr_get_def mgr_set_def mgr_del_def
  userByID_def userByEmail_def

lemma manager_contract:
  assumes C: "cache_contract C view rep" and js: "user_json_ok js rep"
  shows "user_cache (NewManager C js) (mgr_view js view)"
proof (unfold_locales, unfold NewManager_def Manager.simps)
  fix s i u s'
  assume "GetUserByID C js s i = (Inr u, s')"
  then show "u \<in> mgr_view js view s i"
    using cache_contract.get_view [OF C]
    by (fastforce simp: mgr_defs mgr_view_def split: prod.splits sum.splits)
next
  fix s i r s' j
  assume "GetUserByID C js s i = (r, s')"
  then obtain r' where "c_Get C s (Generate ''user:by_id'' [show_int i]) = (r', s')"
    by (auto simp: mgr_defs split: prod.splits sum.splits)
  from cache_contract.get_state [OF C this] show "mgr_view js view s' j \<subseteq> mgr_view js view s j"
    using js by (fastforce simp: mgr_view_def user_json_ok_def)
next
  fix s i u e s' w j
  assume set: "SetUserByID C js s i (Some u) = (e, s')" and "w \<in> mgr_view js view s' j"
  then obtain v where v: "v \<in> view s' (Generate ''user:by_id'' [show_int j])" "decodeAs js v = Inr w"
    by (auto simp: mgr_view_def)
  from set have "c_Set C s (Generate ''user:by_id'' [show_int i]) (uj_any js (Some u)) (30 * 60 * 1000000000) = (e, s')"
    by (simp add: mgr_defs)
  from cache_contract.set_any [OF C this, of v "Generate ''user:by_id'' [show_int j]", OF v(1)]
  show "j = i \<and> w = Some (publicUser u) \<or> w \<in> mgr_view js view s j"
  proof
    assume "Generate ''user:by_id'' [show_int j] = Generate ''user:by_id'' [show_int i] \<and> rep (uj_any js (Some u)) v"
    then have "j = i" "decodeAs js v = Inr (Some (publicUser u))"
      using js by (simp_all add: user_json_ok_def)
    then show ?thesis using v(2) by simp
  qed (use v(2) in \<open>auto simp: mgr_view_def\<close>)
next
  fix s i s' w j
  assume "DelUserByID C s i = (None, s')" and "w \<in> mgr_view js view s' j"
  then obtain v where del: "c_Delete C s (Generate ''user:by_id'' [show_int i]) = (None, s')"
    and v: "v \<in> view s' (Generate ''user:by_id'' [show_int j])" "decodeAs js v = Inr w"
    by (auto simp: mgr_view_def mgr_defs)
  show "j \<noteq> i \<and> w \<in> mgr_view js view s j"
    using cache_contract.delete_view [OF C del, of v "Generate ''user:by_id'' [show_int j]", OF v(1)] v(2)
    by (auto simp: mgr_view_def)
next
  fix s m s' j
  assume "DelUserByEmail C s m = (None, s')"
  then have "c_Delete C s (Generate ''user:by_email'' [m]) = (None, s')"
    by (simp add: mgr_defs)
  from cache_contract.delete_view [OF C this] show "mgr_view js view s' j \<subseteq> mgr_view js view s j"
    by (auto simp: mgr_view_def)
qed

text \<open>Documents that are users without their password.\<close>

definition ref_user_json :: "(User option, User option) user_json" where
  "ref_user_json = \<lparr>uj_any = (\<lambda>u. u), uj_Marshal = (\<lambda>u. Inr (map_option publicUser u)), uj_Unmarshal = Inr\<rparr>"

lemma ref_user_json_ok: "user_json_ok ref_user_json (=)"
  by (simp add: user_json_ok_def ref_user_json_def decodeAs_def)

interpretation memory_users: user_cache "NewManager (memory_Cache ref_ristretto) ref_user_json"
  "mgr_view ref_user_json (memory_view ref_ristretto)"
  by (rule manager_contract [OF mem.cache_contract_axioms ref_user_json_ok])

interpretation nop_users: user_cache "NewManager nop_Cache ref_user_json" "mgr_view ref_user_json (\<lambda>s k. {})"
  by (rule manager_contract [OF _ ref_user_json_ok]) (unfold_locales, auto simp: nop_Cache_def)

end
