(* ===== verification/Errcode.thy ===== *)
theory Errcode
  imports Go_Errors
begin

section \<open>Error codes and API responses\<close>

text \<open>
  \<^verbatim>\<open>internal/errcode\<close>: the catalogue of codes, \<open>Wrap\<close>, \<open>WithMessage\<close>, \<open>As\<close>; and
  \<^verbatim>\<open>internal/response\<close>: the mapping of an error to the HTTP status and body that the client
  sees. \<open>showCause\<close> is the process-wide flag set by \<open>Configure\<close>.
\<close>

definition ParamError :: gerr where
  "ParamError = CodeErr 1000001 (utf8 [0x53C2, 0x6570, 0x9519, 0x8BEF]) 400 None"

definition DataNotFound :: gerr where
  "DataNotFound = CodeErr 1000002 (utf8 [0x6570, 0x636E, 0x4E0D, 0x5B58, 0x5728]) 404 None"

definition ValidationError :: gerr where
  "ValidationError = CodeErr 1000003 (utf8 [0x9A8C, 0x8BC1, 0x5931, 0x8D25]) 422 None"

definition ResourceNotFound :: gerr where
  "ResourceNotFound = CodeErr 1000004 (utf8 [0x8D44, 0x6E90, 0x4E0D, 0x5B58, 0x5728]) 404 None"

definition RequestTimeout :: gerr where
  "RequestTimeout = CodeErr 1000005 (utf8 [0x8BF7, 0x6C42, 0x8D85, 0x65F6]) 408 None"

definition TooManyRequests :: gerr where
  "TooManyRequests = CodeErr 1000006 (utf8 [0x8BF7, 0x6C42, 0x8FC7, 0x4E8E, 0x9891, 0x7E41]) 429 None"

definition UserNotFound :: gerr where
  "UserNotFound = CodeErr 2000001 (utf8 [0x7528, 0x6237, 0x4E0D, 0x5B58, 0x5728]) 404 None"

definition UserAlreadyExists :: gerr where
  "UserAlreadyExists = CodeErr 2000002 (utf8 [0x7528, 0x6237, 0x5DF2, 0x5B58, 0x5728]) 409 None"

definition UserDisabled :: gerr where
  "UserDisabled = CodeErr 2000003 (utf8 [0x7528, 0x6237, 0x8D26, 0x53F7, 0x5DF2, 0x7981, 0x7528]) 403 None"

definition InvalidUserStatus :: gerr where
  "InvalidUserStatus = CodeErr 2000004 (utf8 [0x7528, 0x6237, 0x72B6, 0x6001, 0x65E0, 0x6548]) 400 None"

definition AuthFailed :: gerr where
  "AuthFailed = CodeErr 3000001 (utf8 [0x8BA4, 0x8BC1, 0x5931, 0x8D25]) 401 None"

definition TokenExpired :: gerr where
  "TokenExpired = CodeErr 3000002 (''Token'' @ utf8 [0x5DF2, 0x8FC7, 0x671F]) 401 None"

definition InsufficientPermission :: gerr where
  "InsufficientPermission = CodeErr 3000003 (utf8 [0x6743, 0x9650, 0x4E0D, 0x8DB3]) 403 None"

definition InvalidToken :: gerr where
  "InvalidToken = CodeErr 3000004 (utf8 [0x65E0, 0x6548, 0x7684] @ ''Token'') 401 None"

definition TokenRevoked :: gerr where
  "TokenRevoked = CodeErr 3000005 (''Token'' @ utf8 [0x5DF2, 0x540A, 0x9500]) 401 None"

definition InternalError :: gerr where
  "InternalError = CodeErr 9000001 (utf8 [0x670D, 0x52A1, 0x5668, 0x5185, 0x90E8, 0x9519, 0x8BEF]) 500 None"

definition DatabaseError :: gerr where
  "DatabaseError = CodeErr 9000002 (utf8 [0x6570, 0x636E, 0x5E93, 0x9519, 0x8BEF]) 500 None"

definition CacheError :: gerr where
  "CacheError = CodeErr 9000003 (utf8 [0x7F13, 0x5B58, 0x9519, 0x8BEF]) 500 None"

definition ExternalServiceError :: gerr where
  "ExternalServiceError = CodeErr 9000004 (utf8 [0x5916, 0x90E8, 0x670D, 0x52A1, 0x9519, 0x8BEF]) 502 None"

definition ServiceUnavailable :: gerr where
  "ServiceUnavailable = CodeErr 9000005 (utf8 [0x670D, 0x52A1, 0x4E0D, 0x53EF, 0x7528]) 503 None"

definition catalogue :: "gerr list" where
  "catalogue =
     [ParamError, DataNotFound, ValidationError, ResourceNotFound, RequestTimeout, TooManyRequests,
      UserNotFound, UserAlreadyExists, UserDisabled, InvalidUserStatus,
      AuthFailed, TokenExpired, InsufficientPermission, InvalidToken, TokenRevoked,
      InternalError, DatabaseError, CacheError, ExternalServiceError, ServiceUnavailable]"

lemmas code_defs = ParamError_def DataNotFound_def ValidationError_def ResourceNotFound_def
  RequestTimeout_def TooManyRequests_def UserNotFound_def UserAlreadyExists_def UserDisabled_def
  InvalidUserStatus_def AuthFailed_def TokenExpired_def InsufficientPermission_def InvalidToken_def
  TokenRevoked_def InternalError_def DatabaseError_def CacheError_def ExternalServiceError_def
  ServiceUnavailable_def

text \<open>The fields of a \<open>Code\<close>.\<close>

fun code_number :: "gerr \<Rightarrow> int" where
  "code_number (CodeErr c m h cause) = c"
| "code_number e = 0"

fun code_message :: "gerr \<Rightarrow> string" where
  "code_message (CodeErr c m h cause) = m"
| "code_message e = ''''"

fun GetHTTPStatus :: "gerr \<Rightarrow> int" where
  "GetHTTPStatus (CodeErr c m h cause) = h"
| "GetHTTPStatus e = 0"

fun code_cause :: "gerr \<Rightarrow> gerr option" where
  "code_cause (CodeErr c m h cause) = cause"
| "code_cause e = None"

text \<open>\<open>Wrap\<close> and \<open>WithMessage\<close> take a \<open>*Code\<close>; on any other value, which the Go types
  exclude, the model returns it unchanged.\<close>

fun Wrap :: "gerr \<Rightarrow> gerr option \<Rightarrow> gerr" where
  "Wrap (CodeErr c m h old) cause = CodeErr c m h cause"
| "Wrap e cause = e"

fun WithMessage :: "gerr \<Rightarrow> string \<Rightarrow> gerr" where
  "WithMessage (CodeErr c m h cause) message =
     (if message = '''' then CodeErr c m h cause else CodeErr c message h cause)"
| "WithMessage e message = e"

definition errcode_As :: "gerr \<Rightarrow> gerr option" where
  "errcode_As e = errors_as_code e"

subsection \<open>Responses\<close>

record 'd Response =
  Code :: int
  Message :: string
  Data :: "'d option"
  Cause :: string

record 'd PageData =
  List :: 'd
  Total :: int
  Page :: int
  PageSize :: int
  TotalPages :: int

text \<open>\<open>Data\<close> is \<open>None\<close> when the source passes \<open>nil\<close> or leaves the field out.\<close>

definition Success :: "'d option \<Rightarrow> int \<times> 'd Response" where
  "Success d = (200, \<lparr>Code = 0, Message = ''success'', Data = d, Cause = ''''\<rparr>)"

definition SuccessWithMessage :: "string \<Rightarrow> 'd option \<Rightarrow> int \<times> 'd Response" where
  "SuccessWithMessage m d = (200, \<lparr>Code = 0, Message = m, Data = d, Cause = ''''\<rparr>)"

definition SuccessPage :: "'d \<Rightarrow> int \<Rightarrow> int \<Rightarrow> int \<Rightarrow> int \<Rightarrow> int \<times> 'd PageData Response" where
  "SuccessPage list tot page pageSize totalPages =
     (200, \<lparr>Code = 0, Message = ''success'',
            Data = Some \<lparr>List = list, Total = tot, Page = page, PageSize = pageSize,
                         TotalPages = totalPages\<rparr>,
            Cause = ''''\<rparr>)"

definition ErrorWithData :: "bool \<Rightarrow> gerr option \<Rightarrow> 'd option \<Rightarrow> int \<times> 'd Response" where
  "ErrorWithData showCause err d =
     (case err of
        None \<Rightarrow> Success d
      | Some e \<Rightarrow>
          (case errcode_As e of
             None \<Rightarrow> (500, \<lparr>Code = 500, Message = ''Internal Server Error'', Data = d, Cause = ''''\<rparr>)
           | Some c \<Rightarrow>
               (GetHTTPStatus c,
                \<lparr>Code = code_number c, Message = code_message c, Data = d,
                 Cause = (case code_cause c of
                            Some ce \<Rightarrow> if showCause then error_text ce else ''''
                          | None \<Rightarrow> '''')\<rparr>)))"

definition Error :: "bool \<Rightarrow> gerr option \<Rightarrow> int \<times> 'd Response" where
  "Error showCause err =
     (case err of
        None \<Rightarrow> Success None
      | Some e \<Rightarrow>
          (case errcode_As e of
             None \<Rightarrow> (500, \<lparr>Code = 500, Message = ''Internal Server Error'', Data = None, Cause = ''''\<rparr>)
           | Some c \<Rightarrow>
               (GetHTTPStatus c,
                \<lparr>Code = code_number c, Message = code_message c, Data = None,
                 Cause = (case code_cause c of
                            Some ce \<Rightarrow> if showCause then error_text ce else ''''
                          | None \<Rightarrow> '''')\<rparr>)))"

subsection \<open>Lemmas\<close>

lemma errcode_As_code [simp]: "errcode_As (CodeErr c m h cause) = Some (CodeErr c m h cause)"
  by (simp add: errcode_As_def errors_as_code_def chain.simps)

lemma errcode_As_wrapl [simp]: "errcode_As (wrapl t e) = errcode_As e"
  by (simp add: errcode_As_def errors_as_code_def wrapl_def chain.simps [of "Errorf _ _"])

lemma errcode_As_wrapw [simp]: "errcode_As (wrapw e t) = errcode_As e"
  by (simp add: errcode_As_def errors_as_code_def wrapw_def chain.simps [of "Errorf _ _"])

lemma errcode_As_sentinel [simp]: "errcode_As (Sentinel t) = None"
  by (simp add: errcode_As_def errors_as_code_def chain.simps)

lemma errcode_As_is_code: "errcode_As e = Some c \<Longrightarrow> \<exists>n m h cause. c = CodeErr n m h cause"
proof -
  assume "errcode_As e = Some c"
  then have "is_code c"
    unfolding errcode_As_def errors_as_code_def by (metis find_Some_iff)
  then show ?thesis by (cases c) auto
qed

text \<open>The catalogue's numbers are distinct and its module digits are the ones the package
  comment lists.\<close>

lemma catalogue_distinct: "distinct (map code_number catalogue)"
  by (simp add: catalogue_def code_defs)

lemma catalogue_modules:
  "list_all (\<lambda>e. code_number e div 10000 \<in> {100, 200, 300, 900} \<and>
                 400 \<le> GetHTTPStatus e \<and> GetHTTPStatus e < 600 \<and> code_cause e = None) catalogue"
  by (simp add: catalogue_def code_defs)


end
