(* ===== verification/User_Repo.thy ===== *)
theory User_Repo
  imports User_Cache Errcode
begin

section \<open>User repository\<close>

text \<open>
  \<^verbatim>\<open>internal/repository/user.go\<close> over the query builder \<^verbatim>\<open>bun\<close>, which is the parameter record
  \<open>db_api\<close> on a database state \<open>'d\<close>; the model hook of \<^verbatim>\<open>internal/model/user.go\<close> is run where the
  builder runs it. The locale \<open>user_repository\<close> is what the service relies on, in terms of the live
  rows by identifier. \<open>ref_db\<close> is a table with the unique e-mail column of
  \<^verbatim>\<open>migrations/20250101120000_init_users_table.up.sql\<close>.
\<close>

definition ErrNoRows :: gerr where "ErrNoRows = Sentinel ''sql: no rows in result set''"

datatype sqlarg = ArgInt int | ArgStr string

text \<open>\<open>db_UpdateSet\<close> answers an error of \<open>Exec\<close> or the result of \<open>RowsAffected\<close>.\<close>

record 'd db_api =
  db_Insert :: "'d \<Rightarrow> User \<Rightarrow> (gerr, User) result \<times> 'd"
  db_SelectOne :: "'d \<Rightarrow> string \<Rightarrow> sqlarg \<Rightarrow> (gerr, User) result"
  db_UpdateModel :: "'d \<Rightarrow> User \<Rightarrow> string \<Rightarrow> sqlarg \<Rightarrow> (gerr, int) result \<times> 'd"
  db_UpdateSet :: "'d \<Rightarrow> string \<Rightarrow> int \<Rightarrow> string \<Rightarrow> sqlarg \<Rightarrow> (gerr, (gerr, int) result) result \<times> 'd"
  db_SelectPage :: "'d \<Rightarrow> string \<Rightarrow> string \<Rightarrow> int \<Rightarrow> int \<Rightarrow> (gerr, User list) result"
  db_Count :: "'d \<Rightarrow> string \<Rightarrow> (gerr, int) result"

definition userNotDeletedCond :: string where "userNotDeletedCond = ''deleted_at IS NULL''"
definition userByIDCond :: string where "userByIDCond = ''id = ? AND ''"

subsection \<open>Operations\<close>

text \<open>The argument \<open>now\<close> is \<open>time.Now()\<close>. The insert fills in the identifier, and both writes keep the
  timestamps of the hook in the caller's object.\<close>

definition repo_Create :: "'d db_api \<Rightarrow> int \<Rightarrow> 'd \<Rightarrow> User \<Rightarrow> (gerr, User) result \<times> 'd" where
  "repo_Create db now d user =
     (case db_Insert db d (BeforeAppendModel now InsertQuery user) of
        (Inl err, d') \<Rightarrow> (Inl (wrapl ''failed to create user'' err), d')
      | (Inr user', d') \<Rightarrow> (Inr user', d'))"

definition repo_GetByID :: "'d db_api \<Rightarrow> 'd \<Rightarrow> int \<Rightarrow> (gerr, User) result" where
  "repo_GetByID db d i =
     (case db_SelectOne db d (userByIDCond @ userNotDeletedCond) (ArgInt i) of
        Inl err \<Rightarrow> Inl (wrapl ''failed to get user by id'' err)
      | Inr user \<Rightarrow> Inr user)"

definition repo_GetByEmail :: "'d db_api \<Rightarrow> 'd \<Rightarrow> string \<Rightarrow> (gerr, User) result" where
  "repo_GetByEmail db d email =
     (case db_SelectOne db d (''email = ? AND '' @ userNotDeletedCond) (ArgStr email) of
        Inl err \<Rightarrow> Inl (wrapl ''failed to get user by email'' err)
      | Inr user \<Rightarrow> Inr user)"

definition repo_Update :: "'d db_api \<Rightarrow> int \<Rightarrow> 'd \<Rightarrow> User \<Rightarrow> (gerr, User) result \<times> 'd" where
  "repo_Update db now d user =
     (let user' = BeforeAppendModel now UpdateQuery user
      in case db_UpdateModel db d user' (userByIDCond @ userNotDeletedCond) (ArgInt (u_ID user)) of
           (Inl err, d') \<Rightarrow> (Inl (wrapl ''failed to update user'' err), d')
         | (Inr n, d') \<Rightarrow> (Inr user', d'))"

definition repo_Delete :: "'d db_api \<Rightarrow> int \<Rightarrow> 'd \<Rightarrow> int \<Rightarrow> gerr option \<times> 'd" where
  "repo_Delete db now d i =
     (case db_UpdateSet db d ''deleted_at = ?'' now (userByIDCond @ userNotDeletedCond) (ArgInt i) of
        (Inl err, d') \<Rightarrow> (Some (wrapl ''failed to delete user'' err), d')
      | (Inr (Inl err), d') \<Rightarrow> (Some (wrapl ''failed to delete user'' err), d')
      | (Inr (Inr n), d') \<Rightarrow>
          (if n = 0 then (Some (wrapl ''failed to delete user'' ErrNoRows), d') else (None, d')))"

definition repo_List :: "'d db_api \<Rightarrow> 'd \<Rightarrow> int \<Rightarrow> int \<Rightarrow> (gerr, User list) result" where
  "repo_List db d limit offset =
     (case db_SelectPage db d userNotDeletedCond ''created_at DESC'' limit offset of
        Inl err \<Rightarrow> Inl (wrapl ''failed to list users'' err)
      | Inr users \<Rightarrow> Inr users)"

definition repo_Count :: "'d db_api \<Rightarrow> 'd \<Rightarrow> (gerr, int) result" where
  "repo_Count db d =
     (case db_Count db d userNotDeletedCond of
        Inl err \<Rightarrow> Inl (wrapl ''failed to count users'' err)
      | Inr n \<Rightarrow> Inr n)"

record 'd UserRepository =
  r_Create :: "int \<Rightarrow> 'd \<Rightarrow> User \<Rightarrow> (gerr, User) result \<times> 'd"
  r_GetByID :: "'d \<Rightarrow> int \<Rightarrow> (gerr, User) result"
  r_GetByEmail :: "'d \<Rightarrow> string \<Rightarrow> (gerr, User) result"
  r_Update :: "int \<Rightarrow> 'd \<Rightarrow> User \<Rightarrow> (gerr, User) result \<times> 'd"
  r_Delete :: "int \<Rightarrow> 'd \<Rightarrow> int \<Rightarrow> gerr option \<times> 'd"
  r_List :: "'d \<Rightarrow> int \<Rightarrow> int \<Rightarrow> (gerr, User list) result"
  r_Count :: "'d \<Rightarrow> (gerr, int) result"

definition UserRepo :: "'d db_api \<Rightarrow> 'd UserRepository" where
  "UserRepo db =
     \<lparr>r_Create = repo_Create db, r_GetByID = repo_GetByID db, r_GetByEmail = repo_GetByEmail db,
      r_Update = repo_Update db, r_Delete = repo_Delete db, r_List = repo_List db, r_Count = repo_Count db\<rparr>"

subsection \<open>What the service relies on\<close>

text \<open>\<open>live d i\<close> is the row with identifier \<open>i\<close> that is not deleted.\<close>

locale user_repository =
  fixes R :: "'d UserRepository"
    and live :: "'d \<Rightarrow> int \<Rightarrow> User option"
    and inv :: "'d \<Rightarrow> bool"
  assumes live_row: "inv d \<Longrightarrow> live d i = Some u \<Longrightarrow> u_ID u = i \<and> u_DeletedAt u = None"
    and get_id: "inv d \<Longrightarrow> r_GetByID R d i = Inr u \<Longrightarrow> live d i = Some u"
    and get_id_none: "inv d \<Longrightarrow> r_GetByID R d i = Inl e \<Longrightarrow> errors_is e ErrNoRows \<Longrightarrow> live d i = None"
    and get_email: "inv d \<Longrightarrow> r_GetByEmail R d m = Inr u \<Longrightarrow> live d (u_ID u) = Some u \<and> u_Email u = m"
    and get_email_none: "inv d \<Longrightarrow> r_GetByEmail R d m = Inl e \<Longrightarrow> errors_is e ErrNoRows \<Longrightarrow> live d i = Some u \<Longrightarrow> u_Email u \<noteq> m"
    and create_ok: "inv d \<Longrightarrow> r_Create R now d u = (Inr u', d') \<Longrightarrow> u_DeletedAt u = None \<Longrightarrow>
      live d (u_ID u') = None \<and> live d' = (live d)(u_ID u' \<mapsto> u') \<and>
      u' = u\<lparr>u_CreatedAt := Some now, u_UpdatedAt := Some now, u_ID := u_ID u'\<rparr>"
    and create_err: "inv d \<Longrightarrow> r_Create R now d u = (Inl e, d') \<Longrightarrow> live d' = live d"
    and update_ok: "inv d \<Longrightarrow> r_Update R now d u = (Inr u', d') \<Longrightarrow> u_DeletedAt u = None \<Longrightarrow>
      u' = u\<lparr>u_UpdatedAt := Some now\<rparr> \<and>
      live d' = (if live d (u_ID u) = None then live d else (live d)(u_ID u \<mapsto> u'))"
    and update_err: "inv d \<Longrightarrow> r_Update R now d u = (Inl e, d') \<Longrightarrow> live d' = live d"
    and delete_ok: "inv d \<Longrightarrow> r_Delete R now d i = (None, d') \<Longrightarrow> live d i \<noteq> None \<and> live d' = (live d)(i := None)"
    and delete_err: "inv d \<Longrightarrow> r_Delete R now d i = (Some e, d') \<Longrightarrow> live d' = live d"
    and create_inv: "inv d \<Longrightarrow> r_Create R now d u = (r, d') \<Longrightarrow> inv d'"
    and update_inv: "inv d \<Longrightarrow> r_Update R now d u = (r, d') \<Longrightarrow> inv d'"
    and delete_inv: "inv d \<Longrightarrow> r_Delete R now d i = (e', d') \<Longrightarrow> inv d'"

text \<open>The same on the level of the query builder, for the conditions the repository uses: a select
  finds the live row or reports no rows; a failed statement changes nothing; the number of changed rows
  is available. It gives the contract of the repository.\<close>

locale user_db =
  fixes db :: "'d db_api"
    and live :: "'d \<Rightarrow> int \<Rightarrow> User option"
    and inv :: "'d \<Rightarrow> bool"
  assumes live_row: "inv d \<Longrightarrow> live d i = Some u \<Longrightarrow> u_ID u = i \<and> u_DeletedAt u = None"
    and select_id: "inv d \<Longrightarrow> db_SelectOne db d ''id = ? AND deleted_at IS NULL'' (ArgInt i) = Inr u \<Longrightarrow> live d i = Some u"
    and select_id_none: "inv d \<Longrightarrow> db_SelectOne db d ''id = ? AND deleted_at IS NULL'' (ArgInt i) = Inl e \<Longrightarrow>
      errors_is e ErrNoRows \<Longrightarrow> live d i = None"
    and select_email: "inv d \<Longrightarrow> db_SelectOne db d ''email = ? AND deleted_at IS NULL'' (ArgStr m) = Inr u \<Longrightarrow>
      live d (u_ID u) = Some u \<and> u_Email u = m"
    and select_email_none: "inv d \<Longrightarrow> db_SelectOne db d ''email = ? AND deleted_at IS NULL'' (ArgStr m) = Inl e \<Longrightarrow>
      errors_is e ErrNoRows \<Longrightarrow> live d i = Some u \<Longrightarrow> u_Email u \<noteq> m"
    and insert_ok: "inv d \<Longrightarrow> db_Insert db d u = (Inr u', d') \<Longrightarrow> u_DeletedAt u = None \<Longrightarrow>
      live d (u_ID u') = None \<and> live d' = (live d)(u_ID u' \<mapsto> u') \<and> u' = u\<lparr>u_ID := u_ID u'\<rparr>"
    and insert_err: "inv d \<Longrightarrow> db_Insert db d u = (Inl e, d') \<Longrightarrow> live d' = live d"
    and model_ok: "inv d \<Longrightarrow> db_UpdateModel db d u ''id = ? AND deleted_at IS NULL'' (ArgInt (u_ID u)) = (Inr n, d') \<Longrightarrow>
      u_DeletedAt u = None \<Longrightarrow> live d' = (if live d (u_ID u) = None then live d else (live d)(u_ID u \<mapsto> u))"
    and model_err: "inv d \<Longrightarrow> db_UpdateModel db d u ''id = ? AND deleted_at IS NULL'' (ArgInt (u_ID u)) = (Inl e, d') \<Longrightarrow>
      live d' = live d"
    and mark_ok: "inv d \<Longrightarrow> db_UpdateSet db d ''deleted_at = ?'' now ''id = ? AND deleted_at IS NULL'' (ArgInt i) = (Inr (Inr n), d') \<Longrightarrow>
      if live d i = None then n = 0 \<and> live d' = live d else n \<noteq> 0 \<and> live d' = (live d)(i := None)"
    and mark_rows: "inv d \<Longrightarrow> db_UpdateSet db d ''deleted_at = ?'' now ''id = ? AND deleted_at IS NULL'' (ArgInt i) \<noteq> (Inr (Inl e), d')"
    and mark_err: "inv d \<Longrightarrow> db_UpdateSet db d ''deleted_at = ?'' now ''id = ? AND deleted_at IS NULL'' (ArgInt i) = (Inl e, d') \<Longrightarrow>
      live d' = live d"
    and insert_inv: "inv d \<Longrightarrow> db_Insert db d u = (r, d') \<Longrightarrow> inv d'"
    and model_inv: "inv d \<Longrightarrow> db_UpdateModel db d u ''id = ? AND deleted_at IS NULL'' (ArgInt (u_ID u)) = (r', d') \<Longrightarrow> inv d'"
    and mark_inv: "inv d \<Longrightarrow>
      db_UpdateSet db d ''deleted_at = ?'' now ''id = ? AND deleted_at IS NULL'' (ArgInt i) = (r'', d') \<Longrightarrow> inv d'"

lemmas repo_defs = UserRepo_def repo_Create_def repo_GetByID_def repo_GetByEmail_def repo_Update_def repo_Delete_def
  repo_List_def repo_Count_def userByIDCond_def userNotDeletedCond_def BeforeAppendModel_def

lemma errors_is_NoRows [simp]: "errors_is (wrapl t e) ErrNoRows \<longleftrightarrow> errors_is e ErrNoRows"
  by (simp add: ErrNoRows_def)

sublocale user_db \<subseteq> repo: user_repository "UserRepo db" live inv
proof
  show "inv d \<Longrightarrow> live d i = Some u \<Longrightarrow> u_ID u = i \<and> u_DeletedAt u = None" for d i u
    by (rule live_row)
  show "inv d \<Longrightarrow> r_GetByID (UserRepo db) d i = Inr u \<Longrightarrow> live d i = Some u" for d i u
    by (auto simp: repo_defs intro: select_id split: sum.splits)
  show "inv d \<Longrightarrow> r_GetByID (UserRepo db) d i = Inl e \<Longrightarrow> errors_is e ErrNoRows \<Longrightarrow> live d i = None" for d i e
    by (auto simp: repo_defs intro: select_id_none split: sum.splits)
  show "inv d \<Longrightarrow> r_GetByEmail (UserRepo db) d m = Inr u \<Longrightarrow> live d (u_ID u) = Some u \<and> u_Email u = m" for d m u
    by (auto simp: repo_defs dest: select_email split: sum.splits)
  show "inv d \<Longrightarrow> r_GetByEmail (UserRepo db) d m = Inl e \<Longrightarrow> errors_is e ErrNoRows \<Longrightarrow> live d i = Some u \<Longrightarrow> u_Email u \<noteq> m"
    for d m e i u
    by (auto simp: repo_defs dest: select_email_none split: sum.splits)
  show "inv d \<Longrightarrow> r_Create (UserRepo db) now d u = (Inr u', d') \<Longrightarrow> u_DeletedAt u = None \<Longrightarrow>
      live d (u_ID u') = None \<and> live d' = (live d)(u_ID u' \<mapsto> u') \<and>
      u' = u\<lparr>u_CreatedAt := Some now, u_UpdatedAt := Some now, u_ID := u_ID u'\<rparr>" for now d u u' d'
    using insert_ok [of d "u\<lparr>u_CreatedAt := Some now, u_UpdatedAt := Some now\<rparr>" u' d']
    by (auto simp: repo_defs split: sum.splits prod.splits)
  show "inv d \<Longrightarrow> r_Create (UserRepo db) now d u = (Inl e, d') \<Longrightarrow> live d' = live d" for now d u e d'
    by (auto simp: repo_defs dest: insert_err split: sum.splits prod.splits)
  show "inv d \<Longrightarrow> r_Update (UserRepo db) now d u = (Inr u', d') \<Longrightarrow> u_DeletedAt u = None \<Longrightarrow>
      u' = u\<lparr>u_UpdatedAt := Some now\<rparr> \<and>
      live d' = (if live d (u_ID u) = None then live d else (live d)(u_ID u \<mapsto> u'))" for now d u u' d'
    using model_ok [of d "u\<lparr>u_UpdatedAt := Some now\<rparr>"]
    by (auto simp: repo_defs Let_def split: sum.splits prod.splits)
  show "inv d \<Longrightarrow> r_Update (UserRepo db) now d u = (Inl e, d') \<Longrightarrow> live d' = live d" for now d u e d'
    using model_err [of d "u\<lparr>u_UpdatedAt := Some now\<rparr>"]
    by (auto simp: repo_defs Let_def split: sum.splits prod.splits)
  show "inv d \<Longrightarrow> r_Delete (UserRepo db) now d i = (None, d') \<Longrightarrow> live d i \<noteq> None \<and> live d' = (live d)(i := None)" for now d i d'
    using mark_ok [of d now i] by (auto simp: repo_defs split: sum.splits prod.splits if_splits)
  show "inv d \<Longrightarrow> r_Delete (UserRepo db) now d i = (Some e, d') \<Longrightarrow> live d' = live d" for now d i e d'
    using mark_ok [of d now i] mark_err [of d now i] mark_rows [of d now i]
    by (auto simp: repo_defs split: sum.splits prod.splits if_splits)
  show "inv d \<Longrightarrow> r_Create (UserRepo db) now d u = (r, d') \<Longrightarrow> inv d'" for now d u r d'
    by (auto simp: repo_defs dest: insert_inv split: sum.splits prod.splits)
  show "inv d \<Longrightarrow> r_Update (UserRepo db) now d u = (r, d') \<Longrightarrow> inv d'" for now d u r d'
    using model_inv [of d "u\<lparr>u_UpdatedAt := Some now\<rparr>"]
    by (auto simp: repo_defs Let_def split: sum.splits prod.splits)
  show "inv d \<Longrightarrow> r_Delete (UserRepo db) now d i = (e, d') \<Longrightarrow> inv d'" for now d i e d'
    by (auto simp: repo_defs dest: mark_inv split: sum.splits prod.splits if_splits)
qed

context user_db
begin

lemma repository: "user_repository (UserRepo db) live inv"
  by (rule repo.user_repository_axioms)

end

subsection \<open>A table\<close>

text \<open>The users table as the list of its rows, with the unique index on the e-mail column, which also counts
  deleted rows.\<close>

definition ref_match :: "string \<Rightarrow> sqlarg \<Rightarrow> User \<Rightarrow> bool" where
  "ref_match cond a u \<longleftrightarrow>
     u_DeletedAt u = None \<and>
     (case a of
        ArgInt i \<Rightarrow> cond = ''id = ? AND deleted_at IS NULL'' \<and> u_ID u = i
      | ArgStr m \<Rightarrow> cond = ''email = ? AND deleted_at IS NULL'' \<and> u_Email u = m)"

definition ref_next_id :: "User list \<Rightarrow> int" where
  "ref_next_id d = 1 + foldr max (map u_ID d) 0"

definition ErrUnique :: gerr where "ErrUnique = Sentinel ''UNIQUE constraint failed: users.email''"

definition ref_count :: "string \<Rightarrow> sqlarg \<Rightarrow> User list \<Rightarrow> int" where
  "ref_count cond a d = int (length (filter (ref_match cond a) d))"

definition ref_db :: "User list db_api" where
  "ref_db =
     \<lparr>db_Insert = (\<lambda>d u. if list_ex (\<lambda>v. u_Email v = u_Email u) d then (Inl ErrUnique, d)
        else let u' = u\<lparr>u_ID := ref_next_id d\<rparr> in (Inr u', d @ [u'])),
      db_SelectOne = (\<lambda>d cond a. case find (ref_match cond a) d of None \<Rightarrow> Inl ErrNoRows | Some u \<Rightarrow> Inr u),
      db_UpdateModel = (\<lambda>d u cond a.
        (Inr (ref_count cond a d), map (\<lambda>v. if ref_match cond a v then u else v) d)),
      db_UpdateSet = (\<lambda>d col t cond a.
        (Inr (Inr (ref_count cond a d)), map (\<lambda>v. if ref_match cond a v then v\<lparr>u_DeletedAt := Some t\<rparr> else v) d)),
      db_SelectPage = (\<lambda>d cond ord limit offset. Inr (take (nat limit) (drop (nat offset)
        (rev (sort_key (\<lambda>u. case u_CreatedAt u of None \<Rightarrow> 0 | Some t \<Rightarrow> t) (filter (\<lambda>u. u_DeletedAt u = None) d)))))),
      db_Count = (\<lambda>d cond. Inr (int (length (filter (\<lambda>u. u_DeletedAt u = None) d))))\<rparr>"

definition ref_live :: "User list \<Rightarrow> int \<Rightarrow> User option" where
  "ref_live d i = find (\<lambda>u. u_ID u = i \<and> u_DeletedAt u = None) d"

lemma next_id_fresh: "u \<in> set d \<Longrightarrow> u_ID u < ref_next_id d"
proof -
  have "u \<in> set d \<Longrightarrow> u_ID u \<le> foldr max (map u_ID d) 0"
    by (induction d) auto
  then show "u \<in> set d \<Longrightarrow> ?thesis" by (simp add: ref_next_id_def)
qed

lemma find_match_id: "find (ref_match ''id = ? AND deleted_at IS NULL'' (ArgInt i)) d = ref_live d i"
  unfolding ref_live_def by (rule arg_cong2 [where f = find]) (auto simp: ref_match_def)

lemma ref_live_snoc: "ref_live (d @ [u]) i =
  (case ref_live d i of None \<Rightarrow> if u_ID u = i \<and> u_DeletedAt u = None then Some u else None | Some v \<Rightarrow> Some v)"
  unfolding ref_live_def by (induction d) auto

lemma ref_live_update:
  assumes "u_DeletedAt u = None"
  shows "ref_live (map (\<lambda>v. if ref_match ''id = ? AND deleted_at IS NULL'' (ArgInt (u_ID u)) v then u else v) d) =
    (if ref_live d (u_ID u) = None then ref_live d else (ref_live d)(u_ID u \<mapsto> u))"
  unfolding ref_live_def using assms by (induction d) (auto simp: ref_match_def fun_eq_iff)

lemma ref_live_delete:
  "ref_live (map (\<lambda>v. if ref_match ''id = ? AND deleted_at IS NULL'' (ArgInt i) v then v\<lparr>u_DeletedAt := Some t\<rparr> else v) d) =
    (ref_live d)(i := None)"
  unfolding ref_live_def by (induction d) (auto simp: ref_match_def fun_eq_iff)

lemma ref_live_Some: "ref_live d i = Some u \<Longrightarrow> u \<in> set d \<and> u_ID u = i \<and> u_DeletedAt u = None"
  unfolding ref_live_def by (auto simp: find_Some_iff)

lemma ref_count_0: "ref_count ''id = ? AND deleted_at IS NULL'' (ArgInt i) d = 0 \<longleftrightarrow> ref_live d i = None"
  by (auto simp: ref_count_def find_match_id [symmetric] find_None_iff filter_empty_conv)

text \<open>Rows have distinct identifiers.\<close>

definition ref_inv :: "User list \<Rightarrow> bool" where
  "ref_inv d \<longleftrightarrow> distinct (map u_ID d)"

lemma ref_live_row: "ref_inv d \<Longrightarrow> u \<in> set d \<Longrightarrow> u_DeletedAt u = None \<Longrightarrow> ref_live d (u_ID u) = Some u"
  unfolding ref_live_def ref_inv_def by (induction d) auto

interpretation table: user_db ref_db ref_live ref_inv
proof
  show "ref_inv d \<Longrightarrow> ref_live d i = Some u \<Longrightarrow> u_ID u = i \<and> u_DeletedAt u = None" for d i u
    by (auto dest: ref_live_Some)
  show "db_SelectOne ref_db d ''id = ? AND deleted_at IS NULL'' (ArgInt i) = Inr u \<Longrightarrow> ref_live d i = Some u" for d i u
    by (auto simp: ref_db_def find_match_id split: option.splits)
  show "db_SelectOne ref_db d ''id = ? AND deleted_at IS NULL'' (ArgInt i) = Inl e \<Longrightarrow> ref_live d i = None" for d i e
    by (auto simp: ref_db_def find_match_id split: option.splits)
  show "ref_inv d \<Longrightarrow> db_SelectOne ref_db d ''email = ? AND deleted_at IS NULL'' (ArgStr m) = Inr u \<Longrightarrow>
      ref_live d (u_ID u) = Some u \<and> u_Email u = m" for d m u
    by (auto simp: ref_db_def ref_match_def find_Some_iff ref_live_row split: option.splits)
  show "db_SelectOne ref_db d ''email = ? AND deleted_at IS NULL'' (ArgStr m) = Inl e \<Longrightarrow>
      ref_live d i = Some u \<Longrightarrow> u_Email u \<noteq> m" for d m e i u
    by (auto simp: ref_db_def ref_match_def find_None_iff dest!: ref_live_Some split: option.splits)
  show "db_Insert ref_db d u = (Inr u', d') \<Longrightarrow> u_DeletedAt u = None \<Longrightarrow>
      ref_live d (u_ID u') = None \<and> ref_live d' = (ref_live d)(u_ID u' \<mapsto> u') \<and> u' = u\<lparr>u_ID := u_ID u'\<rparr>" for d u u' d'
  proof -
    assume u: "db_Insert ref_db d u = (Inr u', d')" "u_DeletedAt u = None"
    then have u': "u' = u\<lparr>u_ID := ref_next_id d\<rparr>" "d' = d @ [u']"
      by (auto simp: ref_db_def Let_def split: if_splits)
    have "ref_live d (ref_next_id d) = None"
      using next_id_fresh ref_live_Some by (metis less_irrefl not_None_eq)
    then show ?thesis using u u' by (auto simp: ref_live_snoc fun_eq_iff split: option.splits)
  qed
  show "db_Insert ref_db d u = (r, d') \<Longrightarrow> ref_inv d \<Longrightarrow> ref_inv d'" for d u r d'
    using next_id_fresh [of _ d] by (fastforce simp: ref_db_def Let_def ref_inv_def split: if_splits)
  show "ref_inv d \<Longrightarrow>
    db_UpdateModel ref_db d u ''id = ? AND deleted_at IS NULL'' (ArgInt (u_ID u)) = (r, d') \<Longrightarrow> ref_inv d'" for d u r d'
  proof -
    assume "ref_inv d" "db_UpdateModel ref_db d u ''id = ? AND deleted_at IS NULL'' (ArgInt (u_ID u)) = (r, d')"
    moreover from this have "map u_ID d' = map u_ID d"
      by (auto simp: ref_db_def ref_match_def)
    ultimately show ?thesis by (simp add: ref_inv_def)
  qed
  show "ref_inv d \<Longrightarrow>
    db_UpdateSet ref_db d ''deleted_at = ?'' now ''id = ? AND deleted_at IS NULL'' (ArgInt i) = (r, d') \<Longrightarrow> ref_inv d'"
    for d now i r d'
  proof -
    assume "ref_inv d" "db_UpdateSet ref_db d ''deleted_at = ?'' now ''id = ? AND deleted_at IS NULL'' (ArgInt i) = (r, d')"
    moreover from this have "map u_ID d' = map u_ID d"
      by (auto simp: ref_db_def)
    ultimately show ?thesis by (simp add: ref_inv_def)
  qed
qed (auto simp: ref_db_def ref_live_update ref_live_delete ref_count_0 Let_def split: if_splits)

end
