(* ===== verification/User_Service.thy ===== *)
theory User_Service
  imports User_Repo
begin

section \<open>User service and HTTP handlers\<close>

text \<open>
  \<^verbatim>\<open>internal/dto\<close>, \<^verbatim>\<open>internal/crypto\<close>, \<^verbatim>\<open>internal/service/user.go\<close> and the user handlers of
  \<^verbatim>\<open>internal/handler/http\<close>. The service is a set of functions on the cache state and the database state,
  over a manager and a repository. The two calls into \<^verbatim>\<open>bcrypt\<close> and the request binding of
  \<^verbatim>\<open>gin\<close> are parameters; \<open>now\<close> is the clock. The locale \<open>user_service\<close> joins the contracts of cache
  and repository and shows that the cache-aside scheme is transparent.
\<close>

subsection \<open>Requests and responses\<close>

record PaginationRequest =
  pg_Page :: int
  pg_Limit :: int

definition DefaultPage :: int where "DefaultPage = 1"
definition DefaultLimit :: int where "DefaultLimit = 10"

definition GetPage :: "PaginationRequest \<Rightarrow> int" where
  "GetPage p = (if pg_Page p < 1 then DefaultPage else pg_Page p)"

definition GetLimit :: "PaginationRequest \<Rightarrow> int" where
  "GetLimit p = (if pg_Limit p < 1 then DefaultLimit else pg_Limit p)"

definition GetOffset :: "PaginationRequest \<Rightarrow> int" where
  "GetOffset p = wrap64 (wrap64 (GetPage p - 1) * GetLimit p)"

definition GetTotalPages :: "PaginationRequest \<Rightarrow> int \<Rightarrow> int" where
  "GetTotalPages p tot =
     (if tot = 0 then 0
      else let limit = GetLimit p; pages = go_div tot limit
        in if go_mod tot limit > 0 then wrap64 (pages + 1) else pages)"

record CreateUserRequest =
  cr_Email :: string
  cr_Password :: string
  cr_Name :: string
  cr_Phone :: string

record UpdateUserRequest =
  up_ID :: int
  up_Name :: string
  up_Phone :: string
  up_Status :: "int option"

record UserResponse =
  ur_ID :: int
  ur_Email :: string
  ur_Name :: string
  ur_Phone :: string
  ur_Status :: int
  ur_CreatedAt :: gotime
  ur_UpdatedAt :: gotime

subsection \<open>Passwords\<close>

record bcrypt_api =
  bc_Generate :: "string \<Rightarrow> int \<Rightarrow> (gerr, string) result"
  bc_Compare :: "string \<Rightarrow> string \<Rightarrow> gerr option"

definition HashPassword :: "bcrypt_api \<Rightarrow> string \<Rightarrow> (gerr, string) result" where
  "HashPassword bc password =
     (case bc_Generate bc password 10 of
        Inl err \<Rightarrow> Inl (wrapl ''failed to hash password'' err) | Inr h \<Rightarrow> Inr h)"

definition CheckPassword :: "bcrypt_api \<Rightarrow> string \<Rightarrow> string \<Rightarrow> gerr option" where
  "CheckPassword bc password hash = bc_Compare bc hash password"

definition HashPasswordWithCost :: "bcrypt_api \<Rightarrow> string \<Rightarrow> int \<Rightarrow> (gerr, string) result" where
  "HashPasswordWithCost bc password cost0 =
     (let cost = (if cost0 = 0 then 10 else cost0)
      in if cost < 4 \<or> cost > 31
         then Inl (Errorf (''invalid cost '' @ show_int cost @ '': must be between 4 and 31'') [])
         else (case bc_Generate bc password cost of
                 Inl err \<Rightarrow> Inl (wrapl (''failed to hash password with cost '' @ show_int cost) err)
               | Inr h \<Rightarrow> Inr h))"

subsection \<open>Service\<close>

definition toUserResponse :: "User option \<Rightarrow> UserResponse option" where
  "toUserResponse user =
     (case user of
        None \<Rightarrow> None
      | Some u \<Rightarrow> Some \<lparr>ur_ID = u_ID u, ur_Email = u_Email u, ur_Name = u_Name u, ur_Phone = u_Phone u,
          ur_Status = u_Status u, ur_CreatedAt = u_CreatedAt u, ur_UpdatedAt = u_UpdatedAt u\<rparr>)"

definition toUserResponses :: "User option list \<Rightarrow> UserResponse option list" where
  "toUserResponses users = map toUserResponse users"

definition new_user :: "CreateUserRequest \<Rightarrow> string \<Rightarrow> User" where
  "new_user req hash =
     \<lparr>u_ID = 0, u_Email = cr_Email req, u_Password = hash, u_Name = cr_Name req, u_Phone = cr_Phone req,
      u_Status = 1, u_CreatedAt = None, u_UpdatedAt = None, u_DeletedAt = None\<rparr>"

definition svc_Create ::
  "'d UserRepository \<Rightarrow> bcrypt_api \<Rightarrow> int \<Rightarrow> CreateUserRequest \<Rightarrow> 'd \<Rightarrow> (gerr, UserResponse option) result \<times> 'd" where
  "svc_Create R bc now req d =
     (case r_GetByEmail R d (cr_Email req) of
        Inr existingUser \<Rightarrow> (Inl UserAlreadyExists, d)
      | Inl err \<Rightarrow>
          if \<not> errors_is err ErrNoRows then (Inl (wrapl ''failed to check user email'' err), d)
          else case HashPassword bc (cr_Password req) of
                 Inl err \<Rightarrow> (Inl (wrapl ''failed to hash password'' err), d)
               | Inr hashedPassword \<Rightarrow>
                   (case r_Create R now d (new_user req hashedPassword) of
                      (Inl err, d') \<Rightarrow> (Inl (wrapl ''failed to create user'' err), d')
                    | (Inr user, d') \<Rightarrow> (Inr (toUserResponse (Some user)), d')))"

text \<open>The read path in its two halves: what is answered at once, and what happens after a miss.\<close>

definition svc_fill ::
  "'s Manager \<Rightarrow> int \<Rightarrow> (gerr, User) result \<Rightarrow> 's \<Rightarrow> (gerr, UserResponse option) result \<times> 's" where
  "svc_fill M i fetched c =
     (case fetched of
        Inl err \<Rightarrow>
          (Inl (if errors_is err ErrNoRows then Wrap UserNotFound (Some err) else wrapl ''failed to get user'' err), c)
      | Inr user \<Rightarrow>
          let (_, c') = mg_SetUserByID M c i (Some (publicUser user)) in (Inr (toUserResponse (Some user)), c'))"

definition svc_GetByID ::
  "'s Manager \<Rightarrow> 'd UserRepository \<Rightarrow> int \<Rightarrow> 's \<Rightarrow> 'd \<Rightarrow> (gerr, UserResponse option) result \<times> 's" where
  "svc_GetByID M R i c d =
     (case mg_GetUserByID M c i of
        (Inr cached, c') \<Rightarrow> (Inr (toUserResponse cached), c')
      | (Inl _, c') \<Rightarrow> svc_fill M i (r_GetByID R d i) c')"

definition svc_GetByEmail :: "'d UserRepository \<Rightarrow> string \<Rightarrow> 'd \<Rightarrow> (gerr, User) result" where
  "svc_GetByEmail R email d =
     (case r_GetByEmail R d email of
        Inl err \<Rightarrow>
          Inl (if errors_is err ErrNoRows then Wrap UserNotFound (Some err) else wrapl ''failed to get user by email'' err)
      | Inr user \<Rightarrow> Inr user)"

definition ValidateCredentials ::
  "'d UserRepository \<Rightarrow> bcrypt_api \<Rightarrow> string \<Rightarrow> string \<Rightarrow> 'd \<Rightarrow> (gerr, User) result" where
  "ValidateCredentials R bc email password d =
     (case r_GetByEmail R d email of
        Inl err \<Rightarrow> Inl AuthFailed
      | Inr user \<Rightarrow>
          if u_Status user \<noteq> 1 then Inl UserDisabled
          else case CheckPassword bc password (u_Password user) of
                 Some err \<Rightarrow> Inl AuthFailed
               | None \<Rightarrow> Inr user)"

definition invalidateUserCache :: "'s Manager \<Rightarrow> 's \<Rightarrow> int \<Rightarrow> string \<Rightarrow> 's" where
  "invalidateUserCache M c i email =
     (let (_, c1) = mg_DelUserByID M c i
      in if email \<noteq> '''' then snd (mg_DelUserByEmail M c1 email) else c1)"

definition apply_update :: "UpdateUserRequest \<Rightarrow> User \<Rightarrow> User" where
  "apply_update req user =
     (let u1 = (if up_Name req \<noteq> '''' then user\<lparr>u_Name := up_Name req\<rparr> else user);
          u2 = (if up_Phone req \<noteq> '''' then u1\<lparr>u_Phone := up_Phone req\<rparr> else u1)
      in case up_Status req of None \<Rightarrow> u2 | Some st \<Rightarrow> u2\<lparr>u_Status := st\<rparr>)"

definition svc_Update ::
  "'s Manager \<Rightarrow> 'd UserRepository \<Rightarrow> int \<Rightarrow> int \<Rightarrow> UpdateUserRequest \<Rightarrow> 's \<Rightarrow> 'd \<Rightarrow>
     (gerr, UserResponse option) result \<times> 's \<times> 'd" where
  "svc_Update M R now i req c d =
     (case r_GetByID R d i of
        Inl err \<Rightarrow> (Inl (Wrap UserNotFound (Some err)), c, d)
      | Inr user \<Rightarrow>
          (case r_Update R now d (apply_update req user) of
             (Inl err, d') \<Rightarrow>
               (Inl (if errors_is err ErrNoRows then Wrap UserNotFound (Some err) else wrapl ''failed to update user'' err),
                c, d')
           | (Inr user', d') \<Rightarrow>
               (Inr (toUserResponse (Some user')), invalidateUserCache M c i (u_Email user'), d')))"

definition svc_Delete ::
  "'s Manager \<Rightarrow> 'd UserRepository \<Rightarrow> int \<Rightarrow> int \<Rightarrow> 's \<Rightarrow> 'd \<Rightarrow> gerr option \<times> 's \<times> 'd" where
  "svc_Delete M R now i c d =
     (case r_GetByID R d i of
        Inl err \<Rightarrow> (Some (Wrap UserNotFound (Some err)), c, d)
      | Inr user \<Rightarrow>
          (case r_Delete R now d i of
             (Some err, d') \<Rightarrow>
               (Some (if errors_is err ErrNoRows then Wrap UserNotFound (Some err) else wrapl ''failed to delete user'' err),
                c, d')
           | (None, d') \<Rightarrow> (None, invalidateUserCache M c i (u_Email user), d')))"

definition svc_ListWithCount ::
  "'d UserRepository \<Rightarrow> int \<Rightarrow> int \<Rightarrow> 'd \<Rightarrow> (gerr, UserResponse option list \<times> int) result" where
  "svc_ListWithCount R limit offset d =
     (case r_List R d limit offset of
        Inl err \<Rightarrow> Inl (wrapl ''failed to list users'' err)
      | Inr users \<Rightarrow>
          (case r_Count R d of
             Inl err \<Rightarrow> Inl (wrapl ''failed to count users'' err)
           | Inr tot \<Rightarrow> Inr (toUserResponses (map Some users), tot)))"

subsection \<open>Handlers\<close>

text \<open>Binding is done by \<^verbatim>\<open>gin\<close>; its answer is an argument, already with the translated error.
  \<open>showCause\<close> is the flag of the response package.\<close>

definition bind_failed :: "bool \<Rightarrow> gerr \<Rightarrow> int \<times> 'x Response" where
  "bind_failed showCause err = Error showCause (Some (Wrap ParamError (Some err)))"

definition HandleServiceError :: "bool \<Rightarrow> gerr \<Rightarrow> int \<times> 'x Response" where
  "HandleServiceError showCause err =
     (case errcode_As err of
        Some _ \<Rightarrow> Error showCause (Some err)
      | None \<Rightarrow> Error showCause (Some (Wrap InternalError (Some err))))"

definition GetUser ::
  "bool \<Rightarrow> 's Manager \<Rightarrow> 'd UserRepository \<Rightarrow> (gerr, int) result \<Rightarrow> 's \<Rightarrow> 'd \<Rightarrow> (int \<times> UserResponse Response) \<times> 's" where
  "GetUser showCause M R uri c d =
     (case uri of
        Inl err \<Rightarrow> (bind_failed showCause err, c)
      | Inr i \<Rightarrow>
          (case svc_GetByID M R i c d of
             (Inl err, c') \<Rightarrow> (HandleServiceError showCause err, c')
           | (Inr resp, c') \<Rightarrow> (Success resp, c')))"

definition CreateUser ::
  "bool \<Rightarrow> 'd UserRepository \<Rightarrow> bcrypt_api \<Rightarrow> int \<Rightarrow> (gerr, CreateUserRequest) result \<Rightarrow> 'd \<Rightarrow>
     (int \<times> UserResponse Response) \<times> 'd" where
  "CreateUser showCause R bc now body d =
     (case body of
        Inl err \<Rightarrow> (bind_failed showCause err, d)
      | Inr req \<Rightarrow>
          (case svc_Create R bc now req d of
             (Inl err, d') \<Rightarrow> (HandleServiceError showCause err, d')
           | (Inr resp, d') \<Rightarrow> (Success resp, d')))"

text \<open>Both bindings of \<open>UpdateUser\<close> fill the same request object.\<close>

definition UpdateUser ::
  "bool \<Rightarrow> 's Manager \<Rightarrow> 'd UserRepository \<Rightarrow> int \<Rightarrow> (gerr, UpdateUserRequest) result \<Rightarrow>
     (UpdateUserRequest \<Rightarrow> (gerr, UpdateUserRequest) result) \<Rightarrow> 's \<Rightarrow> 'd \<Rightarrow>
     (int \<times> UserResponse Response) \<times> 's \<times> 'd" where
  "UpdateUser showCause M R now uri bind_body c d =
     (case uri of
        Inl err \<Rightarrow> (bind_failed showCause err, c, d)
      | Inr req0 \<Rightarrow>
          (case bind_body req0 of
             Inl err \<Rightarrow> (bind_failed showCause err, c, d)
           | Inr req \<Rightarrow>
               (case svc_Update M R now (up_ID req) req c d of
                  (Inl err, c', d') \<Rightarrow> (HandleServiceError showCause err, c', d')
                | (Inr resp, c', d') \<Rightarrow> (Success resp, c', d'))))"

definition DeleteUser ::
  "bool \<Rightarrow> 's Manager \<Rightarrow> 'd UserRepository \<Rightarrow> int \<Rightarrow> (gerr, int) result \<Rightarrow> 's \<Rightarrow> 'd \<Rightarrow>
     (int \<times> int Response) \<times> 's \<times> 'd" where
  "DeleteUser showCause M R now uri c d =
     (case uri of
        Inl err \<Rightarrow> (bind_failed showCause err, c, d)
      | Inr i \<Rightarrow>
          (case svc_Delete M R now i c d of
             (Some err, c', d') \<Rightarrow> (HandleServiceError showCause err, c', d')
           | (None, c', d') \<Rightarrow> (Success (Some i), c', d')))"

definition ListUsers ::
  "bool \<Rightarrow> 'd UserRepository \<Rightarrow> (gerr, PaginationRequest) result \<Rightarrow> 'd \<Rightarrow>
     int \<times> UserResponse option list PageData Response" where
  "ListUsers showCause R query d =
     (case query of
        Inl err \<Rightarrow> bind_failed showCause err
      | Inr req \<Rightarrow>
          (case svc_ListWithCount R (GetLimit req) (GetOffset req) d of
             Inl err \<Rightarrow> HandleServiceError showCause err
           | Inr (users, tot) \<Rightarrow> SuccessPage users tot (GetPage req) (GetLimit req) (GetTotalPages req tot)))"

text \<open>A JSON body: \<^verbatim>\<open>encoding/json\<close> decodes the members in order into the fields of the request, matching
  names without regard to case; the identifier field has no \<^verbatim>\<open>json\<close> tag and is therefore matched by its
  own name. A member of the wrong type is reported after the rest is decoded. \<open>check\<close> is the tag
  validation that \<^verbatim>\<open>gin\<close> runs afterwards.\<close>

datatype jval = JNum int | JStr string | JNull | JOther

definition json_type_error :: gerr where "json_type_error = Sentinel ''json: cannot unmarshal''"

definition json_member :: "string \<Rightarrow> jval \<Rightarrow> UpdateUserRequest \<Rightarrow> (gerr, UpdateUserRequest) result" where
  "json_member key v req =
     (if equal_fold key ''ID'' then
        (case v of JNum n \<Rightarrow> Inr (req\<lparr>up_ID := n\<rparr>) | JNull \<Rightarrow> Inr req | _ \<Rightarrow> Inl json_type_error)
      else if equal_fold key ''name'' then
        (case v of JStr s \<Rightarrow> Inr (req\<lparr>up_Name := s\<rparr>) | JNull \<Rightarrow> Inr req | _ \<Rightarrow> Inl json_type_error)
      else if equal_fold key ''phone'' then
        (case v of JStr s \<Rightarrow> Inr (req\<lparr>up_Phone := s\<rparr>) | JNull \<Rightarrow> Inr req | _ \<Rightarrow> Inl json_type_error)
      else if equal_fold key ''status'' then
        (case v of JNum n \<Rightarrow> Inr (req\<lparr>up_Status := Some n\<rparr>) | JNull \<Rightarrow> Inr (req\<lparr>up_Status := None\<rparr>)
         | _ \<Rightarrow> Inl json_type_error)
      else Inr req)"

fun json_decode :: "(string \<times> jval) list \<Rightarrow> gerr option \<Rightarrow> UpdateUserRequest \<Rightarrow> (gerr, UpdateUserRequest) result" where
  "json_decode [] err req = (case err of None \<Rightarrow> Inr req | Some e \<Rightarrow> Inl e)"
| "json_decode ((key, v) # ms) err req =
     (case json_member key v req of
        Inl e \<Rightarrow> json_decode ms (case err of None \<Rightarrow> Some e | Some e' \<Rightarrow> Some e') req
      | Inr req' \<Rightarrow> json_decode ms err req')"

definition json_bind ::
  "(UpdateUserRequest \<Rightarrow> gerr option) \<Rightarrow> (string \<times> jval) list \<Rightarrow> UpdateUserRequest \<Rightarrow> (gerr, UpdateUserRequest) result" where
  "json_bind check body req =
     (case json_decode body None req of
        Inl e \<Rightarrow> Inl e
      | Inr req' \<Rightarrow> (case check req' of Some e \<Rightarrow> Inl e | None \<Rightarrow> Inr req'))"

subsection \<open>Sequences of requests\<close>

datatype user_op =
    OpCreate CreateUserRequest
  | OpGet int
  | OpUpdate int UpdateUserRequest
  | OpDelete int

text \<open>The service methods that touch the cache or the database, each with its time.\<close>

fun svc_op ::
  "'s Manager \<Rightarrow> 'd UserRepository \<Rightarrow> bcrypt_api \<Rightarrow> int \<times> user_op \<Rightarrow> 's \<times> 'd \<Rightarrow> 's \<times> 'd" where
  "svc_op M R bc (now, OpCreate req) (c, d) = (c, snd (svc_Create R bc now req d))"
| "svc_op M R bc (now, OpGet i) (c, d) = (snd (svc_GetByID M R i c d), d)"
| "svc_op M R bc (now, OpUpdate i req) (c, d) = snd (svc_Update M R now i req c d)"
| "svc_op M R bc (now, OpDelete i) (c, d) = snd (svc_Delete M R now i c d)"

definition svc_run ::
  "'s Manager \<Rightarrow> 'd UserRepository \<Rightarrow> bcrypt_api \<Rightarrow> (int \<times> user_op) list \<Rightarrow> 's \<times> 'd \<Rightarrow> 's \<times> 'd" where
  "svc_run M R bc ops = fold (svc_op M R bc) ops"

subsection \<open>The cache is transparent\<close>

lemma toUserResponse_public [simp]: "toUserResponse (Some (publicUser u)) = toUserResponse (Some u)"
  by (simp add: toUserResponse_def publicUser_def)

lemma apply_update_keeps [simp]:
  "u_ID (apply_update req u) = u_ID u" "u_Email (apply_update req u) = u_Email u"
  "u_DeletedAt (apply_update req u) = u_DeletedAt u" "u_Password (apply_update req u) = u_Password u"
  by (simp_all add: apply_update_def Let_def split: option.split)

locale user_service = user_cache M cview + user_repository R live inv
  for M :: "'s Manager" and cview and R :: "'d UserRepository" and live and inv +
  assumes del_ok: "fst (mg_DelUserByID M c i) = None"
    and del_email_ok: "fst (mg_DelUserByEmail M c m) = None"
begin

text \<open>Whatever the cache may answer is the current row without its password.\<close>

definition coherent :: "'s \<Rightarrow> 'd \<Rightarrow> bool" where
  "coherent c d \<longleftrightarrow> inv d \<and> (\<forall>i. \<forall>w \<in> cview c i. \<exists>u. live d i = Some u \<and> w = Some (publicUser u))"

lemma invalidate_view: "w \<in> cview (invalidateUserCache M c i m) j \<Longrightarrow> j \<noteq> i \<and> w \<in> cview c j"
proof -
  obtain c1 where c1: "mg_DelUserByID M c i = (None, c1)" using del_ok [of c i] by (cases "mg_DelUserByID M c i") auto
  obtain c2 where c2: "mg_DelUserByEmail M c1 m = (None, c2)" using del_email_ok [of c1 m] by (cases "mg_DelUserByEmail M c1 m") auto
  assume "w \<in> cview (invalidateUserCache M c i m) j"
  then have "w \<in> cview c1 j"
    using cdel_email_keeps [OF c2] c1 c2 by (auto simp: invalidateUserCache_def split: if_splits)
  then show ?thesis using cdel_view [OF c1] by blast
qed

lemma fill_coherent:
  assumes "coherent c d" "svc_fill M i (r_GetByID R d i) c = (r, c')"
  shows "coherent c' d" and "r = Inr resp \<Longrightarrow> \<exists>u. live d i = Some u \<and> resp = toUserResponse (Some u)"
proof -
  have "inv d" using assms(1) by (simp add: coherent_def)
  show "coherent c' d"
  proof (cases "r_GetByID R d i")
    case (Inr u)
    then obtain x where s: "mg_SetUserByID M c i (Some (publicUser u)) = (x, c')"
      using assms(2) by (auto simp: svc_fill_def split: prod.splits)
    show ?thesis
      using assms(1) cset_view [OF s] get_id [OF \<open>inv d\<close> Inr] by (fastforce simp: coherent_def)
  qed (use assms in \<open>auto simp: svc_fill_def\<close>)
  show "r = Inr resp \<Longrightarrow> \<exists>u. live d i = Some u \<and> resp = toUserResponse (Some u)"
    using assms(2) get_id [OF \<open>inv d\<close>] by (auto simp: svc_fill_def split: sum.splits prod.splits)
qed

lemma get_coherent:
  assumes "coherent c d" "svc_GetByID M R i c d = (r, c')"
  shows "coherent c' d" and "r = Inr resp \<Longrightarrow> \<exists>u. live d i = Some u \<and> resp = toUserResponse (Some u)"
proof -
  obtain x c1 where x: "mg_GetUserByID M c i = (x, c1)" by fastforce
  have c1: "coherent c1 d"
    using assms(1) cget_keeps [OF x] unfolding coherent_def by blast
  show "coherent c' d"
    using assms(2) x c1 fill_coherent(1) [OF c1] by (auto simp: svc_GetByID_def split: sum.splits)
  show "r = Inr resp \<Longrightarrow> \<exists>u. live d i = Some u \<and> resp = toUserResponse (Some u)"
  proof (cases x)
    case (Inl e)
    then show "r = Inr resp \<Longrightarrow> ?thesis" using assms(2) x fill_coherent(2) [OF c1] by (auto simp: svc_GetByID_def)
  next
    case (Inr w)
    then have "w \<in> cview c i" using cget_hit x by blast
    then obtain u where "live d i = Some u" "w = Some (publicUser u)" using assms(1) by (auto simp: coherent_def)
    then show "r = Inr resp \<Longrightarrow> ?thesis" using assms(2) x Inr by (auto simp: svc_GetByID_def)
  qed
qed

lemma update_coherent:
  assumes "coherent c d" "svc_Update M R now i req c d = (r, c', d')"
  shows "coherent c' d'"
    and "r = Inr resp \<Longrightarrow> \<exists>u. live d i = Some u \<and> live d' = (live d)(i \<mapsto> (apply_update req u)\<lparr>u_UpdatedAt := Some now\<rparr>) \<and>
      resp = toUserResponse (live d' i)"
proof -
  have inv: "inv d" using assms(1) by (simp add: coherent_def)
  have "coherent c' d' \<and> (r = Inr resp \<longrightarrow> (\<exists>u. live d i = Some u \<and>
      live d' = (live d)(i \<mapsto> (apply_update req u)\<lparr>u_UpdatedAt := Some now\<rparr>) \<and> resp = toUserResponse (live d' i)))"
  proof (cases "r_GetByID R d i")
    case (Inl e)
    then show ?thesis using assms by (auto simp: svc_Update_def)
  next
    case (Inr u)
    have u: "live d i = Some u" "u_ID u = i" "u_DeletedAt u = None"
      using get_id [OF inv Inr] live_row [OF inv, of i u] by auto
    obtain x d2 where x: "r_Update R now d (apply_update req u) = (x, d2)" by fastforce
    have inv2: "inv d2" using update_inv [OF inv x] .
    show ?thesis
    proof (cases x)
      case (Inl e)
      then show ?thesis
        using assms x Inr inv2 update_err [OF inv, of now "apply_update req u" e d2]
        by (auto simp: svc_Update_def coherent_def)
    next
      case u': (Inr u')
      then have l: "u' = (apply_update req u)\<lparr>u_UpdatedAt := Some now\<rparr>" "live d2 = (live d)(i \<mapsto> u')"
        using update_ok [OF inv, of now "apply_update req u" u' d2] x u by auto
      have r: "r = Inr (toUserResponse (Some u'))" "c' = invalidateUserCache M c i (u_Email u')" "d' = d2"
        using assms(2) x Inr u' by (auto simp: svc_Update_def)
      have "coherent c' d'"
        using assms(1) inv2 invalidate_view [of _ c i "u_Email u'"] l r unfolding coherent_def by auto
      then show ?thesis using u l r by auto
    qed
  qed
  then show "coherent c' d'" and "r = Inr resp \<Longrightarrow> \<exists>u. live d i = Some u \<and>
      live d' = (live d)(i \<mapsto> (apply_update req u)\<lparr>u_UpdatedAt := Some now\<rparr>) \<and> resp = toUserResponse (live d' i)"
    by blast+
qed

lemma delete_coherent:
  assumes "coherent c d" "svc_Delete M R now i c d = (r, c', d')"
  shows "coherent c' d'" and "r = None \<Longrightarrow> live d i \<noteq> None \<and> live d' = (live d)(i := None)"
proof -
  have inv: "inv d" using assms(1) by (simp add: coherent_def)
  obtain x d2 where x: "r_Delete R now d i = (x, d2)" by fastforce
  have inv2: "inv d2" using delete_inv [OF inv x] .
  have "coherent c' d' \<and> (r = None \<longrightarrow> live d i \<noteq> None \<and> live d' = (live d)(i := None))"
  proof (cases "r_GetByID R d i")
    case (Inl e)
    then show ?thesis using assms by (auto simp: svc_Delete_def)
  next
    case (Inr u)
    show ?thesis
    proof (cases x)
      case None
      then have l: "live d i \<noteq> None" "live d2 = (live d)(i := None)"
        using delete_ok [OF inv, of now i d2] x by auto
      have r: "c' = invalidateUserCache M c i (u_Email u)" "d' = d2"
        using assms(2) x Inr None by (auto simp: svc_Delete_def)
      have "coherent c' d'"
        using assms(1) inv2 invalidate_view [of _ c i "u_Email u"] l r unfolding coherent_def by auto
      then show ?thesis using l r by auto
    next
      case (Some e)
      then show ?thesis
        using assms x Inr inv2 delete_err [OF inv, of now i e d2] by (auto simp: svc_Delete_def coherent_def)
    qed
  qed
  then show "coherent c' d'" and "r = None \<Longrightarrow> live d i \<noteq> None \<and> live d' = (live d)(i := None)"
    by blast+
qed

lemma create_coherent:
  assumes "coherent c d" "svc_Create R bc now req d = (r, d')"
  shows "coherent c d'"
proof -
  have inv: "inv d" using assms(1) by (simp add: coherent_def)
  consider "d' = d" | h x where "r_Create R now d (new_user req h) = (x, d')"
    using assms(2) by (auto simp: svc_Create_def split: sum.splits if_splits prod.splits)
  then show ?thesis
  proof cases
    case 2
    have "inv d'" using create_inv [OF inv 2] .
    moreover have "live d i = Some u \<Longrightarrow> live d' i = Some u" for i u
      using create_ok [OF inv, of now "new_user req h"] create_err [OF inv, of now "new_user req h"] 2
      by (cases x) (auto simp: new_user_def)
    ultimately show ?thesis using assms(1) unfolding coherent_def by blast
  qed (use assms(1) in simp)
qed

lemma op_coherent: "coherent c d \<Longrightarrow> svc_op M R bc (now, x) (c, d) = (c', d') \<Longrightarrow> coherent c' d'"
proof (cases x)
  case (OpCreate req)
  then show "coherent c d \<Longrightarrow> svc_op M R bc (now, x) (c, d) = (c', d') \<Longrightarrow> ?thesis"
    using create_coherent [of c d bc now req "fst (svc_Create R bc now req d)" "snd (svc_Create R bc now req d)"] by auto
next
  case (OpGet i)
  then show "coherent c d \<Longrightarrow> svc_op M R bc (now, x) (c, d) = (c', d') \<Longrightarrow> ?thesis"
    using get_coherent(1) [of c d i "fst (svc_GetByID M R i c d)" c'] by auto
next
  case (OpUpdate i req)
  then show "coherent c d \<Longrightarrow> svc_op M R bc (now, x) (c, d) = (c', d') \<Longrightarrow> ?thesis"
    using update_coherent(1) [of c d now i req "fst (svc_Update M R now i req c d)" c' d'] by (auto simp: prod_eq_iff)
next
  case (OpDelete i)
  then show "coherent c d \<Longrightarrow> svc_op M R bc (now, x) (c, d) = (c', d') \<Longrightarrow> ?thesis"
    using delete_coherent(1) [of c d now i "fst (svc_Delete M R now i c d)" c' d'] by (auto simp: prod_eq_iff)
qed

lemma run_coherent: "coherent c d \<Longrightarrow> svc_run M R bc ops (c, d) = (c', d') \<Longrightarrow> coherent c' d'"
proof (induction ops arbitrary: c d)
  case (Cons a ops)
  obtain now x where a: "a = (now, x)" by fastforce
  obtain c1 d1 where s: "svc_op M R bc (now, x) (c, d) = (c1, d1)" by fastforce
  show ?case
    using Cons.IH [OF op_coherent [OF Cons.prems(1) s]] Cons.prems(2) a s by (simp add: svc_run_def)
qed (simp add: svc_run_def)

end

text \<open>The application's pieces keep the contract: a manager over any cache with the cache contract whose
  deletes do not fail, and the repository over any database with the contract of the query builder.\<close>

lemma service_contract:
  assumes "cache_contract C view rep" "user_json_ok js rep" "user_db db live ok"
    and "\<And>s k. k \<noteq> '''' \<Longrightarrow> fst (c_Delete C s k) = None"
  shows "user_service (NewManager C js) (mgr_view js view) (UserRepo db) live ok"
  unfolding user_service_def user_service_axioms_def
proof (intro conjI allI)
  show "user_cache (NewManager C js) (mgr_view js view)"
    by (rule manager_contract [OF assms(1,2)])
  show "user_repository (UserRepo db) live ok"
    using assms(3) by (rule user_db.repository)
qed (simp_all add: NewManager_def mgr_defs assms(4) Generate_def)

end
