(* ===== verification/User_Props.thy ===== *)
theory User_Props
  imports User_Service
begin

section \<open>Properties of the user component\<close>

text \<open>
  Interpretation of the service contract on the memory cache and the users table, and what follows for
  the service and its handlers: transparency of the cache, credentials, pagination, and the behaviours
  that are not as intended.
\<close>

interpretation users: user_service "NewManager (memory_Cache ref_ristretto) ref_user_json"
  "mgr_view ref_user_json (memory_view ref_ristretto)" "UserRepo ref_db" ref_live ref_inv
  by (rule service_contract [OF mem.cache_contract_axioms ref_user_json_ok table.user_db_axioms])
    (simp add: memory_Cache_def memory_Delete_def)

subsection \<open>Sample data\<close>

definition ann :: User where
  "ann = \<lparr>u_ID = 1, u_Email = ''ann@x.org'', u_Password = ''hash'', u_Name = ''Ann'', u_Phone = '''', u_Status = 1,
     u_CreatedAt = Some 0, u_UpdatedAt = Some 0, u_DeletedAt = None\<rparr>"

definition rename_request :: "string \<Rightarrow> UpdateUserRequest" where
  "rename_request name = \<lparr>up_ID = 1, up_Name = name, up_Phone = '''', up_Status = None\<rparr>"

definition plain_bcrypt :: bcrypt_api where
  "plain_bcrypt = \<lparr>bc_Generate = (\<lambda>p cost. Inr p), bc_Compare = (\<lambda>h p. if h = p then None else Some (Sentinel ''mismatch''))\<rparr>"

abbreviation demo_mgr :: "(string \<Rightarrow> User option option) Manager" where
  "demo_mgr \<equiv> NewManager (memory_Cache ref_ristretto) ref_user_json"

lemmas user_eval = svc_run_def svc_GetByID_def svc_Update_def svc_Delete_def svc_Create_def svc_fill_def NewManager_def
  mgr_defs memory_Cache_def memory_Get_def memory_Set_def memory_Delete_def ref_ristretto_def ref_user_json_def
  decodeAs_def Generate_def repo_defs ref_db_def ref_match_def invalidateUserCache_def apply_update_def
  toUserResponse_def publicUser_def ann_def rename_request_def Let_def ErrCacheMiss_def go_text

subsection \<open>Properties\<close>



text \<open>The transparency needs requests that do not overlap. A \<open>GetByID\<close> that missed the cache and read
  the row, followed by a whole \<open>Update\<close>, and only then by the first call's cache write, leaves the old
  name in the cache: the next \<open>GetByID\<close> answers it, although the database has the new one.\<close>

lemma user_cache_race:
  "let R = UserRepo ref_db;
       fetched = r_GetByID R [ann] 1;
       (r, c1, d1) = svc_Update demo_mgr R 6 1 (rename_request ''Bea'') (\<lambda>_. None) [ann];
       (r2, c2) = svc_fill demo_mgr 1 fetched c1;
       (r3, c3) = svc_GetByID demo_mgr R 1 c2 d1
   in is_ok r \<and> map_option u_Name (ref_live d1 1) = Some ''Bea'' \<and>
      (case r3 of Inr (Some resp) \<Rightarrow> ur_Name resp = ''Ann'' | _ \<Rightarrow> False)"
  by (simp add: user_eval ref_count_def ref_live_def)



text \<open>A request body wins over the path. The identifier field of the update request has no \<^verbatim>\<open>json\<close> tag,
  so that a member named id in the body replaces the identifier bound from the path, and the handler
  updates the user of the body whatever user the path names.\<close>

lemma update_body_id_wins:
  "UpdateUser sc M R now (Inr \<lparr>up_ID = path_id, up_Name = '''', up_Phone = '''', up_Status = None\<rparr>)
     (json_bind (\<lambda>_. None) [(''id'', JNum body_id), (''name'', JStr n)]) c d =
   (case svc_Update M R now body_id \<lparr>up_ID = body_id, up_Name = n, up_Phone = '''', up_Status = None\<rparr> c d of
      (Inl err, c', d') \<Rightarrow> (HandleServiceError sc err, c', d') | (Inr resp, c', d') \<Rightarrow> (Success resp, c', d'))"
proof -
  have "equal_fold ''id'' ''ID''" by code_simp
  moreover have "\<not> equal_fold ''name'' ''ID''" "equal_fold ''name'' ''name''" by code_simp+
  ultimately show ?thesis by (simp add: UpdateUser_def json_bind_def json_member_def)
qed

text \<open>An address once used cannot be registered again: deleting is a mark in the row, the service
  looks only for live rows and finds none, and the unique index then rejects the insert, which the client
  sees as an internal error.\<close>

lemma deleted_email_not_reusable:
  "let d = [ann\<lparr>u_DeletedAt := Some 9\<rparr>];
       req = \<lparr>cr_Email = ''ann@x.org'', cr_Password = ''secret'', cr_Name = ''Ann'', cr_Phone = ''''\<rparr>;
       (resp, d') = CreateUser sc (UserRepo ref_db) plain_bcrypt now (Inr req) d
   in ref_live d 1 = None \<and> fst resp = 500 \<and> Code (snd resp) = 9000001 \<and> d' = d"
  by (simp add: CreateUser_def HashPassword_def plain_bcrypt_def user_eval new_user_def ref_live_def
      HandleServiceError_def Error_def InternalError_def ErrNoRows_def ErrUnique_def)

text \<open>C17: Pages partition the result: for requests within the validated ranges and any number of rows, the
  number of pages is the rounded-up quotient, no offset overflows, each page in range starts inside the
  result and every row index is on exactly one page.\<close>

theorem pagination_partition:
  assumes "0 \<le> pg_Page p" "pg_Page p \<le> 1000000" "0 \<le> pg_Limit p" "pg_Limit p \<le> 100" "0 < tot" "tot < 2 ^ 63"
  shows "(GetTotalPages p tot - 1) * GetLimit p < tot \<and> tot \<le> GetTotalPages p tot * GetLimit p \<and>
    GetOffset p = (GetPage p - 1) * GetLimit p \<and> (GetPage p \<le> GetTotalPages p tot \<longleftrightarrow> GetOffset p < tot)"
proof -
  let ?l = "GetLimit p" and ?g = "GetPage p"
  have l: "1 \<le> ?l" "?l \<le> 100" using assms(3,4) by (auto simp: GetLimit_def DefaultLimit_def)
  have g: "1 \<le> ?g" "?g \<le> 1000000" using assms(1,2) by (auto simp: GetPage_def DefaultPage_def)
  define q r where "q = tot div ?l" and "r = tot mod ?l"
  have e: "tot = ?l * q + r" "0 \<le> r" "r < ?l" using l by (simp_all add: q_def r_def)
  have q: "0 \<le> q" using l assms(5) by (simp add: q_def pos_imp_zdiv_nonneg_iff)
  have "q \<le> ?l * q" using l q mult_right_mono [of 1 ?l q] by simp
  then have q': "q + r \<le> tot" using e by linarith
  have pages: "GetTotalPages p tot = (if r > 0 then q + 1 else q)"
    using q q' assms(5,6) l
    by (simp add: GetTotalPages_def Let_def go_div_nonneg go_mod_nonneg q_def [symmetric] r_def [symmetric] int64_def
        MinInt64_def MaxInt64_def)
  have bound: "0 \<le> (?g - 1) * ?l" "(?g - 1) * ?l \<le> 999999 * 100"
    using l g mult_mono [of "?g - 1" 999999 ?l 100] by auto
  then have offset: "GetOffset p = (?g - 1) * ?l"
    using g by (simp add: GetOffset_def int64_def MinInt64_def MaxInt64_def)
  have "?g \<le> GetTotalPages p tot \<longleftrightarrow> (?g - 1) * ?l < tot"
  proof
    assume "?g \<le> GetTotalPages p tot"
    then have "?g - 1 \<le> q - (if r > 0 then 0 else 1)" using pages by auto
    then have "(?g - 1) * ?l \<le> (q - (if r > 0 then 0 else 1)) * ?l" using l by (intro mult_right_mono) auto
    also have "\<dots> = ?l * q - (if r > 0 then 0 else ?l)" by (simp add: algebra_simps)
    finally have "(?g - 1) * ?l \<le> ?l * q - (if r > 0 then 0 else ?l)" .
    moreover have "0 < (if r > 0 then 0 else ?l) + r" using e l by auto
    ultimately show "(?g - 1) * ?l < tot" using e(1) by linarith
  next
    assume a: "(?g - 1) * ?l < tot"
    show "?g \<le> GetTotalPages p tot"
    proof (rule ccontr)
      assume "\<not> ?thesis"
      then have "q + (if r > 0 then 1 else 0) \<le> ?g - 1" using pages by auto
      then have "(q + (if r > 0 then 1 else 0)) * ?l \<le> (?g - 1) * ?l" using l by (intro mult_right_mono) auto
      then show False using a e by (auto simp: algebra_simps split: if_splits)
    qed
  qed
  then show ?thesis
    using pages e l offset by (auto simp: algebra_simps)
qed

theorem pagination_partition_witness:
  "GetOffset \<lparr>pg_Page = 3, pg_Limit = 10\<rparr> < 21 \<and> GetPage \<lparr>pg_Page = 3, pg_Limit = 10\<rparr> \<le> GetTotalPages \<lparr>pg_Page = 3, pg_Limit = 10\<rparr> 21"
  using pagination_partition [of "\<lparr>pg_Page = 3, pg_Limit = 10\<rparr>" 21]
  by (simp add: GetPage_def GetLimit_def)

end
