(* ===== verification/Net_Server.thy ===== *)
theory Net_Server
  imports Protocol App_Config
begin

section \<open>What the TCP and UDP servers share\<close>

text \<open>
  \<^verbatim>\<open>internal/types/server_types.go\<close>, \<^verbatim>\<open>internal/server/shutdown.go\<close>, the application-level routers of
  \<^verbatim>\<open>internal/handler/tcp/router.go\<close> and \<^verbatim>\<open>internal/handler/udp/router.go\<close>, and the part of both servers that
  turns received bytes into a call of a handler. A handler works on a world \<open>'w\<close>; \<open>'p\<close> is what it is called
  with. Reading the type field of a JSON message is the parameter \<open>probe\<close>.
\<close>

subsection \<open>Data\<close>

record Connection =
  cn_ID :: string
  cn_RemoteAddr :: string
  cn_LastActive :: int
  cn_CreatedAt :: int
  cn_TimeoutCount :: int
  cn_WriteTimeout :: int

record UDPPacket =
  pk_Data :: bytes
  pk_RemoteAddr :: string
  pk_LocalAddr :: string
  pk_Timestamp :: int

record Session =
  ss_RemoteAddr :: string
  ss_LastActive :: int
  ss_CreatedAt :: int

type_synonym ('w, 'p) handler = "'w \<Rightarrow> 'p \<Rightarrow> (gerr, bytes) result \<times> 'w"
type_synonym 'w tcp_handler = "('w, Connection \<times> bytes) handler"
type_synonym 'w udp_handler = "('w, UDPPacket) handler"

definition MessageTypeRequest :: "8 word" where "MessageTypeRequest = 1"
definition MessageTypeResponse :: "8 word" where "MessageTypeResponse = 2"
definition MessageTypeHeartbeat :: "8 word" where "MessageTypeHeartbeat = 3"

subsection \<open>Routers\<close>

record 'h Router =
  rt_handlers :: "string \<rightharpoonup> 'h"
  rt_default :: "'h option"

text \<open>A handler is registered with the types it declares: \<open>many\<close> by \<open>MessageTypes\<close>, \<open>one\<close> by
  \<open>MessageType\<close>, each \<open>None\<close> when the method is missing; a nil handler is \<open>None\<close>.\<close>

definition registerType :: "'h Router \<Rightarrow> string \<Rightarrow> 'h \<Rightarrow> 'h Router" where
  "registerType r msgType h = (if msgType = '''' then r else r\<lparr>rt_handlers := (rt_handlers r)(msgType \<mapsto> h)\<rparr>)"

record 'h declared =
  dc_handler :: 'h
  dc_many :: "string list option"
  dc_one :: "string option"

definition Router_Register :: "'h Router \<Rightarrow> 'h declared option \<Rightarrow> 'h Router" where
  "Router_Register r handler =
     (case handler of
        None \<Rightarrow> r
      | Some d \<Rightarrow>
          let r1 = (case dc_many d of None \<Rightarrow> r | Some ts \<Rightarrow> foldl (\<lambda>r t. registerType r t (dc_handler d)) r ts)
          in case dc_one d of None \<Rightarrow> r1 | Some t \<Rightarrow> registerType r1 t (dc_handler d))"

definition NewRouter :: "'h declared option list \<Rightarrow> 'h Router" where
  "NewRouter hs = foldl Router_Register \<lparr>rt_handlers = Map.empty, rt_default = None\<rparr> hs"

definition RegisterType :: "'h Router \<Rightarrow> string \<Rightarrow> 'h \<Rightarrow> 'h Router" where
  "RegisterType r msgType h = registerType r msgType h"

definition Router_Default :: "'h Router \<Rightarrow> 'h option \<Rightarrow> 'h Router" where
  "Router_Default r h = r\<lparr>rt_default := h\<rparr>"

text \<open>The nil answer is the empty list of bytes.\<close>

definition Router_Handle ::
  "(bytes \<Rightarrow> (gerr, string) result) \<Rightarrow> ('w, 'p) handler Router \<Rightarrow> ('p \<Rightarrow> bytes) \<Rightarrow> ('w, 'p) handler" where
  "Router_Handle probe r data w p =
     (let fallback = (\<lambda>answer. case rt_default r of Some h \<Rightarrow> h w p | None \<Rightarrow> (answer, w))
      in if length (data p) = 0 then fallback (Inr [])
         else case probe (data p) of
                Inl err \<Rightarrow> fallback (Inl err)
              | Inr t \<Rightarrow> (case rt_handlers r t of None \<Rightarrow> fallback (Inr []) | Some h \<Rightarrow> h w p))"

definition tcp_Router_Handle ::
  "(bytes \<Rightarrow> (gerr, string) result) \<Rightarrow> 'w tcp_handler Router \<Rightarrow> 'w tcp_handler" where
  "tcp_Router_Handle probe r = Router_Handle probe r snd"

definition udp_Router_Handle ::
  "(bytes \<Rightarrow> (gerr, string) result) \<Rightarrow> 'w udp_handler Router \<Rightarrow> 'w udp_handler" where
  "udp_Router_Handle probe r = Router_Handle probe r pk_Data"

subsection \<open>From bytes to a handler\<close>

datatype 'h dispatched = TooSmall | BadHeader gerr | NoHandler "8 word" | ToHandler 'h bytes

definition dispatch :: "(8 word \<rightharpoonup> 'h) \<Rightarrow> bytes \<Rightarrow> 'h dispatched" where
  "dispatch handlers data =
     (if length data < ProtocolHeaderSize then TooSmall
      else case ParseHeader data of
             Inl err \<Rightarrow> BadHeader err
           | Inr header \<Rightarrow>
               (case handlers (h_Type header) of
                  None \<Rightarrow> NoHandler (h_Type header)
                | Some h \<Rightarrow> ToHandler h (drop ProtocolHeaderSize data)))"

definition RegisterHandler :: "(8 word \<rightharpoonup> 'h) \<Rightarrow> 8 word \<Rightarrow> 'h \<Rightarrow> 8 word \<rightharpoonup> 'h" where
  "RegisterHandler handlers messageType h = handlers(messageType \<mapsto> h)"

definition default_handlers :: "'h \<Rightarrow> 8 word \<rightharpoonup> 'h" where
  "default_handlers h =
     RegisterHandler (RegisterHandler (RegisterHandler Map.empty MessageTypeRequest h) MessageTypeResponse h)
       MessageTypeHeartbeat h"

subsection \<open>Waiting for the end\<close>

text \<open>\<open>untilDeadline\<close> is the time left to the deadline of the context, \<open>doneAt\<close> and \<open>cancelledAt\<close> are when
  the other two channels become ready, all in nanoseconds from the call. When several are ready at the
  same moment the \<open>select\<close> takes any of them: the result is the set of possible answers.\<close>

definition shutdown_wait :: "int \<Rightarrow> int option \<Rightarrow> int" where
  "shutdown_wait defaultTimeout untilDeadline =
     (let t = (case untilDeadline of None \<Rightarrow> defaultTimeout | Some d \<Rightarrow> if d < defaultTimeout then d else defaultTimeout)
      in if t < 0 then 0 else t)"

definition waitShutdown :: "int \<Rightarrow> int option \<Rightarrow> int option \<Rightarrow> (int \<times> gerr) option \<Rightarrow> gerr option set" where
  "waitShutdown defaultTimeout untilDeadline doneAt cancelledAt =
     (let timeout = shutdown_wait defaultTimeout untilDeadline;
          first = Min (set ([timeout] @ (case doneAt of None \<Rightarrow> [] | Some t \<Rightarrow> [max 0 t]) @
                            (case cancelledAt of None \<Rightarrow> [] | Some (t, _) \<Rightarrow> [max 0 t])))
      in set ((case doneAt of Some t \<Rightarrow> if max 0 t = first then [None] else [] | None \<Rightarrow> []) @
              (case cancelledAt of
                 Some (t, err) \<Rightarrow> if max 0 t = first then [Some (wrapl ''shutdown canceled'' err)] else []
               | None \<Rightarrow> []) @
              (if timeout = first then [Some (Errorf ''shutdown timeout'' [])] else [])))"

text \<open>\<open>Stop\<close> of either server after the signal to stop was given; \<open>running\<close>: enabled with an open socket.\<close>

definition stop_server ::
  "bool \<Rightarrow> int \<Rightarrow> int option \<Rightarrow> int option \<Rightarrow> (int \<times> gerr) option \<Rightarrow> gerr option set" where
  "stop_server running seconds untilDeadline doneAt cancelledAt =
     (if \<not> running then {None} else waitShutdown (wrap64 (seconds * 1000000000)) untilDeadline doneAt cancelledAt)"

definition TCP_Stop ::
  "bool \<Rightarrow> TCPConfig \<Rightarrow> int option \<Rightarrow> int option \<Rightarrow> (int \<times> gerr) option \<Rightarrow> gerr option set" where
  "TCP_Stop running cfg = stop_server running (tcp_ShutdownTimeout cfg)"

definition UDP_Stop ::
  "bool \<Rightarrow> UDPConfig \<Rightarrow> int option \<Rightarrow> int option \<Rightarrow> (int \<times> gerr) option \<Rightarrow> gerr option set" where
  "UDP_Stop running cfg = stop_server running (udp_ShutdownTimeout cfg)"

subsection \<open>Lemmas\<close>

lemma foldl_registerType_handlers:
  "rt_handlers (foldl (\<lambda>r t. registerType r t h) r ts) t =
     (if t \<noteq> '''' \<and> t \<in> set ts then Some h else rt_handlers r t)"
  by (induction ts arbitrary: r) (auto simp: registerType_def)

lemma dispatch_frame:
  assumes "h_Magic header = MagicNumber"
  shows "dispatch handlers (header_bytes header @ rest) =
    (case handlers (h_Type header) of None \<Rightarrow> NoHandler (h_Type header) | Some h \<Rightarrow> ToHandler h rest)"
  using assms by (simp add: dispatch_def ParseHeader_def ProtocolHeaderSize_def read_header_bytes split: option.split)

text \<open>\<open>Stop\<close> uses the configured number of seconds itself and not \<open>GetShutdownTimeout\<close>, which replaces a
  missing value by thirty seconds: with no value configured it gives up at once.\<close>

lemma stop_without_timeout_fails:
  assumes "0 < t" "tcp_ShutdownTimeout cfg = 0"
  shows "TCP_Stop True cfg None (Some t) None = {Some (Errorf ''shutdown timeout'' [])}"
    and "TCP_GetShutdownTimeout cfg = 30 * 1000000000"
  using assms by (simp_all add: TCP_Stop_def stop_server_def waitShutdown_def shutdown_wait_def Let_def wrap64_def
      TCP_GetShutdownTimeout_def shutdown_timeout_def)

text \<open>Within the time limit \<open>Stop\<close> reports success exactly when everything has ended by then.\<close>

lemma stop_in_time:
  assumes "0 \<le> t" "t < shutdown_wait limit None"
  shows "waitShutdown limit None (Some t) None = {None}"
  using assms by (auto simp: waitShutdown_def Let_def)

end
