(* ===== verification/Tcp_Server.thy ===== *)
theory Tcp_Server
  imports Net_Server "HOL-Library.AList"
begin

section \<open>TCP server\<close>

text \<open>
  \<^verbatim>\<open>internal/server/tcp.go\<close>. The loop of one connection is a function on the answers that its reads give;
  what happens between the goroutines (accepting, registering, closing, stopping) is a step relation on the
  server's shared state. The clock is an argument. A \<open>Read\<close> with a deadline is modelled as documented by
  \<^verbatim>\<open>net.Conn\<close>: once the deadline has passed every read fails with a timeout until a new deadline is set.
\<close>

subsection \<open>One connection\<close>

datatype read_event = EvShutdown | EvData bytes | EvTimeout | EvError

text \<open>One turn of the loop: what the read gave, the time, and whether a write would succeed.\<close>

record turn =
  tn_read :: read_event
  tn_now :: int
  tn_write :: "gerr option"

datatype loop_end = StillOpen | EndShutdown | EndTimeouts | EndReadError | EndWriteError

definition max_timeouts :: "TCPConfig \<Rightarrow> int" where
  "max_timeouts cfg = (if tcp_MaxTimeoutCount cfg \<le> 0 then 10 else tcp_MaxTimeoutCount cfg)"

text \<open>The written answers are collected; a handler error or an undeliverable message leaves the
  connection open.\<close>

fun conn_loop ::
  "TCPConfig \<Rightarrow> (8 word \<rightharpoonup> 'w tcp_handler) \<Rightarrow> turn list \<Rightarrow> Connection \<Rightarrow> 'w \<Rightarrow>
     loop_end \<times> Connection \<times> 'w \<times> bytes list" where
  "conn_loop cfg hs [] c w = (StillOpen, c, w, [])"
| "conn_loop cfg hs (t # ts) c w =
     (case tn_read t of
        EvShutdown \<Rightarrow> (EndShutdown, c, w, [])
      | EvError \<Rightarrow> (EndReadError, c, w, [])
      | EvTimeout \<Rightarrow>
          (let c1 = c\<lparr>cn_TimeoutCount := cn_TimeoutCount c + 1\<rparr>
           in if cn_TimeoutCount c1 \<ge> max_timeouts cfg then (EndTimeouts, c1, w, [])
              else conn_loop cfg hs ts c1 w)
      | EvData d \<Rightarrow>
          (let c1 = c\<lparr>cn_LastActive := tn_now t, cn_TimeoutCount := 0\<rparr>
           in case dispatch hs d of
                ToHandler h payload \<Rightarrow>
                  (case h w (c1, payload) of
                     (Inl err, w') \<Rightarrow> conn_loop cfg hs ts c1 w'
                   | (Inr resp, w') \<Rightarrow>
                       if resp = [] then conn_loop cfg hs ts c1 w'
                       else if tn_write t \<noteq> None then (EndWriteError, c1, w', [])
                       else (let (e, c2, w'', out) = conn_loop cfg hs ts c1 w' in (e, c2, w'', resp # out)))
              | _ \<Rightarrow> conn_loop cfg hs ts c1 w))"

definition new_connection :: "TCPConfig \<Rightarrow> nat \<Rightarrow> string \<Rightarrow> int \<Rightarrow> Connection" where
  "new_connection cfg n remote now =
     \<lparr>cn_ID = show_nat n, cn_RemoteAddr = remote, cn_LastActive = now, cn_CreatedAt = now, cn_TimeoutCount = 0,
      cn_WriteTimeout = wrap64 (tcp_WriteTimeout cfg * 1000000000)\<rparr>"

definition heartbeat_expired :: "TCPConfig \<Rightarrow> int \<Rightarrow> Connection \<Rightarrow> bool" where
  "heartbeat_expired cfg now c \<longleftrightarrow> now - cn_LastActive c > wrap64 (tcp_HeartbeatTimeout cfg * 1000000000)"

text \<open>A read at time \<open>now\<close> under a deadline, when the next bytes arrive at time \<open>arrival\<close>.\<close>

definition conn_read :: "int \<Rightarrow> int \<Rightarrow> bytes \<Rightarrow> int \<Rightarrow> read_event \<times> int" where
  "conn_read deadline arrival d now =
     (if now \<ge> deadline then (EvTimeout, now)
      else if arrival \<le> deadline then (EvData d, max now arrival)
      else (EvTimeout, deadline))"

text \<open>The reads of the loop while nothing arrives: only a successful read is followed by a new deadline.\<close>

fun silent_turns :: "nat \<Rightarrow> int \<Rightarrow> int \<Rightarrow> bytes \<Rightarrow> int \<Rightarrow> turn list" where
  "silent_turns 0 deadline arrival d now = []"
| "silent_turns (Suc n) deadline arrival d now =
     (let (ev, now') = conn_read deadline arrival d now
      in \<lparr>tn_read = ev, tn_now = now', tn_write = None\<rparr> #
         (if ev = EvTimeout then silent_turns n deadline arrival d now' else []))"

subsection \<open>The server\<close>

text \<open>\<open>ts_taken\<close> is a connection that \<open>Accept\<close> has returned and the limit was not yet checked for;
  \<open>ts_starting\<close> are the goroutines that were started for a connection and have not yet registered it.\<close>

record tcp_srv =
  ts_listening :: bool
  ts_accepting :: bool
  ts_shutdown :: bool
  ts_taken :: "string option"
  ts_counter :: nat
  ts_starting :: "string list"
  ts_conns :: "(string \<times> Connection) list"
  ts_wg :: nat

definition NewTCPServer :: tcp_srv where
  "NewTCPServer =
     \<lparr>ts_listening = False, ts_accepting = False, ts_shutdown = False, ts_taken = None, ts_counter = 0,
      ts_starting = [], ts_conns = [], ts_wg = 0\<rparr>"

definition GetConnectionCount :: "tcp_srv \<Rightarrow> nat" where
  "GetConnectionCount s = length (ts_conns s)"

definition GetConnection :: "tcp_srv \<Rightarrow> string \<Rightarrow> Connection option" where
  "GetConnection s connID = map_of (ts_conns s) connID"

definition tcp_Start :: "tcp_srv \<Rightarrow> tcp_srv" where
  "tcp_Start s = s\<lparr>ts_listening := True, ts_accepting := True, ts_wg := ts_wg s + 1\<rparr>"

text \<open>The check of the limit and the start of the goroutine.\<close>

definition admit :: "TCPConfig \<Rightarrow> string \<Rightarrow> tcp_srv \<Rightarrow> tcp_srv" where
  "admit cfg remote s =
     (if int (length (ts_conns s)) \<ge> tcp_MaxConnections cfg then s\<lparr>ts_taken := None\<rparr>
      else s\<lparr>ts_taken := None, ts_starting := ts_starting s @ [remote], ts_wg := ts_wg s + 1\<rparr>)"

text \<open>The goroutine's first part (the \<open>i\<close>-th waiting one gets its turn) and its last.\<close>

definition register_conn :: "TCPConfig \<Rightarrow> nat \<Rightarrow> int \<Rightarrow> tcp_srv \<Rightarrow> tcp_srv" where
  "register_conn cfg i now s =
     (let c = new_connection cfg (ts_counter s + 1) (ts_starting s ! i) now
      in s\<lparr>ts_counter := ts_counter s + 1, ts_starting := take i (ts_starting s) @ drop (Suc i) (ts_starting s),
           ts_conns := AList.update (cn_ID c) c (ts_conns s)\<rparr>)"

definition close_conn :: "string \<Rightarrow> tcp_srv \<Rightarrow> tcp_srv" where
  "close_conn connID s = s\<lparr>ts_conns := AList.delete connID (ts_conns s), ts_wg := ts_wg s - 1\<rparr>"

inductive tcp_step :: "TCPConfig \<Rightarrow> tcp_srv \<Rightarrow> tcp_srv \<Rightarrow> bool" for cfg :: TCPConfig where
  start: "\<not> ts_listening s \<Longrightarrow> \<not> ts_shutdown s \<Longrightarrow> tcp_step cfg s (tcp_Start s)"
| accept: "ts_accepting s \<Longrightarrow> ts_listening s \<Longrightarrow> ts_taken s = None \<Longrightarrow> tcp_step cfg s (s\<lparr>ts_taken := Some remote\<rparr>)"
| admitted: "ts_taken s = Some remote \<Longrightarrow> tcp_step cfg s (admit cfg remote s)"
| registered: "i < length (ts_starting s) \<Longrightarrow> tcp_step cfg s (register_conn cfg i now s)"
| closed: "connID \<in> fst ` set (ts_conns s) \<Longrightarrow> tcp_step cfg s (close_conn connID s)"
| stop: "ts_listening s \<Longrightarrow> tcp_step cfg s (s\<lparr>ts_listening := False, ts_shutdown := True\<rparr>)"
| accept_ends: "ts_accepting s \<Longrightarrow> ts_shutdown s \<Longrightarrow> ts_taken s = None \<Longrightarrow>
    tcp_step cfg s (s\<lparr>ts_accepting := False, ts_wg := ts_wg s - 1\<rparr>)"

inductive_cases tcp_stepE: "tcp_step cfg s s'"

subsection \<open>Invariant\<close>

text \<open>The wait group counts the accept loop and one goroutine for each started or registered connection;
  registered connections have their own, distinct numbers.\<close>

definition tcp_inv :: "tcp_srv \<Rightarrow> bool" where
  "tcp_inv s \<longleftrightarrow>
     ts_wg s = (if ts_accepting s then 1 else 0) + length (ts_starting s) + length (ts_conns s) \<and>
     (ts_listening s \<longrightarrow> ts_accepting s \<and> \<not> ts_shutdown s) \<and>
     (ts_accepting s \<longrightarrow> ts_listening s \<or> ts_shutdown s) \<and>
     (ts_taken s \<noteq> None \<longrightarrow> ts_accepting s) \<and>
     distinct (map fst (ts_conns s)) \<and>
     (\<forall>(k, c) \<in> set (ts_conns s). cn_ID c = k \<and> (\<exists>n. 1 \<le> n \<and> n \<le> ts_counter s \<and> k = show_nat n))"

lemma length_remove_nth: "i < length xs \<Longrightarrow> length (take i xs @ drop (Suc i) xs) = length xs - 1"
  by simp

lemma delete_absent: "k \<notin> fst ` set al \<Longrightarrow> AList.delete k al = al"
  by (induction al) auto

lemma length_delete: "distinct (map fst al) \<Longrightarrow> k \<in> fst ` set al \<Longrightarrow> Suc (length (AList.delete k al)) = length al"
  by (induction al) (auto simp: delete_absent image_iff)

lemma delete_subset: "set (AList.delete k al) \<subseteq> set al"
  by (auto simp: AList.delete_eq)

lemma update_new: "k \<notin> fst ` set al \<Longrightarrow> AList.update k v al = al @ [(k, v)]"
  by (induction al) auto

lemma fresh_id:
  assumes "tcp_inv s"
  shows "show_nat (Suc (ts_counter s)) \<notin> fst ` set (ts_conns s)"
  using assms by (fastforce simp: tcp_inv_def)

lemma tcp_inv_step: "tcp_step cfg s s' \<Longrightarrow> tcp_inv s \<Longrightarrow> tcp_inv s'"
proof (induction rule: tcp_step.induct)
  case (registered i s now)
  have f: "show_nat (Suc (ts_counter s)) \<notin> fst ` set (ts_conns s)" by (rule fresh_id) (rule registered)
  show ?case
    using registered length_remove_nth [OF registered(1)] f
    unfolding tcp_inv_def register_conn_def
    by (auto simp: Let_def new_connection_def update_new intro: le_SucI)
next
  case (closed k s)
  show ?case
    using closed length_delete [of "ts_conns s" k]
    unfolding tcp_inv_def close_conn_def
    using delete_subset [of k "ts_conns s"] by (auto simp: distinct_delete)
qed (auto simp: tcp_inv_def tcp_Start_def admit_def)

lemma tcp_reachable_inv: "(tcp_step cfg)\<^sup>*\<^sup>* NewTCPServer s \<Longrightarrow> tcp_inv s"
proof (induction rule: rtranclp_induct)
  case base
  show ?case by (simp add: tcp_inv_def NewTCPServer_def)
qed (rule tcp_inv_step)

text \<open>After the stop every step brings the server closer to its end.\<close>

definition tcp_work :: "tcp_srv \<Rightarrow> nat" where
  "tcp_work s = (if ts_taken s = None then 0 else 3) + (if ts_accepting s then 1 else 0) +
     2 * length (ts_starting s) + length (ts_conns s)"

lemma tcp_work_step:
  assumes "tcp_step cfg s s'" "tcp_inv s" "ts_shutdown s"
  shows "ts_shutdown s' \<and> tcp_work s' < tcp_work s"
  using assms
proof (induction rule: tcp_step.induct)
  case (registered i s now)
  have f: "show_nat (Suc (ts_counter s)) \<notin> fst ` set (ts_conns s)" by (rule fresh_id) (rule registered)
  show ?case
    using registered(1,3) f by (auto simp: tcp_work_def register_conn_def Let_def new_connection_def update_new)
next
  case (closed k s)
  have "Suc (length (AList.delete k (ts_conns s))) = length (ts_conns s)"
    by (rule length_delete) (use closed in \<open>auto simp: tcp_inv_def\<close>)
  then show ?case using closed(3) by (simp add: tcp_work_def close_conn_def)
qed (auto simp: tcp_work_def admit_def tcp_inv_def)

lemma tcp_work_steps:
  "(tcp_step cfg ^^ k) s s' \<Longrightarrow> tcp_inv s \<Longrightarrow> ts_shutdown s \<Longrightarrow>
     ts_shutdown s' \<and> tcp_inv s' \<and> tcp_work s' + k \<le> tcp_work s"
proof (induction k arbitrary: s')
  case (Suc k)
  then obtain s1 where s1: "(tcp_step cfg ^^ k) s s1" "tcp_step cfg s1 s'" by auto
  have *: "ts_shutdown s1" "tcp_inv s1" "tcp_work s1 + k \<le> tcp_work s" using Suc.IH [OF s1(1)] Suc.prems by auto
  then show ?case using tcp_work_step [OF s1(2)] tcp_inv_step [OF s1(2)] by auto
qed simp

lemma tcp_progress:
  assumes "tcp_inv s" "ts_shutdown s" "ts_wg s \<noteq> 0"
  shows "\<exists>s'. tcp_step cfg s s'"
proof -
  consider "ts_starting s \<noteq> []" | "ts_conns s \<noteq> []" | "ts_accepting s"
    using assms(1,3) by (auto simp: tcp_inv_def split: if_splits)
  then show ?thesis
  proof cases
    case 1
    then show ?thesis using tcp_step.registered [of 0 s] by blast
  next
    case 2
    then have "fst (hd (ts_conns s)) \<in> fst ` set (ts_conns s)" by simp
    then show ?thesis by (blast intro: tcp_step.closed)
  next
    case 3
    then show ?thesis using assms(2) by (cases "ts_taken s") (blast intro: tcp_step.accept_ends tcp_step.admitted)+
  qed
qed

lemma tcp_work_wg: "tcp_inv s \<Longrightarrow> ts_wg s \<le> tcp_work s"
  by (auto simp: tcp_inv_def tcp_work_def)

text \<open>The timeouts that one connection counts.\<close>

lemma conn_loop_timeouts:
  assumes "\<forall>t \<in> set ts. tn_read t = EvTimeout" "cn_TimeoutCount c < max_timeouts cfg"
  shows "fst (conn_loop cfg hs ts c w) =
    (if cn_TimeoutCount c + int (length ts) \<ge> max_timeouts cfg then EndTimeouts else StillOpen)"
  using assms by (induction ts arbitrary: c) (auto simp: Let_def)

lemma silent_turns_late:
  assumes "now < deadline" "deadline < arrival"
  shows "silent_turns n deadline arrival d now = replicate n \<lparr>tn_read = EvTimeout, tn_now = deadline, tn_write = None\<rparr>"
proof -
  have late: "silent_turns n deadline arrival d deadline = replicate n \<lparr>tn_read = EvTimeout, tn_now = deadline, tn_write = None\<rparr>" for n
    by (induction n) (auto simp: conn_read_def)
  show ?thesis using assms late by (cases n) (auto simp: conn_read_def)
qed

subsection \<open>Properties\<close>


definition demo_tcp :: TCPConfig where
  "demo_tcp = (cfg_TCP demo_config)\<lparr>tcp_Enabled := True, tcp_MaxConnections := 1\<rparr>"

lemma demo_tcp_max [simp]: "tcp_MaxConnections demo_tcp = 1"
  by (simp add: demo_tcp_def)


text \<open>The connection limit can be exceeded. The limit is compared with the registered connections when a
  connection is accepted, but registering happens later in its goroutine: with a limit of one, two
  connections accepted in a row are both served.\<close>

lemma tcp_limit_exceeded:
  "\<exists>s. (tcp_step demo_tcp)\<^sup>*\<^sup>* NewTCPServer s \<and> int (GetConnectionCount s) = tcp_MaxConnections demo_tcp + 1"
proof -
  let ?s1 = "tcp_Start NewTCPServer"
  let ?s2 = "?s1\<lparr>ts_taken := Some ''a''\<rparr>" let ?s3 = "admit demo_tcp ''a'' ?s2"
  let ?s4 = "?s3\<lparr>ts_taken := Some ''b''\<rparr>" let ?s5 = "admit demo_tcp ''b'' ?s4"
  let ?s6 = "register_conn demo_tcp 0 0 ?s5" let ?s7 = "register_conn demo_tcp 0 0 ?s6"
  note defs = NewTCPServer_def tcp_Start_def admit_def register_conn_def new_connection_def Let_def
  have "successively (tcp_step demo_tcp) [NewTCPServer, ?s1, ?s2, ?s3, ?s4, ?s5, ?s6, ?s7]"
    by (simp, intro conjI; (rule tcp_step.start tcp_step.accept tcp_step.admitted tcp_step.registered; simp add: defs))
  from rtranclp_path [OF this] have "(tcp_step demo_tcp)\<^sup>*\<^sup>* NewTCPServer ?s7" by simp
  moreover have "GetConnectionCount ?s7 = 2" by (simp add: defs GetConnectionCount_def)
  ultimately show ?thesis by (intro exI [of _ ?s7]) simp
qed

text \<open>One missed read deadline ends a connection. Reads that time out do not renew the deadline, so that the
  reads that follow fail at once: when nothing arrives before the first deadline, the loop counts up to the
  maximum at that very moment and closes the connection, however large the configured number of
  consecutive timeouts is.\<close>

lemma tcp_single_timeout_closes:
  assumes "now < deadline" "deadline < arrival" "cn_TimeoutCount c = 0"
  shows "fst (conn_loop cfg hs (silent_turns (nat (max_timeouts cfg)) deadline arrival d now) c w) = EndTimeouts \<and>
    (\<forall>t \<in> set (silent_turns (nat (max_timeouts cfg)) deadline arrival d now). tn_now t = deadline)"
proof -
  have "0 < max_timeouts cfg" by (simp add: max_timeouts_def)
  then show ?thesis
    using conn_loop_timeouts [of "silent_turns (nat (max_timeouts cfg)) deadline arrival d now" c cfg hs w] assms
    by (auto simp: silent_turns_late)
qed

lemma tcp_single_timeout_closes_example:
  "fst (conn_loop (demo_tcp\<lparr>tcp_MaxTimeoutCount := 5\<rparr>) Map.empty (silent_turns 5 30 31 [0] 0)
     (new_connection demo_tcp 1 ''a'' 0) ()) = EndTimeouts"
  using tcp_single_timeout_closes [of 0 30 31 "new_connection demo_tcp 1 ''a'' 0" "demo_tcp\<lparr>tcp_MaxTimeoutCount := 5\<rparr>"
      Map.empty "[0]" "()"]
  by (simp add: max_timeouts_def new_connection_def)

text \<open>A read is taken for a message. Whatever follows a header with the right magic number in the bytes of
  one read goes to the handler of its type: neither the length nor the checksum of the header is looked at,
  so that two frames received together are handed over as one payload, and a damaged payload is accepted.\<close>

lemma tcp_payload_unchecked:
  assumes "Encode p msgType messageID v = Inr frame" "hs msgType = Some h"
  shows "dispatch hs (frame @ extra) = ToHandler h (drop 20 frame @ extra) \<and>
    dispatch hs (take 20 frame @ damaged) = ToHandler h damaged"
proof -
  obtain payload header where f: "frame = header_bytes header @ payload" "h_Magic header = MagicNumber"
    "h_Type header = msgType"
    using assms(1) by (auto simp: Encode_def Let_def split: sum.splits)
  then show ?thesis
    using dispatch_frame [of header hs "payload @ extra"] dispatch_frame [of header hs damaged] assms(2) by simp
qed

lemma tcp_payload_unchecked_example:
  "\<exists>frame. Encode (NewCustomProtocol \<lparr>cd_Encode = Inr, cd_Decode = Inr, cd_isBinary = False\<rparr>) 1 7 [0x41] = Inr frame \<and>
     dispatch (default_handlers ''echo'') (take 20 frame @ [0x42]) = ToHandler ''echo'' [0x42]"
proof -
  let ?p = "NewCustomProtocol \<lparr>cd_Encode = Inr, cd_Decode = Inr, cd_isBinary = False\<rparr>"
  obtain frame where e: "Encode ?p 1 7 [0x41] = Inr frame"
    by (simp add: Encode_def NewCustomProtocol_def)
  have "default_handlers ''echo'' 1 = Some ''echo''"
    by (simp add: default_handlers_def RegisterHandler_def MessageTypeRequest_def MessageTypeResponse_def MessageTypeHeartbeat_def)
  then show ?thesis
    using e tcp_payload_unchecked [of ?p 1 7 "[0x41]" frame "default_handlers ''echo''" "''echo''" "[]" "[0x42]"] by auto
qed

end
