(* ===== verification/Udp_Server.thy ===== *)
theory Udp_Server
  imports Net_Server
begin

section \<open>UDP server and handlers\<close>

text \<open>
  \<^verbatim>\<open>internal/server/udp.go\<close> (sessions, the packet queue and the work on one packet) and the handlers of
  \<^verbatim>\<open>internal/handler/udp\<close>. The goroutines share the record \<open>udp_srv\<close>; each operation below is one critical
  section or one channel operation of theirs. JSON and the formatting of times are parameters; counters are
  \<open>64 word\<close>.
\<close>

subsection \<open>Sessions\<close>

type_synonym sessions = "string \<rightharpoonup> Session"

definition updateSession :: "int \<Rightarrow> string \<Rightarrow> sessions \<Rightarrow> sessions" where
  "updateSession now remoteAddr m =
     (case m remoteAddr of
        Some s \<Rightarrow> m(remoteAddr \<mapsto> s\<lparr>ss_LastActive := now\<rparr>)
      | None \<Rightarrow> m(remoteAddr \<mapsto> \<lparr>ss_RemoteAddr = remoteAddr, ss_LastActive = now, ss_CreatedAt = now\<rparr>))"

definition inactive_threshold :: "UDPConfig \<Rightarrow> int" where
  "inactive_threshold cfg =
     wrap64 ((if udp_SessionInactiveThreshold cfg \<le> 0 then 600 else udp_SessionInactiveThreshold cfg) * 1000000000)"

definition cleanupInactiveSessions :: "UDPConfig \<Rightarrow> int \<Rightarrow> sessions \<Rightarrow> sessions" where
  "cleanupInactiveSessions cfg now m =
     (\<lambda>addr. case m addr of
        None \<Rightarrow> None
      | Some s \<Rightarrow> if now - ss_LastActive s > inactive_threshold cfg then None else Some s)"

definition GetSession :: "sessions \<Rightarrow> string \<Rightarrow> Session option" where
  "GetSession m remoteAddr = m remoteAddr"

definition GetSessionCount :: "sessions \<Rightarrow> nat" where
  "GetSessionCount m = card (dom m)"

subsection \<open>Packets\<close>

record udp_srv =
  us_sessions :: sessions
  us_queue :: "UDPPacket list"
  us_sent :: "(string \<times> bytes) list"

definition NewUDPServer :: udp_srv where
  "NewUDPServer = \<lparr>us_sessions = Map.empty, us_queue = [], us_sent = []\<rparr>"

definition worker_pool_size :: "UDPConfig \<Rightarrow> int" where
  "worker_pool_size cfg = (if udp_WorkerPoolSize cfg \<le> 0 then 4 else udp_WorkerPoolSize cfg)"

definition cleanup_interval :: "UDPConfig \<Rightarrow> int" where
  "cleanup_interval cfg = (if udp_SessionCleanupInterval cfg \<le> 0 then 300 else udp_SessionCleanupInterval cfg)"

definition read_buffer_size :: "UDPConfig \<Rightarrow> nat" where
  "read_buffer_size cfg = (if udp_ReadBufferSize cfg \<le> 0 then 4096 else nat (udp_ReadBufferSize cfg))"

text \<open>A datagram is cut to the read buffer. The queue holds at most 1000 packets, further ones are dropped.\<close>

definition receivePacket :: "UDPConfig \<Rightarrow> int \<Rightarrow> string \<Rightarrow> string \<Rightarrow> bytes \<Rightarrow> udp_srv \<Rightarrow> udp_srv" where
  "receivePacket cfg now remoteAddr localAddr datagram s =
     (let packet = \<lparr>pk_Data = take (read_buffer_size cfg) datagram, pk_RemoteAddr = remoteAddr,
                    pk_LocalAddr = localAddr, pk_Timestamp = now\<rparr>;
          s1 = s\<lparr>us_sessions := updateSession now remoteAddr (us_sessions s)\<rparr>
      in if length (us_queue s1) < 1000 then s1\<lparr>us_queue := us_queue s1 @ [packet]\<rparr> else s1)"

text \<open>What a worker does with the packet it took. \<open>send\<close> is the outcome of the write, which is ignored.\<close>

definition process_packet ::
  "(8 word \<rightharpoonup> 'w udp_handler) \<Rightarrow> gerr option \<Rightarrow> UDPPacket \<Rightarrow> udp_srv \<Rightarrow> 'w \<Rightarrow> udp_srv \<times> 'w" where
  "process_packet handlers send packet s w =
     (case dispatch handlers (pk_Data packet) of
        ToHandler h payload \<Rightarrow>
          (case h w (packet\<lparr>pk_Data := payload\<rparr>) of
             (Inl err, w') \<Rightarrow> (s, w')
           | (Inr resp, w') \<Rightarrow>
               (if resp = [] \<or> send \<noteq> None then s else s\<lparr>us_sent := us_sent s @ [(pk_RemoteAddr packet, resp)]\<rparr>, w'))
      | _ \<Rightarrow> (s, w))"

definition packetWorker ::
  "(8 word \<rightharpoonup> 'w udp_handler) \<Rightarrow> gerr option \<Rightarrow> udp_srv \<Rightarrow> 'w \<Rightarrow> udp_srv \<times> 'w" where
  "packetWorker handlers send s w =
     (case us_queue s of
        [] \<Rightarrow> (s, w)
      | packet # rest \<Rightarrow> process_packet handlers send packet (s\<lparr>us_queue := rest\<rparr>) w)"

subsection \<open>Handlers\<close>

record StatsHandler =
  st_packetsReceived :: "64 word"
  st_packetsSent :: "64 word"
  st_bytesReceived :: "64 word"
  st_bytesSent :: "64 word"

record StatsResponse =
  sr_Type :: string
  sr_PacketsReceived :: "64 word"
  sr_PacketsSent :: "64 word"
  sr_BytesReceived :: "64 word"
  sr_BytesSent :: "64 word"
  sr_Sessions :: nat

text \<open>\<open>unmarshal\<close>: whether the request is valid JSON; \<open>marshal\<close>: the encoding of the answer.\<close>

definition stats_Handle ::
  "(bytes \<Rightarrow> gerr option) \<Rightarrow> (StatsResponse \<Rightarrow> (gerr, bytes) result) \<Rightarrow> nat \<Rightarrow> StatsHandler udp_handler" where
  "stats_Handle unmarshal marshal sessionCount h packet =
     (case unmarshal (pk_Data packet) of
        Some err \<Rightarrow> (Inl err, h)
      | None \<Rightarrow>
          (let h1 = h\<lparr>st_packetsReceived := st_packetsReceived h + 1,
                      st_bytesReceived := st_bytesReceived h + of_nat (length (pk_Data packet))\<rparr>;
               resp = \<lparr>sr_Type = ''stats'', sr_PacketsReceived = st_packetsReceived h1, sr_PacketsSent = st_packetsSent h1,
                       sr_BytesReceived = st_bytesReceived h1, sr_BytesSent = st_bytesSent h1, sr_Sessions = sessionCount\<rparr>
           in (marshal resp, h1)))"

definition IncrementPacketsSent :: "nat \<Rightarrow> StatsHandler \<Rightarrow> StatsHandler" where
  "IncrementPacketsSent n h =
     h\<lparr>st_packetsSent := st_packetsSent h + 1, st_bytesSent := st_bytesSent h + of_nat n\<rparr>"

record TimeResponse =
  tr_Type :: string
  tr_Timestamp :: string
  tr_Unix :: int

definition time_Handle ::
  "(bytes \<Rightarrow> gerr option) \<Rightarrow> (TimeResponse \<Rightarrow> (gerr, bytes) result) \<Rightarrow> (int \<Rightarrow> string) \<Rightarrow> int \<Rightarrow> 'w udp_handler" where
  "time_Handle unmarshal marshal rfc3339 now w packet =
     (case unmarshal (pk_Data packet) of
        Some err \<Rightarrow> (Inl err, w)
      | None \<Rightarrow> (marshal \<lparr>tr_Type = ''time'', tr_Timestamp = rfc3339 now, tr_Unix = now div 1000000000\<rparr>, w))"

subsection \<open>Histories\<close>

datatype udp_event = PacketFrom string int | CleanupAt int

fun udp_apply :: "UDPConfig \<Rightarrow> udp_event \<Rightarrow> sessions \<Rightarrow> sessions" where
  "udp_apply cfg (PacketFrom addr now) m = updateSession now addr m"
| "udp_apply cfg (CleanupAt now) m = cleanupInactiveSessions cfg now m"

definition udp_history :: "UDPConfig \<Rightarrow> udp_event list \<Rightarrow> sessions" where
  "udp_history cfg evs = fold (udp_apply cfg) evs Map.empty"

definition last_heard :: "UDPConfig \<Rightarrow> udp_event list \<Rightarrow> string \<Rightarrow> int \<Rightarrow> bool" where
  "last_heard cfg evs addr t \<longleftrightarrow>
     (\<exists>before after. evs = before @ PacketFrom addr t # after \<and> (\<forall>u. PacketFrom addr u \<notin> set after) \<and>
        (\<forall>c. CleanupAt c \<in> set after \<longrightarrow> c - t \<le> inactive_threshold cfg))"

lemma last_heard_snoc_packet:
  "last_heard cfg (evs @ [PacketFrom a now]) addr t \<longleftrightarrow> (if a = addr then t = now else last_heard cfg evs addr t)"
proof (cases "a = addr")
  case True
  have "last_heard cfg (evs @ [PacketFrom a now]) addr now"
    unfolding last_heard_def using True by (intro exI [of _ evs] exI [of _ "[]"]) simp
  moreover have "t = now" if "last_heard cfg (evs @ [PacketFrom a now]) addr t"
  proof -
    from that obtain before after where e: "evs @ [PacketFrom a now] = before @ PacketFrom addr t # after"
      "\<forall>u. PacketFrom addr u \<notin> set after" by (auto simp: last_heard_def)
    show ?thesis using e True by (cases after rule: rev_cases) auto
  qed
  ultimately show ?thesis using True by auto
next
  case False
  have "last_heard cfg evs addr t" if "last_heard cfg (evs @ [PacketFrom a now]) addr t"
  proof -
    from that obtain before after where e: "evs @ [PacketFrom a now] = before @ PacketFrom addr t # after"
      "\<forall>u. PacketFrom addr u \<notin> set after" "\<forall>c. CleanupAt c \<in> set after \<longrightarrow> c - t \<le> inactive_threshold cfg"
      by (auto simp: last_heard_def)
    from e(1) False obtain after' where "after = after' @ [PacketFrom a now]" by (cases after rule: rev_cases) auto
    then show ?thesis using e unfolding last_heard_def by (intro exI [of _ before] exI [of _ after']) auto
  qed
  moreover have "last_heard cfg (evs @ [PacketFrom a now]) addr t" if "last_heard cfg evs addr t"
    using that False unfolding last_heard_def
    by clarify (rule exI, rule_tac x = "after @ [PacketFrom a now]" in exI, auto)
  ultimately show ?thesis using False by auto
qed

lemma last_heard_snoc_cleanup:
  "last_heard cfg (evs @ [CleanupAt c]) addr t \<longleftrightarrow> last_heard cfg evs addr t \<and> c - t \<le> inactive_threshold cfg"
proof
  assume "last_heard cfg (evs @ [CleanupAt c]) addr t"
  then obtain before after where e: "evs @ [CleanupAt c] = before @ PacketFrom addr t # after"
    "\<forall>u. PacketFrom addr u \<notin> set after" "\<forall>c. CleanupAt c \<in> set after \<longrightarrow> c - t \<le> inactive_threshold cfg"
    by (auto simp: last_heard_def)
  from e(1) obtain after' where "after = after' @ [CleanupAt c]" by (cases after rule: rev_cases) auto
  then show "last_heard cfg evs addr t \<and> c - t \<le> inactive_threshold cfg"
    using e unfolding last_heard_def by auto
next
  assume "last_heard cfg evs addr t \<and> c - t \<le> inactive_threshold cfg"
  then show "last_heard cfg (evs @ [CleanupAt c]) addr t"
    unfolding last_heard_def by clarify (rule exI, rule_tac x = "after @ [CleanupAt c]" in exI, auto)
qed

lemma history_last_heard:
  "(\<exists>s. udp_history cfg evs addr = Some s \<and> ss_LastActive s = t) \<longleftrightarrow> last_heard cfg evs addr t"
proof (induction evs arbitrary: t rule: rev_induct)
  case Nil
  show ?case by (simp add: udp_history_def last_heard_def)
next
  case (snoc e evs)
  have h: "udp_history cfg (evs @ [e]) = udp_apply cfg e (udp_history cfg evs)"
    by (simp add: udp_history_def)
  show ?case
  proof (cases e)
    case (PacketFrom a now)
    have "(\<exists>s. udp_history cfg (evs @ [e]) addr = Some s \<and> ss_LastActive s = t) \<longleftrightarrow>
        (if a = addr then t = now else \<exists>s. udp_history cfg evs addr = Some s \<and> ss_LastActive s = t)"
      unfolding h unfolding PacketFrom by (auto simp: updateSession_def split: option.splits)
    then show ?thesis unfolding snoc PacketFrom last_heard_snoc_packet .
  next
    case (CleanupAt c)
    have "(\<exists>s. udp_history cfg (evs @ [e]) addr = Some s \<and> ss_LastActive s = t) \<longleftrightarrow>
        (\<exists>s. udp_history cfg evs addr = Some s \<and> ss_LastActive s = t) \<and> c - t \<le> inactive_threshold cfg"
      unfolding h unfolding CleanupAt by (auto simp: cleanupInactiveSessions_def split: option.splits)
    then show ?thesis unfolding snoc CleanupAt last_heard_snoc_cleanup .
  qed
qed

lemma history_addr: "udp_history cfg evs addr = Some s \<Longrightarrow> ss_RemoteAddr s = addr"
proof (induction evs arbitrary: s rule: rev_induct)
  case (snoc e evs)
  then show ?case
    by (cases e) (auto simp: udp_history_def updateSession_def cleanupInactiveSessions_def split: option.splits if_splits)
qed (simp add: udp_history_def)

text \<open>The queue never holds more than a thousand packets.\<close>

lemma queue_bounded:
  "length (us_queue s) \<le> 1000 \<Longrightarrow> length (us_queue (receivePacket cfg now r l d s)) \<le> 1000"
  "length (us_queue s) \<le> 1000 \<Longrightarrow> length (us_queue (fst (packetWorker hs send s w))) \<le> 1000"
  by (auto simp: receivePacket_def Let_def packetWorker_def process_packet_def
      split: list.splits dispatched.splits prod.splits sum.splits)

subsection \<open>Properties\<close>

text \<open>C28: A session exists exactly while it is justified. After any history of packets and cleanups there is a
  session for an address, last active at \<open>t\<close>, if and only if \<open>t\<close> is the time of the last packet from it
  and no cleanup since found more than the threshold gone.\<close>

theorem udp_session_lifetime:
  "(\<exists>s. GetSession (udp_history cfg evs) addr = Some s \<and> ss_RemoteAddr s = addr \<and> ss_LastActive s = t) \<longleftrightarrow>
   (\<exists>before after. evs = before @ PacketFrom addr t # after \<and> (\<forall>u. PacketFrom addr u \<notin> set after) \<and>
      \<not> (\<exists>c. CleanupAt c \<in> set after \<and> c - t > inactive_threshold cfg))"
proof -
  have "(\<exists>before after. evs = before @ PacketFrom addr t # after \<and> (\<forall>u. PacketFrom addr u \<notin> set after) \<and>
      \<not> (\<exists>c. CleanupAt c \<in> set after \<and> c - t > inactive_threshold cfg)) \<longleftrightarrow> last_heard cfg evs addr t"
    unfolding last_heard_def by (simp add: not_less)
  then show ?thesis
    using history_last_heard [of cfg evs addr t] history_addr [of cfg evs addr] unfolding GetSession_def by blast
qed

end
