(* ===== verification/Chat.thy ===== *)
theory Chat
  imports Net_Server "HOL-Library.Multiset"
begin

section \<open>Chat room\<close>

text \<open>
  \<^verbatim>\<open>internal/handler/tcp/chat.go\<close> with its three message handlers, and the echo handler. The handlers run in
  the goroutines of their connections and the broadcast loop in its own; the step relation \<open>chat_step\<close>
  interleaves them. A send on the full channel does not step (it blocks) unless the source has a default
  branch, and a \<open>select\<close> with several ready branches takes any of them. \<open>ch_log\<close> records what was written.
\<close>

subsection \<open>State and handlers\<close>

record ChatMessage =
  cm_Type :: string
  cm_From :: string
  cm_Content :: string

text \<open>\<open>ch_waiting\<close>: the join (\<open>True\<close>) and leave handlers that have changed the clients and wait to send their
  message; \<open>ch_taken\<close>: the message the broadcast loop has received and not yet copied the clients for;
  \<open>ch_loop\<close>: the message it is delivering and the clients that are left.\<close>

record ChatHandler =
  ch_clients :: "string list"
  ch_broadcast :: "ChatMessage list"
  ch_shutdown :: bool
  ch_waiting :: "(bool \<times> string \<times> ChatMessage) list"
  ch_running :: bool
  ch_taken :: "ChatMessage option"
  ch_loop :: "(ChatMessage \<times> string list) option"
  ch_log :: "(string \<times> ChatMessage) list"

definition NewChatHandler :: ChatHandler where
  "NewChatHandler = \<lparr>ch_clients = [], ch_broadcast = [], ch_shutdown = False, ch_waiting = [], ch_running = True,
     ch_taken = None, ch_loop = None, ch_log = []\<rparr>"

definition chat_capacity :: nat where "chat_capacity = 100"

definition GetClientCount :: "ChatHandler \<Rightarrow> nat" where
  "GetClientCount h = length (ch_clients h)"

definition chat_add :: "string \<Rightarrow> ChatHandler \<Rightarrow> ChatHandler" where
  "chat_add i h = h\<lparr>ch_clients := List.insert i (ch_clients h)\<rparr>"

definition chat_remove :: "string \<Rightarrow> ChatHandler \<Rightarrow> ChatHandler" where
  "chat_remove i h = h\<lparr>ch_clients := remove1 i (ch_clients h)\<rparr>"

definition chat_send :: "ChatMessage \<Rightarrow> ChatHandler \<Rightarrow> ChatHandler" where
  "chat_send msg h = h\<lparr>ch_broadcast := ch_broadcast h @ [msg]\<rparr>"

definition chat_Shutdown :: "ChatHandler \<Rightarrow> ChatHandler" where
  "chat_Shutdown h = h\<lparr>ch_shutdown := True\<rparr>"

definition can_send :: "ChatHandler \<Rightarrow> bool" where
  "can_send h \<longleftrightarrow> length (ch_broadcast h) < chat_capacity"

text \<open>\<open>Handle\<close> of the join and leave handlers: the change of the clients, then the two branches of the
  \<open>select\<close> in which the waiting call goes on.\<close>

definition Join_Handle :: "string \<Rightarrow> ChatMessage \<Rightarrow> ChatHandler \<Rightarrow> ChatHandler" where
  "Join_Handle i msg h = (chat_add i h)\<lparr>ch_waiting := ch_waiting h @ [(True, i, msg)]\<rparr>"

definition Leave_Handle :: "string \<Rightarrow> ChatMessage \<Rightarrow> ChatHandler \<Rightarrow> ChatHandler" where
  "Leave_Handle i msg h = (chat_remove i h)\<lparr>ch_waiting := ch_waiting h @ [(False, i, msg)]\<rparr>"

definition select_send :: "bool \<times> string \<times> ChatMessage \<Rightarrow> ChatHandler \<Rightarrow> ChatHandler" where
  "select_send x h = (chat_send (snd (snd x)) h)\<lparr>ch_waiting := remove1 x (ch_waiting h)\<rparr>"

definition select_quit :: "bool \<times> string \<times> ChatMessage \<Rightarrow> ChatHandler \<Rightarrow> ChatHandler" where
  "select_quit x h =
     (if fst x then chat_remove (fst (snd x)) h else h)\<lparr>ch_waiting := remove1 x (ch_waiting h)\<rparr>"

text \<open>The message handler never waits: its outcomes as a set.\<close>

definition Message_Handle :: "ChatMessage \<Rightarrow> ChatHandler \<Rightarrow> ChatHandler set" where
  "Message_Handle msg h =
     (if can_send h then {chat_send msg h} else {}) \<union> (if ch_shutdown h then {h} else {}) \<union>
     (if \<not> can_send h \<and> \<not> ch_shutdown h then {h} else {})"

text \<open>\<open>Handle\<close> on a connection: \<open>decode\<close> is the JSON decoder. The sender of the message is the connection,
  whatever the message says.\<close>

definition chat_Handle ::
  "(bytes \<Rightarrow> (gerr, ChatMessage) result) \<Rightarrow> string \<Rightarrow> bytes \<Rightarrow> ChatHandler \<Rightarrow> (gerr option \<times> ChatHandler) set" where
  "chat_Handle decode connID data h =
     (case decode data of
        Inl err \<Rightarrow> {(Some err, h)}
      | Inr msg0 \<Rightarrow>
          (let msg = msg0\<lparr>cm_From := connID\<rparr>
           in Pair None ` (if cm_Type msg = ''join'' then {Join_Handle connID msg h}
                           else if cm_Type msg = ''message'' then Message_Handle msg h
                           else if cm_Type msg = ''leave'' then {Leave_Handle connID msg h}
                           else {h})))"

definition chat_MessageTypes :: "string list" where
  "chat_MessageTypes = [''join'', ''message'', ''leave'']"

definition echo_Handle :: "'w tcp_handler" where
  "echo_Handle w p = (Inr (snd p), w)"

subsection \<open>Steps\<close>

text \<open>\<open>took\<close>: the loop takes a message; \<open>copied\<close>: it copies the clients in the order of the map iteration;
  \<open>unencodable\<close>: the message has no JSON text and is skipped; \<open>own\<close>, \<open>sent\<close>, \<open>failed\<close>: it goes through
  the copy; \<open>loop_exit\<close>: it sees the shutdown.\<close>

inductive chat_step :: "(bytes \<Rightarrow> (gerr, ChatMessage) result) \<Rightarrow> ChatHandler \<Rightarrow> ChatHandler \<Rightarrow> bool"
  for decode :: "bytes \<Rightarrow> (gerr, ChatMessage) result" where
  handled: "(e, h') \<in> chat_Handle decode connID data h \<Longrightarrow> chat_step decode h h'"
| wait_send: "x \<in> set (ch_waiting h) \<Longrightarrow> can_send h \<Longrightarrow> chat_step decode h (select_send x h)"
| wait_quit: "x \<in> set (ch_waiting h) \<Longrightarrow> ch_shutdown h \<Longrightarrow> chat_step decode h (select_quit x h)"
| shutdown: "chat_step decode h (chat_Shutdown h)"
| took: "ch_running h \<Longrightarrow> ch_taken h = None \<Longrightarrow> ch_loop h = None \<Longrightarrow> ch_broadcast h = msg # rest \<Longrightarrow>
    chat_step decode h (h\<lparr>ch_broadcast := rest, ch_taken := Some msg\<rparr>)"
| copied: "ch_taken h = Some msg \<Longrightarrow> mset cs = mset (ch_clients h) \<Longrightarrow>
    chat_step decode h (h\<lparr>ch_taken := None, ch_loop := Some (msg, cs)\<rparr>)"
| unencodable: "ch_taken h = Some msg \<Longrightarrow> chat_step decode h (h\<lparr>ch_taken := None\<rparr>)"
| loop_exit: "ch_running h \<Longrightarrow> ch_taken h = None \<Longrightarrow> ch_loop h = None \<Longrightarrow> ch_shutdown h \<Longrightarrow> chat_step decode h (h\<lparr>ch_running := False\<rparr>)"
| loop_done: "ch_loop h = Some (msg, []) \<Longrightarrow> chat_step decode h (h\<lparr>ch_loop := None\<rparr>)"
| own: "ch_loop h = Some (msg, i # is) \<Longrightarrow> cm_From msg = i \<Longrightarrow> chat_step decode h (h\<lparr>ch_loop := Some (msg, is)\<rparr>)"
| sent: "ch_loop h = Some (msg, i # is) \<Longrightarrow> cm_From msg \<noteq> i \<Longrightarrow>
    chat_step decode h (h\<lparr>ch_loop := Some (msg, is), ch_log := ch_log h @ [(i, msg)]\<rparr>)"
| failed: "ch_loop h = Some (msg, i # is) \<Longrightarrow> cm_From msg \<noteq> i \<Longrightarrow>
    chat_step decode h ((chat_remove i h)\<lparr>ch_loop := Some (msg, is)\<rparr>)"

subsection \<open>Invariant\<close>

text \<open>The messages that are somewhere on their way.\<close>

definition chat_messages :: "ChatHandler \<Rightarrow> ChatMessage set" where
  "chat_messages h = set (ch_broadcast h) \<union> (snd \<circ> snd) ` set (ch_waiting h) \<union>
     set_option (ch_taken h) \<union> (case ch_loop h of None \<Rightarrow> {} | Some (msg, _) \<Rightarrow> {msg}) \<union> snd ` set (ch_log h)"

definition chat_inv :: "ChatHandler \<Rightarrow> bool" where
  "chat_inv h \<longleftrightarrow>
     distinct (ch_clients h) \<and> length (ch_broadcast h) \<le> chat_capacity \<and>
     (\<forall>(i, msg) \<in> set (ch_log h). cm_From msg \<noteq> i) \<and>
     (\<forall>msg \<in> chat_messages h. cm_Type msg \<in> set chat_MessageTypes) \<and>
     (\<forall>(_, i, msg) \<in> set (ch_waiting h). cm_From msg = i) \<and>
     (\<not> ch_running h \<longrightarrow> ch_taken h = None \<and> ch_loop h = None \<and> ch_shutdown h)"

lemmas chat_defs = chat_inv_def chat_messages_def chat_send_def chat_add_def chat_remove_def chat_Shutdown_def
  can_send_def select_send_def select_quit_def chat_MessageTypes_def Join_Handle_def Leave_Handle_def Message_Handle_def

lemma in_remove1: "y \<in> set (remove1 x xs) \<Longrightarrow> y \<in> set xs"
  using set_remove1_subset by fast

lemma handle_inv:
  assumes "(e, h') \<in> chat_Handle decode connID data h" "chat_inv h"
  shows "chat_inv h'"
proof (cases "decode data")
  case (Inl err)
  then show ?thesis using assms by (simp add: chat_Handle_def)
next
  case (Inr msg)
  then consider "h' = h" | "h' = chat_send (msg\<lparr>cm_From := connID\<rparr>) h" "can_send h" "cm_Type msg = ''message''"
    | "h' = Join_Handle connID (msg\<lparr>cm_From := connID\<rparr>) h" "cm_Type msg = ''join''"
    | "h' = Leave_Handle connID (msg\<lparr>cm_From := connID\<rparr>) h" "cm_Type msg = ''leave''"
    using assms(1) by (auto simp: chat_Handle_def Let_def Message_Handle_def split: if_splits)
  then show ?thesis using assms(2) by cases (auto simp: chat_defs)
qed

lemma chat_inv_step: "chat_step decode h h' \<Longrightarrow> chat_inv h \<Longrightarrow> chat_inv h'"
proof (induction rule: chat_step.induct)
  case (handled e h' connID data h)
  then show ?case using handle_inv by blast
next
  case (wait_send x h)
  then have "cm_Type (snd (snd x)) \<in> set chat_MessageTypes" by (auto simp: chat_inv_def chat_messages_def)
  then show ?case using wait_send by (auto simp: chat_defs dest!: in_remove1)
next
  case (wait_quit x h)
  then show ?case by (auto simp: chat_defs dest!: in_remove1)
qed (auto simp: chat_defs split: option.splits)

lemma chat_reachable_inv: "(chat_step decode)\<^sup>*\<^sup>* NewChatHandler h \<Longrightarrow> chat_inv h"
proof (induction rule: rtranclp_induct)
  case base
  show ?case by (simp add: chat_inv_def chat_messages_def NewChatHandler_def)
qed (rule chat_inv_step)

subsection \<open>Properties\<close>


definition demo_decode :: "bytes \<Rightarrow> (gerr, ChatMessage) result" where
  "demo_decode d = Inr \<lparr>cm_Type = (if d = [] then ''join'' else ''message''), cm_From = ''forged'', cm_Content = ''hi''\<rparr>"

definition demo_msg :: "string \<Rightarrow> string \<Rightarrow> ChatMessage" where
  "demo_msg t i = \<lparr>cm_Type = t, cm_From = i, cm_Content = ''hi''\<rparr>"

lemma demo_join: "chat_step demo_decode h (Join_Handle i (demo_msg ''join'' i) h)"
  by (rule chat_step.handled [of None _ _ i "[]"]) (simp add: chat_Handle_def demo_decode_def demo_msg_def)


text \<open>A client that joins after the shutdown can stay registered for good: with room in the channel the
  \<open>select\<close> of the join handler may send instead of rolling the registration back, and the broadcast loop
  that would drop the client has ended.\<close>

lemma chat_zombie:
  "\<exists>h. (chat_step demo_decode)\<^sup>*\<^sup>* (chat_Shutdown NewChatHandler) h \<and>
     ch_clients h = [''1''] \<and> ch_waiting h = [] \<and> \<not> ch_running h"
proof -
  let ?h0 = "chat_Shutdown NewChatHandler"
  let ?h1 = "?h0\<lparr>ch_running := False\<rparr>"
  let ?h2 = "Join_Handle ''1'' (demo_msg ''join'' ''1'') ?h1"
  let ?h3 = "select_send (True, ''1'', demo_msg ''join'' ''1'') ?h2"
  note d = chat_defs NewChatHandler_def chat_capacity_def
  have s1: "chat_step demo_decode ?h0 ?h1" by (rule chat_step.loop_exit) (simp_all add: d)
  have s2: "chat_step demo_decode ?h1 ?h2" by (rule demo_join)
  have s3: "chat_step demo_decode ?h2 ?h3" by (rule chat_step.wait_send) (simp_all add: d)
  have "successively (chat_step demo_decode) [?h0, ?h1, ?h2, ?h3]" using s1 s2 s3 by simp
  from rtranclp_path [OF this] show ?thesis by (intro exI [of _ ?h3]) (simp add: d)
qed

end
