(* ===== verification/Goroutines.thy ===== *)
theory Goroutines
  imports Go_Errors
begin

section \<open>Bounded goroutines\<close>

text \<open>
  \<^verbatim>\<open>internal/utils/goroutine.go\<close>: the semaphore that bounds the number of goroutines, resizing it, waiting for
  all of them, and retrying. The callers of \<open>Go\<close>, the goroutines they start and a caller of
  \<open>SetMaxGoroutines\<close> interleave in the step relation \<open>pool_step\<close>. The read-write mutex behaves as documented by
  the \<^verbatim>\<open>sync\<close> package: a waiting writer keeps new readers out.
\<close>

subsection \<open>State\<close>

text \<open>\<open>Migrating n k\<close>: the writer holds the lock and has moved \<open>k\<close> tokens into a channel of capacity \<open>n\<close>.\<close>

datatype writer = NoWriter | Waiting nat | Migrating nat nat

text \<open>Callers of \<open>Go\<close> wait for the read lock (\<open>pl_calling\<close>) and then for a free slot (\<open>pl_sending\<close>, with the read
  lock held); a goroutine runs its function, then waits for the read lock (\<open>pl_ending\<close>) and takes its token back
  (\<open>pl_receiving\<close>).\<close>

record pool =
  pl_max :: nat
  pl_cap :: nat
  pl_sem :: nat
  pl_wg :: nat
  pl_calling :: nat
  pl_sending :: nat
  pl_running :: nat
  pl_ending :: nat
  pl_receiving :: nat
  pl_writer :: writer

definition pool_new :: pool where
  "pool_new = \<lparr>pl_max = 1000, pl_cap = 1000, pl_sem = 0, pl_wg = 0, pl_calling = 0, pl_sending = 0, pl_running = 0,
     pl_ending = 0, pl_receiving = 0, pl_writer = NoWriter\<rparr>"

definition GetMaxGoroutines :: "pool \<Rightarrow> nat" where "GetMaxGoroutines p = pl_max p"
definition GetActiveGoroutines :: "pool \<Rightarrow> nat" where "GetActiveGoroutines p = pl_sem p"

text \<open>\<open>Go\<close>: the two parts of the call, and the deferred part of the goroutine.\<close>

definition go_call :: "pool \<Rightarrow> pool" where
  "go_call p = p\<lparr>pl_wg := pl_wg p + 1, pl_calling := pl_calling p + 1\<rparr>"

definition go_rlock :: "pool \<Rightarrow> pool" where
  "go_rlock p = p\<lparr>pl_calling := pl_calling p - 1, pl_sending := pl_sending p + 1\<rparr>"

definition go_send :: "pool \<Rightarrow> pool" where
  "go_send p = p\<lparr>pl_sending := pl_sending p - 1, pl_sem := pl_sem p + 1, pl_running := pl_running p + 1\<rparr>"

definition go_return :: "pool \<Rightarrow> pool" where
  "go_return p = p\<lparr>pl_running := pl_running p - 1, pl_ending := pl_ending p + 1\<rparr>"

definition go_end_rlock :: "pool \<Rightarrow> pool" where
  "go_end_rlock p = p\<lparr>pl_ending := pl_ending p - 1, pl_receiving := pl_receiving p + 1\<rparr>"

definition go_done :: "pool \<Rightarrow> pool" where
  "go_done p = p\<lparr>pl_receiving := pl_receiving p - 1, pl_sem := pl_sem p - 1, pl_wg := pl_wg p - 1\<rparr>"

text \<open>\<open>SetMaxGoroutines n\<close> for a positive \<open>n\<close> (others return at once).\<close>

definition set_lock :: "nat \<Rightarrow> pool \<Rightarrow> pool" where
  "set_lock n p = p\<lparr>pl_writer := Migrating n 0, pl_max := n\<rparr>"

definition set_move :: "nat \<Rightarrow> nat \<Rightarrow> pool \<Rightarrow> pool" where
  "set_move n k p = p\<lparr>pl_writer := Migrating n (Suc k), pl_sem := pl_sem p - 1\<rparr>"

definition set_swap :: "nat \<Rightarrow> nat \<Rightarrow> pool \<Rightarrow> pool" where
  "set_swap n k p = p\<lparr>pl_writer := NoWriter, pl_cap := n, pl_sem := k\<rparr>"

inductive pool_step :: "pool \<Rightarrow> pool \<Rightarrow> bool" where
  call: "pool_step p (go_call p)"
| rlock: "0 < pl_calling p \<Longrightarrow> pl_writer p = NoWriter \<Longrightarrow> pool_step p (go_rlock p)"
| send: "0 < pl_sending p \<Longrightarrow> pl_sem p < pl_cap p \<Longrightarrow> pool_step p (go_send p)"
| return: "0 < pl_running p \<Longrightarrow> pool_step p (go_return p)"
| end_rlock: "0 < pl_ending p \<Longrightarrow> pl_writer p = NoWriter \<Longrightarrow> pool_step p (go_end_rlock p)"
| finish: "0 < pl_receiving p \<Longrightarrow> 0 < pl_sem p \<Longrightarrow> pool_step p (go_done p)"
| set_call: "0 < n \<Longrightarrow> pl_writer p = NoWriter \<Longrightarrow> pool_step p (p\<lparr>pl_writer := Waiting n\<rparr>)"
| set_locked: "pl_writer p = Waiting n \<Longrightarrow> pl_sending p = 0 \<Longrightarrow> pl_receiving p = 0 \<Longrightarrow> pool_step p (set_lock n p)"
| set_moved: "pl_writer p = Migrating n k \<Longrightarrow> 0 < pl_sem p \<Longrightarrow> k < n \<Longrightarrow> pool_step p (set_move n k p)"
| set_swapped: "pl_writer p = Migrating n k \<Longrightarrow> pl_sem p = 0 \<Longrightarrow> pool_step p (set_swap n k p)"

subsection \<open>Retrying\<close>

text \<open>The loop of \<open>GoWithRetry\<close>; \<open>n\<close> runs are left. The function works on a world.\<close>

fun retry_loop :: "('w \<Rightarrow> gerr option \<times> 'w) \<Rightarrow> nat \<Rightarrow> gerr option \<Rightarrow> 'w \<Rightarrow> gerr option \<times> 'w" where
  "retry_loop fn 0 err w = (err, w)"
| "retry_loop fn (Suc n) err w =
     (case fn w of (None, w') \<Rightarrow> (None, w') | (Some e, w') \<Rightarrow> retry_loop fn n (Some e) w')"

definition GoWithRetry :: "int \<Rightarrow> ('w \<Rightarrow> gerr option \<times> 'w) \<Rightarrow> 'w \<Rightarrow> gerr option \<times> 'w" where
  "GoWithRetry maxRetries fn w = retry_loop fn (nat (maxRetries + 1)) None w"

subsection \<open>Invariant\<close>

definition moved :: "pool \<Rightarrow> nat" where
  "moved p = (case pl_writer p of Migrating n k \<Rightarrow> k | _ \<Rightarrow> 0)"

text \<open>Every started goroutine has a token, in the old channel or in the new one; the wait group counts the
  calls that have not ended.\<close>

definition pool_inv :: "pool \<Rightarrow> bool" where
  "pool_inv p \<longleftrightarrow>
     pl_sem p + moved p = pl_running p + pl_ending p + pl_receiving p \<and>
     pl_wg p = pl_calling p + pl_sending p + pl_running p + pl_ending p + pl_receiving p \<and>
     pl_sem p \<le> pl_cap p \<and> 0 < pl_cap p \<and>
     (case pl_writer p of
        NoWriter \<Rightarrow> pl_cap p = pl_max p
      | Waiting n \<Rightarrow> pl_cap p = pl_max p \<and> 0 < n
      | Migrating n k \<Rightarrow> k \<le> n \<and> 0 < n \<and> pl_max p = n \<and> pl_sending p = 0 \<and> pl_receiving p = 0)"

lemmas pool_defs = pool_inv_def moved_def go_call_def go_rlock_def go_send_def go_return_def go_end_rlock_def go_done_def
  set_lock_def set_move_def set_swap_def

lemma pool_inv_step: "pool_step p p' \<Longrightarrow> pool_inv p \<Longrightarrow> pool_inv p'"
  by (induction rule: pool_step.induct) (auto simp: pool_defs split: writer.splits)

lemma pool_reachable_inv: "pool_step\<^sup>*\<^sup>* pool_new p \<Longrightarrow> pool_inv p"
proof (induction rule: rtranclp_induct)
  case base
  show ?case by (simp add: pool_inv_def moved_def pool_new_def)
qed (rule pool_inv_step)

text \<open>The resize that cannot finish: the new channel is full and tokens are left.\<close>

definition stuck :: "nat \<Rightarrow> nat \<Rightarrow> pool \<Rightarrow> bool" where
  "stuck n w p \<longleftrightarrow> pl_writer p = Migrating n n \<and> 0 < pl_sem p \<and> pl_sending p = 0 \<and> pl_receiving p = 0 \<and> w \<le> pl_wg p"

lemma stuck_step: "pool_step p p' \<Longrightarrow> stuck n w p \<Longrightarrow> stuck n w p'"
  by (induction rule: pool_step.induct) (auto simp: stuck_def pool_defs)

lemma stuck_steps: "pool_step\<^sup>*\<^sup>* p p' \<Longrightarrow> stuck n w p \<Longrightarrow> stuck n w p'"
  by (induction rule: rtranclp_induct) (auto intro: stuck_step)

text \<open>The waiting writer that keeps the finishing goroutines out while a caller waits for their slot.\<close>

definition jammed :: "nat \<Rightarrow> pool \<Rightarrow> bool" where
  "jammed n p \<longleftrightarrow> pl_writer p = Waiting n \<and> pl_sem p = pl_cap p \<and> 0 < pl_sending p \<and> pl_receiving p = 0"

lemma jammed_step: "pool_step p p' \<Longrightarrow> jammed n p \<Longrightarrow> jammed n p' \<and> pl_sending p' = pl_sending p"
  by (induction rule: pool_step.induct) (auto simp: jammed_def pool_defs)

lemma jammed_steps: "pool_step\<^sup>*\<^sup>* p p' \<Longrightarrow> jammed n p \<Longrightarrow> jammed n p' \<and> pl_sending p' = pl_sending p"
  by (induction rule: rtranclp_induct) (auto dest: jammed_step)

lemma retry_attempts:
  assumes "\<And>w. fst (fn w) \<noteq> None"
  shows "snd (retry_loop fn n err w) = ((\<lambda>w. snd (fn w)) ^^ n) w"
proof (induction n arbitrary: err w)
  case (Suc n)
  obtain e w' where "fn w = (Some e, w')" using assms [of w] by (cases "fn w") auto
  then show ?case using Suc by (simp add: funpow_Suc_right del: funpow.simps)
qed simp

subsection \<open>Properties\<close>

text \<open>C30: The semaphore does what it is for. In every reachable state, except while a resize is copying tokens, no
  more goroutines are between start and end than the configured maximum, the active count is their number,
  and the wait group counts all calls that have not ended.\<close>

theorem goroutine_bound:
  assumes "pool_step\<^sup>*\<^sup>* pool_new p"
  shows "pl_wg p = pl_calling p + pl_sending p + pl_running p + pl_ending p + pl_receiving p \<and>
    ((\<exists>n k. pl_writer p = Migrating n k) \<or>
     GetActiveGoroutines p = pl_running p + pl_ending p + pl_receiving p \<and> GetActiveGoroutines p \<le> GetMaxGoroutines p)"
  using pool_reachable_inv [OF assms]
  by (auto simp: pool_inv_def moved_def GetActiveGoroutines_def GetMaxGoroutines_def split: writer.splits)

text \<open>Two goroutines that run.\<close>

definition two_running :: pool where
  "two_running = (go_send \<circ> go_rlock \<circ> go_call) ((go_send \<circ> go_rlock \<circ> go_call) pool_new)"

lemma one_more:
  assumes "pl_writer p = NoWriter" "pl_sem p < pl_cap p"
  shows "pool_step\<^sup>*\<^sup>* p ((go_send \<circ> go_rlock \<circ> go_call) p)"
proof -
  have "pool_step p (go_call p)" by (rule pool_step.call)
  moreover have "pool_step (go_call p) (go_rlock (go_call p))"
    by (rule pool_step.rlock) (use assms in \<open>simp_all add: pool_defs\<close>)
  moreover have "pool_step (go_rlock (go_call p)) (go_send (go_rlock (go_call p)))"
    by (rule pool_step.send) (use assms in \<open>simp_all add: pool_defs\<close>)
  ultimately show ?thesis by (auto intro: rtranclp_trans)
qed

lemma two_running_reachable: "pool_step\<^sup>*\<^sup>* pool_new two_running"
  unfolding two_running_def
  by (rule rtranclp_trans [OF one_more one_more]) (simp_all add: pool_new_def pool_defs)

theorem goroutine_bound_witness:
  "GetActiveGoroutines two_running = 2 \<and> GetActiveGoroutines two_running \<le> GetMaxGoroutines two_running"
  using goroutine_bound [OF two_running_reachable]
  by (simp add: two_running_def pool_new_def pool_defs GetActiveGoroutines_def)

text \<open>Reducing the maximum below the number of active goroutines deadlocks: with two of them running,
  \<open>SetMaxGoroutines(1)\<close> fills the new channel with one token and then waits for ever with the lock held, so that
  no goroutine can end and \<open>Wait\<close> never returns.\<close>

lemma shrink_deadlock:
  "\<exists>p. pool_step\<^sup>*\<^sup>* pool_new p \<and> (\<forall>p'. pool_step\<^sup>*\<^sup>* p p' \<longrightarrow> pl_writer p' = Migrating 1 1 \<and> 2 \<le> pl_wg p')"
proof -
  let ?p1 = "two_running\<lparr>pl_writer := Waiting 1\<rparr>"
  let ?p2 = "set_lock 1 ?p1" let ?p3 = "set_move 1 0 ?p2"
  note d = two_running_def pool_new_def pool_defs
  have "pool_step two_running ?p1" by (rule pool_step.set_call) (simp_all add: d)
  moreover have "pool_step ?p1 ?p2" by (rule pool_step.set_locked) (simp_all add: d)
  moreover have "pool_step ?p2 ?p3" by (rule pool_step.set_moved) (simp_all add: d)
  ultimately have "pool_step\<^sup>*\<^sup>* pool_new ?p3" using two_running_reachable by (auto intro: rtranclp_trans)
  moreover have "stuck 1 2 ?p3" by (simp add: stuck_def d)
  ultimately show ?thesis using stuck_steps [of ?p3 _ 1 2] by (fastforce simp: stuck_def)
qed

text \<open>Any resize of a full pool can deadlock, even an enlarging one: a caller of \<open>Go\<close> that waits for a slot
  holds the read lock, the resize waits for it, and the waiting writer keeps the goroutines that want to give
  their slots back from taking the read lock. From such a state the caller never gets its slot.\<close>

lemma resize_deadlock:
  assumes "pl_sem p = pl_cap p" "0 < pl_sending p" "pl_receiving p = 0" "pl_writer p = NoWriter" "0 < n"
  shows "pool_step p (p\<lparr>pl_writer := Waiting n\<rparr>) \<and>
    (\<forall>p'. pool_step\<^sup>*\<^sup>* (p\<lparr>pl_writer := Waiting n\<rparr>) p' \<longrightarrow> pl_writer p' = Waiting n \<and> pl_sending p' = pl_sending p)"
proof -
  have "jammed n (p\<lparr>pl_writer := Waiting n\<rparr>)" using assms by (simp add: jammed_def)
  then show ?thesis
    using jammed_steps [of "p\<lparr>pl_writer := Waiting n\<rparr>" _ n] pool_step.set_call [OF assms(5,4)]
    by (auto simp: jammed_def)
qed

lemma resize_deadlock_example:
  "let p = pool_new\<lparr>pl_cap := 1, pl_max := 1, pl_sem := 1, pl_running := 1, pl_sending := 1, pl_wg := 2\<rparr>
   in \<forall>p'. pool_step\<^sup>*\<^sup>* (p\<lparr>pl_writer := Waiting 5\<rparr>) p' \<longrightarrow> pl_writer p' = Waiting 5 \<and> pl_sending p' = 1"
  using resize_deadlock [of "pool_new\<lparr>pl_cap := 1, pl_max := 1, pl_sem := 1, pl_running := 1, pl_sending := 1, pl_wg := 2\<rparr>" 5]
  by (simp add: pool_new_def Let_def)

text \<open>The runs of \<open>GoWithRetry\<close>: one more than the number of retries when every run fails.\<close>

lemma GoWithRetry_attempts:
  assumes "\<And>w. fst (fn w) \<noteq> None" "0 \<le> maxRetries"
  shows "snd (GoWithRetry maxRetries fn w) = ((\<lambda>w. snd (fn w)) ^^ (nat maxRetries + 1)) w"
  unfolding GoWithRetry_def retry_attempts [of fn, OF assms(1)]
  using assms(2) by (simp add: nat_add_distrib)

end
