(* ===== verification/Auth.thy ===== *)
theory Auth
  imports App_Config
begin

section \<open>JSON web tokens\<close>

text \<open>
  \<^verbatim>\<open>internal/auth/jwt.go\<close>. The third-party library \<^verbatim>\<open>golang-jwt/jwt/v5\<close> is the record \<open>jwt_lib\<close>: signing,
  parsing with a key function, the signature check and its error for expired tokens. What the manager relies on
  is the locale \<open>jwt_library\<close>, and the reference implementation at the end keeps these laws. Times are
  nanoseconds.
\<close>

subsection \<open>The library\<close>

datatype jwt_alg = HS256 | HS384 | HS512 | OtherAlg string

fun is_hmac :: "jwt_alg \<Rightarrow> bool" where
  "is_hmac (OtherAlg a) = False"
| "is_hmac _ = True"

text \<open>\<open>cl_Issuer\<close>, \<open>cl_IssuedAt\<close> and \<open>cl_ExpiresAt\<close> are the fields of the embedded \<open>RegisteredClaims\<close> that the program
  uses.\<close>

record Claims =
  cl_UserID :: int
  cl_Subject :: string
  cl_TokenType :: string
  cl_Issuer :: string
  cl_IssuedAt :: "int option"
  cl_ExpiresAt :: "int option"

record jwt_lib =
  jw_NumericDate :: "int \<Rightarrow> int"
  jw_Sign :: "jwt_alg \<Rightarrow> string \<Rightarrow> Claims \<Rightarrow> (gerr, string) result"
  jw_Verify :: "jwt_alg \<Rightarrow> string \<Rightarrow> string \<Rightarrow> bool"
  jw_Parse :: "int \<Rightarrow> string \<Rightarrow> (jwt_alg \<Rightarrow> (gerr, string) result) \<Rightarrow> (gerr, Claims \<times> bool) result"
  jw_ErrTokenExpired :: gerr

subsection \<open>The manager\<close>

definition TokenTypeAccess :: string where "TokenTypeAccess = ''access''"
definition TokenTypeRefresh :: string where "TokenTypeRefresh = ''refresh''"
definition SubjectAdmin :: string where "SubjectAdmin = ''admin''"
definition SubjectUser :: string where "SubjectUser = ''user''"

record JWTManager =
  jm_secret :: string
  jm_accessTokenTTL :: int
  jm_refreshTokenTTL :: int
  jm_issuer :: string

definition NewJWTManager :: "string \<Rightarrow> int \<Rightarrow> int \<Rightarrow> JWTManager" where
  "NewJWTManager secret accessTokenTTL refreshTokenTTL =
     \<lparr>jm_secret = secret, jm_accessTokenTTL = wrap64 (accessTokenTTL * 1000000000),
      jm_refreshTokenTTL = wrap64 (refreshTokenTTL * 1000000000), jm_issuer = ''app-tpl''\<rparr>"

definition NewJWTManagerFromConfig :: "JWTConfig \<Rightarrow> JWTManager option" where
  "NewJWTManagerFromConfig cfg =
     (if jwt_Secret cfg = '''' then None
      else Some (NewJWTManager (jwt_Secret cfg)
                   (if jwt_AccessTokenTTL cfg \<le> 0 then 7200 else jwt_AccessTokenTTL cfg)
                   (if jwt_RefreshTokenTTL cfg \<le> 0 then 604800 else jwt_RefreshTokenTTL cfg)))"

definition token_claims :: "jwt_lib \<Rightarrow> JWTManager \<Rightarrow> int \<Rightarrow> int \<Rightarrow> string \<Rightarrow> string \<Rightarrow> int \<Rightarrow> Claims" where
  "token_claims lib m now userID sub tokenType ttl =
     \<lparr>cl_UserID = userID, cl_Subject = sub, cl_TokenType = tokenType, cl_Issuer = jm_issuer m,
      cl_IssuedAt = Some (jw_NumericDate lib now), cl_ExpiresAt = Some (jw_NumericDate lib (now + ttl))\<rparr>"

definition generateToken ::
  "jwt_lib \<Rightarrow> JWTManager \<Rightarrow> int \<Rightarrow> int \<Rightarrow> string \<Rightarrow> string \<Rightarrow> int \<Rightarrow> (gerr, string) result" where
  "generateToken lib m now userID sub tokenType ttl =
     jw_Sign lib HS256 (jm_secret m) (token_claims lib m now userID sub tokenType ttl)"

definition GenerateAccessTokenFor :: "jwt_lib \<Rightarrow> JWTManager \<Rightarrow> int \<Rightarrow> int \<Rightarrow> string \<Rightarrow> (gerr, string) result" where
  "GenerateAccessTokenFor lib m now userID sub = generateToken lib m now userID sub TokenTypeAccess (jm_accessTokenTTL m)"

definition GenerateRefreshTokenFor :: "jwt_lib \<Rightarrow> JWTManager \<Rightarrow> int \<Rightarrow> int \<Rightarrow> string \<Rightarrow> (gerr, string) result" where
  "GenerateRefreshTokenFor lib m now userID sub = generateToken lib m now userID sub TokenTypeRefresh (jm_refreshTokenTTL m)"

definition GenerateAccessToken :: "jwt_lib \<Rightarrow> JWTManager \<Rightarrow> int \<Rightarrow> int \<Rightarrow> (gerr, string) result" where
  "GenerateAccessToken lib m now userID = generateToken lib m now userID SubjectUser TokenTypeAccess (jm_accessTokenTTL m)"

definition GenerateRefreshToken :: "jwt_lib \<Rightarrow> JWTManager \<Rightarrow> int \<Rightarrow> int \<Rightarrow> (gerr, string) result" where
  "GenerateRefreshToken lib m now userID = generateToken lib m now userID SubjectUser TokenTypeRefresh (jm_refreshTokenTTL m)"

definition jwt_keyfunc :: "JWTManager \<Rightarrow> jwt_alg \<Rightarrow> (gerr, string) result" where
  "jwt_keyfunc m alg =
     (if is_hmac alg then Inr (jm_secret m) else Inl (Sentinel ''unexpected signing method, expected HS256''))"

definition ParseToken :: "jwt_lib \<Rightarrow> JWTManager \<Rightarrow> int \<Rightarrow> string \<Rightarrow> (gerr, Claims) result" where
  "ParseToken lib m now tokenString =
     (case jw_Parse lib now tokenString (jwt_keyfunc m) of
        Inl err \<Rightarrow> Inl (if errors_is err (jw_ErrTokenExpired lib) then jw_ErrTokenExpired lib else err)
      | Inr (claims, valid) \<Rightarrow> if \<not> valid then Inl (Sentinel ''invalid token claims'') else Inr claims)"

subsection \<open>What the manager relies on\<close>

text \<open>Claims that JSON carries without loss: 64-bit number, ASCII texts, dates in whole seconds that a
  double holds exactly.\<close>

definition plain_date :: "int \<Rightarrow> bool" where
  "plain_date t \<longleftrightarrow> 0 \<le> t \<and> t < 2 ^ 53 * 1000000000 \<and> t mod 1000000000 = 0"

definition ascii :: "string \<Rightarrow> bool" where
  "ascii s \<longleftrightarrow> (\<forall>c \<in> set s. byte_of c < 128)"

definition plain_claims :: "Claims \<Rightarrow> bool" where
  "plain_claims c \<longleftrightarrow> int64 (cl_UserID c) \<and> ascii (cl_Subject c) \<and> ascii (cl_TokenType c) \<and> ascii (cl_Issuer c) \<and>
     (\<forall>t. cl_IssuedAt c = Some t \<or> cl_ExpiresAt c = Some t \<longrightarrow> plain_date t)"

locale jwt_library =
  fixes lib :: jwt_lib
  assumes date: "jw_NumericDate lib t = t - t mod 1000000000"
    and sign_total: "\<exists>tok. jw_Sign lib HS256 key c = Inr tok"
    and signed_verifies: "jw_Sign lib alg key c = Inr tok \<Longrightarrow> jw_Verify lib alg key tok"
    and parse_live: "\<lbrakk>jw_Sign lib alg key c = Inr tok; plain_claims c; kf alg = Inr key; cl_ExpiresAt c = Some t; now < t\<rbrakk>
      \<Longrightarrow> jw_Parse lib now tok kf = Inr (c, True)"
    and parse_expired: "\<lbrakk>jw_Sign lib alg key c = Inr tok; plain_claims c; kf alg = Inr key; cl_ExpiresAt c = Some t; t \<le> now\<rbrakk>
      \<Longrightarrow> \<exists>err. jw_Parse lib now tok kf = Inl err \<and> errors_is err (jw_ErrTokenExpired lib)"
    and parse_sound: "jw_Parse lib now tok kf = Inr (c, valid)
      \<Longrightarrow> (\<exists>alg key. kf alg = Inr key \<and> jw_Verify lib alg key tok) \<and> (\<forall>t. cl_ExpiresAt c = Some t \<longrightarrow> now < t)"
begin

lemma ParseToken_sound:
  assumes "ParseToken lib m now tok = Inr c"
  shows "(\<exists>alg. is_hmac alg \<and> jw_Verify lib alg (jm_secret m) tok) \<and> (\<forall>t. cl_ExpiresAt c = Some t \<longrightarrow> now < t)"
proof -
  from assms have p: "jw_Parse lib now tok (jwt_keyfunc m) = Inr (c, True)"
    by (auto simp: ParseToken_def split: sum.splits if_splits)
  show ?thesis using parse_sound [OF p] by (auto simp: jwt_keyfunc_def split: if_splits)
qed

lemma ParseToken_signed:
  assumes "jw_Sign lib HS256 (jm_secret m) c = Inr tok" "plain_claims c" "cl_ExpiresAt c = Some t"
  shows "ParseToken lib m now tok = (if now < t then Inr c else Inl (jw_ErrTokenExpired lib))"
proof (cases "now < t")
  case True
  have "jw_Parse lib now tok (jwt_keyfunc m) = Inr (c, True)"
    by (rule parse_live [OF assms(1,2) _ assms(3) True]) (simp add: jwt_keyfunc_def)
  then show ?thesis using True by (simp add: ParseToken_def)
next
  case False
  have "\<exists>err. jw_Parse lib now tok (jwt_keyfunc m) = Inl err \<and> errors_is err (jw_ErrTokenExpired lib)"
    by (rule parse_expired [OF assms(1,2) _ assms(3)]) (use False in \<open>simp_all add: jwt_keyfunc_def\<close>)
  then show ?thesis using False by (auto simp: ParseToken_def)
qed

lemma token_claims_plain:
  assumes "int64 userID" "ascii sub" "ascii tokenType" "ascii (jm_issuer m)" "0 \<le> now" "0 \<le> ttl"
    "now + ttl < 2 ^ 53 * 1000000000"
  shows "plain_claims (token_claims lib m now userID sub tokenType ttl)"
proof -
  have d: "plain_date (t - t mod 1000000000)" if "0 \<le> t" "t < 2 ^ 53 * 1000000000" for t
    using that by (auto simp: plain_date_def minus_mod_eq_mult_div intro: order.strict_trans1 [rotated])
  show ?thesis using assms d [of now] d [of "now + ttl"] by (auto simp: plain_claims_def token_claims_def date)
qed

lemma generated_roundtrip:
  assumes "int64 userID" "ascii sub" "ascii tokenType" "ascii (jm_issuer m)" "0 \<le> now" "0 \<le> ttl"
    "now + ttl < 2 ^ 53 * 1000000000"
  shows "\<exists>tok. generateToken lib m now userID sub tokenType ttl = Inr tok \<and>
    (\<forall>later. ParseToken lib m later tok =
       (if later < now + ttl - (now + ttl) mod 1000000000 then Inr (token_claims lib m now userID sub tokenType ttl)
        else Inl (jw_ErrTokenExpired lib)))"
proof -
  let ?c = "token_claims lib m now userID sub tokenType ttl"
  obtain tok where tok: "jw_Sign lib HS256 (jm_secret m) ?c = Inr tok" using sign_total by blast
  have "cl_ExpiresAt ?c = Some (now + ttl - (now + ttl) mod 1000000000)" by (simp add: token_claims_def date)
  from ParseToken_signed [OF tok token_claims_plain [OF assms] this] show ?thesis
    using tok by (intro exI [of _ tok]) (simp add: generateToken_def)
qed

end

subsection \<open>A reference implementation of the library\<close>

text \<open>A token is the dotted list of its algorithm, its key and the fields. Texts are written as lists of byte
  numbers, so that no field contains a dot.\<close>

definition enc_text :: "string \<Rightarrow> string" where
  "enc_text s = join ''-'' ('''' # map (\<lambda>c. show_nat (byte_of c)) s)"

definition dec_text :: "string \<Rightarrow> string" where
  "dec_text t = map (\<lambda>w. char_of (nat_of_digits w)) (tl (splitc CHR ''-'' t))"

definition read_int :: "string \<Rightarrow> int" where
  "read_int s = (case s of [] \<Rightarrow> 0 | c # t \<Rightarrow> if c = CHR ''-'' then - int (nat_of_digits t) else int (nat_of_digits s))"

fun enc_date :: "int option \<Rightarrow> string" where
  "enc_date None = ''''"
| "enc_date (Some t) = show_int t"

definition dec_date :: "string \<Rightarrow> int option" where
  "dec_date s = (if s = '''' then None else Some (read_int s))"

fun enc_alg :: "jwt_alg \<Rightarrow> string" where
  "enc_alg HS256 = ''HS256''"
| "enc_alg HS384 = ''HS384''"
| "enc_alg HS512 = ''HS512''"
| "enc_alg (OtherAlg a) = ''none''"

definition enc_claims :: "Claims \<Rightarrow> string list" where
  "enc_claims c = [show_int (cl_UserID c), enc_text (cl_Subject c), enc_text (cl_TokenType c), enc_text (cl_Issuer c),
     enc_date (cl_IssuedAt c), enc_date (cl_ExpiresAt c)]"

fun dec_claims :: "string list \<Rightarrow> Claims option" where
  "dec_claims [u, s, t, i, a, e] = Some \<lparr>cl_UserID = read_int u, cl_Subject = dec_text s, cl_TokenType = dec_text t,
     cl_Issuer = dec_text i, cl_IssuedAt = dec_date a, cl_ExpiresAt = dec_date e\<rparr>"
| "dec_claims _ = None"

definition ref_expired :: gerr where "ref_expired = Sentinel ''token is expired''"

definition ref_sign :: "jwt_alg \<Rightarrow> string \<Rightarrow> Claims \<Rightarrow> (gerr, string) result" where
  "ref_sign alg key c =
     (if is_hmac alg then Inr (join ''.'' (enc_alg alg # enc_text key # enc_claims c)) else Inl (Sentinel ''key is of invalid type''))"

definition ref_verify :: "jwt_alg \<Rightarrow> string \<Rightarrow> string \<Rightarrow> bool" where
  "ref_verify alg key tok \<longleftrightarrow> take 2 (splitc CHR ''.'' tok) = [enc_alg alg, enc_text key]"

definition ref_parse :: "int \<Rightarrow> string \<Rightarrow> (jwt_alg \<Rightarrow> (gerr, string) result) \<Rightarrow> (gerr, Claims \<times> bool) result" where
  "ref_parse now tok kf =
     (case find (\<lambda>alg. hd (splitc CHR ''.'' tok) = enc_alg alg) [HS256, HS384, HS512] of
        None \<Rightarrow> Inl (Sentinel ''signing method unavailable'')
      | Some alg \<Rightarrow>
          (case kf alg of
             Inl err \<Rightarrow> Inl (wrapl ''token is unverifiable'' err)
           | Inr key \<Rightarrow>
               if \<not> ref_verify alg key tok then Inl (Sentinel ''signature is invalid'')
               else (case dec_claims (drop 2 (splitc CHR ''.'' tok)) of
                       None \<Rightarrow> Inl (Sentinel ''token is malformed'')
                     | Some c \<Rightarrow>
                         (case cl_ExpiresAt c of
                            Some t \<Rightarrow> if t \<le> now then Inl (wrapl ''token has invalid claims'' ref_expired) else Inr (c, True)
                          | None \<Rightarrow> Inr (c, True)))))"

definition ref_jwt :: jwt_lib where
  "ref_jwt = \<lparr>jw_NumericDate = (\<lambda>t. t - t mod 1000000000), jw_Sign = ref_sign, jw_Verify = ref_verify,
     jw_Parse = ref_parse, jw_ErrTokenExpired = ref_expired\<rparr>"

lemma dec_enc_text [simp]: "dec_text (enc_text s) = s"
proof -
  have "splitc CHR ''-'' (join ''-'' ('''' # map (\<lambda>c. show_nat (byte_of c)) s)) = '''' # map (\<lambda>c. show_nat (byte_of c)) s"
    by (rule splitc_join) (auto simp: show_nat_no_sign)
  then show ?thesis by (simp add: dec_text_def enc_text_def comp_def)
qed

lemma read_show_int [simp]: "read_int (show_int i) = i"
proof (cases "i < 0")
  case False
  obtain c t where "show_nat (nat i) = c # t" by (cases "show_nat (nat i)") auto
  moreover from this have "c \<noteq> CHR ''-''" using show_nat_no_sign(1) [of "nat i"] by auto
  ultimately show ?thesis using False nat_of_digits_show_nat [of "nat i"] by (simp add: read_int_def show_int_def)
qed (simp add: read_int_def show_int_def)

lemma show_int_not_Nil [simp]: "show_int i \<noteq> []"
  by (simp add: show_int_def)

lemma dec_enc_date [simp]: "dec_date (enc_date d) = d"
  by (cases d) (simp_all add: dec_date_def)

lemma dec_enc_claims [simp]: "dec_claims (enc_claims c) = Some c"
  by (simp add: enc_claims_def)

lemma enc_no_dot: "CHR ''.'' \<notin> set (enc_text s)" "CHR ''.'' \<notin> set (show_int i)" "CHR ''.'' \<notin> set (enc_date d)"
  "CHR ''.'' \<notin> set (enc_alg alg)"
proof -
  show "CHR ''.'' \<notin> set (enc_text s)"
    using set_join [of "''-''" "'''' # map (\<lambda>c. show_nat (byte_of c)) s"] by (auto simp: enc_text_def show_nat_no_sign)
  show i: "CHR ''.'' \<notin> set (show_int i)" for i by (simp add: show_int_def show_nat_no_sign)
  show "CHR ''.'' \<notin> set (enc_date d)" by (cases d) (simp_all add: i)
  show "CHR ''.'' \<notin> set (enc_alg alg)" by (cases alg) simp_all
qed

lemma splitc_ref_sign:
  assumes "ref_sign alg key c = Inr tok"
  shows "is_hmac alg \<and> splitc CHR ''.'' tok = enc_alg alg # enc_text key # enc_claims c"
proof -
  have "splitc CHR ''.'' (join ''.'' (enc_alg alg # enc_text key # enc_claims c)) = enc_alg alg # enc_text key # enc_claims c"
    by (rule splitc_join) (simp_all add: enc_claims_def enc_no_dot)
  then show ?thesis using assms by (auto simp: ref_sign_def split: if_splits)
qed

lemma ref_parse_signed:
  assumes "ref_sign alg key c = Inr tok" "kf alg = Inr key" "cl_ExpiresAt c = Some t"
  shows "ref_parse now tok kf = (if t \<le> now then Inl (wrapl ''token has invalid claims'' ref_expired) else Inr (c, True))"
  using splitc_ref_sign [OF assms(1)] assms(2,3)
  by (cases alg) (simp_all add: ref_parse_def ref_verify_def)

lemma ref_parse_sound:
  assumes "ref_parse now tok kf = Inr (c, valid)"
  shows "(\<exists>alg key. kf alg = Inr key \<and> ref_verify alg key tok) \<and> (\<forall>t. cl_ExpiresAt c = Some t \<longrightarrow> now < t)"
  using assms unfolding ref_parse_def
  by (auto split: option.splits sum.splits if_splits)

interpretation reference: jwt_library ref_jwt
proof
  fix alg key c tok t and now :: int and kf :: "jwt_alg \<Rightarrow> (gerr, string) result"
  assume s: "jw_Sign ref_jwt alg key c = Inr tok"
  then show "jw_Verify ref_jwt alg key tok" using splitc_ref_sign by (simp add: ref_jwt_def ref_verify_def)
  assume k: "kf alg = Inr key" and e: "cl_ExpiresAt c = Some t"
  have *: "ref_parse now tok kf = (if t \<le> now then Inl (wrapl ''token has invalid claims'' ref_expired) else Inr (c, True))"
    using ref_parse_signed [of alg key c tok kf t] s k e by (simp add: ref_jwt_def)
  show "jw_Parse ref_jwt now tok kf = Inr (c, True)" if "now < t" using * that by (simp add: ref_jwt_def)
  show "\<exists>err. jw_Parse ref_jwt now tok kf = Inl err \<and> errors_is err (jw_ErrTokenExpired ref_jwt)" if "t \<le> now"
    using * that by (simp add: ref_jwt_def wrapl_def ref_expired_def)
next
  fix now tok kf c valid
  assume "jw_Parse ref_jwt now tok kf = Inr (c, valid)"
  then show "(\<exists>alg key. kf alg = Inr key \<and> jw_Verify ref_jwt alg key tok) \<and> (\<forall>t. cl_ExpiresAt c = Some t \<longrightarrow> now < t)"
    using ref_parse_sound by (simp add: ref_jwt_def)
qed (simp_all add: ref_jwt_def ref_sign_def)

subsection \<open>Properties\<close>

text \<open>C32: A token the manager issues is accepted by the manager until it expires and refused as expired from
  then on. With any library that keeps its documented laws and a configured lifetime that does not
  overflow the nanosecond duration, \<open>GenerateAccessToken\<close> and \<open>GenerateRefreshToken\<close> succeed; until the whole second in which
  the lifetime ends \<open>ParseToken\<close> gives back exactly the user, the subject and the kind of token, and afterwards it
  returns the expiry error.\<close>

theorem token_lifetime:
  assumes "jwt_library lib" "NewJWTManagerFromConfig cfg = Some m" "int64 userID" "0 \<le> now"
    and "0 < jwt_AccessTokenTTL cfg" "jwt_AccessTokenTTL cfg \<le> 9223372036"
    and "0 < jwt_RefreshTokenTTL cfg" "jwt_RefreshTokenTTL cfg \<le> 9223372036"
    and "now < 2 ^ 62"
  shows "\<exists>access refresh. GenerateAccessToken lib m now userID = Inr access \<and> GenerateRefreshToken lib m now userID = Inr refresh \<and>
    (\<forall>later.
       (let stop = now + jwt_AccessTokenTTL cfg * 1000000000; stop_s = stop - stop mod 1000000000 in
        ParseToken lib m later access =
          (if later < stop_s
           then Inr \<lparr>cl_UserID = userID, cl_Subject = ''user'', cl_TokenType = ''access'', cl_Issuer = ''app-tpl'',
                     cl_IssuedAt = Some (now - now mod 1000000000), cl_ExpiresAt = Some stop_s\<rparr>
           else Inl (jw_ErrTokenExpired lib))) \<and>
       (let stop = now + jwt_RefreshTokenTTL cfg * 1000000000; stop_s = stop - stop mod 1000000000 in
        ParseToken lib m later refresh =
          (if later < stop_s
           then Inr \<lparr>cl_UserID = userID, cl_Subject = ''user'', cl_TokenType = ''refresh'', cl_Issuer = ''app-tpl'',
                     cl_IssuedAt = Some (now - now mod 1000000000), cl_ExpiresAt = Some stop_s\<rparr>
           else Inl (jw_ErrTokenExpired lib))))"
proof -
  have w: "wrap64 (n * 1000000000) = n * 1000000000" if "0 < n" "n \<le> 9223372036" for n :: int
    using that by (intro wrap64_id) (simp add: int64_def MinInt64_def MaxInt64_def)
  have m: "m = \<lparr>jm_secret = jwt_Secret cfg, jm_accessTokenTTL = jwt_AccessTokenTTL cfg * 1000000000,
      jm_refreshTokenTTL = jwt_RefreshTokenTTL cfg * 1000000000, jm_issuer = ''app-tpl''\<rparr>"
    using assms(2,5-8) by (auto simp: NewJWTManagerFromConfig_def NewJWTManager_def w split: if_splits)
  have a: "ascii ''user''" "ascii ''access''" "ascii ''refresh''" "ascii (jm_issuer m)" by (simp_all add: ascii_def m)
  note g = jwt_library.generated_roundtrip [OF assms(1,3) a(1) _ a(4) assms(4)]
  have 1: "\<exists>access. GenerateAccessToken lib m now userID = Inr access \<and> (\<forall>later. ParseToken lib m later access =
      (if later < now + jwt_AccessTokenTTL cfg * 1000000000 - (now + jwt_AccessTokenTTL cfg * 1000000000) mod 1000000000
       then Inr (token_claims lib m now userID ''user'' ''access'' (jwt_AccessTokenTTL cfg * 1000000000))
       else Inl (jw_ErrTokenExpired lib)))"
    using g [OF a(2), of "jwt_AccessTokenTTL cfg * 1000000000"] assms(5,6,9)
    by (simp add: GenerateAccessToken_def SubjectUser_def TokenTypeAccess_def m)
  have 2: "\<exists>refresh. GenerateRefreshToken lib m now userID = Inr refresh \<and> (\<forall>later. ParseToken lib m later refresh =
      (if later < now + jwt_RefreshTokenTTL cfg * 1000000000 - (now + jwt_RefreshTokenTTL cfg * 1000000000) mod 1000000000
       then Inr (token_claims lib m now userID ''user'' ''refresh'' (jwt_RefreshTokenTTL cfg * 1000000000))
       else Inl (jw_ErrTokenExpired lib)))"
    using g [OF a(3), of "jwt_RefreshTokenTTL cfg * 1000000000"] assms(7,8,9)
    by (simp add: GenerateRefreshToken_def SubjectUser_def TokenTypeRefresh_def m)
  have c: "token_claims lib m now userID sub tt ttl = \<lparr>cl_UserID = userID, cl_Subject = sub, cl_TokenType = tt, cl_Issuer = ''app-tpl'',
      cl_IssuedAt = Some (now - now mod 1000000000), cl_ExpiresAt = Some (now + ttl - (now + ttl) mod 1000000000)\<rparr>" for sub tt ttl
    by (simp add: token_claims_def jwt_library.date [OF assms(1)] m)
  from 1 2 show ?thesis unfolding c Let_def by blast
qed

definition demo_jwt :: JWTConfig where
  "demo_jwt = \<lparr>jwt_Secret = ''secret'', jwt_AccessTokenTTL = 60, jwt_RefreshTokenTTL = 600, jwt_SkipPaths = []\<rparr>"

lemma demo_manager: "NewJWTManagerFromConfig demo_jwt = Some (NewJWTManager ''secret'' 60 600)"
  by (simp add: demo_jwt_def NewJWTManagerFromConfig_def)

theorem token_lifetime_witness:
  "\<exists>access. GenerateAccessToken ref_jwt (NewJWTManager ''secret'' 60 600) 0 7 = Inr access \<and>
     ParseToken ref_jwt (NewJWTManager ''secret'' 60 600) 60000000000 access = Inl ref_expired"
proof -
  have "\<exists>access refresh. GenerateAccessToken ref_jwt (NewJWTManager ''secret'' 60 600) 0 7 = Inr access \<and>
    (\<forall>later \<ge> 60000000000. ParseToken ref_jwt (NewJWTManager ''secret'' 60 600) later access = Inl (jw_ErrTokenExpired ref_jwt))"
    using token_lifetime [OF reference.jwt_library_axioms demo_manager, of 7 0]
    by (auto simp: demo_jwt_def int64_def MinInt64_def MaxInt64_def)
  then show ?thesis by (auto simp: ref_jwt_def)
qed

end
