(* ===== verification/Http_Middleware.thy ===== *)
theory Http_Middleware
  imports Auth Errcode
begin

section \<open>HTTP middleware\<close>

text \<open>
  The authentication and rate limit middleware of \<^verbatim>\<open>internal/middleware/http\<close>, the paths and groups of
  \<^verbatim>\<open>internal/router\<close>, and the order in which \<^verbatim>\<open>internal/server/http.go\<close> chains them. A middleware maps the request context and the
  rate limit store to a response when it aborts, or \<open>None\<close> when it calls the next one. The locale
  \<open>request_filter\<close> is what all of them keep: the request itself is never changed, and claims appear in the
  context only from the request's own bearer token.
\<close>

subsection \<open>Requests and chains\<close>

record gctx =
  gx_FullPath :: string
  gx_Path :: string
  gx_Method :: string
  gx_ClientIP :: string
  gx_Headers :: "string \<Rightarrow> string"
  gx_Now :: int
  gx_Claims :: "Claims option"
  gx_Out :: "(string \<times> string) list"

type_synonym reply = "int \<times> unit Response"
type_synonym 's middleware = "gctx \<Rightarrow> 's \<Rightarrow> reply option \<times> gctx \<times> 's"

text \<open>\<open>run_chain\<close> is the loop of \<^verbatim>\<open>gin.Context.Next\<close> over handlers that either abort or go on.\<close>

fun run_chain :: "'s middleware list \<Rightarrow> 's middleware" where
  "run_chain [] c s = (None, c, s)"
| "run_chain (mw # mws) c s = (case mw c s of (None, c', s') \<Rightarrow> run_chain mws c' s' | (Some r, c', s') \<Rightarrow> (Some r, c', s'))"

text \<open>\<open>response.Error\<close> followed by \<open>Abort\<close>; \<open>sc\<close> is the setting that shows causes.\<close>

definition abort_with :: "bool \<Rightarrow> gerr \<Rightarrow> 's middleware" where
  "abort_with sc err c s = (Some (Error sc (Some err)), c, s)"

subsection \<open>Authentication\<close>

text \<open>The token of a header \<^verbatim>\<open>Bearer <token>\<close>, split at the first blank.\<close>

definition bearer :: "string \<Rightarrow> string option" where
  "bearer h =
     (case index_byte h CHR '' '' of
        None \<Rightarrow> None
      | Some i \<Rightarrow> if equal_fold (take i h) ''Bearer'' then Some (drop (Suc i) h) else None)"

fun pathSkipped :: "string \<Rightarrow> string \<Rightarrow> string list \<Rightarrow> bool" where
  "pathSkipped fullPath reqPath [] = False"
| "pathSkipped fullPath reqPath (p # ps) =
     (if p = '''' then pathSkipped fullPath reqPath ps
      else if p = fullPath \<or> p = reqPath then True
      else (case index_byte p CHR ''*'' of
              Some i \<Rightarrow> if has_prefix fullPath (take i p) \<or> has_prefix reqPath (take i p) then True
                        else pathSkipped fullPath reqPath ps
            | None \<Rightarrow> if has_suffix p ''/'' \<and> (has_prefix fullPath p \<or> has_prefix reqPath p) then True
                      else pathSkipped fullPath reqPath ps))"

definition missing_header :: string where
  "missing_header = utf8 [0x7F3A, 0x5C11] @ ''Authorization'' @ utf8 [0x5934]"

definition malformed_header :: string where
  "malformed_header = ''Authorization'' @ utf8 [0x5934, 0x683C, 0x5F0F, 0x9519, 0x8BEF, 0xFF0C, 0x5E94, 0x4E3A] @ '' Bearer <token>''"

definition unauthenticated :: string where "unauthenticated = utf8 [0x672A, 0x8BA4, 0x8BC1]"

definition bad_service_key :: string where
  "bad_service_key = utf8 [0x65E0, 0x6548, 0x7684, 0x5185, 0x90E8, 0x670D, 0x52A1, 0x5BC6, 0x94A5]"

definition JWTAuth :: "jwt_lib \<Rightarrow> bool \<Rightarrow> JWTManager \<Rightarrow> string list \<Rightarrow> 's middleware" where
  "JWTAuth lib sc manager skipPaths c s =
     (let authHeader = gx_Headers c ''Authorization''
      in if pathSkipped (gx_FullPath c) (gx_Path c) skipPaths
         then (case bearer authHeader of
                 None \<Rightarrow> (None, c, s)
               | Some tok \<Rightarrow>
                   (case ParseToken lib manager (gx_Now c) tok of
                      Inl err \<Rightarrow> (None, c, s)
                    | Inr claims \<Rightarrow> (None, c\<lparr>gx_Claims := Some claims\<rparr>, s)))
         else if authHeader = '''' then abort_with sc (WithMessage AuthFailed missing_header) c s
         else (case bearer authHeader of
                 None \<Rightarrow> abort_with sc (WithMessage AuthFailed malformed_header) c s
               | Some tok \<Rightarrow>
                   (case ParseToken lib manager (gx_Now c) tok of
                      Inl err \<Rightarrow> abort_with sc (if errors_is err (jw_ErrTokenExpired lib) then TokenExpired else InvalidToken) c s
                    | Inr claims \<Rightarrow> (None, c\<lparr>gx_Claims := Some claims\<rparr>, s))))"

definition GetClaims :: "gctx \<Rightarrow> Claims option" where
  "GetClaims c = gx_Claims c"

definition RequireAuth :: "bool \<Rightarrow> 's middleware" where
  "RequireAuth sc c s =
     (case GetClaims c of
        None \<Rightarrow> abort_with sc (WithMessage AuthFailed unauthenticated) c s
      | Some claims \<Rightarrow> if cl_TokenType claims \<noteq> TokenTypeAccess then abort_with sc InvalidToken c s else (None, c, s))"

definition RequireSuperAdmin :: "bool \<Rightarrow> (gctx \<Rightarrow> int \<Rightarrow> gerr option) \<Rightarrow> 's middleware" where
  "RequireSuperAdmin sc check c s =
     (case GetClaims c of
        None \<Rightarrow> abort_with sc (WithMessage AuthFailed unauthenticated) c s
      | Some claims \<Rightarrow>
          if cl_TokenType claims \<noteq> TokenTypeAccess then abort_with sc InvalidToken c s
          else (case check c (cl_UserID claims) of Some err \<Rightarrow> abort_with sc err c s | None \<Rightarrow> (None, c, s)))"

definition internalServiceKeyHeader :: string where "internalServiceKeyHeader = ''X-Internal-Service-Key''"

definition InternalServiceAuth :: "bool \<Rightarrow> string \<Rightarrow> 's middleware" where
  "InternalServiceAuth sc serviceKey c s =
     (if serviceKey \<noteq> '''' then
        if gx_Headers c internalServiceKeyHeader \<noteq> serviceKey then abort_with sc (WithMessage AuthFailed bad_service_key) c s
        else (None, c, s)
      else RequireAuth sc c s)"

subsection \<open>Rate limit stores\<close>

text \<open>\<open>Allow\<close>: allowed, remaining, reset time, error; the store's state is the last argument.\<close>

type_synonym 's RateLimitStore = "int \<Rightarrow> string \<Rightarrow> int \<Rightarrow> 's \<Rightarrow> (bool \<times> int \<times> int \<times> gerr option) \<times> 's"

text \<open>The token buckets of \<^verbatim>\<open>golang.org/x/time/rate\<close> and the LRU cache are libraries. The cache holds pointers
  to the limiters: addresses into the list \<open>ms_heap\<close>.\<close>

record ('l, 'r) rate_lib =
  ra_NewLimiter :: "int \<Rightarrow> int \<Rightarrow> 'l"
  ra_Reserve :: "int \<Rightarrow> 'l \<Rightarrow> 'r \<times> 'l"
  ra_OK :: "'r \<Rightarrow> bool"
  ra_Delay :: "int \<Rightarrow> 'r \<Rightarrow> int"
  ra_Cancel :: "int \<Rightarrow> 'r \<Rightarrow> 'l \<Rightarrow> 'l"
  ra_Tokens :: "int \<Rightarrow> 'l \<Rightarrow> int"

record 'c lru_lib =
  lru_New :: "int \<Rightarrow> (gerr, 'c) result"
  lru_Get :: "string \<Rightarrow> 'c \<Rightarrow> nat option \<times> 'c"
  lru_Add :: "string \<Rightarrow> nat \<Rightarrow> 'c \<Rightarrow> 'c"

record ('c, 'l) MemoryRateLimitStore =
  ms_cache :: 'c
  ms_heap :: "'l list"

definition NewMemoryRateLimitStore :: "'c lru_lib \<Rightarrow> int \<Rightarrow> (gerr, ('c, 'l) MemoryRateLimitStore) result" where
  "NewMemoryRateLimitStore lru maxKeys =
     (case lru_New lru (if maxKeys \<le> 0 then 10000 else maxKeys) of
        Inl err \<Rightarrow> Inl (Errorf (''failed to create LRU cache: '' @ error_text err) [])
      | Inr cache \<Rightarrow> Inr \<lparr>ms_cache = cache, ms_heap = []\<rparr>)"

definition getLimiter ::
  "('l, 'r) rate_lib \<Rightarrow> 'c lru_lib \<Rightarrow> string \<Rightarrow> int \<Rightarrow> ('c, 'l) MemoryRateLimitStore \<Rightarrow> nat \<times> ('c, 'l) MemoryRateLimitStore" where
  "getLimiter ra lru key rps s =
     (case lru_Get lru key (ms_cache s) of
        (Some l, cache) \<Rightarrow> (l, s\<lparr>ms_cache := cache\<rparr>)
      | (None, cache) \<Rightarrow>
          (case lru_Get lru key cache of
             (Some l, cache') \<Rightarrow> (l, s\<lparr>ms_cache := cache'\<rparr>)
           | (None, cache') \<Rightarrow>
               (length (ms_heap s),
                s\<lparr>ms_cache := lru_Add lru key (length (ms_heap s)) cache', ms_heap := ms_heap s @ [ra_NewLimiter ra rps rps]\<rparr>)))"

definition memory_Allow ::
  "('l, 'r) rate_lib \<Rightarrow> 'c lru_lib \<Rightarrow> ('c, 'l) MemoryRateLimitStore RateLimitStore" where
  "memory_Allow ra lru now key rps s =
     (let (l, s1) = getLimiter ra lru key rps s;
          (reservation, lim) = ra_Reserve ra now (ms_heap s1 ! l);
          s2 = s1\<lparr>ms_heap := (ms_heap s1)[l := lim]\<rparr>
      in if \<not> ra_OK ra reservation then ((False, 0, ra_Delay ra now reservation, None), s2)
         else if ra_Delay ra now reservation > 0
         then ((False, 0, ra_Delay ra now reservation, None), s2\<lparr>ms_heap := (ms_heap s2)[l := ra_Cancel ra now reservation lim]\<rparr>)
         else ((True, max 0 (ra_Tokens ra now lim), 0, None), s2))"

text \<open>The store in Redis: \<open>rr\<close> is the \<open>Allow\<close> of \<^verbatim>\<open>redis_rate\<close>, with the fields \<open>Allowed\<close>, \<open>Remaining\<close> and
  \<open>ResetAfter\<close> of its result.\<close>

definition redis_Allow ::
  "(int \<Rightarrow> string \<Rightarrow> int \<Rightarrow> 's \<Rightarrow> (gerr, int \<times> int \<times> int) result \<times> 's) \<Rightarrow> 's RateLimitStore" where
  "redis_Allow rr now key rps s =
     (case rr now key rps s of
        (Inl err, s') \<Rightarrow> ((True, 0, 0, Some err), s')
      | (Inr (allowed, remaining, resetAfter), s') \<Rightarrow> ((allowed > 0, remaining, resetAfter, None), s'))"

subsection \<open>Rate limits\<close>

record mw_RateLimitConfig =
  rlc_Enabled :: bool
  rlc_GlobalRPS :: int
  rlc_IPRPS :: int
  rlc_UserRPS :: int
  rlc_SkipPaths :: "string list"

definition DefaultRateLimitConfig :: mw_RateLimitConfig where
  "DefaultRateLimitConfig = \<lparr>rlc_Enabled = True, rlc_GlobalRPS = 10000, rlc_IPRPS = 100, rlc_UserRPS = 50, rlc_SkipPaths = []\<rparr>"

definition checkLimit :: "'s RateLimitStore \<Rightarrow> int \<Rightarrow> string \<Rightarrow> int \<Rightarrow> 's \<Rightarrow> (bool \<times> int \<times> int) \<times> 's" where
  "checkLimit store now key rps s =
     (case store now key rps s of
        ((allowed, remaining, resetAfter, Some err), s') \<Rightarrow> ((True, 0, 0), s')
      | ((allowed, remaining, resetAfter, None), s') \<Rightarrow> ((allowed, remaining, resetAfter), s'))"

definition setRateLimitHeaders :: "int \<Rightarrow> int \<Rightarrow> int \<Rightarrow> gctx \<Rightarrow> gctx" where
  "setRateLimitHeaders limit remaining resetAfter c =
     c\<lparr>gx_Out := gx_Out c @
         [(''X-RateLimit-Limit'', show_int limit), (''X-RateLimit-Remaining'', show_int remaining),
          (''X-RateLimit-Reset'', show_int ((gx_Now c + resetAfter) div 1000000000))] @
         (if remaining = 0 then [(''Retry-After'', show_int (go_div (resetAfter + 1000000000) 1000000000))] else [])\<rparr>"

text \<open>The three lines of a layer that refuses.\<close>

definition too_many :: "bool \<Rightarrow> int \<Rightarrow> int \<Rightarrow> int \<Rightarrow> 's middleware" where
  "too_many sc limit remaining resetAfter c s =
     abort_with sc TooManyRequests (setRateLimitHeaders limit remaining resetAfter c) s"

definition RateLimit :: "bool \<Rightarrow> 's RateLimitStore \<Rightarrow> mw_RateLimitConfig \<Rightarrow> 's middleware" where
  "RateLimit sc store cfg c s =
     (if \<not> rlc_Enabled cfg then (None, c, s)
      else if gx_FullPath c \<in> set (rlc_SkipPaths cfg) then (None, c, s)
      else
        (let ((ok1, rem1, reset1), s1) =
               (if rlc_GlobalRPS cfg > 0 then checkLimit store (gx_Now c) ''global'' (rlc_GlobalRPS cfg) s else ((True, 0, 0), s))
         in if \<not> ok1 then too_many sc (rlc_GlobalRPS cfg) rem1 reset1 c s1
            else
              (let ((ok2, rem2, reset2), s2) =
                     (if rlc_IPRPS cfg > 0 then checkLimit store (gx_Now c) (''ip:'' @ gx_ClientIP c) (rlc_IPRPS cfg) s1
                      else ((True, 0, 0), s1))
               in if \<not> ok2 then too_many sc (rlc_IPRPS cfg) rem2 reset2 c s2
                  else if rlc_UserRPS cfg > 0 then
                    (case GetClaims c of
                       None \<Rightarrow> (None, c, s2)
                     | Some claims \<Rightarrow>
                         (let ((ok3, rem3, reset3), s3) =
                                checkLimit store (gx_Now c) (''user:'' @ show_int (cl_UserID claims)) (rlc_UserRPS cfg) s2
                          in if \<not> ok3 then too_many sc (rlc_UserRPS cfg) rem3 reset3 c s3 else (None, c, s3)))
                  else (None, c, s2))))"

definition RouteRateLimit :: "bool \<Rightarrow> 's RateLimitStore \<Rightarrow> int \<Rightarrow> 's middleware" where
  "RouteRateLimit sc store rps c s =
     (let ((ok, remaining, reset), s') =
            checkLimit store (gx_Now c) (''route:'' @ gx_Method c @ '':'' @ gx_FullPath c) rps s
      in if \<not> ok then too_many sc rps remaining reset c s' else (None, c, s'))"

subsection \<open>Other headers\<close>

definition SecurityHeaders :: "'s middleware" where
  "SecurityHeaders c s =
     (if has_prefix (gx_Path c) ''/swagger'' then (None, c, s)
      else (None, c\<lparr>gx_Out := gx_Out c @
        [(''X-Content-Type-Options'', ''nosniff''), (''X-Frame-Options'', ''DENY''),
         (''Referrer-Policy'', ''strict-origin-when-cross-origin''), (''X-XSS-Protection'', ''0''),
         (''Content-Security-Policy'', ''default-src '' @ [CHR 0x27] @ ''none'' @ [CHR 0x27] @ ''; frame-ancestors '' @ [CHR 0x27] @ ''none'' @ [CHR 0x27]),
         (''Permissions-Policy'', ''camera=(), microphone=(), geolocation=()'')]\<rparr>, s))"

text \<open>\<open>rfc3339\<close> formats the date.\<close>

definition Deprecated :: "(int \<Rightarrow> string) \<Rightarrow> int \<Rightarrow> string \<Rightarrow> 's middleware" where
  "Deprecated rfc3339 sunsetDate successorPath c s =
     (None, c\<lparr>gx_Out := gx_Out c @ [(''Deprecation'', ''true''), (''Sunset'', rfc3339 sunsetDate),
        (''Link'', ''<'' @ successorPath @ ''>; rel='' @ [CHR 0x22] @ ''successor-version'' @ [CHR 0x22])]\<rparr>, s)"

end
