(* ===== verification/Http_Router.thy ===== *)
theory Http_Router
  imports Http_Middleware
begin

section \<open>Routes and the middleware chain\<close>

text \<open>
  \<^verbatim>\<open>internal/router\<close> and the chain that \<^verbatim>\<open>NewHTTPServer\<close> (\<^verbatim>\<open>internal/server/http.go\<close>) puts before the routes. Of that chain
  the middleware of this repository is modelled; request ids, access log, panic recovery, CORS, body limit,
  compression, tracing and metrics are third-party handlers that do not touch what is stated here.
\<close>

subsection \<open>Paths\<close>

definition PathHealth :: string where "PathHealth = ''/health''"
definition PathReadiness :: string where "PathReadiness = ''/readiness''"
definition PathLiveness :: string where "PathLiveness = ''/liveness''"
definition PathVersion :: string where "PathVersion = ''/version''"
definition PathClientV1 :: string where "PathClientV1 = ''/api/client/v1''"
definition PathClientV2 :: string where "PathClientV2 = ''/api/client/v2''"
definition PathAdminV1 :: string where "PathAdminV1 = ''/api/admin/v1''"
definition PathInternalV1 :: string where "PathInternalV1 = ''/api/internal/v1''"
definition PathSwagger :: string where "PathSwagger = ''/swagger/*any''"

lemmas path_defs = PathHealth_def PathReadiness_def PathLiveness_def PathVersion_def PathClientV1_def PathClientV2_def
  PathAdminV1_def PathInternalV1_def PathSwagger_def

definition SystemPaths :: "string list" where
  "SystemPaths = [PathHealth, PathReadiness, PathLiveness, PathVersion]"

definition RateLimitSkipPaths :: "string list" where
  "RateLimitSkipPaths = SystemPaths @ [PathSwagger]"

definition DefaultJWTSkipPaths :: "string list" where
  "DefaultJWTSkipPaths = SystemPaths @
     [PathSwagger, PathClientV1 @ ''/*'', PathClientV2 @ ''/*'', PathInternalV1 @ ''/*'', PathAdminV1 @ ''/auth/login'',
      PathClientV1 @ ''/auth/login'']"

definition add_path :: "string list \<Rightarrow> string \<Rightarrow> string list" where
  "add_path out p = (if p = '''' \<or> p \<in> set out then out else out @ [p])"

definition MergeJWTSkipPaths :: "string list \<Rightarrow> string list" where
  "MergeJWTSkipPaths configPaths =
     (if configPaths = [] then DefaultJWTSkipPaths
      else foldl add_path (foldl add_path [] DefaultJWTSkipPaths) configPaths)"

subsection \<open>Routes\<close>

text \<open>\<open>hd_Health\<close> and \<open>hd_User\<close>: whether the handler is set. A route carries the name of its handler.\<close>

record Handlers =
  hd_Health :: bool
  hd_User :: bool
  hd_InternalServiceKey :: string
  hd_RequireAdminAuth :: bool

definition handlers_validate :: "Handlers option \<Rightarrow> gerr option" where
  "handlers_validate h =
     (case h of
        None \<Rightarrow> Some (Errorf ''router: handlers is nil'' [])
      | Some hs \<Rightarrow> if \<not> hd_Health hs then Some (Errorf ''router: health handler is required'' [])
                   else if \<not> hd_User hs then Some (Errorf ''router: user handler is required'' [])
                   else None)"

definition NewHandlers :: "bool \<Rightarrow> bool \<Rightarrow> (gerr, Handlers) result" where
  "NewHandlers health user =
     (let h = \<lparr>hd_Health = health, hd_User = user, hd_InternalServiceKey = '''', hd_RequireAdminAuth = False\<rparr>
      in case handlers_validate (Some h) of Some err \<Rightarrow> Inl err | None \<Rightarrow> Inr h)"

record 's route =
  ro_Method :: string
  ro_Path :: string
  ro_Chain :: "'s middleware list"
  ro_Handler :: string

definition new_route :: "'s middleware list \<Rightarrow> string \<times> string \<times> string \<Rightarrow> 's route" where
  "new_route mws r = \<lparr>ro_Method = fst r, ro_Path = fst (snd r), ro_Chain = mws, ro_Handler = snd (snd r)\<rparr>"

definition registerSystemRoutes :: "'s route list" where
  "registerSystemRoutes = map (new_route [])
     [(''GET'', PathHealth, ''Health''), (''GET'', PathReadiness, ''Readiness''), (''GET'', PathLiveness, ''Liveness''),
      (''GET'', PathVersion, ''Version'')]"

definition registerClientRoutes :: "'s route list" where
  "registerClientRoutes = map (new_route [])
     [(''GET'', PathClientV1 @ ''/users/:id'', ''GetUser''), (''POST'', PathClientV1 @ ''/users'', ''CreateUser''),
      (''PUT'', PathClientV1 @ ''/users/:id'', ''UpdateUser''), (''DELETE'', PathClientV1 @ ''/users/:id'', ''DeleteUser''),
      (''GET'', PathClientV1 @ ''/users'', ''ListUsers'')]"

text \<open>The middleware of the admin group, which has no route yet, and of the internal group.\<close>

definition admin_chain :: "bool \<Rightarrow> Handlers \<Rightarrow> 's middleware list" where
  "admin_chain sc h = (if hd_RequireAdminAuth h then [RequireAuth sc] else [])"

definition registerAdminRoutes :: "bool \<Rightarrow> Handlers \<Rightarrow> (string \<times> string \<times> string) list \<Rightarrow> 's route list" where
  "registerAdminRoutes sc h added = map (new_route (admin_chain sc h)) added"

definition registerInternalRoutes :: "bool \<Rightarrow> Handlers \<Rightarrow> 's route list" where
  "registerInternalRoutes sc h = map (new_route [InternalServiceAuth sc (hd_InternalServiceKey h)])
     [(''GET'', PathInternalV1 @ ''/users/:id'', ''GetUser'')]"

definition RegisterRoutes :: "bool \<Rightarrow> Handlers option \<Rightarrow> (gerr, 's route list) result" where
  "RegisterRoutes sc h =
     (case (handlers_validate h, h) of
        (None, Some hs) \<Rightarrow>
          Inr (new_route [] (''GET'', PathSwagger, ''swagger'') # registerSystemRoutes @ registerClientRoutes @
               registerAdminRoutes sc hs [] @ registerInternalRoutes sc hs)
      | (Some err, _) \<Rightarrow> Inl err
      | (None, None) \<Rightarrow> Inr [])"

text \<open>\<open>wireHTTP\<close> sets the two options of the handlers.\<close>

definition wire_handlers :: "Config \<Rightarrow> JWTManager option \<Rightarrow> Handlers \<Rightarrow> Handlers" where
  "wire_handlers cfg jwt h =
     h\<lparr>hd_InternalServiceKey := http_InternalServiceKey (cfg_HTTP cfg), hd_RequireAdminAuth := (jwt \<noteq> None)\<rparr>"

subsection \<open>The chain\<close>

definition pick_store :: "RateLimitConfig \<Rightarrow> 's RateLimitStore option \<Rightarrow> 's RateLimitStore \<Rightarrow> 's RateLimitStore" where
  "pick_store cfg redis memory =
     (case redis of Some r \<Rightarrow> if rl_Store cfg = ''redis'' then r else memory | None \<Rightarrow> memory)"

definition http_chain ::
  "jwt_lib \<Rightarrow> bool \<Rightarrow> Config \<Rightarrow> JWTManager option \<Rightarrow> 's RateLimitStore option \<Rightarrow> 's RateLimitStore \<Rightarrow> 's middleware list" where
  "http_chain lib sc cfg jwt redis memory =
     [SecurityHeaders] @
     (case jwt of None \<Rightarrow> [] | Some m \<Rightarrow> [JWTAuth lib sc m (MergeJWTSkipPaths (jwt_SkipPaths (cfg_JWT cfg)))]) @
     (if rl_Enabled (cfg_RateLimit cfg)
      then [RateLimit sc (pick_store (cfg_RateLimit cfg) redis memory)
              \<lparr>rlc_Enabled = True, rlc_GlobalRPS = rl_GlobalRPS (cfg_RateLimit cfg), rlc_IPRPS = rl_IPRPS (cfg_RateLimit cfg),
               rlc_UserRPS = rl_UserRPS (cfg_RateLimit cfg), rlc_SkipPaths = RateLimitSkipPaths\<rparr>]
      else [])"

subsection \<open>What every middleware keeps\<close>

definition request :: "gctx \<Rightarrow> string \<times> string \<times> string \<times> string \<times> (string \<Rightarrow> string) \<times> int" where
  "request c = (gx_FullPath c, gx_Path c, gx_Method c, gx_ClientIP c, gx_Headers c, gx_Now c)"

locale claims_source =
  fixes source :: "gctx \<Rightarrow> Claims \<Rightarrow> bool"
  assumes source_request: "request c = request c' \<Longrightarrow> source c cl \<longleftrightarrow> source c' cl"

locale request_filter = claims_source source for source :: "gctx \<Rightarrow> Claims \<Rightarrow> bool" +
  fixes mw :: "'s middleware"
  assumes same_request: "mw c s = (r, c', s') \<Longrightarrow> request c' = request c"
    and claims_kept: "mw c s = (r, c', s') \<Longrightarrow> gx_Claims c' = gx_Claims c \<or> (\<exists>cl. gx_Claims c' = Some cl \<and> source c cl)"
begin

lemma owned:
  assumes "mw c s = (r, c', s')" "\<And>cl. gx_Claims c = Some cl \<Longrightarrow> source c cl" "gx_Claims c' = Some cl"
  shows "source c' cl"
  using claims_kept [OF assms(1)] assms(2,3) source_request [OF same_request [OF assms(1)]] by auto

end

lemma run_chain_filter:
  assumes "claims_source source" "\<forall>mw \<in> set mws. request_filter source mw"
  shows "request_filter source (run_chain mws)"
  using assms(2)
proof (induction mws)
  case Nil
  show ?case by (rule request_filter.intro [OF assms(1)]) (unfold_locales, auto)
next
  case (Cons mw mws)
  then have f: "request_filter source mw" and g: "request_filter source (run_chain mws)" by auto
  show ?case
  proof (rule request_filter.intro [OF assms(1)], rule request_filter_axioms.intro)
    fix c s r c' s'
    assume "run_chain (mw # mws) c s = (r, c', s')"
    then consider "mw c s = (r, c', s')" | c1 s1 where "mw c s = (None, c1, s1)" "run_chain mws c1 s1 = (r, c', s')"
      by (auto split: prod.splits option.splits)
    note cs = this
    show "request c' = request c"
      using cs request_filter.same_request [OF f] request_filter.same_request [OF g] by cases metis+
    show "gx_Claims c' = gx_Claims c \<or> (\<exists>cl. gx_Claims c' = Some cl \<and> source c cl)"
      using cs
    proof cases
      case 1
      then show ?thesis by (rule request_filter.claims_kept [OF f])
    next
      case 2
      then show ?thesis
        using request_filter.claims_kept [OF f 2(1)] request_filter.claims_kept [OF g 2(2)]
          claims_source.source_request [OF assms(1) request_filter.same_request [OF f 2(1)]] by auto
    qed
  qed
qed

lemma run_chain_append:
  "run_chain (xs @ ys) c s = (case run_chain xs c s of (None, c', s') \<Rightarrow> run_chain ys c' s' | (Some r, c', s') \<Rightarrow> (Some r, c', s'))"
  by (induction xs arbitrary: c s) (auto split: prod.splits option.splits)

text \<open>The claims that the request's own token stands for.\<close>

definition bearer_claims :: "jwt_lib \<Rightarrow> JWTManager option \<Rightarrow> gctx \<Rightarrow> Claims \<Rightarrow> bool" where
  "bearer_claims lib jwt c cl \<longleftrightarrow>
     (case (jwt, bearer (gx_Headers c ''Authorization'')) of
        (Some m, Some tok) \<Rightarrow> ParseToken lib m (gx_Now c) tok = Inr cl
      | _ \<Rightarrow> False)"

interpretation own_token: claims_source "bearer_claims lib jwt" for lib jwt
  by unfold_locales (simp add: request_def bearer_claims_def split: option.split)

lemma abort_with_simps [simp]: "abort_with sc err c s = (Some (Error sc (Some err)), c, s)"
  by (simp add: abort_with_def)

lemma too_many_simps [simp]: "too_many sc l rem reset c s = (Some (Error sc (Some TooManyRequests)), setRateLimitHeaders l rem reset c, s)"
  by (simp add: too_many_def)

lemma setRateLimitHeaders_keeps [simp]:
  "request (setRateLimitHeaders l rem reset c) = request c" "gx_Claims (setRateLimitHeaders l rem reset c) = gx_Claims c"
  by (simp_all add: setRateLimitHeaders_def request_def)

lemma request_claims [simp]: "request (c\<lparr>gx_Claims := x\<rparr>) = request c" "request (c\<lparr>gx_Out := y\<rparr>) = request c"
  by (simp_all add: request_def)

text \<open>A middleware that never touches the claims only has to keep the request.\<close>

lemma request_filterI:
  assumes "\<And>c s r c' s'. mw c s = (r, c', s') \<Longrightarrow> request c' = request c \<and> gx_Claims c' = gx_Claims c"
  shows "request_filter (bearer_claims lib jwt) mw"
  by (rule request_filter.intro [OF own_token.claims_source_axioms], rule request_filter_axioms.intro) (auto dest: assms)

lemma RequireAuth_keeps: "RequireAuth sc c s = (r, c', s') \<Longrightarrow> c' = c \<and> s' = s"
  by (auto simp: RequireAuth_def split: option.splits if_splits)

interpretation jwt_auth: request_filter "bearer_claims lib (Some m)" "JWTAuth lib sc m skipPaths" for lib m sc skipPaths
proof
  fix c s r c' s'
  assume "JWTAuth lib sc m skipPaths c s = (r, c', s')"
  then have "c' = c \<or> (\<exists>cl. c' = c\<lparr>gx_Claims := Some cl\<rparr> \<and> bearer_claims lib (Some m) c cl)"
    unfolding JWTAuth_def Let_def by (auto simp: bearer_claims_def split: option.splits sum.splits if_splits)
  then show "request c' = request c" and "gx_Claims c' = gx_Claims c \<or> (\<exists>cl. gx_Claims c' = Some cl \<and> bearer_claims lib (Some m) c cl)"
    by auto
qed

interpretation security: request_filter "bearer_claims lib jwt" SecurityHeaders for lib jwt
  by (rule request_filterI) (auto simp: SecurityHeaders_def split: if_splits)

interpretation require_auth: request_filter "bearer_claims lib jwt" "RequireAuth sc" for lib jwt sc
  by (rule request_filterI) (auto dest: RequireAuth_keeps)

interpretation service_key: request_filter "bearer_claims lib jwt" "InternalServiceAuth sc key" for lib jwt sc key
  by (rule request_filterI) (auto simp: InternalServiceAuth_def dest: RequireAuth_keeps split: if_splits)

interpretation route_limit: request_filter "bearer_claims lib jwt" "RouteRateLimit sc store rps" for lib jwt sc store rps
  by (rule request_filterI) (auto simp: RouteRateLimit_def Let_def split: prod.splits if_splits)

subsection \<open>Layers\<close>

text \<open>What the comment on \<open>RateLimit\<close> promises, as a list of layers that are consulted in order until one refuses.\<close>

definition rate_layers :: "mw_RateLimitConfig \<Rightarrow> gctx \<Rightarrow> (string \<times> int) list" where
  "rate_layers cfg c =
     filter (\<lambda>l. snd l > 0)
       ([(''global'', rlc_GlobalRPS cfg), (''ip:'' @ gx_ClientIP c, rlc_IPRPS cfg)] @
        (case GetClaims c of None \<Rightarrow> [] | Some cl \<Rightarrow> [(''user:'' @ show_int (cl_UserID cl), rlc_UserRPS cfg)]))"

fun consult :: "'s RateLimitStore \<Rightarrow> int \<Rightarrow> (string \<times> int) list \<Rightarrow> 's \<Rightarrow> (int \<times> int \<times> int) option \<times> 's" where
  "consult store now [] s = (None, s)"
| "consult store now ((key, rps) # ls) s =
     (case store now key rps s of
        ((allowed, remaining, resetAfter, err), s') \<Rightarrow>
          if allowed \<or> err \<noteq> None then consult store now ls s' else (Some (rps, remaining, resetAfter), s'))"

definition layered_limit :: "bool \<Rightarrow> 's RateLimitStore \<Rightarrow> mw_RateLimitConfig \<Rightarrow> 's middleware" where
  "layered_limit sc store cfg c s =
     (if \<not> rlc_Enabled cfg \<or> gx_FullPath c \<in> set (rlc_SkipPaths cfg) then (None, c, s)
      else case consult store (gx_Now c) (rate_layers cfg c) s of
             (None, s') \<Rightarrow> (None, c, s')
           | (Some (rps, remaining, resetAfter), s') \<Rightarrow>
               (Some (Error sc (Some TooManyRequests)), setRateLimitHeaders rps remaining resetAfter c, s'))"

lemma consult_Cons:
  "consult store now ((key, rps) # ls) s =
     (case checkLimit store now key rps s of
        ((True, remaining, resetAfter), s') \<Rightarrow> consult store now ls s'
      | ((False, remaining, resetAfter), s') \<Rightarrow> (Some (rps, remaining, resetAfter), s'))"
  by (auto simp: checkLimit_def split: prod.splits option.splits)

lemma RateLimit_layered: "RateLimit sc store cfg c s = layered_limit sc store cfg c s"
  unfolding RateLimit_def layered_limit_def rate_layers_def
  by (simp add: consult_Cons del: consult.simps(2) split: option.split prod.split bool.split)

lemma layered_limit_keeps:
  "layered_limit sc store cfg c s = (r, c', s') \<Longrightarrow> request c' = request c \<and> gx_Claims c' = gx_Claims c"
  by (auto simp: layered_limit_def split: if_splits prod.splits option.splits)

interpretation rate_limit: request_filter "bearer_claims lib jwt" "RateLimit sc store cfg" for lib jwt sc store cfg
  by (rule request_filterI) (auto simp: RateLimit_layered dest: layered_limit_keeps)

lemma http_chain_filter: "request_filter (bearer_claims lib jwt) (run_chain (http_chain lib sc cfg jwt redis memory))"
  by (rule run_chain_filter [OF own_token.claims_source_axioms])
    (auto simp: http_chain_def security.request_filter_axioms jwt_auth.request_filter_axioms rate_limit.request_filter_axioms
      split: option.splits)

lemma http_chain_claims:
  assumes "run_chain (http_chain lib sc cfg jwt redis memory) c s = (r, c', s')" "gx_Claims c = None" "gx_Claims c' = Some cl"
  shows "bearer_claims lib jwt c cl \<and> request c' = request c"
  using request_filter.claims_kept [OF http_chain_filter assms(1)] request_filter.same_request [OF http_chain_filter assms(1)]
    assms(2,3) by auto

subsection \<open>Skipped paths\<close>

lemma foldl_add_path:
  "distinct out \<Longrightarrow> distinct (foldl add_path out ps)" "set (foldl add_path out ps) = set out \<union> (set ps - {''''})"
  by (induction ps arbitrary: out) (auto simp: add_path_def)

lemma default_skip_paths: "distinct DefaultJWTSkipPaths" "'''' \<notin> set DefaultJWTSkipPaths"
  by (simp_all add: DefaultJWTSkipPaths_def SystemPaths_def path_defs)

lemma MergeJWTSkipPaths_spec:
  "distinct (MergeJWTSkipPaths ps)" "set (MergeJWTSkipPaths ps) = set DefaultJWTSkipPaths \<union> (set ps - {''''})"
  using default_skip_paths by (auto simp: MergeJWTSkipPaths_def foldl_add_path)

definition skip_pattern :: "string \<Rightarrow> string \<Rightarrow> bool" where
  "skip_pattern p path \<longleftrightarrow> p \<noteq> '''' \<and>
     (p = path \<or> (CHR ''*'' \<in> set p \<and> has_prefix path (takeWhile (\<lambda>c. c \<noteq> CHR ''*'') p)) \<or>
      (CHR ''*'' \<notin> set p \<and> has_suffix p ''/'' \<and> has_prefix path p))"

lemma take_index_byte: "index_byte s d = Some i \<Longrightarrow> take i s = takeWhile (\<lambda>c. c \<noteq> d) s \<and> d \<in> set s"
proof (induction s arbitrary: i)
  case (Cons c s)
  then show ?case by (cases i) (auto split: if_splits)
qed simp

lemma pathSkipped_Cons:
  "pathSkipped f q (p # ps) \<longleftrightarrow> skip_pattern p f \<or> skip_pattern p q \<or> pathSkipped f q ps"
proof (cases "index_byte p CHR ''*''")
  case None
  then have "CHR ''*'' \<notin> set p" by (simp add: index_byte_None)
  then show ?thesis using None by (auto simp: skip_pattern_def)
next
  case (Some i)
  from take_index_byte [OF Some] Some show ?thesis by (auto simp: skip_pattern_def)
qed

lemma pathSkipped_iff: "pathSkipped f q ps \<longleftrightarrow> (\<exists>p \<in> set ps. skip_pattern p f \<or> skip_pattern p q)"
  by (induction ps) (auto simp: pathSkipped_Cons simp del: pathSkipped.simps(2))

subsection \<open>Properties\<close>

text \<open>C31: Protected handlers run only with credentials. Whatever paths the configuration exempts from
  authentication, a request reaches a handler of the internal API only with the configured service key or, when
  none is configured, with an access token; and with a JWT secret configured it reaches a handler of the admin
  API only with an access token. An access token here is the request's own bearer token, whose signature
  verifies under the configured secret, which has not expired and which is not a refresh token.\<close>

theorem protected_routes_need_credentials:
  assumes "jwt_library lib" "gx_Claims c = None"
    and "h = wire_handlers cfg jwt h0"
    and "r \<in> set (registerInternalRoutes sc h) \<or> r \<in> set (registerAdminRoutes sc h added) \<and> jwt \<noteq> None"
    and "run_chain (http_chain lib sc cfg jwt redis memory @ ro_Chain r) c s = (None, c', s')"
  shows "(http_InternalServiceKey (cfg_HTTP cfg) \<noteq> '''' \<and> r \<in> set (registerInternalRoutes sc h) \<and>
       gx_Headers c ''X-Internal-Service-Key'' = http_InternalServiceKey (cfg_HTTP cfg)) \<or>
    (\<exists>m tok claims alg. jwt = Some m \<and> bearer (gx_Headers c ''Authorization'') = Some tok \<and>
       ParseToken lib m (gx_Now c) tok = Inr claims \<and> cl_TokenType claims = ''access'' \<and> gx_Claims c' = Some claims \<and>
       is_hmac alg \<and> jw_Verify lib alg (jm_secret m) tok \<and> (\<forall>t. cl_ExpiresAt claims = Some t \<longrightarrow> gx_Now c < t))"
proof -
  obtain c1 s1 where chain: "run_chain (http_chain lib sc cfg jwt redis memory) c s = (None, c1, s1)"
    and group: "run_chain (ro_Chain r) c1 s1 = (None, c', s')"
    using assms(5) by (auto simp: run_chain_append split: prod.splits option.splits)
  have req: "request c1 = request c" by (rule request_filter.same_request [OF http_chain_filter chain])
  let ?key = "http_InternalServiceKey (cfg_HTTP cfg)"
  have r: "ro_Chain r = [InternalServiceAuth sc ?key] \<and> r \<in> set (registerInternalRoutes sc h) \<or> ro_Chain r = [RequireAuth sc]"
    using assms(3,4) by (auto simp: registerInternalRoutes_def registerAdminRoutes_def new_route_def admin_chain_def wire_handlers_def)
  show ?thesis
  proof (cases "RequireAuth sc c1 s1 = (None, c', s')")
    case True
    then obtain claims where cl: "gx_Claims c1 = Some claims" "cl_TokenType claims = ''access''" "c' = c1"
      by (auto simp: RequireAuth_def GetClaims_def TokenTypeAccess_def split: option.splits if_splits)
    from http_chain_claims [OF chain assms(2) cl(1)] obtain m tok where
      m: "jwt = Some m" "bearer (gx_Headers c ''Authorization'') = Some tok" "ParseToken lib m (gx_Now c) tok = Inr claims"
      by (auto simp: bearer_claims_def split: option.splits)
    from jwt_library.ParseToken_sound [OF assms(1) m(3)] show ?thesis using m cl by blast
  next
    case False
    then have "InternalServiceAuth sc ?key c1 s1 = (None, c', s')" "r \<in> set (registerInternalRoutes sc h)"
      using r group by (auto split: prod.splits option.splits)
    with False show ?thesis using req
      by (auto simp: InternalServiceAuth_def internalServiceKeyHeader_def request_def split: if_splits)
  qed
qed

definition demo_request :: "string \<Rightarrow> gctx" where
  "demo_request auth = \<lparr>gx_FullPath = ''/api/internal/v1/users/:id'', gx_Path = ''/api/internal/v1/users/1'', gx_Method = ''GET'',
     gx_ClientIP = ''10.0.0.1'', gx_Headers = (\<lambda>k. if k = ''Authorization'' then auth else ''''), gx_Now = 0,
     gx_Claims = None, gx_Out = []\<rparr>"

abbreviation demo_manager :: JWTManager where "demo_manager \<equiv> NewJWTManager ''secret'' 60 600"

definition demo_store :: "unit RateLimitStore" where
  "demo_store now key rps s = ((True, 0, 0, None), s)"

text \<open>The internal API without a service key, called with a fresh access token.\<close>

theorem protected_routes_need_credentials_witness:
  "\<exists>tok c'. GenerateAccessToken ref_jwt demo_manager 0 7 = Inr tok \<and>
     run_chain (http_chain ref_jwt False demo_config (Some demo_manager) None demo_store @ [InternalServiceAuth False ''''])
       (demo_request (''Bearer '' @ tok)) () = (None, c', ()) \<and>
     (\<exists>claims. gx_Claims c' = Some claims \<and> cl_TokenType claims = ''access'')"
proof -
  define claims where "claims = token_claims ref_jwt demo_manager 0 7 ''user'' ''access'' 60000000000"
  obtain tok where tok: "GenerateAccessToken ref_jwt demo_manager 0 7 = Inr tok"
    and parse: "ParseToken ref_jwt demo_manager 0 tok = Inr claims"
    using reference.generated_roundtrip [of 7 "''user''" "''access''" demo_manager 0 60000000000]
    by (auto simp: int64_def MinInt64_def MaxInt64_def ascii_def NewJWTManager_def wrap64_def GenerateAccessToken_def
        SubjectUser_def TokenTypeAccess_def claims_def)
  let ?c = "demo_request (''Bearer '' @ tok)"
  let ?h = "wire_handlers demo_config (Some demo_manager) \<lparr>hd_Health = True, hd_User = True, hd_InternalServiceKey = '''', hd_RequireAdminAuth = False\<rparr>"
  let ?r = "new_route [InternalServiceAuth False ''''] (''GET'', PathInternalV1 @ ''/users/:id'', ''GetUser'') :: unit route"
  have b: "bearer (''Bearer '' @ tok) = Some tok" by (simp add: bearer_def)
  have key: "http_InternalServiceKey (cfg_HTTP demo_config) = ''''" by (simp add: demo_config_def)
  have skip: "pathSkipped ''/api/internal/v1/users/:id'' ''/api/internal/v1/users/1'' (MergeJWTSkipPaths (jwt_SkipPaths (cfg_JWT demo_config)))"
    unfolding pathSkipped_iff
    by (rule bexI [of _ "PathInternalV1 @ ''/*''"])
      (auto simp: skip_pattern_def MergeJWTSkipPaths_spec DefaultJWTSkipPaths_def PathInternalV1_def has_prefix_def)
  obtain c' where run: "run_chain (http_chain ref_jwt False demo_config (Some demo_manager) None demo_store @ ro_Chain ?r) ?c () = (None, c', ())"
    using skip b parse
    by (simp add: http_chain_def SecurityHeaders_def JWTAuth_def demo_request_def Let_def has_prefix_def new_route_def
        InternalServiceAuth_def RequireAuth_def GetClaims_def claims_def token_claims_def TokenTypeAccess_def demo_config_def)
  have r: "?r \<in> set (registerInternalRoutes False ?h)"
    by (simp add: registerInternalRoutes_def wire_handlers_def key)
  from protected_routes_need_credentials [OF reference.jwt_library_axioms _ refl disjI1 [OF r] run]
  have "\<exists>claims. gx_Claims c' = Some claims \<and> cl_TokenType claims = ''access''"
    by (auto simp: demo_request_def key)
  then show ?thesis using tok run by (auto simp: new_route_def)
qed

text \<open>C33: The rate limit middleware is the layered limit that it documents: the global layer, the layer of the client
  address and the layer of the authenticated user are consulted in this order as far as they are switched
  on, a store error counts as permission, the first refusal stops the request with status 429 and the
  headers of that layer, later layers are then not charged, and exempt paths charge none. No two layers share a key.\<close>

theorem rate_limit_layers:
  "RateLimit sc store cfg c s = layered_limit sc store cfg c s \<and> distinct (map fst (rate_layers cfg c)) \<and>
   fst (Error sc (Some TooManyRequests) :: reply) = 429"
  by (auto simp: RateLimit_layered rate_layers_def Error_def TooManyRequests_def split: option.split)

end
