(* ===== verification/Wiring.thy ===== *)
theory Wiring
  imports Http_Router Lifecycle
begin

section \<open>Wiring of the application\<close>

text \<open>
  \<open>New\<close> of \<^verbatim>\<open>internal/app/app.go\<close> and the wiring files \<^verbatim>\<open>infra.go\<close>, \<^verbatim>\<open>http.go\<close>, \<^verbatim>\<open>tcp.go\<close>,
  \<^verbatim>\<open>udp.go\<close> and \<^verbatim>\<open>scheduler.go\<close>, with the construction of the HTTP server in \<^verbatim>\<open>internal/server/http.go\<close>. The world
  is the list of the resources opened and closed so far. Whether a constructor fails, and with what, is given by \<open>wire_env\<close>; the
  other components are described in their own theories.
\<close>

subsection \<open>HTTP server\<close>

record HTTPServer =
  hs_server :: bool
  hs_addr :: string
  hs_enabled :: bool
  hs_tls :: bool
  hs_certFile :: string
  hs_keyFile :: string
  hs_ReadTimeout :: int
  hs_WriteTimeout :: int
  hs_MinVersion :: "nat option"
  hs_chain :: "string list"

text \<open>The middleware in the order of \<open>Use\<close>; the metrics endpoint is registered in between and sees only those before it.\<close>

definition server_chain :: "Config \<Rightarrow> JWTManager option \<Rightarrow> string list" where
  "server_chain cfg jwt =
     [''RequestID'', ''SecurityHeaders'', ''Logger'', ''Recovery'', ''CORS'', ''BodySizeLimit''] @
     (if met_Enabled (cfg_Metrics cfg) then [''metrics endpoint''] else []) @
     [''Compress''] @
     (if tr_Enabled (cfg_Tracing cfg) then [''tracing'', ''InjectTraceID''] else []) @
     (if met_Enabled (cfg_Metrics cfg) then [''metrics''] else []) @
     (if jwt \<noteq> None then [''JWTAuth''] else []) @
     (if rl_Enabled (cfg_RateLimit cfg) then [''RateLimit''] else [])"

definition VersionTLS12 :: nat where "VersionTLS12 = 0x303"
definition VersionTLS13 :: nat where "VersionTLS13 = 0x304"

definition NewHTTPServer :: "Config \<Rightarrow> Handlers option \<Rightarrow> JWTManager option \<Rightarrow> (gerr, HTTPServer) result" where
  "NewHTTPServer cfg h jwt =
     (let c = cfg_HTTP cfg;
          s = \<lparr>hs_server = False, hs_addr = '''', hs_enabled = http_Enabled c, hs_tls = False, hs_certFile = '''', hs_keyFile = '''',
               hs_ReadTimeout = 0, hs_WriteTimeout = 0, hs_MinVersion = None, hs_chain = []\<rparr>
      in if \<not> http_Enabled c then Inr s
         else case (RegisterRoutes False h :: (gerr, unit route list) result) of
           Inl err \<Rightarrow> Inl (wrapl ''register routes'' err)
         | Inr _ \<Rightarrow>
             let tls = tls_Enabled (http_TLS c) in
             Inr (s\<lparr>hs_server := True, hs_addr := addrOf (http_Host c) (http_Port c), hs_tls := tls,
                    hs_certFile := (if tls then tls_CertFile (http_TLS c) else ''''),
                    hs_keyFile := (if tls then tls_KeyFile (http_TLS c) else ''''),
                    hs_ReadTimeout := wrap64 (http_ReadTimeout c * 1000000000), hs_WriteTimeout := wrap64 (http_WriteTimeout c * 1000000000),
                    hs_MinVersion := (if tls then Some (if tls_MinVersion (http_TLS c) = ''1.2'' then VersionTLS12 else VersionTLS13) else None),
                    hs_chain := server_chain cfg jwt\<rparr>))"

text \<open>Which way of serving \<open>Serve\<close> takes, and whether \<open>Shutdown\<close> reaches the server.\<close>

datatype serve_mode = NoServe | Plain | WithTLS string string

definition Serve :: "HTTPServer \<Rightarrow> serve_mode" where
  "Serve s = (if \<not> hs_enabled s \<or> \<not> hs_server s then NoServe
              else if hs_tls s then WithTLS (hs_certFile s) (hs_keyFile s) else Plain)"

definition http_Shutdown :: "gerr option \<Rightarrow> HTTPServer \<Rightarrow> gerr option" where
  "http_Shutdown server_result s = (if \<not> hs_enabled s \<or> \<not> hs_server s then None else server_result)"

subsection \<open>Resources\<close>

datatype resource = RDatabase | RRedis | RCache | REventBus | RTracer | RScheduler | RChat

datatype wire_event = Opened resource | Started resource bool | Closed resource bool

record wire_env =
  we_logger :: "gerr option"
  we_database :: "gerr option"
  we_redis_ping :: "gerr option"
  we_cache :: "gerr option"
  we_tracer :: "gerr option"
  we_sched_start :: "wire_event list \<Rightarrow> gerr option"
  we_close :: "resource \<Rightarrow> wire_event list \<Rightarrow> gerr option"

record Wired =
  wd_app :: "wire_event list App"
  wd_showCause :: bool
  wd_jwt :: "JWTManager option"
  wd_redis :: bool
  wd_leaderLock :: bool
  wd_http :: "HTTPServer option"
  wd_handlers :: "Handlers option"
  wd_tcp :: bool
  wd_udp :: bool

definition empty_wired :: Wired where
  "empty_wired = \<lparr>wd_app = \<lparr>a_hooks = [], a_started = [], a_stopped = [], a_world = []\<rparr>, wd_showCause = False, wd_jwt = None, wd_redis = False,
     wd_leaderLock = False, wd_http = None, wd_handlers = None, wd_tcp = False, wd_udp = False\<rparr>"

definition stop_hook :: "wire_env \<Rightarrow> string \<Rightarrow> resource \<Rightarrow> wire_event list Hook" where
  "stop_hook env name r =
     \<lparr>hk_Name = name, hk_OnStart = None, hk_OnStop = Some (\<lambda>w. (we_close env r w, w @ [Closed r (we_close env r w = None)]))\<rparr>"

text \<open>A constructor succeeds and its hook is registered.\<close>

definition open_with :: "wire_event list Hook \<Rightarrow> resource \<Rightarrow> Wired \<Rightarrow> Wired" where
  "open_with h r a = a\<lparr>wd_app := addHook ((wd_app a)\<lparr>a_world := a_world (wd_app a) @ [Opened r]\<rparr>) h\<rparr>"

definition schedulerLockKey :: string where "schedulerLockKey = ''app-tpl:scheduler:lock''"

text \<open>The scheduler is only constructed; its hook starts it.\<close>

definition wireScheduler :: "wire_env \<Rightarrow> Config \<Rightarrow> Wired \<Rightarrow> Wired" where
  "wireScheduler env cfg a =
     (if \<not> sch_Enabled (cfg_Scheduler cfg) then a
      else a\<lparr>wd_leaderLock := wd_redis a,
             wd_app := addHook (wd_app a) ((stop_hook env ''scheduler'' RScheduler)\<lparr>hk_OnStart :=
               Some (\<lambda>w. (we_sched_start env w, w @ [Started RScheduler (we_sched_start env w = None)]))\<rparr>)\<rparr>)"

definition newRedisClient :: "wire_env \<Rightarrow> gerr option" where
  "newRedisClient env = map_option (wrapl ''failed to connect to Redis'') (we_redis_ping env)"

definition wireInfra :: "wire_env \<Rightarrow> Config \<Rightarrow> Wired \<Rightarrow> gerr option \<times> Wired" where
  "wireInfra env cfg a0 =
     (case we_logger env of Some err \<Rightarrow> (Some err, a0)
      | None \<Rightarrow>
        let a1 = a0\<lparr>wd_showCause := (app_Env (cfg_App cfg) = EnvDev)\<rparr> in
        (case we_database env of Some err \<Rightarrow> (Some err, a1)
         | None \<Rightarrow>
           let a2 = (open_with (stop_hook env ''database'' RDatabase) RDatabase a1)\<lparr>wd_jwt := NewJWTManagerFromConfig (cfg_JWT cfg)\<rparr> in
           (case (if red_Enabled (cfg_Redis cfg) then newRedisClient env else None) of Some err \<Rightarrow> (Some err, a2)
            | None \<Rightarrow>
              let a3 = (if red_Enabled (cfg_Redis cfg)
                        then open_with (stop_hook env ''redis_client'' RRedis) RRedis (a2\<lparr>wd_redis := True\<rparr>) else a2) in
              (case we_cache env of Some err \<Rightarrow> (Some err, a3)
               | None \<Rightarrow>
                 let a5 = open_with (stop_hook env ''event_bus'' REventBus) REventBus (open_with (stop_hook env ''cache'' RCache) RCache a3) in
                 (case we_tracer env of Some err \<Rightarrow> (Some err, a5)
                  | None \<Rightarrow> (None, wireScheduler env cfg (open_with (stop_hook env ''tracer'' RTracer) RTracer a5)))))))"

definition wireHTTP :: "Config \<Rightarrow> Wired \<Rightarrow> gerr option \<times> Wired" where
  "wireHTTP cfg a =
     (if \<not> http_Enabled (cfg_HTTP cfg) then (None, a)
      else case NewHandlers True True of
        Inl err \<Rightarrow> (Some err, a)
      | Inr h0 \<Rightarrow>
          let h = wire_handlers cfg (wd_jwt a) h0 in
          (case NewHTTPServer cfg (Some h) (wd_jwt a) of
             Inl err \<Rightarrow> (Some err, a)
           | Inr s \<Rightarrow> (None, a\<lparr>wd_http := Some s, wd_handlers := Some h\<rparr>)))"

definition wireTCP :: "wire_env \<Rightarrow> Config \<Rightarrow> Wired \<Rightarrow> gerr option \<times> Wired" where
  "wireTCP env cfg a =
     (if \<not> tcp_Enabled (cfg_TCP cfg) then (None, a)
      else (None, open_with (stop_hook env ''chat_handler'' RChat) RChat (a\<lparr>wd_tcp := True\<rparr>)))"

definition wireUDP :: "Config \<Rightarrow> Wired \<Rightarrow> gerr option \<times> Wired" where
  "wireUDP cfg a = (if \<not> udp_Enabled (cfg_UDP cfg) then (None, a) else (None, a\<lparr>wd_udp := True\<rparr>))"

text \<open>\<open>shutdownBestEffort\<close> before the application runs: of the three servers only the HTTP server may exist, and it has not been
  started; the hooks are stopped.\<close>

definition no_servers :: "HTTPServer option \<Rightarrow> 'w Servers" where
  "no_servers h = \<lparr>sv_tcp = None, sv_udp = None,
     sv_http_shutdown = (case h of None \<Rightarrow> None | Some s \<Rightarrow> if hs_enabled s then Some (\<lambda>w. (None, w)) else None),
     sv_http_exit = None, sv_publishStarted = (\<lambda>w. (None, w)), sv_publishStopped = (\<lambda>w. (None, w))\<rparr>"

definition shutdown_wired :: "Wired \<Rightarrow> Wired" where
  "shutdown_wired a = a\<lparr>wd_app := snd (shutdown (no_servers (wd_http a)) False (wd_app a))\<rparr>"

definition New_app :: "wire_env \<Rightarrow> Config \<Rightarrow> gerr option \<times> Wired" where
  "New_app env cfg =
     (case wireInfra env cfg empty_wired of
        (Some err, a) \<Rightarrow> (Some err, shutdown_wired a)
      | (None, a) \<Rightarrow>
          (case wireHTTP cfg a of
             (Some err, a) \<Rightarrow> (Some err, shutdown_wired a)
           | (None, a) \<Rightarrow>
               (case wireTCP env cfg a of
                  (Some err, a) \<Rightarrow> (Some err, shutdown_wired a)
                | (None, a) \<Rightarrow>
                    (case wireUDP cfg a of
                       (Some err, a) \<Rightarrow> (Some err, shutdown_wired a)
                     | (None, a) \<Rightarrow> (None, a)))))"

subsection \<open>Lemmas\<close>

text \<open>An application whose hooks close the resources \<open>rs\<close> and none of which was stopped.\<close>

definition holds :: "wire_env \<Rightarrow> Wired \<Rightarrow> resource list \<Rightarrow> bool" where
  "holds env a rs \<longleftrightarrow>
     (\<exists>names. length names = length rs \<and> a_hooks (wd_app a) = map2 (stop_hook env) names rs) \<and>
     a_stopped (wd_app a) = replicate (length rs) False \<and> a_world (wd_app a) = map Opened rs"

lemma holds_empty: "holds env empty_wired []"
  by (simp add: holds_def empty_wired_def)

lemma holds_open:
  assumes "holds env a rs"
  shows "holds env (open_with (stop_hook env name r) r a) (rs @ [r])"
proof -
  obtain names where n: "length names = length rs" "a_hooks (wd_app a) = map2 (stop_hook env) names rs"
    using assms by (auto simp: holds_def)
  then have "map2 (stop_hook env) (names @ [name]) (rs @ [r]) = a_hooks (wd_app a) @ [stop_hook env name r]" by simp
  moreover have "replicate (length rs) False @ [False] = replicate (length (rs @ [r])) False"
    by (simp flip: replicate_append_same)
  ultimately show ?thesis
    using assms n(1) unfolding holds_def open_with_def addHook_def
    by (intro conjI exI [of _ "names @ [name]"]) auto
qed

lemma holds_fields [simp]:
  "holds env (a\<lparr>wd_showCause := b\<rparr>) rs = holds env a rs" "holds env (a\<lparr>wd_jwt := j\<rparr>) rs = holds env a rs"
  "holds env (a\<lparr>wd_redis := b\<rparr>) rs = holds env a rs"
  by (simp_all add: holds_def)

lemma stop_hook_at:
  assumes "a_hooks a ! i = stop_hook env name r" "\<not> a_stopped a ! i"
  shows "\<exists>b st. snd (stopHookAt a i) = a\<lparr>a_world := a_world a @ [Closed r b], a_stopped := st\<rparr> \<and>
           length st = length (a_stopped a) \<and> (\<forall>j. j \<noteq> i \<longrightarrow> st ! j = a_stopped a ! j)"
proof (cases "we_close env r (a_world a)")
  case None
  then show ?thesis using assms
    by (intro exI [of _ True] exI [of _ "(a_stopped a)[i := True]"]) (simp add: stopHookAt_def stop_hook_def)
next
  case (Some err)
  then show ?thesis using assms
    by (intro exI [of _ False] exI [of _ "a_stopped a"]) (simp add: stopHookAt_def stop_hook_def)
qed

lemma stop_loop_closes:
  assumes "k \<le> length rs" "\<forall>i < k. \<exists>name. a_hooks a ! i = stop_hook env name (rs ! i)" "\<forall>i < k. \<not> a_stopped a ! i"
  shows "\<exists>bs. length bs = k \<and> a_world (snd (stop_loop (rev [0..<k]) a)) = a_world a @ map2 Closed (rev (take k rs)) bs"
  using assms
proof (induction k arbitrary: a)
  case (Suc k)
  obtain name where "a_hooks a ! k = stop_hook env name (rs ! k)" using Suc.prems(2) by blast
  then obtain b st where st: "snd (stopHookAt a k) = a\<lparr>a_world := a_world a @ [Closed (rs ! k) b], a_stopped := st\<rparr>"
    "\<forall>j. j \<noteq> k \<longrightarrow> st ! j = a_stopped a ! j"
    using stop_hook_at [of a k env name "rs ! k"] Suc.prems(3) by auto
  let ?a = "snd (stopHookAt a k)"
  obtain bs where "length bs = k" "a_world (snd (stop_loop (rev [0..<k]) ?a)) = a_world ?a @ map2 Closed (rev (take k rs)) bs"
    using Suc.IH [of ?a] Suc.prems st by auto
  then show ?case using Suc.prems(1) st(1)
    by (intro exI [of _ "b # bs"]) (simp add: split_beta Let_def take_Suc_conv_app_nth)
qed simp

lemma shutdown_closes:
  assumes "holds env a rs"
  shows "\<exists>bs. length bs = length rs \<and> a_world (wd_app (shutdown_wired a)) = map Opened rs @ map2 Closed (rev rs) bs"
proof -
  obtain names where n: "length names = length rs" "a_hooks (wd_app a) = map2 (stop_hook env) names rs"
    using assms by (auto simp: holds_def)
  have same: "wd_app (shutdown_wired a) = snd (stopHooks (wd_app a))"
    by (simp add: shutdown_wired_def shutdown_def no_servers_def on_world_def split_beta Let_def split: option.split)
  have h: "\<forall>i < length rs. \<exists>name. a_hooks (wd_app a) ! i = stop_hook env name (rs ! i)" using n by auto
  have s: "\<forall>i < length rs. \<not> a_stopped (wd_app a) ! i" "a_world (wd_app a) = map Opened rs" using assms by (auto simp: holds_def)
  from stop_loop_closes [OF order_refl h s(1)]
  show ?thesis using n s(2) by (simp add: same stopHooks_def split_beta Let_def)
qed

lemma NewHTTPServer_total: "\<exists>s. NewHTTPServer cfg (Some \<lparr>hd_Health = True, hd_User = True, hd_InternalServiceKey = k, hd_RequireAdminAuth = r\<rparr>) jwt = Inr s"
  by (simp add: NewHTTPServer_def RegisterRoutes_def handlers_validate_def Let_def)

lemma wireHTTP_total: "fst (wireHTTP cfg a) = None" "wd_app (snd (wireHTTP cfg a)) = wd_app a"
  using NewHTTPServer_total [of cfg "http_InternalServiceKey (cfg_HTTP cfg)" "wd_jwt a \<noteq> None" "wd_jwt a"]
  by (auto simp: wireHTTP_def NewHandlers_def handlers_validate_def wire_handlers_def Let_def)

text \<open>The resources of a wired application.\<close>

definition infra_resources :: "Config \<Rightarrow> resource list" where
  "infra_resources cfg = [RDatabase] @ (if red_Enabled (cfg_Redis cfg) then [RRedis] else []) @ [RCache, REventBus, RTracer]"

definition holding :: "wire_env \<Rightarrow> Wired \<Rightarrow> bool" where
  "holding env a \<longleftrightarrow> (\<exists>rs. holds env a rs)"

lemma holding_rules:
  "holding env empty_wired" "holding env a \<Longrightarrow> holding env (open_with (stop_hook env name r) r a)"
  "holding env a \<Longrightarrow> holding env (a\<lparr>wd_showCause := b\<rparr>)" "holding env a \<Longrightarrow> holding env (a\<lparr>wd_jwt := j\<rparr>)"
  "holding env a \<Longrightarrow> holding env (a\<lparr>wd_redis := b\<rparr>)"
  unfolding holding_def using holds_empty by (auto, blast intro: holds_open)

lemma wireInfra_fails: "wireInfra env cfg empty_wired = (Some err, a) \<Longrightarrow> holding env a"
  by (auto simp: wireInfra_def Let_def intro!: holding_rules split: option.splits if_splits)

lemma wireInfra_ok:
  assumes "wireInfra env cfg empty_wired = (None, a)"
  shows "\<exists>b. holds env b (infra_resources cfg) \<and> a = wireScheduler env cfg b \<and> wd_jwt b = NewJWTManagerFromConfig (cfg_JWT cfg) \<and>
    wd_redis b = red_Enabled (cfg_Redis cfg) \<and> \<not> wd_leaderLock b"
proof -
  let ?o = "\<lambda>name r b. open_with (stop_hook env name r) r b"
  let ?a2 = "(?o ''database'' RDatabase (empty_wired\<lparr>wd_showCause := (app_Env (cfg_App cfg) = EnvDev)\<rparr>))\<lparr>wd_jwt := NewJWTManagerFromConfig (cfg_JWT cfg)\<rparr>"
  let ?a3 = "if red_Enabled (cfg_Redis cfg) then ?o ''redis_client'' RRedis (?a2\<lparr>wd_redis := True\<rparr>) else ?a2"
  let ?b = "?o ''tracer'' RTracer (?o ''event_bus'' REventBus (?o ''cache'' RCache ?a3))"
  have "holds env ?a2 [RDatabase]" using holds_open [of env "empty_wired\<lparr>wd_showCause := _\<rparr>" "[]"] holds_empty by simp
  then have "holds env ?a3 ([RDatabase] @ (if red_Enabled (cfg_Redis cfg) then [RRedis] else []))"
    using holds_open [of env "?a2\<lparr>wd_redis := True\<rparr>" "[RDatabase]"] by simp
  then have "holds env ?b (infra_resources cfg)"
    using holds_open [OF holds_open [OF holds_open]] by (fastforce simp: infra_resources_def)
  moreover have "a = wireScheduler env cfg ?b" using assms by (auto simp: wireInfra_def Let_def split: option.splits)
  moreover have "wd_jwt ?b = NewJWTManagerFromConfig (cfg_JWT cfg)" "wd_redis ?b = red_Enabled (cfg_Redis cfg)" "\<not> wd_leaderLock ?b"
    by (simp_all add: open_with_def empty_wired_def)
  ultimately show ?thesis by blast
qed

subsection \<open>Properties\<close>

text \<open>An application that cannot be built leaves nothing open: when \<open>New\<close> fails, at whatever step, every
  resource that was opened before is closed exactly once, in reverse order of opening, even when some of the closing
  calls fail; nothing else happens.\<close>

lemma New_failure_releases:
  assumes "New_app env cfg = (Some err, a)"
  shows "\<exists>rs bs. length bs = length rs \<and> a_world (wd_app a) = map Opened rs @ map2 Closed (rev rs) bs"
proof -
  obtain e b where i: "wireInfra env cfg empty_wired = (e, b)" by fastforce
  show ?thesis
  proof (cases e)
    case None
    have "fst (wireHTTP cfg b) = None" by (rule wireHTTP_total)
    then show ?thesis using assms i None
      by (auto simp: New_app_def wireTCP_def wireUDP_def split: prod.splits option.splits if_splits)
  next
    case (Some err')
    then have "a = shutdown_wired b" "holding env b" using assms i wireInfra_fails by (auto simp: New_app_def)
    then show ?thesis using shutdown_closes unfolding holding_def by blast
  qed
qed

text \<open>What a wired application has: the database, the cache, the event bus and the tracer, Redis when it is enabled and the chat
  handler when TCP is, opened in this order; the scheduler gets a leader lock exactly when Redis is there; and admin routes require
  authentication exactly when the server runs the JWT middleware, that is when a secret is configured.\<close>

lemma New_wires:
  assumes "New_app env cfg = (None, a)"
  shows "a_world (wd_app a) = map Opened (infra_resources cfg @ (if tcp_Enabled (cfg_TCP cfg) then [RChat] else [])) \<and>
    wd_redis a = red_Enabled (cfg_Redis cfg) \<and>
    wd_leaderLock a = (sch_Enabled (cfg_Scheduler cfg) \<and> red_Enabled (cfg_Redis cfg)) \<and>
    (http_Enabled (cfg_HTTP cfg) \<longrightarrow>
      (\<exists>s h. wd_http a = Some s \<and> wd_handlers a = Some h \<and>
         (hd_RequireAdminAuth h \<longleftrightarrow> jwt_Secret (cfg_JWT cfg) \<noteq> '''') \<and> (hd_RequireAdminAuth h \<longleftrightarrow> ''JWTAuth'' \<in> set (hs_chain s))))"
proof -
  obtain b where i: "wireInfra env cfg empty_wired = (None, b)"
    using assms by (cases "wireInfra env cfg empty_wired") (auto simp: New_app_def split: option.splits)
  obtain b0 where b0: "holds env b0 (infra_resources cfg)" "b = wireScheduler env cfg b0" "wd_jwt b0 = NewJWTManagerFromConfig (cfg_JWT cfg)"
    "wd_redis b0 = red_Enabled (cfg_Redis cfg)" "\<not> wd_leaderLock b0" using wireInfra_ok [OF i] by blast
  have b: "a_world (wd_app b) = map Opened (infra_resources cfg)" "wd_redis b = wd_redis b0" "wd_jwt b = wd_jwt b0"
    "wd_leaderLock b = (sch_Enabled (cfg_Scheduler cfg) \<and> wd_redis b0)"
    using b0(1,2,5) by (auto simp: holds_def wireScheduler_def addHook_def)
  obtain c where c: "wireHTTP cfg b = (None, c)" using wireHTTP_total(1) [of cfg b] by (cases "wireHTTP cfg b") simp
  have keep: "wd_app c = wd_app b" "wd_redis c = wd_redis b" "wd_leaderLock c = wd_leaderLock b"
    using c wireHTTP_total(2) [of cfg b] by (auto simp: wireHTTP_def Let_def split: if_splits sum.splits)
  have "wd_jwt b \<noteq> None \<longleftrightarrow> jwt_Secret (cfg_JWT cfg) \<noteq> ''''" using b(3) b0(3) by (simp add: NewJWTManagerFromConfig_def)
  then have http: "http_Enabled (cfg_HTTP cfg) \<longrightarrow>
      (\<exists>s h. wd_http c = Some s \<and> wd_handlers c = Some h \<and>
         (hd_RequireAdminAuth h \<longleftrightarrow> jwt_Secret (cfg_JWT cfg) \<noteq> '''') \<and> (hd_RequireAdminAuth h \<longleftrightarrow> ''JWTAuth'' \<in> set (hs_chain s)))"
    using c by (auto simp: wireHTTP_def NewHandlers_def handlers_validate_def wire_handlers_def NewHTTPServer_def RegisterRoutes_def
        server_chain_def Let_def)
  have "a = snd (wireUDP cfg (snd (wireTCP env cfg c)))"
    using assms i c by (auto simp: New_app_def wireTCP_def wireUDP_def split: if_splits)
  then show ?thesis using http keep b b0(4)
    by (auto simp: wireTCP_def wireUDP_def open_with_def addHook_def)
qed

text \<open>The tracer cannot be built, and closing the cache fails on the way back.\<close>

definition demo_wire_env :: wire_env where
  "demo_wire_env = \<lparr>we_logger = None, we_database = None, we_redis_ping = None, we_cache = None, we_tracer = Some (Sentinel ''tracer''),
     we_sched_start = (\<lambda>_. None), we_close = (\<lambda>r _. if r = RCache then Some (Sentinel ''busy'') else None)\<rparr>"

lemma New_fst:
  "fst (New_app env cfg) = (case we_logger env of Some err \<Rightarrow> Some err | None \<Rightarrow>
     (case we_database env of Some err \<Rightarrow> Some err | None \<Rightarrow>
     (case (if red_Enabled (cfg_Redis cfg) then newRedisClient env else None) of Some err \<Rightarrow> Some err | None \<Rightarrow>
     (case we_cache env of Some err \<Rightarrow> Some err | None \<Rightarrow> we_tracer env))))"
proof -
  have "wireHTTP cfg b \<noteq> (Some e, c)" for b e c
    using wireHTTP_total(1) [of cfg b] by auto
  then have "fst (New_app env cfg) = fst (wireInfra env cfg empty_wired)"
    by (cases "wireInfra env cfg empty_wired") (auto simp: New_app_def wireTCP_def wireUDP_def split: prod.splits option.splits)
  then show ?thesis by (simp add: wireInfra_def Let_def split: option.splits)
qed

lemma demo_New: "fst (New_app demo_wire_env demo_config) = Some (Sentinel ''tracer'')" "fst (New_app (demo_wire_env\<lparr>we_tracer := None\<rparr>) demo_config) = None"
  by (simp_all add: New_fst newRedisClient_def demo_wire_env_def)

lemma New_failure_releases_example:
  "\<exists>rs bs. length bs = length rs \<and>
     a_world (wd_app (snd (New_app demo_wire_env demo_config))) = map Opened rs @ map2 Closed (rev rs) bs"
  using New_failure_releases [of demo_wire_env demo_config] demo_New(1) by (metis prod.collapse)

lemma New_wires_example:
  "wd_redis (snd (New_app (demo_wire_env\<lparr>we_tracer := None\<rparr>) demo_config)) = red_Enabled (cfg_Redis demo_config)"
  using New_wires [of "demo_wire_env\<lparr>we_tracer := None\<rparr>" demo_config] demo_New(2) by (metis prod.collapse)

end
