(* ===== verification/Rate_Store.thy ===== *)
theory Rate_Store
  imports Http_Middleware
begin

section \<open>The rate limit store in memory\<close>

text \<open>
  Lemmas on \<open>memory_Allow\<close>. The locale \<open>lru_cache\<close> is what the store relies on of the third-party cache: \<open>view\<close> is the map that
  the cache stands for, a lookup answers it, and an insertion may evict other entries but never changes
  them. A bounded list with the most recent entry in front is its reference implementation.
\<close>

locale lru_cache =
  fixes lru :: "'c lru_lib" and view :: "'c \<Rightarrow> string \<rightharpoonup> nat"
  assumes new_empty: "lru_New lru n = Inr cache \<Longrightarrow> view cache = Map.empty"
    and get_result: "lru_Get lru key cache = (r, cache') \<Longrightarrow> r = view cache key"
    and get_view: "lru_Get lru key cache = (r, cache') \<Longrightarrow> view cache' = view cache"
    and add_own: "view (lru_Add lru key a cache) key = Some a"
    and add_other: "key' \<noteq> key \<Longrightarrow> view (lru_Add lru key a cache) key' \<in> {view cache key', None}"
begin

text \<open>The cache points at limiters that exist, and no two keys share one.\<close>

definition store_ok :: "('c, 'l) MemoryRateLimitStore \<Rightarrow> bool" where
  "store_ok s \<longleftrightarrow> (\<forall>k a. view (ms_cache s) k = Some a \<longrightarrow> a < length (ms_heap s)) \<and>
     (\<forall>k k' a. view (ms_cache s) k = Some a \<and> view (ms_cache s) k' = Some a \<longrightarrow> k = k')"

lemma new_ok: "NewMemoryRateLimitStore lru n = Inr s \<Longrightarrow> store_ok s"
  by (auto simp: NewMemoryRateLimitStore_def store_ok_def dest: new_empty split: sum.splits)

text \<open>The state after \<open>getLimiter\<close>: the limiter of the key is there, new when the cache had none; the others are
  as before or evicted.\<close>

lemma getLimiter_spec:
  assumes "store_ok s" "getLimiter ra lru key rps s = (l, s')"
  shows "store_ok s' \<and> view (ms_cache s') key = Some l \<and> l < length (ms_heap s') \<and>
    (case view (ms_cache s) key of
       Some a \<Rightarrow> l = a \<and> ms_heap s' = ms_heap s \<and> view (ms_cache s') = view (ms_cache s)
     | None \<Rightarrow> l = length (ms_heap s) \<and> ms_heap s' = ms_heap s @ [ra_NewLimiter ra rps rps] \<and>
         (\<forall>k. k \<noteq> key \<longrightarrow> view (ms_cache s') k \<in> {view (ms_cache s) k, None}))"
proof -
  obtain r1 c1 where g1: "lru_Get lru key (ms_cache s) = (r1, c1)" by fastforce
  obtain r2 c2 where g2: "lru_Get lru key c1 = (r2, c2)" by fastforce
  have v: "r1 = view (ms_cache s) key" "r2 = view (ms_cache s) key" "view c1 = view (ms_cache s)" "view c2 = view (ms_cache s)"
    using get_result [OF g1] get_view [OF g1] get_result [OF g2] get_view [OF g2] by auto
  show ?thesis
  proof (cases "view (ms_cache s) key")
    case (Some a)
    then show ?thesis using assms g1 v by (auto simp: getLimiter_def store_ok_def)
  next
    case None
    let ?c = "lru_Add lru key (length (ms_heap s)) c2"
    have l: "l = length (ms_heap s)" and s': "s' = s\<lparr>ms_cache := ?c, ms_heap := ms_heap s @ [ra_NewLimiter ra rps rps]\<rparr>"
      using assms(2) g1 g2 v None by (auto simp: getLimiter_def)
    have own: "view ?c key = Some l" by (simp add: add_own l)
    have other: "\<forall>k. k \<noteq> key \<longrightarrow> view ?c k \<in> {view (ms_cache s) k, None}"
      using add_other [of _ key "length (ms_heap s)" c2] v(4) by simp
    have "k = key \<and> a = l \<or> k \<noteq> key \<and> view (ms_cache s) k = Some a \<and> a < length (ms_heap s)" if "view ?c k = Some a" for k a
    proof (cases "k = key")
      case False
      then have "view (ms_cache s) k = Some a" using other that by auto
      then show ?thesis using False assms(1) unfolding store_ok_def by blast
    qed (use own that in simp)
    note cs = this
    have "a < length (ms_heap s')" if "view ?c k = Some a" for k a using cs [OF that] l s' by auto
    moreover have "k = k'" if "view ?c k = Some a" "view ?c k' = Some a" for k k' a
      using cs [OF that(1)] cs [OF that(2)] l assms(1) unfolding store_ok_def by auto
    ultimately have "store_ok s'" unfolding store_ok_def by (simp add: s')
    then show ?thesis using own other None l s' by simp
  qed
qed

lemma memory_Allow_heap:
  assumes "getLimiter ra lru key rps s = (l, s1)" "memory_Allow ra lru now key rps s = (r, s')"
  shows "ms_cache s' = ms_cache s1 \<and> length (ms_heap s') = length (ms_heap s1) \<and> (\<forall>a. a \<noteq> l \<longrightarrow> ms_heap s' ! a = ms_heap s1 ! a)"
  using assms by (auto simp: memory_Allow_def Let_def split: prod.splits if_splits)

lemma memory_Allow_isolated:
  assumes "store_ok s" "memory_Allow ra lru now key rps s = (r, s')"
  shows "store_ok s' \<and> (\<forall>k a. k \<noteq> key \<and> view (ms_cache s') k = Some a \<longrightarrow>
    view (ms_cache s) k = Some a \<and> ms_heap s' ! a = ms_heap s ! a)"
proof -
  obtain l s1 where g: "getLimiter ra lru key rps s = (l, s1)" by fastforce
  note G = getLimiter_spec [OF assms(1) g] and H = memory_Allow_heap [OF g assms(2)]
  have ok: "store_ok s'" using G H by (auto simp: store_ok_def)
  have "view (ms_cache s) k = Some a \<and> ms_heap s' ! a = ms_heap s ! a" if k: "k \<noteq> key" "view (ms_cache s') k = Some a" for k a
  proof -
    have *: "view (ms_cache s) k = Some a" using G H k by (auto split: option.splits)
    then have "a < length (ms_heap s)" using assms(1) by (auto simp: store_ok_def)
    moreover have "a \<noteq> l" using ok G H k by (auto simp: store_ok_def)
    ultimately show ?thesis using * G H by (auto simp: nth_append split: option.splits)
  qed
  then show ?thesis using ok by blast
qed

end

subsection \<open>A reference cache\<close>

type_synonym ref_lru_state = "nat \<times> (string \<times> nat) list"

definition ref_lru :: "ref_lru_state lru_lib" where
  "ref_lru = \<lparr>lru_New = (\<lambda>n. if n \<le> 0 then Inl (Sentinel ''must provide a positive size'') else Inr (nat n, [])),
     lru_Get = (\<lambda>key (n, es). case map_of es key of
        None \<Rightarrow> (None, (n, es))
      | Some a \<Rightarrow> (Some a, (n, (key, a) # filter (\<lambda>e. fst e \<noteq> key) es))),
     lru_Add = (\<lambda>key a (n, es). (n, (key, a) # take (n - 1) (filter (\<lambda>e. fst e \<noteq> key) es)))\<rparr>"

definition ref_lru_view :: "ref_lru_state \<Rightarrow> string \<rightharpoonup> nat" where
  "ref_lru_view c = map_of (snd c)"

lemma map_of_filter_other: "map_of (filter (\<lambda>e. fst e \<noteq> key) es) k = (if k = key then None else map_of es k)"
  by (induction es) auto

lemma map_of_take: "map_of (take n es) k \<in> {map_of es k, None}"
proof (cases "map_of (take n es) k")
  case (Some a)
  have "map_of (take n es @ drop n es) k = Some a" using Some by (simp add: map_add_Some_iff del: append_take_drop_id)
  then show ?thesis using Some by simp
qed simp

lemma map_of_filter_map: "map_of (filter (\<lambda>e. fst e \<noteq> key) es) = (map_of es)(key := None)"
  by (auto simp: map_of_filter_other)

interpretation ref_cache: lru_cache ref_lru ref_lru_view
proof
  fix key key' :: string and a :: nat and cache cache' :: ref_lru_state and r
  obtain n es where c: "cache = (n, es)" by fastforce
  show "r = ref_lru_view cache key" if "lru_Get ref_lru key cache = (r, cache')"
    using that by (auto simp: c ref_lru_def ref_lru_view_def split: option.splits)
  show "ref_lru_view cache' = ref_lru_view cache" if "lru_Get ref_lru key cache = (r, cache')"
    using that by (auto simp: c ref_lru_def ref_lru_view_def map_of_filter_map split: option.splits)
  show "ref_lru_view (lru_Add ref_lru key a cache) key = Some a"
    by (simp add: c ref_lru_def ref_lru_view_def)
  show "ref_lru_view (lru_Add ref_lru key a cache) key' \<in> {ref_lru_view cache key', None}" if "key' \<noteq> key"
    using map_of_take [of "n - 1" "filter (\<lambda>e. fst e \<noteq> key) es" key'] that
    by (auto simp: c ref_lru_def ref_lru_view_def map_of_filter_other)
qed (auto simp: ref_lru_def ref_lru_view_def split: if_splits)

subsection \<open>Properties\<close>

definition allow_calls ::
  "('l, 'r) rate_lib \<Rightarrow> 'c lru_lib \<Rightarrow> (int \<times> string \<times> int) list \<Rightarrow> ('c, 'l) MemoryRateLimitStore \<Rightarrow> ('c, 'l) MemoryRateLimitStore" where
  "allow_calls ra lru calls s = fold (\<lambda>(now, key, rps) s. snd (memory_Allow ra lru now key rps s)) calls s"

lemma allow_calls_simps [simp]:
  "allow_calls ra lru [] s = s"
  "allow_calls ra lru ((now, key, rps) # calls) s = allow_calls ra lru calls (snd (memory_Allow ra lru now key rps s))"
  by (simp_all add: allow_calls_def)

lemma allow_calls_isolated:
  assumes "lru_cache lru view" "lru_cache.store_ok view s" "\<forall>(now, k, rps) \<in> set calls. k \<noteq> key"
  shows "lru_cache.store_ok view (allow_calls ra lru calls s) \<and>
    (\<forall>a. view (ms_cache (allow_calls ra lru calls s)) key = Some a \<longrightarrow>
       view (ms_cache s) key = Some a \<and> ms_heap (allow_calls ra lru calls s) ! a = ms_heap s ! a)"
  using assms(2,3)
proof (induction calls arbitrary: s)
  case (Cons call calls)
  obtain now k rps where call: "call = (now, k, rps)" by (cases call)
  obtain r s1 where m: "memory_Allow ra lru now k rps s = (r, s1)" by fastforce
  note I = lru_cache.memory_Allow_isolated [OF assms(1) Cons.prems(1) m]
  have "key \<noteq> k" using Cons.prems(2) call by auto
  then show ?case using Cons.IH [of s1] Cons.prems(2) I by (auto simp: call m)
qed simp

lemma allow_calls_ok:
  assumes "lru_cache lru view" "lru_cache.store_ok view s"
  shows "lru_cache.store_ok view (allow_calls ra lru calls s)"
  using assms(2)
proof (induction calls arbitrary: s)
  case (Cons call calls)
  obtain now k rps where call: "call = (now, k, rps)" by (cases call)
  obtain r s1 where m: "memory_Allow ra lru now k rps s = (r, s1)" by fastforce
  show ?case using Cons.IH [of s1] lru_cache.memory_Allow_isolated [OF assms(1) Cons.prems m] by (simp add: call m)
qed simp

text \<open>Clients do not use up each other's limits. After any sequence of \<open>Allow\<close> calls on a fresh store, a further
  sequence of calls for other keys leaves the token bucket of a key exactly as it was, unless the cache evicted
  it; and every cached bucket is a live one. This holds for every token bucket library and every cache that keeps the
  laws of a bounded map.\<close>

lemma rate_buckets_isolated:
  assumes "lru_cache lru view" "NewMemoryRateLimitStore lru n = Inr s0"
    and "s = allow_calls ra lru earlier s0" "s' = allow_calls ra lru others s"
    and "\<forall>(now, k, rps) \<in> set others. k \<noteq> key" "view (ms_cache s') key = Some a"
  shows "view (ms_cache s) key = Some a \<and> a < length (ms_heap s) \<and> ms_heap s' ! a = ms_heap s ! a"
proof -
  have ok: "lru_cache.store_ok view s"
    unfolding assms(3) by (rule allow_calls_ok [OF assms(1) lru_cache.new_ok [OF assms(1,2)]])
  from allow_calls_isolated [OF assms(1) ok assms(5), of ra] assms(4,6)
  have "view (ms_cache s) key = Some a \<and> ms_heap s' ! a = ms_heap s ! a" by simp
  with ok show ?thesis by (auto simp: lru_cache.store_ok_def [OF assms(1)])
qed

text \<open>A counting bucket as the concrete library of the example.\<close>

definition count_lib :: "(int, bool) rate_lib" where
  "count_lib = \<lparr>ra_NewLimiter = (\<lambda>rate burst. burst), ra_Reserve = (\<lambda>now l. (l > 0, l - 1)), ra_OK = id, ra_Delay = (\<lambda>now r. 0),
     ra_Cancel = (\<lambda>now r l. l + 1), ra_Tokens = (\<lambda>now l. l)\<rparr>"

lemmas rate_eval = memory_Allow_def getLimiter_def ref_lru_def count_lib_def Let_def ref_lru_view_def

lemma rate_buckets_isolated_example:
  "let s0 = \<lparr>ms_cache = (2, []), ms_heap = []\<rparr>; s = allow_calls count_lib ref_lru [(0, ''ip:a'', 5)] s0;
       s' = allow_calls count_lib ref_lru [(0, ''ip:b'', 5), (1, ''ip:b'', 5)] s
   in ref_lru_view (ms_cache s') ''ip:a'' = Some 0 \<and> ms_heap s' = [4, 3] \<and> ms_heap s' ! 0 = ms_heap s ! 0"
proof -
  let ?s0 = "\<lparr>ms_cache = (2, []), ms_heap = []\<rparr> :: (ref_lru_state, int) MemoryRateLimitStore"
  have n: "NewMemoryRateLimitStore ref_lru 2 = Inr ?s0" by (simp add: NewMemoryRateLimitStore_def ref_lru_def)
  let ?s = "allow_calls count_lib ref_lru [(0, ''ip:a'', 5)] ?s0"
  let ?s' = "allow_calls count_lib ref_lru [(0, ''ip:b'', 5), (1, ''ip:b'', 5)] ?s"
  have v: "ref_lru_view (ms_cache ?s') ''ip:a'' = Some 0" by (simp add: rate_eval)
  have "ms_heap ?s' = [4, 3]" by (simp add: rate_eval)
  with rate_buckets_isolated [OF ref_cache.lru_cache_axioms n refl refl _ v] v show ?thesis by simp
qed

end
