(* ===== verification/Naming.thy ===== *)
theory Naming
  imports Go_Text "HOL-Library.List_Lexorder" "HOL-Library.Char_ord"
begin

section \<open>Model generator: names and aliases\<close>

text \<open>
  \<^verbatim>\<open>internal/database/gen/naming.go\<close> (without the renderer \<open>GenerateModelCode\<close>) and \<^verbatim>\<open>alias.go\<close>. The
  title caser of \<^verbatim>\<open>golang.org/x/text\<close> is a parameter. A Go map is an association list searched from
  the front, a later binding being put in front. \<open>sort.Strings\<close> is the lexicographic order on bytes.
\<close>

subsection \<open>Names\<close>

definition isSensitiveColumn :: "string \<Rightarrow> bool" where
  "isSensitiveColumn name \<longleftrightarrow>
     to_lower name \<in> set [''password'', ''passwd'', ''secret'', ''token'', ''access_token'', ''refresh_token'', ''api_key'']"

definition commonInitialisms :: "(string \<times> string) list" where
  "commonInitialisms =
     [(''id'', ''ID''), (''url'', ''URL''), (''uri'', ''URI''), (''api'', ''API''), (''ip'', ''IP''), (''uid'', ''UID''),
      (''uuid'', ''UUID''), (''http'', ''HTTP''), (''https'', ''HTTPS''), (''json'', ''JSON''), (''xml'', ''XML''),
      (''sql'', ''SQL''), (''pk'', ''PK''), (''fk'', ''FK''), (''pv'', ''PV''), (''uv'', ''UV'')]"

definition ToAlias :: "string \<Rightarrow> string" where
  "ToAlias tableName =
     (let parts = splitc (CHR ''_'') tableName
      in if length parts = 0 then ''t''
         else if length parts = 1 then (if length tableName \<ge> 2 then take 2 tableName else tableName)
         else let alias = concat (map (\<lambda>p. if p = '''' then '''' else utf8_cp (byte_of (hd p))) parts)
           in if alias = '''' then ''t'' else alias)"

definition ToCamelCase :: "(string \<Rightarrow> string) \<Rightarrow> string \<Rightarrow> string" where
  "ToCamelCase titleCaser s =
     concat (map (\<lambda>part. case map_of commonInitialisms (to_lower part) of
                           Some repl \<Rightarrow> repl | None \<Rightarrow> titleCaser part) (splitc (CHR ''_'') s))"

definition normalizeDriverLabel :: "string \<Rightarrow> string" where
  "normalizeDriverLabel driver =
     (if driver = ''mysql'' then ''mysql''
      else if driver = ''postgres'' \<or> driver = ''postgresql'' then ''postgres''
      else if driver = ''sqlite'' \<or> driver = ''sqlite3'' then ''sqlite''
      else if driver = '''' then ''unknown'' else driver)"

definition enumValuesSafeForOneOf :: "string list \<Rightarrow> bool" where
  "enumValuesSafeForOneOf values \<longleftrightarrow>
     list_all (\<lambda>v. CHR '' '' \<notin> set v \<and> CHR '','' \<notin> set v) values \<and> length values > 0"

text \<open>\<^verbatim>\<open>strings.SplitN(join, "=", 2)\<close>.\<close>

definition swapM2MJoin :: "string \<Rightarrow> string" where
  "swapM2MJoin s =
     (case index_byte s (CHR ''='') of
        None \<Rightarrow> s
      | Some i \<Rightarrow> drop (Suc i) s @ ''='' @ take i s)"

subsection \<open>Aliases\<close>

definition splitTableParts :: "string \<Rightarrow> string list" where
  "splitTableParts tableName =
     (let out = filter (\<lambda>p. p \<noteq> '''') (splitc (CHR ''_'') tableName)
      in if out = [] then [tableName] else out)"

type_synonym used = "(string \<times> string) list"

definition alias_free :: "used \<Rightarrow> string \<Rightarrow> string \<Rightarrow> bool" where
  "alias_free used table candidate =
     (case map_of used candidate of None \<Rightarrow> True | Some owner \<Rightarrow> owner = table)"

text \<open>The candidates in the order they are tried: longer prefixes of the only part, or more letters of
  each part.\<close>

definition longer_aliases :: "string \<Rightarrow> string \<Rightarrow> string list" where
  "longer_aliases table alias =
     (let parts = splitTableParts table
      in if length parts = 1
         then map (\<lambda>n. take n (hd parts)) [length alias + 1..<length (hd parts) + 1]
         else map (\<lambda>extra. concat (map (\<lambda>p. take (1 + extra) p) parts)) [1..<8])"

text \<open>The last loop, \<open>for i := 2; ; i++\<close>, has no bound; one more number than there are used aliases is
  enough, since the candidates differ.\<close>

definition numbered_aliases :: "used \<Rightarrow> string \<Rightarrow> string list" where
  "numbered_aliases used alias = map (\<lambda>i. alias @ show_nat i) [2..<length used + 3]"

definition lengthenAlias :: "string \<Rightarrow> string \<Rightarrow> used \<Rightarrow> string option" where
  "lengthenAlias table alias used =
     find (alias_free used table) (longer_aliases table alias @ numbered_aliases used alias)"

fun alias_loop :: "string list \<Rightarrow> used \<Rightarrow> (string \<times> string) list \<Rightarrow> (string \<times> string) list option" where
  "alias_loop [] used aliases = Some aliases"
| "alias_loop (table # tables) used aliases =
     (let alias = ToAlias table in
      case (if alias_free used table alias then Some alias else lengthenAlias table alias used) of
        None \<Rightarrow> None
      | Some alias \<Rightarrow> alias_loop tables ((alias, table) # used) ((table, alias) # aliases))"

definition UniqueAliases :: "string list \<Rightarrow> (string \<times> string) list option" where
  "UniqueAliases tableNames = alias_loop (sort tableNames) [] []"

subsection \<open>Lemmas\<close>

text \<open>Among more candidates than there are used aliases one is free.\<close>

lemma find_free:
  assumes "distinct cs" "length used < length cs"
  shows "\<exists>c. find (alias_free used table) cs = Some c"
proof (rule ccontr)
  assume "\<not> ?thesis"
  then have "find (alias_free used table) cs = None" by auto
  then have "\<forall>c \<in> set cs. map_of used c \<noteq> None"
    by (auto simp: find_None_iff alias_free_def split: option.splits)
  then have "set cs \<subseteq> fst ` set used"
    by (auto simp: map_of_eq_None_iff)
  then have "card (set cs) \<le> card (fst ` set used)"
    by (intro card_mono) simp_all
  also have "\<dots> \<le> card (set used)"
    by (intro card_image_le) simp
  also have "\<dots> \<le> length used"
    by (rule card_length)
  finally have "card (set cs) \<le> length used" .
  then show False using assms by (simp add: distinct_card)
qed

lemma find_append: "find P (xs @ ys) = (case find P xs of None \<Rightarrow> find P ys | Some x \<Rightarrow> Some x)"
  by (induction xs) auto

lemma lengthenAlias_total: "\<exists>c. lengthenAlias table alias used = Some c"
proof -
  have "distinct (numbered_aliases used alias)"
    by (simp add: numbered_aliases_def distinct_map inj_on_def)
  moreover have "length used < length (numbered_aliases used alias)"
    by (simp add: numbered_aliases_def)
  ultimately show ?thesis
    using find_free [of "numbered_aliases used alias" used table]
    by (auto simp: lengthenAlias_def find_append split: option.splits)
qed

lemma lengthenAlias_free: "lengthenAlias table alias used = Some c \<Longrightarrow> alias_free used table c"
  by (auto simp: lengthenAlias_def find_Some_iff)

text \<open>Every alias given so far is owned by its table.\<close>

definition alias_inv :: "used \<Rightarrow> (string \<times> string) list \<Rightarrow> bool" where
  "alias_inv used aliases \<longleftrightarrow> (\<forall>t a. map_of aliases t = Some a \<longrightarrow> map_of used a = Some t)"

lemma alias_inv_add:
  assumes "alias_inv used aliases" "alias_free used table a"
  shows "alias_inv ((a, table) # used) ((table, a) # aliases)"
  using assms by (auto simp: alias_inv_def alias_free_def split: option.splits if_splits)

lemma alias_loop_total:
  assumes "alias_inv used aliases"
  shows "\<exists>m used'. alias_loop tables used aliases = Some m \<and> alias_inv used' m \<and>
           dom (map_of m) = dom (map_of aliases) \<union> set tables"
  using assms
proof (induction tables arbitrary: used aliases)
  case Nil
  then show ?case by auto
next
  case (Cons table tables)
  let ?choice = "if alias_free used table (ToAlias table) then Some (ToAlias table)
                 else lengthenAlias table (ToAlias table) used"
  obtain a where a: "?choice = Some a" "alias_free used table a"
    using lengthenAlias_total [of table "ToAlias table" used] lengthenAlias_free by (metis option.inject)
  have "alias_loop (table # tables) used aliases = alias_loop tables ((a, table) # used) ((table, a) # aliases)"
    using a(1) by (simp add: Let_def)
  then show ?case
    using Cons.IH [OF alias_inv_add [OF Cons.prems a(2)]] by auto
qed

lemma swap_parts:
  assumes "CHR ''='' \<notin> set a"
  shows "swapM2MJoin (a @ ''='' @ b) = b @ ''='' @ a"
  using assms by (simp add: swapM2MJoin_def index_byte_append)

subsection \<open>Properties\<close>

text \<open>C39: \<open>UniqueAliases\<close> always returns (the unbounded numbering loop finds a free alias after at most
  one try more than there are tables), gives an alias to exactly the given tables, and gives no alias
  to two tables.\<close>

theorem UniqueAliases_correct:
  "\<exists>m. UniqueAliases tableNames = Some m \<and> dom (map_of m) = set tableNames \<and>
       (\<forall>t u a. map_of m t = Some a \<and> map_of m u = Some a \<longrightarrow> t = u)"
proof -
  have "alias_inv [] []" by (simp add: alias_inv_def)
  from alias_loop_total [OF this, of "sort tableNames"] obtain m used where
    "UniqueAliases tableNames = Some m" "alias_inv used m" "dom (map_of m) = set tableNames"
    by (auto simp: UniqueAliases_def)
  then show ?thesis
    by (intro exI [of _ m]) (metis alias_inv_def option.inject)
qed

theorem UniqueAliases_correct_witness:
  "\<exists>m. UniqueAliases [''users'', ''user_roles'', ''us'', ''urls_raw''] = Some m \<and>
       map_of m ''user_roles'' \<noteq> map_of m ''urls_raw'' \<and> map_of m ''us'' \<noteq> map_of m ''users''"
proof -
  obtain m where m: "UniqueAliases [''users'', ''user_roles'', ''us'', ''urls_raw''] = Some m"
    "dom (map_of m) = set [''users'', ''user_roles'', ''us'', ''urls_raw'']"
    "\<forall>t u a. map_of m t = Some a \<and> map_of m u = Some a \<longrightarrow> t = u"
    using UniqueAliases_correct by blast
  have "map_of m ''user_roles'' \<noteq> None" "map_of m ''us'' \<noteq> None" using m(2) by auto
  then obtain a b where ab: "map_of m ''user_roles'' = Some a" "map_of m ''us'' = Some b" by auto
  have "map_of m ''urls_raw'' \<noteq> Some a" using m(3) ab(1) by fastforce
  moreover have "map_of m ''users'' \<noteq> Some b" using m(3) ab(2) by fastforce
  ultimately show ?thesis using m(1) ab by auto
qed

text \<open>Reversing a many-to-many join clause twice gives it back, when neither side contains an
  equals sign.\<close>

lemma swapM2MJoin_involution:
  assumes "CHR ''='' \<notin> set a" "CHR ''='' \<notin> set b"
  shows "swapM2MJoin (swapM2MJoin (a @ ''='' @ b)) = a @ ''='' @ b"
  by (simp only: swap_parts [OF assms(1)] swap_parts [OF assms(2)])

lemma swapM2MJoin_involution_example:
  "swapM2MJoin (swapM2MJoin (''User'' @ ''='' @ ''Role'')) = ''User'' @ ''='' @ ''Role''"
  by (rule swapM2MJoin_involution) simp_all

end
