(* ===== verification/Relations.thy ===== *)
theory Relations
  imports Naming Go_Errors "HOL-Library.AList"
begin

section \<open>Model generator: relations\<close>

text \<open>
  \<^verbatim>\<open>internal/database/gen/relation.go\<close>, the relation part of \<^verbatim>\<open>model.go\<close> (\<open>validateTableName\<close>, \<open>Column\<close>,
  \<open>collectUniqueness\<close>, \<open>validateRelationColumns\<close>, \<open>expandTablesForRelations\<close>) and the relation fields that \<^verbatim>\<open>naming.go\<close> renders.
  The title caser and the inflections are the record \<open>name_lib\<close>. A map that the source iterates over
  is a list passed through an iteration order \<open>iter\<close>, of which nothing is assumed but that it keeps the elements.
\<close>

subsection \<open>Names\<close>

definition is_letter :: "char \<Rightarrow> bool" where
  "is_letter c \<longleftrightarrow> (0x41 \<le> byte_of c \<and> byte_of c \<le> 0x5A) \<or> (0x61 \<le> byte_of c \<and> byte_of c \<le> 0x7A)"

definition word_char :: "char \<Rightarrow> bool" where
  "word_char c \<longleftrightarrow> is_letter c \<or> is_digit c \<or> c = CHR ''_''"

definition tableNameRE :: "string \<Rightarrow> bool" where
  "tableNameRE s \<longleftrightarrow> (case s of [] \<Rightarrow> False | c # t \<Rightarrow> (is_letter c \<or> c = CHR ''_'') \<and> list_all word_char t)"

definition goIdentifierRE :: "string \<Rightarrow> bool" where
  "goIdentifierRE s \<longleftrightarrow> (case s of [] \<Rightarrow> False | c # t \<Rightarrow> (0x41 \<le> byte_of c \<and> byte_of c \<le> 0x5A) \<and> list_all word_char t)"

definition validateTableName :: "string \<Rightarrow> gerr option" where
  "validateTableName name =
     (if name = '''' then Some (Errorf ''table name is required'' [])
      else if \<not> tableNameRE name then Some (Errorf (''invalid table name '' @ go_quote name) [])
      else None)"

record name_lib =
  nl_title :: "string \<Rightarrow> string"
  nl_plural :: "string \<Rightarrow> string"
  nl_singular :: "string \<Rightarrow> string"

abbreviation camel :: "name_lib \<Rightarrow> string \<Rightarrow> string" where "camel nl \<equiv> ToCamelCase (nl_title nl)"

subsection \<open>Relations\<close>

definition RelationManyToMany :: string where "RelationManyToMany = ''many-to-many''"

record Relation =
  r_Type :: string
  r_Through :: string
  r_SourceTable :: string
  r_SourceColumn :: string
  r_TargetTable :: string
  r_TargetColumn :: string
  r_Field :: string
  r_ReverseField :: string
  r_HasOne :: bool
  r_M2MJoin :: string
  r_SkipReverse :: bool

definition zero_Relation :: Relation where
  "zero_Relation = \<lparr>r_Type = '''', r_Through = '''', r_SourceTable = '''', r_SourceColumn = '''', r_TargetTable = '''',
     r_TargetColumn = '''', r_Field = '''', r_ReverseField = '''', r_HasOne = False, r_M2MJoin = '''', r_SkipReverse = False\<rparr>"

abbreviation is_m2m :: "Relation \<Rightarrow> bool" where "is_m2m r \<equiv> r_Type r = RelationManyToMany"

definition splitCompositeColumns :: "string \<Rightarrow> string list" where
  "splitCompositeColumns v = filter (\<lambda>p. p \<noteq> '''') (map trim_space (splitc CHR ''+'' v))"

definition parseRelationEndpoint :: "string \<Rightarrow> (gerr, string \<times> string) result" where
  "parseRelationEndpoint v =
     (case splitc CHR ''.'' v of
        [t, c] \<Rightarrow>
          if t = '''' \<or> c = '''' then Inl (Errorf (''invalid relation endpoint '' @ go_quote v @ '': expected table.column'') [])
          else (case validateTableName t of
                  Some err \<Rightarrow> Inl err
                | None \<Rightarrow>
                    (case find (\<lambda>col. validateTableName col \<noteq> None) (splitCompositeColumns c) of
                       Some col \<Rightarrow> Inl (Errorf (''invalid column name '' @ go_quote col) [])
                     | None \<Rightarrow> Inr (t, join ''+'' (splitCompositeColumns c))))
      | _ \<Rightarrow> Inl (Errorf (''invalid relation endpoint '' @ go_quote v @ '': expected table.column'') []))"

text \<open>\<^verbatim>\<open>strings.Split(s, "->")\<close>.\<close>

fun split_arrow :: "string \<Rightarrow> string list" where
  "split_arrow [] = [[]]"
| "split_arrow (c # s) =
     (if c = CHR ''-'' \<and> s \<noteq> [] \<and> hd s = CHR ''>'' then [] # split_arrow (tl s)
      else (case split_arrow s of [] \<Rightarrow> [[c]] | w # ws \<Rightarrow> (c # w) # ws))"

text \<open>A YAML node as the decoder presents it: for a mapping the names of its fields in order; \<open>decode\<close> fills
  the six known fields from it.\<close>

datatype yaml_node = ScalarNode string | MappingNode "string list" | OtherNode

record raw_relation =
  raw_Source :: string
  raw_Target :: string
  raw_Field :: string
  raw_ReverseField :: string
  raw_Type :: string
  raw_Through :: string

definition allowedFields :: "string list" where
  "allowedFields = [''source'', ''target'', ''field'', ''reverse_field'', ''type'', ''through'']"

fun check_fields :: "string list \<Rightarrow> string list \<Rightarrow> gerr option" where
  "check_fields seen [] = None"
| "check_fields seen (f # fs) =
     (if f \<notin> set allowedFields then Some (Errorf (''unknown relation field '' @ go_quote f) [])
      else if f \<in> set seen then Some (Errorf (''duplicate relation field '' @ go_quote f) [])
      else check_fields (f # seen) fs)"

definition set_endpoints :: "Relation \<Rightarrow> string \<Rightarrow> string \<Rightarrow> (gerr, Relation) result" where
  "set_endpoints r source target =
     (case parseRelationEndpoint source of
        Inl err \<Rightarrow> Inl err
      | Inr (st, sc) \<Rightarrow>
          (case parseRelationEndpoint target of
             Inl err \<Rightarrow> Inl err
           | Inr (tt, tc) \<Rightarrow> Inr (r\<lparr>r_SourceTable := st, r_SourceColumn := sc, r_TargetTable := tt, r_TargetColumn := tc\<rparr>)))"

definition UnmarshalYAML :: "(yaml_node \<Rightarrow> (gerr, raw_relation) result) \<Rightarrow> yaml_node \<Rightarrow> (gerr, Relation) result" where
  "UnmarshalYAML decode node =
     (case node of
        ScalarNode v \<Rightarrow>
          (case split_arrow v of
             [a, b] \<Rightarrow> set_endpoints zero_Relation (trim_space a) (trim_space b)
           | _ \<Rightarrow> Inl (Errorf (''invalid relation '' @ go_quote v @ '': expected source.table_column -> target.table_column'') []))
      | MappingNode fs \<Rightarrow>
          (case check_fields [] fs of
             Some err \<Rightarrow> Inl err
           | None \<Rightarrow>
               (case decode node of
                  Inl err \<Rightarrow> Inl err
                | Inr raw \<Rightarrow>
                    (case set_endpoints (zero_Relation\<lparr>r_Type := raw_Type raw, r_Through := raw_Through raw, r_Field := raw_Field raw,
                            r_ReverseField := raw_ReverseField raw\<rparr>) (raw_Source raw) (raw_Target raw) of
                       Inl err \<Rightarrow> Inl err
                     | Inr r \<Rightarrow>
                         if is_m2m r then
                           if r_Through r = '''' then Inl (Errorf ''many-to-many relation requires through'' [])
                           else (case validateTableName (r_Through r) of
                                   Some err \<Rightarrow> Inl (wrapl ''invalid through table'' err)
                                 | None \<Rightarrow> Inr r)
                         else if r_Type r \<noteq> '''' then Inl (Errorf (''unsupported relation type '' @ go_quote (r_Type r)) [])
                         else Inr r)))
      | OtherNode \<Rightarrow> Inl (Errorf ''invalid relation: expected a string or mapping'' []))"

definition relation_key :: "Relation \<Rightarrow> string" where
  "relation_key r =
     (if is_m2m r then ''m2m:'' @ r_Through r @ '':'' @ r_SourceTable r @ ''.'' @ r_SourceColumn r @ ''->'' @ r_TargetTable r @ ''.'' @ r_TargetColumn r
      else r_SourceTable r @ ''.'' @ r_SourceColumn r @ ''->'' @ r_TargetTable r @ ''.'' @ r_TargetColumn r)"

definition validateRelation :: "Relation \<Rightarrow> gerr option" where
  "validateRelation r =
     first_error
       (map (\<lambda>name. map_option (wrapl ''invalid relation'') (validateTableName name)) [r_SourceTable r, r_TargetTable r] @
        map (\<lambda>col. guard (validateTableName col \<noteq> None) (Errorf (''invalid relation source column '' @ go_quote col) []))
          (splitCompositeColumns (r_SourceColumn r)) @
        map (\<lambda>col. guard (validateTableName col \<noteq> None) (Errorf (''invalid relation target column '' @ go_quote col) []))
          (splitCompositeColumns (r_TargetColumn r)) @
        (if is_m2m r then [map_option (wrapl ''invalid through table'') (validateTableName (r_Through r))] else []) @
        map (\<lambda>name. guard (name \<noteq> '''' \<and> \<not> goIdentifierRE name) (Errorf (''invalid relation field '' @ go_quote name) []))
          [r_Field r, r_ReverseField r])"

fun validate_loop :: "string list \<Rightarrow> Relation list \<Rightarrow> gerr option" where
  "validate_loop seen [] = None"
| "validate_loop seen (r # rs) =
     (case validateRelation r of
        Some err \<Rightarrow> Some err
      | None \<Rightarrow> if relation_key r \<in> set seen then Some (Errorf (''duplicate relation '' @ relation_key r) [])
                else validate_loop (relation_key r # seen) rs)"

definition validateRelations :: "Relation list \<Rightarrow> gerr option" where
  "validateRelations rs = validate_loop [] rs"

text \<open>\<open>LoadRelations\<close>: \<open>content\<close> is the outcome of reading the file, \<open>decode_file\<close> the YAML decoder; \<open>ErrNotExist\<close> is the
  sentinel of \<^verbatim>\<open>os\<close>.\<close>

definition LoadRelations ::
  "(gerr, string) result \<Rightarrow> (string \<Rightarrow> (gerr, Relation list) result) \<Rightarrow> (gerr, Relation list) result" where
  "LoadRelations content decode_file =
     (case content of
        Inl err \<Rightarrow> Inl (wrapl ''read relations file'' err)
      | Inr data \<Rightarrow>
          (case decode_file data of
             Inl err \<Rightarrow> Inl (wrapl ''parse relations file'' err)
           | Inr rs \<Rightarrow> (case validateRelations rs of Some err \<Rightarrow> Inl err | None \<Rightarrow> Inr rs)))"

definition LoadRelationsOptional ::
  "gerr \<Rightarrow> (gerr, string) result \<Rightarrow> (string \<Rightarrow> (gerr, Relation list) result) \<Rightarrow> bool \<Rightarrow> (gerr, Relation list) result" where
  "LoadRelationsOptional ErrNotExist content decode_file required =
     (case LoadRelations content decode_file of
        Inl err \<Rightarrow> if \<not> required \<and> errors_is err ErrNotExist then Inr [] else Inl err
      | Inr rs \<Rightarrow> Inr rs)"

subsection \<open>Field names\<close>

definition relationFieldNames :: "name_lib \<Rightarrow> Relation \<Rightarrow> string \<times> string" where
  "relationFieldNames nl r =
     (if is_m2m r then
        (if r_Field r = '''' then nl_plural nl (camel nl (r_TargetTable r)) else r_Field r,
         if r_ReverseField r = '''' then nl_plural nl (camel nl (r_SourceTable r)) else r_ReverseField r)
      else
        let self = (r_SourceTable r = r_TargetTable r) in
        (if r_Field r = '''' then if self then ''Parent'' else nl_singular nl (camel nl (r_TargetTable r)) else r_Field r,
         if r_ReverseField r = ''''
         then if self then if r_HasOne r then ''Child'' else ''Children'' else nl_plural nl (camel nl (r_SourceTable r))
         else r_ReverseField r))"

subsection \<open>Merging\<close>

definition override :: "Relation \<Rightarrow> Relation \<Rightarrow> Relation" where
  "override existing r =
     existing\<lparr>r_Field := if r_Field r \<noteq> '''' then r_Field r else r_Field existing,
       r_ReverseField := if r_ReverseField r \<noteq> '''' then r_ReverseField r else r_ReverseField existing,
       r_Type := if r_Type r \<noteq> '''' then r_Type r else r_Type existing,
       r_Through := if r_Through r \<noteq> '''' then r_Through r else r_Through existing\<rparr>"

definition merge_logical :: "Relation \<Rightarrow> (string \<times> Relation) list \<Rightarrow> (string \<times> Relation) list" where
  "merge_logical r merged =
     (case map_of merged (relation_key r) of
        Some existing \<Rightarrow> AList.update (relation_key r) (override existing r) merged
      | None \<Rightarrow> AList.update (relation_key r) r merged)"

fun occupy_fields :: "(string \<rightharpoonup> string) \<Rightarrow> (string \<times> string) list \<Rightarrow> (gerr, string \<rightharpoonup> string) result" where
  "occupy_fields taken [] = Inr taken"
| "occupy_fields taken ((key, name) # xs) =
     (case taken key of
        Some existing \<Rightarrow>
          if existing \<noteq> name
          then Inl (Errorf (''relation field conflict on '' @ key @ '' between '' @ existing @ '' and '' @ name) [])
          else occupy_fields (taken(key \<mapsto> name)) xs
      | None \<Rightarrow> occupy_fields (taken(key \<mapsto> name)) xs)"

definition occupied :: "name_lib \<Rightarrow> Relation \<Rightarrow> (string \<times> string) list" where
  "occupied nl r =
     (let (field, reverseField) = relationFieldNames nl r
      in AList.updates
           (if is_m2m r \<or> \<not> r_SkipReverse r then [r_TargetTable r @ ''.'' @ reverseField] else [])
           [relation_key r]
           [(r_SourceTable r @ ''.'' @ field, relation_key r)])"

fun check_merged ::
  "name_lib \<Rightarrow> ((string \<times> string) list \<Rightarrow> (string \<times> string) list) \<Rightarrow> (string \<rightharpoonup> string) \<Rightarrow> Relation list \<Rightarrow> gerr option" where
  "check_merged nl iter taken [] = None"
| "check_merged nl iter taken (r # rs) =
     (case validateRelation r of
        Some err \<Rightarrow> Some err
      | None \<Rightarrow>
          (let (field, reverseField) = relationFieldNames nl r
           in if r_SourceTable r = r_TargetTable r \<and> field = reverseField
              then Some (Errorf (''relation field conflict on '' @ r_SourceTable r @ ''.'' @ field) [])
              else (case occupy_fields taken (iter (occupied nl r)) of
                      Inl err \<Rightarrow> Some err
                    | Inr taken' \<Rightarrow> check_merged nl iter taken' rs)))"

definition merged_relations :: "Relation list \<Rightarrow> Relation list \<Rightarrow> (string \<times> Relation) list" where
  "merged_relations physical logical =
     fold merge_logical logical (fold (\<lambda>r. AList.update (relation_key r) r) physical [])"

definition mergeRelations ::
  "name_lib \<Rightarrow> ((string \<times> string) list \<Rightarrow> (string \<times> string) list) \<Rightarrow> Relation list \<Rightarrow> Relation list \<Rightarrow> (gerr, Relation list) result" where
  "mergeRelations nl iter physical logical =
     (let merged = merged_relations physical logical;
          result = map (\<lambda>key. the (map_of merged key)) (sort (map fst merged))
      in case check_merged nl iter Map.empty result of Some err \<Rightarrow> Inl err | None \<Rightarrow> Inr result)"

subsection \<open>Annotations\<close>

record Column =
  co_Name :: string
  co_Type :: string
  co_ColumnType :: string
  co_UDTName :: string
  co_Nullable :: bool
  co_Default :: string
  co_Comment :: string
  co_PrimaryKey :: bool
  co_AutoIncrement :: bool
  co_Unique :: bool
  co_UniqueGroup :: string
  co_Unsigned :: bool
  co_Length :: int
  co_ArrayDims :: int
  co_EnumValues :: "string list"

type_synonym table_columns = "string \<rightharpoonup> Column list"

text \<open>The columns of a table that are unique alone and those of its primary key; a missing table has none.\<close>

definition collectUniqueness :: "table_columns \<Rightarrow> (string \<Rightarrow> string set) \<times> (string \<Rightarrow> string set)" where
  "collectUniqueness columnsByTable =
     (let cols = (\<lambda>t. case columnsByTable t of None \<Rightarrow> [] | Some cs \<Rightarrow> cs)
      in (\<lambda>t. set (map co_Name (filter (\<lambda>c. co_Unique c \<and> co_UniqueGroup c = '''') (cols t))),
          \<lambda>t. set (map co_Name (filter co_PrimaryKey (cols t)))))"

definition annotateHasOne :: "(string \<Rightarrow> string set) \<Rightarrow> (string \<Rightarrow> string set) \<Rightarrow> Relation list \<Rightarrow> Relation list" where
  "annotateHasOne uniqueSingleCols pkCols rs =
     map (\<lambda>r. if is_m2m r then r
              else (case splitCompositeColumns (r_SourceColumn r) of
                      [col] \<Rightarrow>
                        if col \<in> uniqueSingleCols (r_SourceTable r) then r\<lparr>r_HasOne := True\<rparr>
                        else if card (pkCols (r_SourceTable r)) = 1 \<and> col \<in> pkCols (r_SourceTable r) then r\<lparr>r_HasOne := True\<rparr>
                        else r
                    | _ \<Rightarrow> r)) rs"

definition junctionMetaColumns :: "string list" where
  "junctionMetaColumns = [''created_at'', ''updated_at'', ''deleted_at'']"

definition sameStringSet :: "string set \<Rightarrow> string set \<Rightarrow> bool" where
  "sameStringSet a b \<longleftrightarrow> \<not> (card a = 0 \<or> card a \<noteq> card b) \<and> a \<subseteq> b"

definition unique_group :: "Column \<Rightarrow> string" where
  "unique_group c = (if co_UniqueGroup c = '''' then ''__single__:'' @ co_Name c else co_UniqueGroup c)"

definition fkColumnsAreCompleteKey :: "Column list \<Rightarrow> string set \<Rightarrow> bool" where
  "fkColumnsAreCompleteKey columns fkCols \<longleftrightarrow>
     (let pkSet = set (map co_Name (filter co_PrimaryKey columns)); us = filter co_Unique columns
      in sameStringSet pkSet fkCols \<or>
         (\<exists>g \<in> set (map unique_group us). sameStringSet (set (map co_Name (filter (\<lambda>c. unique_group c = g) us))) fkCols))"

definition fks_of :: "Relation list \<Rightarrow> string \<Rightarrow> Relation list" where
  "fks_of rs table = filter (\<lambda>r. \<not> is_m2m r \<and> r_SourceTable r = table) rs"

text \<open>One table of the loop: the two foreign keys of a pure junction, in the order of their target tables.\<close>

definition junction_of :: "table_columns \<Rightarrow> Relation list \<Rightarrow> string \<Rightarrow> (Relation \<times> Relation) option" where
  "junction_of tableColumns rs table =
     (case fks_of rs table of
        [fk0, fk1] \<Rightarrow>
          if r_TargetTable fk0 = r_TargetTable fk1 then None
          else (case tableColumns table of
                  None \<Rightarrow> None
                | Some cols \<Rightarrow>
                    (let fkColSet = set (splitCompositeColumns (r_SourceColumn fk0) @ splitCompositeColumns (r_SourceColumn fk1));
                         hasExtra = (\<exists>c \<in> set cols. co_Name c \<notin> fkColSet \<and> co_Name c \<notin> set junctionMetaColumns)
                     in if hasExtra \<or> \<not> fkColumnsAreCompleteKey cols fkColSet then None
                        else if r_TargetTable fk1 < r_TargetTable fk0 then Some (fk1, fk0) else Some (fk0, fk1)))
      | _ \<Rightarrow> None)"

definition junction_relation :: "name_lib \<Rightarrow> string \<Rightarrow> Relation \<times> Relation \<Rightarrow> Relation" where
  "junction_relation nl table lr =
     (let (left, right) = lr in
      zero_Relation\<lparr>r_Type := RelationManyToMany, r_Through := table,
        r_SourceTable := r_TargetTable left, r_SourceColumn := r_TargetColumn left,
        r_TargetTable := r_TargetTable right, r_TargetColumn := r_TargetColumn right,
        r_M2MJoin := nl_singular nl (camel nl (r_TargetTable left)) @ ''='' @ nl_singular nl (camel nl (r_TargetTable right))\<rparr>)"

definition detectPureM2MTables ::
  "name_lib \<Rightarrow> (string list \<Rightarrow> string list) \<Rightarrow> table_columns \<Rightarrow> Relation list \<Rightarrow> Relation list \<times> string list" where
  "detectPureM2MTables nl iter tableColumns rs =
     (let tables = iter (remdups (map r_SourceTable (filter (\<lambda>r. \<not> is_m2m r) rs)));
          found = List.map_filter (\<lambda>t. map_option (Pair t) (junction_of tableColumns rs t)) tables
      in (map (\<lambda>(t, lr). junction_relation nl t lr) found,
          concat (map (\<lambda>(t, l, r). [relation_key l, relation_key r]) found)))"

definition applySkipReverse :: "Relation list \<Rightarrow> string list \<Rightarrow> Relation list" where
  "applySkipReverse rs suppress =
     map (\<lambda>r. if relation_key r \<in> set suppress then r\<lparr>r_SkipReverse := True\<rparr> else r) rs"

definition columnsMatch :: "string \<Rightarrow> string \<Rightarrow> bool" where
  "columnsMatch a b \<longleftrightarrow> splitCompositeColumns a = splitCompositeColumns b"

text \<open>The last matching foreign key of the junction wins.\<close>

definition junction_fk :: "Relation list \<Rightarrow> string \<Rightarrow> string \<Rightarrow> string \<Rightarrow> Relation option" where
  "junction_fk rs through table column =
     find (\<lambda>fk. r_TargetTable fk = table \<and> columnsMatch (r_TargetColumn fk) column) (rev (fks_of rs through))"

definition resolve_one :: "name_lib \<Rightarrow> Relation list \<Rightarrow> Relation \<Rightarrow> (gerr, Relation) result" where
  "resolve_one nl rs r =
     (if \<not> is_m2m r \<or> r_M2MJoin r \<noteq> '''' then Inr r
      else (case (junction_fk rs (r_Through r) (r_SourceTable r) (r_SourceColumn r),
                  junction_fk rs (r_Through r) (r_TargetTable r) (r_TargetColumn r)) of
              (Some leftFK, Some rightFK) \<Rightarrow>
                (let leftField = (if r_Field leftFK = '''' then nl_singular nl (camel nl (r_SourceTable r)) else r_Field leftFK);
                     rightField = (if r_Field rightFK = '''' then nl_singular nl (camel nl (r_TargetTable r)) else r_Field rightFK)
                 in Inr (r\<lparr>r_M2MJoin := leftField @ ''='' @ rightField\<rparr>))
            | _ \<Rightarrow> Inl (Errorf (''many-to-many through '' @ r_Through r @ '': junction foreign keys to '' @ r_SourceTable r @ '' and '' @
                       r_TargetTable r @ '' not found'') [])))"

fun resolve_all :: "name_lib \<Rightarrow> Relation list \<Rightarrow> Relation list \<Rightarrow> (gerr, Relation list) result" where
  "resolve_all nl rs [] = Inr []"
| "resolve_all nl rs (r # todo) =
     (case resolve_one nl rs r of
        Inl err \<Rightarrow> Inl err
      | Inr r' \<Rightarrow> (case resolve_all nl rs todo of Inl err \<Rightarrow> Inl err | Inr out \<Rightarrow> Inr (r' # out)))"

definition resolveM2MJoins :: "name_lib \<Rightarrow> Relation list \<Rightarrow> (gerr, Relation list) result" where
  "resolveM2MJoins nl rs = resolve_all nl rs rs"

subsection \<open>Checks against the tables\<close>

text \<open>The names a struct has besides its relations.\<close>

definition column_fields :: "name_lib \<Rightarrow> Column list \<Rightarrow> string list" where
  "column_fields nl cols = ''BaseModel'' # map (\<lambda>c. camel nl (co_Name c)) cols"

definition unknown_table :: "string \<Rightarrow> gerr" where
  "unknown_table t = Errorf (''unknown table '' @ t) []"

definition missing_column :: "string \<Rightarrow> string \<Rightarrow> string \<Rightarrow> Column list \<Rightarrow> gerr option" where
  "missing_column side table columns cols =
     map_option (\<lambda>col. Errorf (''relation '' @ side @ '' column not found: '' @ table @ ''.'' @ col) [])
       (find (\<lambda>col. col \<notin> set (map co_Name cols)) (splitCompositeColumns columns))"

definition field_conflict :: "name_lib \<Rightarrow> string \<Rightarrow> string \<Rightarrow> Column list \<Rightarrow> gerr option" where
  "field_conflict nl table field cols =
     guard (field \<in> set (column_fields nl cols)) (Errorf (''relation field conflict with column: '' @ table @ ''.'' @ field) [])"

definition validate_columns_of :: "name_lib \<Rightarrow> table_columns \<Rightarrow> Relation \<Rightarrow> gerr option" where
  "validate_columns_of nl columnsByTable r =
     (let (field, reverseField) = relationFieldNames nl r
      in case columnsByTable (r_SourceTable r) of
           None \<Rightarrow> Some (unknown_table (r_SourceTable r))
         | Some src \<Rightarrow>
             first_error
               ((if is_m2m r then [] else [missing_column ''source'' (r_SourceTable r) (r_SourceColumn r) src]) @
                [field_conflict nl (r_SourceTable r) field src,
                 (case columnsByTable (r_TargetTable r) of
                    None \<Rightarrow> Some (unknown_table (r_TargetTable r))
                  | Some tgt \<Rightarrow>
                      first_error
                        ((if is_m2m r then [] else [missing_column ''target'' (r_TargetTable r) (r_TargetColumn r) tgt]) @
                         (if is_m2m r \<or> \<not> r_SkipReverse r then [field_conflict nl (r_TargetTable r) reverseField tgt] else [])))]))"

definition validateRelationColumns :: "name_lib \<Rightarrow> table_columns \<Rightarrow> Relation list \<Rightarrow> gerr option" where
  "validateRelationColumns nl columnsByTable rs = first_error (map (validate_columns_of nl columnsByTable) rs)"

definition add_table :: "string list \<Rightarrow> string \<Rightarrow> string list" where
  "add_table tables name = (if name = '''' \<or> name \<in> set tables then tables else tables @ [name])"

definition expandTablesForRelations :: "string list \<Rightarrow> Relation list \<Rightarrow> string list" where
  "expandTablesForRelations tables rs =
     foldl (\<lambda>ts r. foldl add_table ts [r_SourceTable r, r_TargetTable r, r_Through r]) tables rs"

subsection \<open>Rendered fields\<close>

definition buildJoinClause :: "string \<Rightarrow> string \<Rightarrow> string" where
  "buildJoinClause sourceCols targetCols =
     join '','' (map (\<lambda>(s, t). s @ ''='' @ t) (zip (splitCompositeColumns sourceCols) (splitCompositeColumns targetCols)))"

definition buildReverseJoinClause :: "string \<Rightarrow> string \<Rightarrow> string" where
  "buildReverseJoinClause sourceCols targetCols = buildJoinClause targetCols sourceCols"

text \<open>A line of the struct: the name of the field and the text after it. \<open>tag\<close> is the struct tag, \<open>NL\<close> a newline.\<close>

abbreviation NL :: string where "NL \<equiv> [CHR 0x0A]"
abbreviation TAB :: string where "TAB \<equiv> [CHR 0x09]"

definition rel_line :: "string \<Rightarrow> string \<Rightarrow> string \<Rightarrow> string \<times> string" where
  "rel_line field typ tag =
     (field, TAB @ field @ '' '' @ typ @ '' `bun:'' @ [CHR 0x22] @ tag @ [CHR 0x22] @ '' json:'' @ [CHR 0x22] @ ''-'' @ [CHR 0x22] @ ''`'' @ NL)"

definition m2m_note :: string where
  "m2m_note = TAB @ ''// Register the join model with db.RegisterModel before using this m2m relation.'' @ NL"

definition writeM2MFields :: "name_lib \<Rightarrow> string \<Rightarrow> Relation \<Rightarrow> (string \<times> string) list" where
  "writeM2MFields nl tableName r =
     (let (field, reverseField) = relationFieldNames nl r;
          note_first = (\<lambda>(f, l). (f, m2m_note @ l))
      in (if r_SourceTable r = tableName
          then [note_first (rel_line field (''[]*'' @ camel nl (r_TargetTable r)) (''m2m:'' @ r_Through r @ '',join:'' @ r_M2MJoin r))] else []) @
         (if r_TargetTable r = tableName
          then [note_first (rel_line reverseField (''[]*'' @ camel nl (r_SourceTable r))
                  (''m2m:'' @ r_Through r @ '',join:'' @ swapM2MJoin (r_M2MJoin r)))] else []))"

definition relation_lines :: "name_lib \<Rightarrow> string \<Rightarrow> Relation \<Rightarrow> (string \<times> string) list" where
  "relation_lines nl tableName r =
     (if is_m2m r then writeM2MFields nl tableName r
      else
        let (field, reverseField) = relationFieldNames nl r;
            fwd = buildJoinClause (r_SourceColumn r) (r_TargetColumn r);
            revJoin = buildReverseJoinClause (r_SourceColumn r) (r_TargetColumn r)
        in (if r_SourceTable r = tableName
            then [rel_line field (''*'' @ camel nl (r_TargetTable r)) (''rel:belongs-to,join:'' @ fwd)] else []) @
           (if r_TargetTable r = tableName \<and> \<not> r_SkipReverse r
            then [if r_HasOne r then rel_line reverseField (''*'' @ camel nl (r_SourceTable r)) (''rel:has-one,join:'' @ revJoin)
                  else rel_line reverseField (''[]*'' @ camel nl (r_SourceTable r)) (''rel:has-many,join:'' @ revJoin)] else []))"

definition render_relations :: "name_lib \<Rightarrow> string \<Rightarrow> Relation list \<Rightarrow> (string \<times> string) list" where
  "render_relations nl tableName rs = concat (map (relation_lines nl tableName) rs)"

end
