(* ===== verification/Typemap.thy ===== *)
theory Typemap
  imports Relations App_Config
begin

section \<open>Model generator: column types\<close>

text \<open>
  \<^verbatim>\<open>internal/database/gen/typemap.go\<close>: how a column becomes a Go type for each driver. A \<open>switch\<close> over names is a list
  of cases; the regular expressions are matched by hand-written functions.
\<close>

subsection \<open>Matching\<close>

definition re_space :: "char \<Rightarrow> bool" where
  "re_space c \<longleftrightarrow> c \<in> set [CHR '' '', CHR 0x09, CHR 0x0A, CHR 0x0C, CHR 0x0D]"

text \<open>What is left of a text after a word in any case; a letter may be written in up to three bytes.\<close>

definition fold_prefix :: "string \<Rightarrow> string \<Rightarrow> string option" where
  "fold_prefix w s = map_option (\<lambda>n. drop n s) (find (\<lambda>n. fold_case (take n s) = w) [length w..<3 * length w + 1])"

text \<open>\<^verbatim>\<open>(?i)^(char|varchar)\((\d+)\)\<close>: the digits.\<close>

definition charLengthRE :: "string \<Rightarrow> string option" where
  "charLengthRE s =
     (case (case fold_prefix ''char'' s of Some t \<Rightarrow> Some t | None \<Rightarrow> fold_prefix ''varchar'' s) of
        Some (c # t) \<Rightarrow>
          (let ds = takeWhile is_digit t
           in if c = CHR ''('' \<and> ds \<noteq> [] \<and> take 1 (drop (length ds) t) = '')'' then Some ds else None)
      | _ \<Rightarrow> None)"

text \<open>\<^verbatim>\<open>(?i)^tinyint\s*\(\s*1\s*\)\<close>.\<close>

definition mysqlTinyInt1 :: "string \<Rightarrow> bool" where
  "mysqlTinyInt1 s \<longleftrightarrow>
     (case fold_prefix ''tinyint'' s of
        None \<Rightarrow> False
      | Some t \<Rightarrow>
          (case dropWhile re_space t of
             [] \<Rightarrow> False
           | c # u \<Rightarrow>
               c = CHR ''('' \<and>
               (case dropWhile re_space u of
                  [] \<Rightarrow> False
                | d # v \<Rightarrow> d = CHR ''1'' \<and> take 1 (dropWhile re_space v) = '')'')))"

text \<open>\<^verbatim>\<open>(?i)^(enum|set)\((.*)\)$\<close>: the text between the parentheses; the dot does not match a newline.\<close>

definition mysqlEnumRE :: "string \<Rightarrow> string option" where
  "mysqlEnumRE s =
     (case (case fold_prefix ''enum'' s of Some t \<Rightarrow> Some t | None \<Rightarrow> fold_prefix ''set'' s) of
        Some (c # t) \<Rightarrow>
          if c = CHR ''('' \<and> t \<noteq> [] \<and> last t = CHR '')'' \<and> CHR 0x0A \<notin> set t then Some (butlast t) else None
      | _ \<Rightarrow> None)"

text \<open>\<^verbatim>\<open>strconv.Atoi\<close> of a digit string whose error is ignored: too large a number gives the largest one.\<close>

definition atoi_digits :: "string \<Rightarrow> int" where
  "atoi_digits ds = min (int (nat_of_digits ds)) MaxInt64"

fun switch_on :: "string \<Rightarrow> (string list \<times> 'a) list \<Rightarrow> 'a \<Rightarrow> 'a" where
  "switch_on x [] d = d"
| "switch_on x ((names, v) # cs) d = (if x \<in> set names then v else switch_on x cs d)"

subsection \<open>Types\<close>

record FieldType =
  ft_GoType :: string
  ft_BunType :: string
  ft_Array :: bool
  ft_Length :: int
  ft_EnumValues :: "string list"
  ft_IsSet :: bool
  ft_RawComment :: string

definition zero_FieldType :: FieldType where
  "zero_FieldType = \<lparr>ft_GoType = '''', ft_BunType = '''', ft_Array = False, ft_Length = 0, ft_EnumValues = [], ft_IsSet = False,
     ft_RawComment = ''''\<rparr>"

abbreviation go_type :: "string \<Rightarrow> FieldType" where
  "go_type t \<equiv> zero_FieldType\<lparr>ft_GoType := t\<rparr>"

definition applyNullable :: "FieldType \<Rightarrow> bool \<Rightarrow> FieldType" where
  "applyNullable ft nullable =
     (if \<not> nullable \<or> ft_GoType ft = '''' then ft
      else if has_prefix (ft_GoType ft) ''*'' then ft
      else if ft_GoType ft = ''[]byte'' then ft
      else if ft_Array ft then ft\<lparr>ft_GoType := ''*[]'' @ trim_prefix (ft_GoType ft) ''[]''\<rparr>
      else ft\<lparr>ft_GoType := ''*'' @ ft_GoType ft\<rparr>)"

definition applyUnsigned :: "string \<Rightarrow> bool \<Rightarrow> string" where
  "applyUnsigned t unsigned =
     (if \<not> unsigned then t
      else switch_on t [([''int8''], ''uint8''), ([''int16''], ''uint16''), ([''int32''], ''uint32''), ([''int64''], ''uint64'')] t)"

definition char_length :: "string \<Rightarrow> FieldType \<Rightarrow> FieldType" where
  "char_length s ft = (case charLengthRE s of None \<Rightarrow> ft | Some ds \<Rightarrow> ft\<lparr>ft_Length := atoi_digits ds\<rparr>)"

fun split_quoted :: "bool \<Rightarrow> string \<Rightarrow> string \<Rightarrow> string list" where
  "split_quoted inQuote cur [] = []"
| "split_quoted inQuote cur (c # s) =
     (if c = CHR 0x27 \<and> \<not> inQuote then split_quoted True cur s
      else if c = CHR 0x27 \<and> inQuote then
        if s \<noteq> [] \<and> hd s = CHR 0x27 then split_quoted inQuote (cur @ [CHR 0x27]) (tl s)
        else cur # split_quoted False [] s
      else if inQuote then split_quoted inQuote (cur @ [c]) s
      else split_quoted inQuote cur s)"

definition splitQuotedList :: "string \<Rightarrow> string list" where
  "splitQuotedList s = split_quoted False [] s"

definition parseMySQLEnumOrSet :: "string \<Rightarrow> string list" where
  "parseMySQLEnumOrSet columnType = (case mysqlEnumRE columnType of None \<Rightarrow> [] | Some s \<Rightarrow> splitQuotedList s)"

definition mysql_type :: "Column \<Rightarrow> string \<Rightarrow> string \<Rightarrow> FieldType" where
  "mysql_type col dataType columnType =
     switch_on dataType
       [([''tinyint''], go_type (applyUnsigned ''int8'' (co_Unsigned col))),
        ([''smallint'', ''year''], go_type (applyUnsigned ''int16'' (co_Unsigned col))),
        ([''mediumint'', ''int'', ''integer''], go_type (applyUnsigned ''int32'' (co_Unsigned col))),
        ([''bigint''], go_type (applyUnsigned ''int64'' (co_Unsigned col))),
        ([''float''], go_type ''float32''),
        ([''double'', ''double precision''], go_type ''float64''),
        ([''decimal'', ''numeric''], go_type ''string''),
        ([''bit''], go_type ''[]byte''),
        ([''char'', ''varchar''], char_length columnType (go_type ''string'')),
        ([''text'', ''tinytext'', ''mediumtext'', ''longtext''], go_type ''string''),
        ([''json''], (go_type ''json.RawMessage'')\<lparr>ft_BunType := ''json''\<rparr>),
        ([''blob'', ''tinyblob'', ''mediumblob'', ''longblob'', ''binary'', ''varbinary''], go_type ''[]byte''),
        ([''enum''], (go_type ''string'')\<lparr>ft_EnumValues := parseMySQLEnumOrSet (co_ColumnType col)\<rparr>),
        ([''set''], (go_type ''string'')\<lparr>ft_EnumValues := parseMySQLEnumOrSet (co_ColumnType col), ft_IsSet := True\<rparr>),
        ([''date'', ''time'', ''datetime'', ''timestamp''], go_type ''time.Time''),
        ([''boolean'', ''bool''], go_type ''bool'')]
       ((go_type ''string'')\<lparr>ft_RawComment := co_Type col\<rparr>)"

definition mapMySQLColumn :: "Column \<Rightarrow> FieldType" where
  "mapMySQLColumn col =
     (let dataType = to_lower (trim_space (co_Type col));
          ct = to_lower (trim_space (co_ColumnType col));
          columnType = (if ct = [] then dataType else ct)
      in if mysqlTinyInt1 columnType then applyNullable (go_type ''bool'') (co_Nullable col)
         else applyNullable (mysql_type col dataType columnType) (co_Nullable col))"

definition mapPostgresScalar :: "string \<Rightarrow> string \<Rightarrow> FieldType" where
  "mapPostgresScalar dataType udt =
     (let name = to_lower (trim_space (if dataType = ''user-defined'' \<or> dataType = ''array'' then udt else dataType))
      in switch_on name
           [([''boolean'', ''bool''], go_type ''bool''),
            ([''smallint'', ''int2''], go_type ''int16''),
            ([''integer'', ''int'', ''int4''], go_type ''int32''),
            ([''bigint'', ''int8''], go_type ''int64''),
            ([''real'', ''float4''], go_type ''float32''),
            ([''double precision'', ''float8''], go_type ''float64''),
            ([''numeric'', ''decimal''], go_type ''string''),
            ([''character varying'', ''varchar'', ''character'', ''char'', ''text'', ''citext''], go_type ''string''),
            ([''json''], (go_type ''json.RawMessage'')\<lparr>ft_BunType := ''json''\<rparr>),
            ([''jsonb''], (go_type ''json.RawMessage'')\<lparr>ft_BunType := ''jsonb''\<rparr>),
            ([''bytea''], go_type ''[]byte''),
            ([''uuid'', ''inet'', ''cidr'', ''interval'', ''money''], go_type ''string''),
            ([''date'', ''time'', ''timetz'', ''timestamp'', ''timestamptz'', ''time without time zone'', ''time with time zone'',
              ''timestamp without time zone'', ''timestamp with time zone''], go_type ''time.Time'')]
           ((go_type ''string'')\<lparr>ft_RawComment := name\<rparr>))"

definition array_elements :: "string list" where
  "array_elements = [''int16'', ''int32'', ''int64'', ''float32'', ''float64'', ''string'', ''bool'', ''time.Time'']"

definition mapPostgresColumn :: "Column \<Rightarrow> FieldType" where
  "mapPostgresColumn col =
     (let dataType = to_lower (trim_space (co_Type col));
          udt = to_lower (trim_space (co_UDTName col))
      in if co_ArrayDims col > 1
         then applyNullable ((go_type ''string'')\<lparr>ft_RawComment := if udt \<noteq> '''' then udt else co_Type col\<rparr>) (co_Nullable col)
         else if co_ArrayDims col = 1 \<or> dataType = ''array'' \<or> has_prefix udt ''_'' then
           (let e0 = trim_prefix udt ''_'';
                elem = (if e0 = '''' then trim_suffix dataType ''[]'' else e0);
                elemFT = mapPostgresScalar elem elem
            in if ft_GoType elemFT \<in> set array_elements \<and> ft_RawComment elemFT = ''''
               then applyNullable ((go_type (''[]'' @ ft_GoType elemFT))\<lparr>ft_Array := True\<rparr>) (co_Nullable col)
               else applyNullable ((go_type ''string'')\<lparr>ft_RawComment := co_Type col\<rparr>) (co_Nullable col))
         else
           (let ft = mapPostgresScalar dataType udt;
                ft1 = (if length (co_EnumValues col) > 0 then ft\<lparr>ft_EnumValues := co_EnumValues col\<rparr> else ft);
                ft2 = (if co_Length col > 0 \<and> ft_GoType ft1 = ''string'' then ft1\<lparr>ft_Length := co_Length col\<rparr> else ft1)
            in applyNullable ft2 (co_Nullable col)))"

definition sqlite_type :: "string \<Rightarrow> string \<Rightarrow> FieldType" where
  "sqlite_type decl base =
     switch_on base
       [([''INTEGER'', ''INT'', ''BIGINT'', ''TINYINT'', ''SMALLINT'', ''MEDIUMINT'', ''INT2'', ''INT8''], go_type ''int64''),
        ([''REAL'', ''FLOAT'', ''DOUBLE'', ''DOUBLE PRECISION''], go_type ''float64''),
        ([''NUMERIC'', ''DECIMAL''], go_type ''string''),
        ([''TEXT'', ''CLOB'', ''CHAR'', ''VARCHAR'', ''NVARCHAR'', ''VARYING CHARACTER'', ''NATIVE CHARACTER''],
         char_length decl (go_type ''string'')),
        ([''BOOLEAN'', ''BOOL''], go_type ''bool''),
        ([''BLOB''], go_type ''[]byte''),
        ([''JSON''], (go_type ''json.RawMessage'')\<lparr>ft_BunType := ''json''\<rparr>),
        ([''DATE'', ''TIME'', ''DATETIME'', ''TIMESTAMP''], go_type ''time.Time'')]
       ((go_type ''string'')\<lparr>ft_RawComment := decl\<rparr>)"

definition mapSQLiteColumn :: "Column \<Rightarrow> FieldType" where
  "mapSQLiteColumn col =
     (let decl = trim_space (co_Type col);
          upper = to_upper decl;
          base = (case index_byte upper CHR ''('' of None \<Rightarrow> upper | Some i \<Rightarrow> trim_space (take i upper))
      in applyNullable (sqlite_type decl base) (co_Nullable col))"

definition MapColumn :: "string \<Rightarrow> Column \<Rightarrow> FieldType" where
  "MapColumn driver col =
     (if driver = DriverMySQL then mapMySQLColumn col
      else if driver = DriverPostgres \<or> driver = DriverPostgreSQL then mapPostgresColumn col
      else if driver = DriverSQLite \<or> driver = DriverSQLite3 then mapSQLiteColumn col
      else applyNullable ((go_type ''string'')\<lparr>ft_RawComment := co_Type col\<rparr>) (co_Nullable col))"

subsection \<open>Lemmas\<close>

definition go_types :: "string list" where
  "go_types = [''bool'', ''int8'', ''int16'', ''int32'', ''int64'', ''uint8'', ''uint16'', ''uint32'', ''uint64'', ''float32'', ''float64'',
     ''string'', ''[]byte'', ''json.RawMessage'', ''time.Time'']"

lemma switch_on_all: "(\<forall>(names, v) \<in> set cs. P v) \<Longrightarrow> P d \<Longrightarrow> P (switch_on x cs d)"
  by (induction cs) auto

definition scalar_type :: "FieldType \<Rightarrow> bool" where
  "scalar_type ft \<longleftrightarrow> ft_GoType ft \<in> set go_types \<and> \<not> ft_Array ft"

lemma scalar_go_type: "t \<in> set go_types \<Longrightarrow> scalar_type (go_type t)"
  by (simp add: scalar_type_def zero_FieldType_def)

lemma scalar_updates [simp]:
  "scalar_type (ft\<lparr>ft_BunType := a\<rparr>) = scalar_type ft" "scalar_type (ft\<lparr>ft_RawComment := a\<rparr>) = scalar_type ft"
  "scalar_type (ft\<lparr>ft_EnumValues := vs\<rparr>) = scalar_type ft" "scalar_type (ft\<lparr>ft_IsSet := b\<rparr>) = scalar_type ft"
  "scalar_type (ft\<lparr>ft_Length := n\<rparr>) = scalar_type ft"
  by (simp_all add: scalar_type_def)

lemma char_length_scalar [simp]: "scalar_type (char_length s ft) = scalar_type ft"
  by (simp add: char_length_def split: option.split)

lemma applyUnsigned_types: "t \<in> {''int8'', ''int16'', ''int32'', ''int64''} \<Longrightarrow> applyUnsigned t u \<in> set go_types"
  by (auto simp: applyUnsigned_def go_types_def)

lemma mapPostgresScalar_scalar: "scalar_type (mapPostgresScalar dataType udt)"
  unfolding mapPostgresScalar_def Let_def by (rule switch_on_all) (auto intro!: scalar_go_type simp: go_types_def)

text \<open>The shapes a Go type can have, for columns that are not nullable and for those that are.\<close>

definition plain_type :: "FieldType \<Rightarrow> bool" where
  "plain_type ft \<longleftrightarrow> scalar_type ft \<or> ft_Array ft \<and> (\<exists>e \<in> set array_elements. ft_GoType ft = ''[]'' @ e)"

definition nullable_type :: "FieldType \<Rightarrow> bool" where
  "nullable_type ft \<longleftrightarrow>
     (\<not> ft_Array ft \<and> (ft_GoType ft = ''[]byte'' \<or> (\<exists>t \<in> set go_types. t \<noteq> ''[]byte'' \<and> ft_GoType ft = ''*'' @ t))) \<or>
     ft_Array ft \<and> (\<exists>e \<in> set array_elements. ft_GoType ft = ''*[]'' @ e)"

lemma applyNullable_type:
  assumes "plain_type ft"
  shows "if nullable then nullable_type (applyNullable ft nullable) else plain_type (applyNullable ft nullable)"
proof (cases "scalar_type ft")
  case True
  then have *: "ft_GoType ft \<noteq> ''''" "\<not> has_prefix (ft_GoType ft) ''*''"
    by (auto simp: scalar_type_def go_types_def has_prefix_def)
  then show ?thesis using True by (auto simp: plain_type_def applyNullable_def nullable_type_def scalar_type_def)
next
  case False
  then obtain e where e: "e \<in> set array_elements" "ft_GoType ft = ''[]'' @ e" "ft_Array ft" using assms by (auto simp: plain_type_def)
  then have "e \<noteq> ''byte''" by (auto simp: array_elements_def)
  then show ?thesis using e by (auto simp: plain_type_def applyNullable_def nullable_type_def has_prefix_def trim_prefix_def)
qed

lemma mysql_type_scalar: "scalar_type (mysql_type col dataType columnType)"
  unfolding mysql_type_def
  by (rule switch_on_all) (auto intro!: scalar_go_type applyUnsigned_types simp: go_types_def)

lemma sqlite_type_scalar: "scalar_type (sqlite_type decl base)"
  unfolding sqlite_type_def by (rule switch_on_all) (auto intro!: scalar_go_type simp: go_types_def)

lemma mapMySQLColumn_type: "\<exists>ft. mapMySQLColumn col = applyNullable ft (co_Nullable col) \<and> plain_type ft"
  by (auto simp: mapMySQLColumn_def Let_def plain_type_def mysql_type_scalar scalar_go_type go_types_def intro: exI)

lemma plain_scalar: "scalar_type ft \<Longrightarrow> plain_type ft"
  by (simp add: plain_type_def)

lemma plain_string: "plain_type ((go_type ''string'')\<lparr>ft_RawComment := x\<rparr>)"
  by (rule plain_scalar) (simp add: scalar_go_type go_types_def)

lemma plain_array: "e \<in> set array_elements \<Longrightarrow> plain_type ((go_type (''[]'' @ e))\<lparr>ft_Array := True\<rparr>)"
  by (auto simp: plain_type_def)

lemma mapPostgresColumn_type: "\<exists>ft. mapPostgresColumn col = applyNullable ft (co_Nullable col) \<and> plain_type ft"
proof -
  define dt udt where "dt = to_lower (trim_space (co_Type col))" and "udt = to_lower (trim_space (co_UDTName col))"
  consider (deep) "co_ArrayDims col > 1" | (array) "\<not> co_ArrayDims col > 1" "co_ArrayDims col = 1 \<or> dt = ''array'' \<or> has_prefix udt ''_''"
    | (scalar) "\<not> co_ArrayDims col > 1" "\<not> (co_ArrayDims col = 1 \<or> dt = ''array'' \<or> has_prefix udt ''_'')" by blast
  then show ?thesis
  proof cases
    case deep
    then show ?thesis using plain_string by (auto simp: mapPostgresColumn_def Let_def)
  next
    case array
    define e where "e = (if trim_prefix udt ''_'' = [] then trim_suffix dt ''[]'' else trim_prefix udt ''_'')"
    let ?el = "mapPostgresScalar e e"
    have "mapPostgresColumn col =
        (if ft_GoType ?el \<in> set array_elements \<and> ft_RawComment ?el = []
         then applyNullable ((go_type (''[]'' @ ft_GoType ?el))\<lparr>ft_Array := True\<rparr>) (co_Nullable col)
         else applyNullable ((go_type ''string'')\<lparr>ft_RawComment := co_Type col\<rparr>) (co_Nullable col))"
      using array unfolding mapPostgresColumn_def dt_def [symmetric] udt_def [symmetric] Let_def e_def by (simp only: if_True if_False)
    then show ?thesis using plain_string plain_array by (auto split: if_splits)
  next
    case scalar
    define ft where "ft = mapPostgresScalar dt udt"
    define ft1 where "ft1 = (if length (co_EnumValues col) > 0 then ft\<lparr>ft_EnumValues := co_EnumValues col\<rparr> else ft)"
    have "scalar_type ft1" using mapPostgresScalar_scalar by (simp add: ft1_def ft_def)
    then have "plain_type (if co_Length col > 0 \<and> ft_GoType ft1 = ''string'' then ft1\<lparr>ft_Length := co_Length col\<rparr> else ft1)"
      by (auto intro: plain_scalar)
    then show ?thesis
      using scalar unfolding mapPostgresColumn_def dt_def [symmetric] udt_def [symmetric] Let_def ft_def [symmetric] ft1_def [symmetric]
      by (auto simp only: if_False)
  qed
qed

lemma mapSQLiteColumn_type: "\<exists>ft. mapSQLiteColumn col = applyNullable ft (co_Nullable col) \<and> plain_type ft"
  by (auto simp: mapSQLiteColumn_def Let_def intro!: exI plain_scalar sqlite_type_scalar)

subsection \<open>Quoted lists\<close>

text \<open>How MySQL writes the values of an enumeration: quoted, with quotes inside doubled.\<close>

definition sql_quote :: "string \<Rightarrow> string" where
  "sql_quote v = [CHR 0x27] @ concat (map (\<lambda>c. if c = CHR 0x27 then [c, c] else [c]) v) @ [CHR 0x27]"

lemma split_quoted_value:
  assumes "rest = [] \<or> hd rest \<noteq> CHR 0x27"
  shows "split_quoted True cur (concat (map (\<lambda>c. if c = CHR 0x27 then [c, c] else [c]) v) @ CHR 0x27 # rest) =
    (cur @ v) # split_quoted False [] rest"
proof (induction v arbitrary: cur)
  case Nil
  then show ?case using assms by auto
next
  case (Cons c v)
  then show ?case by simp
qed

lemma splitQuotedList_values: "splitQuotedList (join '','' (map sql_quote vs)) = vs"
proof -
  have step: "split_quoted False [] (sql_quote v @ rest) = v # split_quoted False [] rest" if "rest = [] \<or> hd rest \<noteq> CHR 0x27" for v rest
    using split_quoted_value [OF that, of "[]" v] by (simp add: sql_quote_def)
  have "split_quoted False [] (join '','' (map sql_quote vs)) = vs"
  proof (induction vs rule: induct_list012)
    case (2 v)
    then show ?case using step [of "[]" v] by simp
  next
    case (3 v v' vs)
    then show ?case using step [of "CHR '','' # join '','' (map sql_quote (v' # vs))" v] by simp
  qed simp
  then show ?thesis by (simp add: splitQuotedList_def)
qed

lemma fold_prefix_word:
  assumes "fold_case kw = w" "length kw = length w"
  shows "fold_prefix w (kw @ t) = Some t"
proof -
  have "[length w..<3 * length w + 1] = length w # [Suc (length w)..<3 * length w + 1]" by (rule upt_conv_Cons) simp
  then show ?thesis using assms by (simp only: fold_prefix_def) simp
qed

lemma lower_keywords [simp]: "fold_case ''ENUM'' = ''enum''" "fold_case ''SET'' = ''set''" "fold_case ''enum'' = ''enum''"
  "fold_case ''set'' = ''set''" "lower_char CHR ''S'' = CHR ''s''" "lower_char CHR ''s'' = CHR ''s''"
  by code_simp+

lemma fold_prefix_other:
  assumes "fold_case (take n (c # s)) = w" "0 < n" "c \<noteq> CHR 0xC5" "c \<noteq> CHR 0xE2"
  shows "take 1 w = [lower_char c]"
  using assms by (cases n) auto

lemma fold_prefix_None: "c \<noteq> CHR 0xC5 \<Longrightarrow> c \<noteq> CHR 0xE2 \<Longrightarrow> w \<noteq> [] \<Longrightarrow> hd w \<noteq> lower_char c \<Longrightarrow> fold_prefix w (c # s) = None"
  by (cases w) (auto simp: fold_prefix_def find_None_iff dest: fold_prefix_other)

lemma mysqlEnumRE_list:
  assumes "kw \<in> {''enum'', ''set'', ''ENUM'', ''SET''}" "CHR 0x0A \<notin> set body"
  shows "mysqlEnumRE (kw @ ''('' @ body @ '')'') = Some body"
proof -
  let ?r = "''('' @ body @ '')''"
  have "fold_prefix ''enum'' (kw @ ?r) = Some ?r" if "kw \<in> {''enum'', ''ENUM''}"
    by (rule fold_prefix_word) (use that in \<open>auto simp del: fold_case.simps\<close>)
  moreover have "fold_prefix ''set'' (kw @ ?r) = Some ?r \<and> fold_prefix ''enum'' (kw @ ?r) = None" if "kw \<in> {''set'', ''SET''}"
  proof
    show "fold_prefix ''set'' (kw @ ?r) = Some ?r" by (rule fold_prefix_word) (use that in \<open>auto simp del: fold_case.simps\<close>)
    show "fold_prefix ''enum'' (kw @ ?r) = None" using that by (auto intro!: fold_prefix_None)
  qed
  ultimately show ?thesis using assms by (auto simp: mysqlEnumRE_def butlast_append)
qed

subsection \<open>Properties\<close>


text \<open>The values of a MySQL enumeration are read back exactly. For every list of values, commas, quotes and
  parentheses included, the type text that MySQL reports for it, in any letter case of the keyword, is parsed
  to the same list; only values with a newline are excepted.\<close>

lemma mysql_enum_roundtrip:
  assumes "kw \<in> {''enum'', ''set'', ''ENUM'', ''SET''}" "\<forall>v \<in> set vs. CHR 0x0A \<notin> set v"
  shows "parseMySQLEnumOrSet (kw @ ''('' @ join '','' (map sql_quote vs) @ '')'') = vs"
proof -
  let ?body = "join '','' (map sql_quote vs)"
  have nl: "CHR 0x0A \<notin> set ?body"
    using assms(2) by (induction vs rule: induct_list012) (auto simp: sql_quote_def split: if_splits)
  from mysqlEnumRE_list [OF assms(1) nl]
  show ?thesis by (simp add: parseMySQLEnumOrSet_def splitQuotedList_values)
qed

lemma mysql_enum_roundtrip_example:
  "parseMySQLEnumOrSet (''enum('' @ join '','' (map sql_quote [''a,b'', [CHR 0x27], ''x)'']) @ '')'') = [''a,b'', [CHR 0x27], ''x)'']"
  using mysql_enum_roundtrip [of "''enum''" "[''a,b'', [CHR 0x27], ''x)'']"] by simp

end
