(* ===== verification/Relation_Props.thy ===== *)
theory Relation_Props
  imports Relations
begin

section \<open>Model generator: the relation pipeline\<close>

text \<open>
  How the relation steps of \<^verbatim>\<open>GenerateModels\<close> (\<^verbatim>\<open>internal/database/gen/model.go\<close>) work together: merged relations declare their
  fields once, and every later step keeps that.
\<close>

text \<open>The annotations; \<open>columns\<close>: the columns of all tables that were loaded.\<close>

definition prepare_relations :: "name_lib \<Rightarrow> (string list \<Rightarrow> string list) \<Rightarrow> table_columns \<Rightarrow> Relation list \<Rightarrow> Relation list" where
  "prepare_relations nl iter_tables columns rs1 =
     (let (uniqueSingle, pkCols) = collectUniqueness columns;
          rs2 = annotateHasOne uniqueSingle pkCols rs1;
          (autoM2M, suppress) = detectPureM2MTables nl iter_tables columns rs2
      in applySkipReverse (rs2 @ autoM2M) suppress)"

subsection \<open>Names and keys\<close>

lemma validateTableName_chars:
  assumes "validateTableName t = None"
  shows "CHR ''.'' \<notin> set t" "CHR '':'' \<notin> set t"
proof -
  have "\<forall>c \<in> set t. word_char c"
    using assms by (auto simp: validateTableName_def tableNameRE_def word_char_def list_all_iff split: if_splits list.splits)
  then show "CHR ''.'' \<notin> set t" "CHR '':'' \<notin> set t" by (auto simp: word_char_def is_letter_def is_digit_def)
qed

lemma append_sep_cong:
  assumes "d \<notin> set a" "d \<notin> set b" "a @ d # x = b @ d # y"
  shows "a = b \<and> x = y"
proof -
  have "takeWhile (\<lambda>c. c \<noteq> d) (a @ d # x) = a" "takeWhile (\<lambda>c. c \<noteq> d) (b @ d # y) = b"
    using assms(1,2) by (auto simp: takeWhile_tail)
  then show ?thesis using assms(3) by auto
qed

definition sane :: "Relation \<Rightarrow> bool" where
  "sane r \<longleftrightarrow> CHR ''.'' \<notin> set (r_SourceTable r) \<and> CHR '':'' \<notin> set (r_SourceTable r) \<and>
     (is_m2m r \<longrightarrow> CHR '':'' \<notin> set (r_Through r))"

lemma validateRelation_None:
  "validateRelation r = None \<longleftrightarrow>
     validateTableName (r_SourceTable r) = None \<and> validateTableName (r_TargetTable r) = None \<and>
     (\<forall>col \<in> set (splitCompositeColumns (r_SourceColumn r)). validateTableName col = None) \<and>
     (\<forall>col \<in> set (splitCompositeColumns (r_TargetColumn r)). validateTableName col = None) \<and>
     (is_m2m r \<longrightarrow> validateTableName (r_Through r) = None) \<and>
     (r_Field r \<noteq> '''' \<longrightarrow> goIdentifierRE (r_Field r)) \<and> (r_ReverseField r \<noteq> '''' \<longrightarrow> goIdentifierRE (r_ReverseField r))"
  by (auto simp: validateRelation_def first_error_None ball_Un)

lemma validateRelation_sane: "validateRelation r = None \<Longrightarrow> sane r"
  by (auto simp: validateRelation_None sane_def dest: validateTableName_chars)

lemma key_not_m2m:
  assumes "CHR ''.'' \<notin> set t" "CHR '':'' \<notin> set t"
  shows "t @ ''.'' @ x \<noteq> ''m2m:'' @ y"
proof
  let ?P = "\<lambda>c. c \<noteq> CHR ''.'' \<and> c \<noteq> CHR '':''"
  assume "t @ ''.'' @ x = ''m2m:'' @ y"
  then have "dropWhile ?P (t @ CHR ''.'' # x) = dropWhile ?P (''m2m:'' @ y)" by simp
  moreover have "dropWhile ?P (t @ CHR ''.'' # x) = CHR ''.'' # x"
    by (subst dropWhile_append2) (use assms in auto)
  ultimately show False by simp
qed

lemma same_key_kind:
  assumes "sane a" "sane b" "relation_key a = relation_key b"
  shows "is_m2m a = is_m2m b \<and> (is_m2m a \<longrightarrow> r_Through a = r_Through b)"
proof (cases "is_m2m a = is_m2m b")
  case True
  then show ?thesis using assms append_sep_cong [of "CHR '':''" "r_Through a" "r_Through b"]
    by (auto simp: relation_key_def sane_def)
next
  case False
  then show ?thesis using assms key_not_m2m by (auto simp: relation_key_def sane_def) (metis append_Cons append_Nil)+
qed

lemma override_key:
  assumes "sane a" "sane b" "relation_key a = relation_key b"
  shows "relation_key (override a b) = relation_key a \<and> sane (override a b)"
  using same_key_kind [OF assms] assms(1,2)
  by (auto simp: override_def relation_key_def sane_def RelationManyToMany_def)

subsection \<open>Merging\<close>

definition merged_ok :: "(string \<times> Relation) list \<Rightarrow> bool" where
  "merged_ok al \<longleftrightarrow> distinct (map fst al) \<and> (\<forall>k r. map_of al k = Some r \<longrightarrow> relation_key r = k \<and> sane r)"

lemma merged_ok_update:
  assumes "merged_ok al" "relation_key r = k" "sane r"
  shows "merged_ok (AList.update k r al)"
  using assms by (auto simp: merged_ok_def distinct_update update_conv)

lemma merged_ok_merge: "merged_ok al \<Longrightarrow> sane r \<Longrightarrow> merged_ok (merge_logical r al)"
proof (cases "map_of al (relation_key r)")
  case None
  then show "merged_ok al \<Longrightarrow> sane r \<Longrightarrow> merged_ok (merge_logical r al)"
    by (simp add: merge_logical_def merged_ok_update)
next
  case (Some e)
  assume *: "merged_ok al" "sane r"
  with Some have "relation_key e = relation_key r" "sane e" by (auto simp: merged_ok_def)
  with override_key [of e r] * show "merged_ok (merge_logical r al)"
    by (simp add: merge_logical_def Some merged_ok_update)
qed

lemma merged_ok_relations:
  assumes "\<forall>r \<in> set (physical @ logical). sane r"
  shows "merged_ok (merged_relations physical logical)"
proof -
  have "merged_ok al \<Longrightarrow> \<forall>r \<in> set rs. sane r \<Longrightarrow> merged_ok (fold (\<lambda>r. AList.update (relation_key r) r) rs al)" for al rs
    by (induction rs arbitrary: al) (auto intro: merged_ok_update)
  moreover have "merged_ok al \<Longrightarrow> \<forall>r \<in> set rs. sane r \<Longrightarrow> merged_ok (fold merge_logical rs al)" for al rs
    by (induction rs arbitrary: al) (auto intro: merged_ok_merge)
  ultimately show ?thesis using assms by (simp add: merged_relations_def merged_ok_def [of "[]"])
qed

lemma merged_keys:
  assumes "merged_ok al"
  shows "map relation_key (map (\<lambda>k. the (map_of al k)) (sort (map fst al))) = sort (map fst al)"
proof -
  have "relation_key (the (map_of al k)) = k" if "k \<in> set (map fst al)" for k
  proof -
    from that have "map_of al k \<noteq> None" by (simp add: map_of_eq_None_iff)
    then obtain r where "map_of al k = Some r" by blast
    then show ?thesis using assms by (simp add: merged_ok_def)
  qed
  then show ?thesis unfolding map_map by (intro map_idI) auto
qed

subsection \<open>Occupied fields\<close>

text \<open>Table and name of the fields that a relation declares.\<close>

definition declared_fields :: "name_lib \<Rightarrow> Relation \<Rightarrow> (string \<times> string) list" where
  "declared_fields nl r =
     (let (field, reverseField) = relationFieldNames nl r
      in (r_SourceTable r, field) # (if is_m2m r \<or> \<not> r_SkipReverse r then [(r_TargetTable r, reverseField)] else []))"

abbreviation field_key :: "string \<times> string \<Rightarrow> string" where
  "field_key p \<equiv> fst p @ ''.'' @ snd p"

lemma occupied_fields: "p \<in> set (declared_fields nl r) \<Longrightarrow> (field_key p, relation_key r) \<in> set (occupied nl r)"
  by (cases "relationFieldNames nl r") (auto simp: declared_fields_def occupied_def split: if_splits)

lemma occupy_fields_ok:
  "occupy_fields taken xs = Inr taken' \<Longrightarrow> taken \<subseteq>\<^sub>m taken' \<and> (\<forall>(k, name) \<in> set xs. taken' k = Some name)"
proof (induction xs arbitrary: taken)
  case (Cons x xs)
  obtain k name where x: "x = (k, name)" by (cases x)
  have t: "taken k = None \<or> taken k = Some name" and r: "occupy_fields (taken(k \<mapsto> name)) xs = Inr taken'"
    using Cons.prems by (auto simp: x split: option.splits if_splits)
  have sub: "taken(k \<mapsto> name) \<subseteq>\<^sub>m taken'" "\<forall>(k, name) \<in> set xs. taken' k = Some name"
    using Cons.IH [OF r] by blast+
  have "taken \<subseteq>\<^sub>m taken(k \<mapsto> name)" using t by (auto simp: map_le_def)
  moreover have "taken' k = Some name" using sub(1) by (auto simp: map_le_def dom_def)
  ultimately show ?case using sub x by (auto intro: map_le_trans)
qed simp

lemma check_merged_fields:
  assumes "check_merged nl iter taken rs = None" "\<And>xs. set (iter xs) = set xs"
  shows "\<exists>final. taken \<subseteq>\<^sub>m final \<and>
    (\<forall>r \<in> set rs. validateRelation r = None \<and>
       (r_SourceTable r = r_TargetTable r \<longrightarrow> fst (relationFieldNames nl r) \<noteq> snd (relationFieldNames nl r)) \<and>
       (\<forall>p \<in> set (declared_fields nl r). final (field_key p) = Some (relation_key r)))"
  using assms(1)
proof (induction rs arbitrary: taken)
  case Nil
  show ?case by (rule exI [of _ taken]) simp
next
  case (Cons r rs)
  obtain f g where fg: "relationFieldNames nl r = (f, g)" by fastforce
  from Cons.prems obtain taken' where v: "validateRelation r = None" and n: "r_SourceTable r = r_TargetTable r \<longrightarrow> f \<noteq> g"
    and o1: "occupy_fields taken (iter (occupied nl r)) = Inr taken'" and c: "check_merged nl iter taken' rs = None"
    by (auto simp: fg split: option.splits if_splits sum.splits)
  from Cons.IH [OF c] obtain final where fin: "taken' \<subseteq>\<^sub>m final"
    "\<forall>r \<in> set rs. validateRelation r = None \<and>
       (r_SourceTable r = r_TargetTable r \<longrightarrow> fst (relationFieldNames nl r) \<noteq> snd (relationFieldNames nl r)) \<and>
       (\<forall>p \<in> set (declared_fields nl r). final (field_key p) = Some (relation_key r))" by blast
  have t: "taken \<subseteq>\<^sub>m taken'" "\<forall>(k, name) \<in> set (occupied nl r). taken' k = Some name"
    using occupy_fields_ok [OF o1] assms(2) by auto
  have "final (field_key p) = Some (relation_key r)" if "p \<in> set (declared_fields nl r)" for p
    using t(2) occupied_fields [OF that] fin(1) by (auto simp: map_le_def dom_def)
  then show ?case using map_le_trans [OF t(1) fin(1)] fin(2) v n fg by (intro exI [of _ final]) auto
qed

lemma distinct_declared:
  assumes "distinct (map relation_key rs)" "\<forall>r \<in> set rs. distinct (declared_fields nl r)"
    "\<forall>r \<in> set rs. \<forall>p \<in> set (declared_fields nl r). final (field_key p) = Some (relation_key r)"
  shows "distinct (concat (map (declared_fields nl) rs))"
  using assms
proof (induction rs)
  case (Cons r rs)
  have "p \<notin> set (declared_fields nl r')" if "p \<in> set (declared_fields nl r)" "r' \<in> set rs" for p r'
  proof
    assume "p \<in> set (declared_fields nl r')"
    then have "relation_key r = relation_key r'" using Cons.prems(3) that by force
    then show False using Cons.prems(1) that(2) by (metis distinct.simps(2) image_eqI list.set_map list.simps(9))
  qed
  then show ?case using Cons by auto
qed simp

lemma mergeRelations_valid:
  assumes "mergeRelations nl iter physical logical = Inr rs" "\<And>xs. set (iter xs) = set xs"
  shows "\<forall>r \<in> set rs. validateRelation r = None"
proof -
  have "check_merged nl iter Map.empty rs = None"
    using assms(1) by (auto simp: mergeRelations_def Let_def split: option.splits)
  from check_merged_fields [OF this assms(2)] show ?thesis by blast
qed

lemma mergeRelations_ok:
  assumes "mergeRelations nl iter physical logical = Inr rs" "\<And>xs. set (iter xs) = set xs"
    "\<forall>r \<in> set (physical @ logical). validateRelation r = None"
  shows "distinct (concat (map (declared_fields nl) rs))"
proof -
  let ?al = "merged_relations physical logical"
  have ok: "merged_ok ?al" by (rule merged_ok_relations) (use assms(3) validateRelation_sane in auto)
  have rs: "rs = map (\<lambda>k. the (map_of ?al k)) (sort (map fst ?al))" and c: "check_merged nl iter Map.empty rs = None"
    using assms(1) by (auto simp: mergeRelations_def Let_def split: option.splits)
  have d: "distinct (map relation_key rs)" unfolding rs merged_keys [OF ok] using ok by (simp add: merged_ok_def)
  from check_merged_fields [OF c assms(2)] obtain final where fin:
    "\<forall>r \<in> set rs. validateRelation r = None \<and>
       (r_SourceTable r = r_TargetTable r \<longrightarrow> fst (relationFieldNames nl r) \<noteq> snd (relationFieldNames nl r)) \<and>
       (\<forall>p \<in> set (declared_fields nl r). final (field_key p) = Some (relation_key r))" by blast
  have "\<forall>r \<in> set rs. distinct (declared_fields nl r)" using fin by (auto simp: declared_fields_def split: prod.splits)
  from distinct_declared [OF d this, of final] fin show ?thesis by blast
qed

subsection \<open>The steps in between\<close>

lemma valid_keeps [simp]:
  "validateRelation (r\<lparr>r_HasOne := b\<rparr>) = validateRelation r" "validateRelation (r\<lparr>r_SkipReverse := b\<rparr>) = validateRelation r"
  by (simp_all add: validateRelation_def)

lemma annotateHasOne_valid:
  "\<forall>r \<in> set rs. validateRelation r = None \<Longrightarrow> \<forall>r \<in> set (annotateHasOne u p rs). validateRelation r = None"
  by (auto simp: annotateHasOne_def split: list.split)

lemma applySkipReverse_valid:
  "\<forall>r \<in> set rs. validateRelation r = None \<Longrightarrow> \<forall>r \<in> set (applySkipReverse rs suppress). validateRelation r = None"
  by (auto simp: applySkipReverse_def)

lemma junction_of_fks:
  assumes "junction_of cols rs table = Some (l, r)"
  shows "l \<in> set rs \<and> r \<in> set rs \<and> r_SourceTable l = table"
proof -
  have "l \<in> set (fks_of rs table) \<and> r \<in> set (fks_of rs table)"
    using assms by (auto simp: junction_of_def Let_def split: list.splits option.splits if_splits)
  then show ?thesis by (auto simp: fks_of_def)
qed

lemma junction_valid:
  assumes "validateRelation l = None" "validateRelation r = None" "r_SourceTable l = table"
  shows "validateRelation (junction_relation nl table (l, r)) = None"
  using assms by (auto simp: validateRelation_None junction_relation_def zero_Relation_def)

lemma detect_valid:
  assumes "\<forall>r \<in> set rs. validateRelation r = None" "detectPureM2MTables nl iter cols rs = (m2m, suppress)"
  shows "\<forall>r \<in> set m2m. validateRelation r = None"
proof -
  have found: "junction_of cols rs t = Some lr" if "(t, lr) \<in> set (List.map_filter (\<lambda>t. map_option (Pair t) (junction_of cols rs t)) ts)" for t lr ts
    using that by (auto simp: map_filter_def)
  show ?thesis
  proof
    fix r assume "r \<in> set m2m"
    then obtain t a b where "junction_of cols rs t = Some (a, b)" "r = junction_relation nl t (a, b)"
      using assms(2) found by (fastforce simp: detectPureM2MTables_def Let_def)
    then show "validateRelation r = None" using junction_of_fks [of cols rs t a b] junction_valid assms(1) by simp
  qed
qed

lemma prepare_valid:
  assumes "\<forall>r \<in> set rs. validateRelation r = None"
  shows "\<forall>r \<in> set (prepare_relations nl iter columns rs). validateRelation r = None"
proof -
  obtain u p where u: "collectUniqueness columns = (u, p)" by fastforce
  obtain m2m suppress where m: "detectPureM2MTables nl iter columns (annotateHasOne u p rs) = (m2m, suppress)" by fastforce
  have "\<forall>r \<in> set (annotateHasOne u p rs @ m2m). validateRelation r = None"
    using annotateHasOne_valid [OF assms, of u p] detect_valid [OF annotateHasOne_valid [OF assms] m] by (simp add: ball_Un)
  from applySkipReverse_valid [OF this] show ?thesis by (simp add: prepare_relations_def u m)
qed

lemma declared_fields_M2MJoin [simp]: "declared_fields nl (r\<lparr>r_M2MJoin := x\<rparr>) = declared_fields nl r"
  by (simp add: declared_fields_def relationFieldNames_def)

lemma resolve_one_fields: "resolve_one nl rs r = Inr r' \<Longrightarrow> declared_fields nl r' = declared_fields nl r"
  by (auto simp: resolve_one_def Let_def split: if_splits option.splits)

lemma resolve_all_fields: "resolve_all nl rs todo = Inr out \<Longrightarrow> map (declared_fields nl) out = map (declared_fields nl) todo"
  by (induction todo arbitrary: out) (auto split: sum.splits dest: resolve_one_fields)

lemma validate_columns_fields:
  assumes "validate_columns_of nl columns r = None" "(t, f) \<in> set (declared_fields nl r)" "columns t = Some cols"
  shows "f \<notin> set (column_fields nl cols)"
  using assms
  by (auto simp: validate_columns_of_def declared_fields_def field_conflict_def first_error_None
      split: prod.splits option.splits if_splits)

lemma relation_lines_fields: "map fst (relation_lines nl t r) = map snd (filter (\<lambda>p. fst p = t) (declared_fields nl r))"
  by (cases "relationFieldNames nl r") (auto simp: relation_lines_def writeM2MFields_def declared_fields_def rel_line_def Let_def)

lemma render_fields:
  "map fst (render_relations nl t rs) = map snd (filter (\<lambda>p. fst p = t) (concat (map (declared_fields nl) rs)))"
  by (simp add: render_relations_def map_concat filter_concat comp_def relation_lines_fields)

subsection \<open>The fields of a struct\<close>

lemma validate_loop_valid: "validate_loop seen rels = None \<Longrightarrow> \<forall>r \<in> set rels. validateRelation r = None"
  by (induction seen rels rule: validate_loop.induct) (auto split: option.splits if_splits)

lemma relation_fields_unique:
  assumes "\<forall>xs. set (iter xs) = set xs" "validateRelations rels = None"
    and m1: "rs1 = rels \<or> (\<exists>ph. mergeRelations nl iter ph rels = Inr rs1)"
    and m4: "mergeRelations nl iter [] (prepare_relations nl iter_tables columns rs1) = Inr rs4"
    and m5: "resolveM2MJoins nl rs4 = Inr rs" and c: "validateRelationColumns nl columns rs = None" and t: "columns t = Some cols"
  shows "distinct (map fst (render_relations nl t rs)) \<and> set (map fst (render_relations nl t rs)) \<inter> set (column_fields nl cols) = {}"
proof -
  have v0: "\<forall>r \<in> set rels. validateRelation r = None" using assms(2) validate_loop_valid by (simp add: validateRelations_def)
  then have v1: "\<forall>r \<in> set rs1. validateRelation r = None"
    using m1 mergeRelations_valid [of nl iter _ rels rs1] assms(1) by auto
  have "distinct (concat (map (declared_fields nl) rs4))"
    using mergeRelations_ok [OF m4] prepare_valid [OF v1] assms(1) by simp
  then have d: "distinct (concat (map (declared_fields nl) rs))"
    unfolding resolve_all_fields [OF m5 [unfolded resolveM2MJoins_def]] .
  have "inj_on snd {p \<in> set (concat (map (declared_fields nl) rs)). fst p = t}" by (auto simp: inj_on_def prod_eq_iff)
  then have "distinct (map snd (filter (\<lambda>p. fst p = t) (concat (map (declared_fields nl) rs))))"
    using d unfolding distinct_map set_filter by (simp add: distinct_filter)
  moreover have "f \<notin> set (column_fields nl cols)" if "f \<in> set (map fst (render_relations nl t rs))" for f
  proof -
    from that obtain r where "r \<in> set rs" "(t, f) \<in> set (declared_fields nl r)" by (auto simp: render_fields)
    moreover from this(1) c have "validate_columns_of nl columns r = None" by (auto simp: validateRelationColumns_def first_error_None)
    ultimately show ?thesis using validate_columns_fields t by blast
  qed
  ultimately show ?thesis by (auto simp: render_fields)
qed

text \<open>Posts belong to users.\<close>

definition demo_names :: name_lib where
  "demo_names = \<lparr>nl_title = (\<lambda>s. case s of [] \<Rightarrow> [] | c # t \<Rightarrow> upper_char c # t), nl_plural = (\<lambda>s. s @ ''s''), nl_singular = butlast\<rparr>"

definition demo_column :: "string \<Rightarrow> bool \<Rightarrow> Column" where
  "demo_column name pk = \<lparr>co_Name = name, co_Type = ''bigint'', co_ColumnType = '''', co_UDTName = '''', co_Nullable = False,
     co_Default = '''', co_Comment = '''', co_PrimaryKey = pk, co_AutoIncrement = pk, co_Unique = False, co_UniqueGroup = '''',
     co_Unsigned = False, co_Length = 0, co_ArrayDims = 0, co_EnumValues = []\<rparr>"

definition demo_tables :: table_columns where
  "demo_tables t =
     (if t = ''posts'' then Some [demo_column ''id'' True, demo_column ''user_id'' False]
      else if t = ''users'' then Some [demo_column ''id'' True] else None)"

definition demo_relation :: Relation where
  "demo_relation = zero_Relation\<lparr>r_SourceTable := ''posts'', r_SourceColumn := ''user_id'', r_TargetTable := ''users'', r_TargetColumn := ''id''\<rparr>"

lemma demo_render: "map fst (render_relations demo_names ''posts'' [demo_relation]) = [''User'']"
  by code_simp

text \<open>The two ends of a relation may have different numbers of columns: such a relation is valid, and its join clause
  keeps the shorter list only.\<close>

lemma composite_mismatch_truncated:
  "validateRelation (demo_relation\<lparr>r_SourceColumn := ''tenant_id+user_id''\<rparr>) = None"
  "buildJoinClause ''tenant_id+user_id'' ''id'' = ''tenant_id=id''"
  by code_simp+

text \<open>An endpoint that names no column at all is accepted.\<close>

lemma empty_column_accepted: "parseRelationEndpoint ''users.+'' = Inr (''users'', '''')"
  by code_simp

end
