(* ===== verification/Gen_Code.thy ===== *)
theory Gen_Code
  imports Typemap Relation_Props
begin

section \<open>Model generator: defaults and source text\<close>

text \<open>
  \<^verbatim>\<open>internal/database/gen/defaults.go\<close> and the renderer \<open>GenerateModelCode\<close> of \<^verbatim>\<open>naming.go\<close>. The regular expressions are
  matched by functions of their own; in a case-insensitive class the letters U+017F and U+212A count as \<open>s\<close>
  and \<open>k\<close>.
\<close>

subsection \<open>Regular expressions\<close>

text \<open>\<^verbatim>\<open>^-?\d+(\.\d+)?$\<close>.\<close>

definition numericRE :: "string \<Rightarrow> bool" where
  "numericRE s \<longleftrightarrow>
     (let t = trim_prefix s ''-''; ds = takeWhile is_digit t; u = drop (length ds) t
      in ds \<noteq> [] \<and> (u = [] \<or> hd u = CHR ''.'' \<and> tl u \<noteq> [] \<and> list_all is_digit (tl u)))"

text \<open>\<^verbatim>\<open>^'([^']|'')*'$\<close>.\<close>

fun quoted_rest :: "string \<Rightarrow> bool" where
  "quoted_rest [] = False"
| "quoted_rest (c # s) =
     (if c = CHR 0x27 then s = [] \<or> hd s = CHR 0x27 \<and> quoted_rest (tl s) else quoted_rest s)"

definition quotedStrRE :: "string \<Rightarrow> bool" where
  "quotedStrRE s \<longleftrightarrow> (case s of [] \<Rightarrow> False | c # t \<Rightarrow> c = CHR 0x27 \<and> quoted_rest t)"

text \<open>\<^verbatim>\<open>(?i)^current_timestamp(?:\(\s*\d*\s*\))?$\<close> and \<^verbatim>\<open>(?i)^now\(\s*\)$\<close>.\<close>

definition currentTSRE :: "string \<Rightarrow> bool" where
  "currentTSRE s \<longleftrightarrow>
     (case fold_prefix ''current_timestamp'' s of
        None \<Rightarrow> False
      | Some t \<Rightarrow> t = [] \<or> hd t = CHR ''('' \<and> dropWhile re_space (dropWhile is_digit (dropWhile re_space (tl t))) = '')'')"

definition pgNowRE :: "string \<Rightarrow> bool" where
  "pgNowRE s \<longleftrightarrow>
     (case fold_prefix ''now'' s of
        None \<Rightarrow> False
      | Some t \<Rightarrow> t \<noteq> [] \<and> hd t = CHR ''('' \<and> dropWhile re_space (tl t) = '')'')"

text \<open>The number of bytes of a letter of a case-insensitive class at the front of a text, 0 for none.\<close>

definition class_unit :: "(char \<Rightarrow> bool) \<Rightarrow> string \<Rightarrow> nat" where
  "class_unit ok s =
     (case s of
        [] \<Rightarrow> 0
      | c # t \<Rightarrow> if ok c then 1
                 else if c = CHR 0xC5 \<and> take 1 t = [CHR 0xBF] then 2
                 else if c = CHR 0xE2 \<and> take 2 t = [CHR 0x84, CHR 0xAA] then 3
                 else 0)"

function skip_class :: "(char \<Rightarrow> bool) \<Rightarrow> string \<Rightarrow> string" where
  "skip_class ok s = (if class_unit ok s = 0 then s else skip_class ok (drop (class_unit ok s) s))"
  by pat_completeness auto
termination
  by (relation "measure (\<lambda>(ok, s). length s)") (auto simp: class_unit_def split: list.splits)

lemma skip_class_length: "length (skip_class ok s) \<le> length s"
  by (induction ok s rule: skip_class.induct) (subst skip_class.simps, auto simp del: skip_class.simps)

declare skip_class.simps [simp del]

text \<open>One cast \<^verbatim>\<open>::[a-zA-Z_][\w.]*(?:\([^)]*\))?\<close> at the front: what is left.\<close>

definition one_cast :: "string \<Rightarrow> string option" where
  "one_cast s =
     (if take 2 s \<noteq> ''::'' then None
      else let t = drop 2 s; n = class_unit (\<lambda>c. is_letter c \<or> c = CHR ''_'') t in
        if n = 0 then None
        else let u = skip_class (\<lambda>c. word_char c \<or> c = CHR ''.'') (drop n t) in
          if u \<noteq> [] \<and> hd u = CHR ''('' \<and> CHR '')'' \<in> set (tl u) then Some (tl (dropWhile (\<lambda>c. c \<noteq> CHR '')'') (tl u))) else Some u)"

lemma one_cast_shorter:
  assumes "one_cast s = Some t"
  shows "length t < length s"
proof -
  let ?u = "\<lambda>n. skip_class (\<lambda>c. word_char c \<or> c = CHR ''.'') (drop n (drop 2 s))"
  have l: "length (tl (dropWhile P (tl u))) \<le> length u" for P and u :: string
    using length_dropWhile_le [of P "tl u"] by simp
  have "take 2 s = ''::''" using assms by (auto simp: one_cast_def split: if_splits)
  then have "2 \<le> length s" by (metis length_Cons length_take list.size(3) min.cobounded1 numeral_2_eq_2 One_nat_def)
  moreover have "length t \<le> length (?u n) \<Longrightarrow> length t \<le> length s - 2" for n
    using skip_class_length [of "\<lambda>c. word_char c \<or> c = CHR ''.''" "drop n (drop 2 s)"] by simp
  moreover have "\<exists>n. length t \<le> length (?u n)"
  proof (rule exI)
    show "length t \<le> length (?u (class_unit (\<lambda>c. is_letter c \<or> c = CHR ''_'') (drop 2 s)))"
      using assms l unfolding one_cast_def Let_def by (auto split: if_splits simp del: length_tl)
  qed
  ultimately show ?thesis by fastforce
qed

text \<open>One or more casts up to the end of the text.\<close>

function casts :: "string \<Rightarrow> bool" where
  "casts s = (case one_cast s of None \<Rightarrow> False | Some t \<Rightarrow> t = [] \<or> casts t)"
  by pat_completeness auto
termination
  by (relation "measure length") (auto dest: one_cast_shorter)

declare casts.simps [simp del]

lemma casts_Nil [simp]: "\<not> casts []"
  by (simp add: casts.simps one_cast_def)

text \<open>\<^verbatim>\<open>(?i)^(.*?)(::[a-zA-Z_][\w.]*(?:\([^)]*\))?)+$\<close>: the first group, the shortest text without a newline in front of casts.\<close>

definition pgCastRE :: "string \<Rightarrow> string option" where
  "pgCastRE s =
     map_option (\<lambda>n. take n s) (find (\<lambda>n. CHR 0x0A \<notin> set (take n s) \<and> casts (drop n s)) [0..<length s + 1])"

lemma pgCastRE_shorter:
  assumes "pgCastRE s = Some t"
  shows "length t < length s"
proof -
  obtain n where "casts (drop n s)" "t = take n s" using assms by (auto simp: pgCastRE_def find_Some_iff)
  moreover from this(1) have "n < length s" by (cases "n < length s") simp_all
  ultimately show ?thesis by simp
qed

lemma trim_space_length: "length (trim_space s) \<le> length s"
proof -
  have l: "length (strip_left us t) \<le> length t" for us t
    using strip_left_suffix [of t us] by (metis le_add2 length_append)
  show ?thesis unfolding trim_space_def
    using l [of space_encodings s] l [of "map rev space_encodings" "rev (strip_left space_encodings s)"] by simp
qed

subsection \<open>Defaults and comments\<close>

text \<open>The loop that strips the casts from the end.\<close>

function strip_casts :: "string \<Rightarrow> string" where
  "strip_casts cleaned =
     (case pgCastRE cleaned of
        None \<Rightarrow> cleaned
      | Some m \<Rightarrow> if trim_space m = cleaned then cleaned else strip_casts (trim_space m))"
  by pat_completeness auto
termination
  by (relation "measure length") (auto dest!: pgCastRE_shorter intro: le_less_trans [OF trim_space_length])

declare strip_casts.simps [simp del]

definition normalizeMySQLDefault :: "string \<Rightarrow> string" where
  "normalizeMySQLDefault raw =
     (if numericRE raw then raw
      else if quotedStrRE raw then raw
      else if currentTSRE raw then ''current_timestamp''
      else '''')"

definition normalizePostgresDefault :: "string \<Rightarrow> string" where
  "normalizePostgresDefault raw =
     (if contains (to_lower raw) ''nextval('' then ''''
      else let cleaned = strip_casts raw in
        if pgNowRE cleaned then ''now()''
        else if currentTSRE cleaned then ''current_timestamp''
        else if numericRE cleaned then cleaned
        else if quotedStrRE cleaned then cleaned
        else '''')"

definition normalizeSQLiteDefault :: "string \<Rightarrow> string" where
  "normalizeSQLiteDefault raw =
     (if numericRE raw then raw
      else if quotedStrRE raw then raw
      else if currentTSRE raw then ''current_timestamp''
      else '''')"

definition NormalizeDefault :: "string \<Rightarrow> string \<Rightarrow> string \<Rightarrow> string" where
  "NormalizeDefault driver raw0 goType =
     (let raw = trim_space raw0 in
      if raw = '''' \<or> equal_fold raw ''NULL'' then ''''
      else if trim_prefix goType ''*'' = ''bool'' then ''''
      else if driver = DriverMySQL then normalizeMySQLDefault raw
      else if driver = DriverPostgres \<or> driver = DriverPostgreSQL then normalizePostgresDefault raw
      else if driver = DriverSQLite \<or> driver = DriverSQLite3 then normalizeSQLiteDefault raw
      else '''')"

text \<open>\<^verbatim>\<open>strings.ReplaceAll(s, "*/", "")\<close>: from the left, without looking at what the removal joins.\<close>

fun remove_terminators :: "string \<Rightarrow> string" where
  "remove_terminators (c # d # s) =
     (if c = CHR ''*'' \<and> d = CHR ''/'' then remove_terminators s else c # remove_terminators (d # s))"
| "remove_terminators s = s"

text \<open>\<^verbatim>\<open>strings.Fields\<close>: \<open>cur\<close> is the field being read.\<close>

function fields_loop :: "string \<Rightarrow> string \<Rightarrow> string list" where
  "fields_loop cur s =
     (let out = (if cur = [] then [] else [cur]) in
      case lead_in space_encodings s of
        Some u \<Rightarrow> out @ fields_loop [] (drop (length u) s)
      | None \<Rightarrow> (case s of [] \<Rightarrow> out | c # t \<Rightarrow> fields_loop (cur @ [c]) t))"
  by pat_completeness auto
termination
  by (relation "measure (\<lambda>(cur, s). length s)") (auto simp: lead_in_def find_Some_iff has_prefix_iff)

declare fields_loop.simps [simp del]

definition SanitizeComment :: "string \<Rightarrow> string" where
  "SanitizeComment comment = trim_space (join '' '' (fields_loop [] (remove_terminators comment)))"

subsection \<open>Struct tags\<close>

abbreviation DQ :: string where "DQ \<equiv> [CHR 0x22]"

definition bindingTag :: "Column \<Rightarrow> FieldType \<Rightarrow> string" where
  "bindingTag col ft =
     (let parts =
        (if \<not> co_Nullable col \<and> \<not> isSensitiveColumn (co_Name col) \<and> \<not> (co_PrimaryKey col \<and> co_AutoIncrement col)
         then [''required''] else []) @
        (if ft_Length ft > 0 \<and> \<not> ft_IsSet ft then [''max='' @ show_int (ft_Length ft)] else []) @
        (if length (ft_EnumValues ft) > 0 \<and> \<not> ft_IsSet ft \<and> enumValuesSafeForOneOf (ft_EnumValues ft)
         then [''oneof='' @ join '' '' (ft_EnumValues ft)] else [])
      in if parts = [] then '''' else ''binding:'' @ DQ @ join '','' parts @ DQ)"

record GenerateOptions =
  opt_OutputDir :: string
  opt_PackageName :: string
  opt_Driver :: string
  opt_Schema :: string
  opt_JSONTags :: bool
  opt_ValidatorTags :: bool
  opt_WithRelations :: bool
  opt_NoExpand :: bool
  opt_DryRun :: bool
  opt_Exclude :: "string list"
  opt_Aliases :: "(string \<times> string) list option"
  opt_Relations :: "Relation list"

definition bun_parts :: "string \<Rightarrow> Column \<Rightarrow> FieldType \<Rightarrow> string list" where
  "bun_parts driver col ft =
     [co_Name col] @
     (if co_PrimaryKey col then ''pk'' # (if co_AutoIncrement col then [''autoincrement''] else []) else []) @
     (if \<not> co_Nullable col \<and> \<not> co_PrimaryKey col then [''notnull''] else []) @
     (if co_Unique col then [if co_UniqueGroup col \<noteq> '''' then ''unique:'' @ co_UniqueGroup col else ''unique''] else []) @
     (if co_Name col = ''deleted_at'' \<and> co_Nullable col then [''soft_delete'', ''nullzero''] else []) @
     (if ft_BunType ft \<noteq> '''' then [''type:'' @ ft_BunType ft] else []) @
     (if ft_Array ft then [''array''] else []) @
     (let def = NormalizeDefault driver (co_Default col) (ft_GoType ft) in if def \<noteq> '''' then [''default:'' @ def] else [])"

definition json_name :: "string \<Rightarrow> string" where
  "json_name name = (if isSensitiveColumn name then ''-'' else name)"

definition column_tags :: "GenerateOptions \<Rightarrow> Column \<Rightarrow> FieldType \<Rightarrow> string list" where
  "column_tags opts col ft =
     [''bun:'' @ DQ @ join '','' (bun_parts (opt_Driver opts) col ft) @ DQ] @
     (if opt_JSONTags opts then [''json:'' @ DQ @ json_name (co_Name col) @ DQ] else []) @
     (if opt_ValidatorTags opts \<and> bindingTag col ft \<noteq> '''' then [bindingTag col ft] else [])"

subsection \<open>The source file\<close>

definition column_comment :: "Column \<Rightarrow> FieldType \<Rightarrow> string" where
  "column_comment col ft =
     (let parts = (if SanitizeComment (co_Comment col) \<noteq> '''' then [SanitizeComment (co_Comment col)] else []) @
                  (if ft_RawComment ft \<noteq> '''' then [''SQL type: '' @ ft_RawComment ft] else [])
      in if parts = [] then '''' else TAB @ ''// '' @ join ''; '' parts @ NL)"

definition relation_comment :: "name_lib \<Rightarrow> string \<Rightarrow> Column \<Rightarrow> Relation \<Rightarrow> string" where
  "relation_comment nl tableName col r =
     (if is_m2m r \<or> r_SourceTable r \<noteq> tableName then ''''
      else case splitCompositeColumns (r_SourceColumn r) of
             [] \<Rightarrow> ''''
           | c # cs \<Rightarrow>
               if c \<noteq> co_Name col then ''''
               else TAB @ ''// Relation: '' @ r_SourceColumn r @ '' -> '' @ camel nl (r_TargetTable r) @ ''('' @ r_TargetColumn r @ '')'' @ NL)"

definition column_field :: "name_lib \<Rightarrow> GenerateOptions \<Rightarrow> Column \<Rightarrow> FieldType \<Rightarrow> string" where
  "column_field nl opts col ft =
     TAB @ camel nl (co_Name col) @ '' '' @ ft_GoType ft @ '' `'' @ join '' '' (column_tags opts col ft) @ ''`'' @ NL"

definition column_text :: "name_lib \<Rightarrow> GenerateOptions \<Rightarrow> string \<Rightarrow> Relation list \<Rightarrow> Column \<Rightarrow> string" where
  "column_text nl opts tableName rs col =
     (let ft = MapColumn (opt_Driver opts) col
      in column_comment col ft @ concat (map (relation_comment nl tableName col) rs) @ column_field nl opts col ft)"

text \<open>A column by name: whether there is one, and whether the last one is nullable.\<close>

definition has_column :: "string \<Rightarrow> Column list \<Rightarrow> bool" where
  "has_column name columns \<longleftrightarrow> name \<in> set (map co_Name columns)"

definition column_nullable :: "string \<Rightarrow> Column list \<Rightarrow> bool" where
  "column_nullable name columns =
     foldl (\<lambda>b c. if co_Name c = name then co_Nullable c else b) False columns"

definition import_lines :: "bool \<Rightarrow> bool \<Rightarrow> bool \<Rightarrow> string" where
  "import_lines hasHook hasJSON hasTime =
     ''import ('' @ NL @
     (if hasHook then TAB @ DQ @ ''context'' @ DQ @ NL else '''') @
     (if hasJSON then TAB @ DQ @ ''encoding/json'' @ DQ @ NL else '''') @
     (if hasTime \<or> hasHook then TAB @ DQ @ ''time'' @ DQ @ NL else '''') @
     (if hasHook \<or> hasJSON \<or> hasTime then NL else '''') @
     TAB @ DQ @ ''github.com/uptrace/bun'' @ DQ @ NL @ '')'' @ NL @ NL"

definition set_now :: "string \<Rightarrow> bool \<Rightarrow> string" where
  "set_now field nullable = TAB @ TAB @ ''m.'' @ field @ '' = '' @ (if nullable then ''&now'' else ''now'') @ NL"

definition hook_text :: "string \<Rightarrow> Column list \<Rightarrow> string" where
  "hook_text modelName columns =
     (let hasCreatedAt = has_column ''created_at'' columns; hasUpdatedAt = has_column ''updated_at'' columns;
          setUpdated = set_now ''UpdatedAt'' (column_nullable ''updated_at'' columns)
      in NL @ ''var _ bun.BeforeAppendModelHook = (*'' @ modelName @ '')(nil)'' @ NL @ NL @
         ''func (m *'' @ modelName @ '') BeforeAppendModel(ctx context.Context, query bun.Query) error {'' @ NL @
         TAB @ ''now := time.Now()'' @ NL @
         TAB @ ''switch query.(type) {'' @ NL @
         (if hasCreatedAt
          then TAB @ ''case *bun.InsertQuery:'' @ NL @ set_now ''CreatedAt'' (column_nullable ''created_at'' columns) @
               (if hasUpdatedAt then setUpdated else '''') else '''') @
         (if hasUpdatedAt then TAB @ ''case *bun.UpdateQuery:'' @ NL @ setUpdated else '''') @
         TAB @ ''}'' @ NL @ TAB @ ''return nil'' @ NL @ ''}'' @ NL)"

definition table_alias :: "GenerateOptions \<Rightarrow> string \<Rightarrow> string" where
  "table_alias opts tableName =
     (case opt_Aliases opts of
        None \<Rightarrow> ToAlias tableName
      | Some al \<Rightarrow> (case map_of al tableName of None \<Rightarrow> ToAlias tableName | Some a \<Rightarrow> a))"

definition GenerateModelCode :: "name_lib \<Rightarrow> GenerateOptions \<Rightarrow> string \<Rightarrow> string \<Rightarrow> Column list \<Rightarrow> Relation list \<Rightarrow> string" where
  "GenerateModelCode nl opts modelName tableName columns rs =
     (let goTypes = map (\<lambda>c. ft_GoType (MapColumn (opt_Driver opts) c)) columns;
          hasJSON = list_ex (\<lambda>t. contains t ''json.RawMessage'') goTypes;
          hasTime = list_ex (\<lambda>t. contains t ''time.Time'') goTypes;
          hasHook = (has_column ''created_at'' columns \<or> has_column ''updated_at'' columns)
      in ''// Code generated by app-tpl gen model. DO NOT EDIT.'' @ NL @
         ''// Database driver: '' @ normalizeDriverLabel (opt_Driver opts) @ NL @ NL @
         ''package '' @ opt_PackageName opts @ NL @ NL @
         import_lines hasHook hasJSON hasTime @
         ''// '' @ modelName @ '' represents the '' @ tableName @ '' table.'' @ NL @
         ''type '' @ modelName @ '' struct {'' @ NL @
         TAB @ ''bun.BaseModel `bun:'' @ DQ @ ''table:'' @ tableName @ '',alias:'' @ table_alias opts tableName @ DQ @ ''`'' @ NL @ NL @
         concat (map (column_text nl opts tableName rs) columns) @
         concat (map snd (render_relations nl tableName rs)) @
         ''}'' @ NL @
         (if hasHook then hook_text modelName columns else ''''))"

subsection \<open>Lemmas\<close>

lemma contains_iff: "contains s p \<longleftrightarrow> (\<exists>a b. s = a @ p @ b)"
proof (induction s)
  case Nil
  then show ?case by auto
next
  case (Cons c s)
  have "(\<exists>a b. c # s = a @ p @ b) \<longleftrightarrow> (\<exists>b. c # s = p @ b) \<or> (\<exists>a b. s = a @ p @ b)"
    by (metis append_Cons append_Nil list.exhaust list.inject)
  then show ?case using Cons by (simp add: has_prefix_iff)
qed

lemma contains_trans: "contains s t \<Longrightarrow> contains t u \<Longrightarrow> contains s u"
  by (metis append_assoc contains_iff)

lemma contains_refl [simp]: "contains s s"
  unfolding contains_iff by (metis append_Nil append_Nil2)

lemma contains_trim_space: "contains s (trim_space s)"
proof -
  let ?l = "strip_left space_encodings s"
  obtain w where "s = w @ ?l" using strip_left_suffix by blast
  moreover obtain v where "rev ?l = v @ strip_left (map rev space_encodings) (rev ?l)" using strip_left_suffix by blast
  then have "?l = trim_space s @ rev v" unfolding trim_space_def by (metis rev_append rev_rev_ident)
  ultimately show ?thesis unfolding contains_iff by metis
qed

lemma contains_strip_casts: "contains s (strip_casts s)"
proof (induction s rule: strip_casts.induct)
  case (1 s)
  have "contains s (trim_space m)" if "pgCastRE s = Some m" for m
  proof -
    have "contains s m" using that
      by (auto simp: pgCastRE_def contains_iff) (metis append_Nil append_take_drop_id)
    then show ?thesis using contains_trans contains_trim_space by blast
  qed
  then show ?case using 1 contains_trans by (auto simp: strip_casts.simps [of s] split: option.split)
qed

lemma casts_colon:
  assumes "casts s"
  shows "take 1 s = '':''"
proof -
  have "one_cast s \<noteq> None" using assms by (auto simp: casts.simps [of s] split: option.splits)
  then have "take 2 s = ''::''" by (auto simp: one_cast_def split: if_splits)
  then show ?thesis by (cases s) auto
qed

lemma pgCastRE_plain:
  assumes "CHR '':'' \<notin> set w" "CHR 0x0A \<notin> set w" "casts c"
  shows "pgCastRE (w @ c) = Some w"
proof -
  let ?P = "\<lambda>n. CHR 0x0A \<notin> set (take n (w @ c)) \<and> casts (drop n (w @ c))"
  have "\<not> ?P n" if "n < length w" for n
    using casts_colon [of "drop n (w @ c)"] that assms(1) by (auto simp: take_Suc_conv_app_nth hd_drop_conv_nth take_Suc Cons_nth_drop_Suc [symmetric]
        dest: nth_mem)
  moreover have "?P (length w)" using assms by simp
  ultimately have "find ?P [0..<length (w @ c) + 1] = Some (length w)"
    unfolding find_Some_iff by (intro exI [of _ "length w"]) (auto simp del: upt_Suc)
  then show ?thesis by (simp add: pgCastRE_def del: upt_Suc)
qed

lemma pgCastRE_no_colon: "CHR '':'' \<notin> set w \<Longrightarrow> pgCastRE w = None"
proof -
  assume w: "CHR '':'' \<notin> set w"
  have "\<not> casts (drop n w)" for n
    using casts_colon [of "drop n w"] w by (metis in_set_dropD in_set_takeD list.set_intros(1))
  then show ?thesis by (simp add: pgCastRE_def find_None_iff)
qed

lemma strip_casts_plain:
  assumes "CHR '':'' \<notin> set w" "CHR 0x0A \<notin> set w" "casts c" "trim_space w = w"
  shows "strip_casts (w @ c) = w"
proof -
  have "c \<noteq> []" using assms(3) by auto
  then show ?thesis
    using pgCastRE_plain [OF assms(1-3)] pgCastRE_no_colon [OF assms(1)] assms(4)
    by (simp add: strip_casts.simps [of "w @ c"] strip_casts.simps [of w])
qed

lemma set_trim_space: "set (trim_space s) \<subseteq> set s"
  using contains_trim_space [of s] unfolding contains_iff by (metis UnCI set_append subsetI)

lemma fields_one_line: "CHR 0x0A \<notin> set cur \<Longrightarrow> w \<in> set (fields_loop cur s) \<Longrightarrow> CHR 0x0A \<notin> set w"
proof (induction cur s arbitrary: w rule: fields_loop.induct)
  case (1 cur s)
  show ?case
  proof (cases "lead_in space_encodings s")
    case None
    show ?thesis
    proof (cases s)
      case Nil
      then show ?thesis using 1(3,4) by (auto simp: fields_loop.simps [of cur "[]"] split: if_splits)
    next
      case (Cons c t)
      have "c \<noteq> CHR 0x0A" using None Cons by (auto simp: lead_in_None space_encodings_def has_prefix_def)
      then show ?thesis using 1(1) [OF refl None Cons] 1(3,4) None Cons by (simp add: fields_loop.simps [of cur "c # t"] Let_def)
    qed
  next
    case (Some u)
    then show ?thesis using 1(2) [OF refl Some] 1(3,4) by (auto simp: fields_loop.simps [of cur s] Let_def split: if_splits)
  qed
qed

lemma SanitizeComment_one_line: "CHR 0x0A \<notin> set (SanitizeComment s)"
  using set_trim_space set_join [of "'' ''" "fields_loop [] (remove_terminators s)"] fields_one_line [of "[]"]
  unfolding SanitizeComment_def by fastforce

text \<open>Literals start and end with a graphic byte below the letters.\<close>

definition literal :: "string \<Rightarrow> bool" where
  "literal w \<longleftrightarrow> numericRE w \<or> quotedStrRE w"

lemma quoted_rest_last: "quoted_rest s \<Longrightarrow> s \<noteq> [] \<and> last s = CHR 0x27"
  by (induction s rule: quoted_rest.induct) (auto simp: last_tl split: if_splits)

lemma numeric_ends:
  assumes "numericRE w"
  shows "w \<noteq> [] \<and> (hd w = CHR ''-'' \<or> is_digit (hd w)) \<and> is_digit (last w)"
proof -
  define t where "t = trim_prefix w ''-''"
  let ?ds = "takeWhile is_digit t"
  have ds: "?ds \<noteq> []" "list_all is_digit ?ds" by (use assms in \<open>auto simp: numericRE_def t_def Let_def list_all_iff dest: set_takeWhileD\<close>)
  have tail: "drop (length ?ds) t = [] \<or> drop (length ?ds) t \<noteq> [] \<and> tl (drop (length ?ds) t) \<noteq> [] \<and> list_all is_digit (tl (drop (length ?ds) t))"
    using assms by (auto simp: numericRE_def t_def Let_def)
  have t: "t = ?ds @ drop (length ?ds) t" by (metis append_take_drop_id takeWhile_eq_take)
  have "t \<noteq> []" "is_digit (hd t)" using ds t by (metis Nil_is_append_conv) (metis ds hd_append2 hd_in_set list_all_iff t)
  moreover have "is_digit (last t)" using tail
  proof
    assume "drop (length ?ds) t = []"
    then show ?thesis using ds t by (metis append_Nil2 last_in_set list_all_iff)
  next
    assume "drop (length ?ds) t \<noteq> [] \<and> tl (drop (length ?ds) t) \<noteq> [] \<and> list_all is_digit (tl (drop (length ?ds) t))"
    then show ?thesis using t by (metis last_append last_in_set last_tl list_all_iff)
  qed
  ultimately show ?thesis unfolding t_def trim_prefix_def by (cases w) (auto simp: has_prefix_def split: if_splits)
qed

lemma literal_ends: "literal w \<Longrightarrow> w \<noteq> [] \<and> byte_of (hd w) < 65 \<and> graphic (hd w) \<and> graphic (last w)"
  using numeric_ends [of w] quoted_rest_last [of "tl w"]
  by (auto simp: literal_def quotedStrRE_def graphic_def is_digit_def split: list.splits)

lemma fold_prefix_not_letter:
  assumes "byte_of c < 65" "97 \<le> byte_of d"
  shows "fold_prefix (d # p) (c # s) = None"
proof -
  have "fold_case (take n (c # s)) \<noteq> d # p" if "n > 0" for n
  proof -
    obtain m where "n = Suc m" using \<open>n > 0\<close> gr0_implies_Suc by blast
    moreover have "c \<noteq> CHR 0xC5" "c \<noteq> CHR 0xE2" "lower_char c \<noteq> d" using assms by (auto simp: lower_char_def)
    ultimately show ?thesis by auto
  qed
  then show ?thesis by (auto simp: fold_prefix_def find_None_iff)
qed

lemma literal_no_function: "literal w \<Longrightarrow> \<not> pgNowRE w \<and> \<not> currentTSRE w"
  using literal_ends [of w] by (cases w) (auto simp: pgNowRE_def currentTSRE_def fold_prefix_not_letter)

subsection \<open>Properties\<close>

text \<open>C37: A default value that reaches a struct tag is a literal of the database or a time function, never an arbitrary
  SQL expression: \<open>NormalizeDefault\<close> answers the empty text (no default), \<open>now()\<close>, \<open>current_timestamp\<close>, or a
  number or quoted string that stands literally in the text the database reported.\<close>

theorem NormalizeDefault_literal:
  "NormalizeDefault driver raw goType \<in> {'''', ''now()'', ''current_timestamp''} \<or>
   (numericRE (NormalizeDefault driver raw goType) \<or> quotedStrRE (NormalizeDefault driver raw goType)) \<and>
   contains raw (NormalizeDefault driver raw goType)"
  using contains_trim_space [of raw] contains_trans [OF contains_trim_space contains_strip_casts, of raw]
  by (auto simp: NormalizeDefault_def normalizeMySQLDefault_def normalizePostgresDefault_def normalizeSQLiteDefault_def Let_def)

text \<open>PostgreSQL reports a default with its type casts, and the generator strips exactly those: for a number or a quoted
  string without a colon or a newline, followed by one or more casts, \<open>normalizePostgresDefault\<close> gives back the literal.\<close>

lemma postgres_casts_stripped:
  assumes "numericRE w \<or> quotedStrRE w" "CHR '':'' \<notin> set w" "CHR 0x0A \<notin> set w" "casts c"
    "\<not> contains (to_lower (w @ c)) ''nextval(''"
  shows "normalizePostgresDefault (w @ c) = w"
proof -
  have l: "literal w" using assms(1) by (simp add: literal_def)
  then have "strip_casts (w @ c) = w"
    using strip_casts_plain [OF assms(2-4)] literal_ends trim_space_graphic by blast
  then show ?thesis
    using l literal_no_function [OF l] assms(5) by (auto simp: normalizePostgresDefault_def literal_def)
qed

lemma demo_cast:
  "quotedStrRE [CHR 0x27, CHR ''a'', CHR 0x27]" "casts ''::character varying(20)'' = False" "casts ''::pg_catalog.varchar(20)''"
  by code_simp+

lemma postgres_casts_stripped_example:
  "normalizePostgresDefault ([CHR 0x27, CHR ''a'', CHR 0x27] @ ''::pg_catalog.varchar(20)'') = [CHR 0x27, CHR ''a'', CHR 0x27]"
  by (rule postgres_casts_stripped) (code_simp+)

text \<open>A comment in the generated struct stays on its line: whatever the database stores as the comment of a column, with
  line breaks or comment terminators, the text written above the field is empty or one comment line, provided the raw
  type text it quotes has no line break.\<close>

lemma column_comment_one_line:
  assumes "CHR 0x0A \<notin> set (ft_RawComment ft)"
  shows "column_comment col ft = [] \<or>
    (\<exists>l. column_comment col ft = TAB @ ''// '' @ l @ NL \<and> CHR 0x0A \<notin> set l)"
  using assms SanitizeComment_one_line [of "co_Comment col"] by (auto simp: column_comment_def Let_def)

lemma column_comment_one_line_example:
  "\<exists>l. column_comment ((demo_column ''id'' True)\<lparr>co_Comment := ''a'' @ NL @ ''b''\<rparr>) (go_type ''int64'') = TAB @ ''// '' @ l @ NL \<and> CHR 0x0A \<notin> set l"
proof -
  let ?c = "(demo_column ''id'' True)\<lparr>co_Comment := ''a'' @ NL @ ''b''\<rparr>"
  have "column_comment ?c (go_type ''int64'') \<noteq> []" by code_simp
  then show ?thesis using column_comment_one_line [of "go_type ''int64''" ?c] by (simp add: zero_FieldType_def)
qed

text \<open>The comment of the raw type is not flattened: a declared type with a line break leaves the comment. Removing
  \<^verbatim>\<open>*/\<close> once may leave another one.\<close>

lemma raw_type_breaks_comment:
  "column_comment (demo_column ''x'' False) (MapColumn DriverSQLite ((demo_column ''x'' False)\<lparr>co_Type := ''FOO'' @ NL @ ''BAR''\<rparr>)) =
   TAB @ ''// SQL type: FOO'' @ NL @ ''BAR'' @ NL"
  by code_simp

lemma terminator_survives: "SanitizeComment ''**//'' = ''*/''"
  by code_simp

end
