(* ===== verification/Dialects.thy ===== *)
theory Dialects
  imports Gen_Code "HOL-Library.Product_Lexorder"
begin

section \<open>Model generator: reading the schema\<close>

text \<open>
  The three dialects of \<^verbatim>\<open>internal/database/gen\<close> (\<^verbatim>\<open>dialect_mysql.go\<close>, \<^verbatim>\<open>dialect_postgres.go\<close>,
  \<^verbatim>\<open>dialect_sqlite.go\<close>) and the dispatch over them in \<^verbatim>\<open>model.go\<close>. The database is the record \<open>schema_db\<close>: for each
  query of the source, what it answers. An answer is an error, or the rows one by one (scanning a row
  may fail) with the error that \<^verbatim>\<open>rows.Err\<close> reports after the last one. A Go map that is only looked up is an association list.
\<close>

subsection \<open>Answers of the database\<close>

type_synonym 'r answer = "(gerr, (gerr, 'r) result list \<times> gerr option) result"

fun scan_rows :: "(gerr, 'r) result list \<Rightarrow> gerr option \<Rightarrow> (gerr, 'r list) result" where
  "scan_rows [] rowsErr = (case rowsErr of None \<Rightarrow> Inr [] | Some err \<Rightarrow> Inl err)"
| "scan_rows (Inl err # rs) rowsErr = Inl err"
| "scan_rows (Inr r # rs) rowsErr = (case scan_rows rs rowsErr of Inl err \<Rightarrow> Inl err | Inr out \<Rightarrow> Inr (r # out))"

definition query_rows :: "'r answer \<Rightarrow> (gerr, 'r list) result" where
  "query_rows a = (case a of Inl err \<Rightarrow> Inl err | Inr (rows, rowsErr) \<Rightarrow> scan_rows rows rowsErr)"

text \<open>\<^verbatim>\<open>sql.NullString\<close>: its text is empty when the value is NULL.\<close>

definition null_text :: "string option \<Rightarrow> string" where
  "null_text x = (case x of None \<Rightarrow> '''' | Some s \<Rightarrow> s)"

record mysql_column =
  my_columnName :: "string option"
  my_dataType :: "string option"
  my_columnType :: "string option"
  my_isNullable :: "string option"
  my_columnDefault :: "string option"
  my_columnComment :: "string option"
  my_extra :: "string option"
  my_isPrimaryKey :: int

record postgres_column =
  pg_columnName :: "string option"
  pg_dataType :: "string option"
  pg_udtName :: "string option"
  pg_isNullable :: "string option"
  pg_columnDefault :: "string option"
  pg_columnComment :: "string option"
  pg_isIdentity :: "string option"
  pg_isPrimaryKey :: int
  pg_charLen :: int
  pg_arrayDims :: int

record sqlite_column =
  sl_name :: string
  sl_dataType :: string
  sl_notNull :: int
  sl_dfltValue :: "string option"
  sl_pk :: int

record sqlite_index =
  ix_name :: string
  ix_unique :: int
  ix_origin :: string
  ix_partial :: int

record sqlite_fk =
  sf_id :: int
  sf_table :: "string option"
  sf_from :: "string option"
  sf_to :: "string option"

text \<open>The queries. For SQLite the argument is the text of the statement, for the others the bound parameters; a unique row is
  (constraint, column), a foreign key row (constraint, column, referenced table, referenced column).\<close>

record schema_db =
  q_current_schema :: "(gerr, string) result"
  q_mysql_columns :: "string \<Rightarrow> mysql_column answer"
  q_mysql_unique :: "string \<Rightarrow> (string \<times> string) answer"
  q_mysql_fks :: "string \<Rightarrow> (string \<times> string \<times> string \<times> string) answer"
  q_mysql_tables :: "string answer"
  q_postgres_columns :: "string \<Rightarrow> string \<Rightarrow> postgres_column answer"
  q_postgres_enum :: "string \<Rightarrow> string \<Rightarrow> string answer"
  q_postgres_unique :: "string \<Rightarrow> string \<Rightarrow> (string \<times> string) answer"
  q_postgres_fks :: "string \<Rightarrow> string \<Rightarrow> (string \<times> string \<times> string \<times> string) answer"
  q_postgres_tables :: "string \<Rightarrow> string answer"
  q_sqlite_columns :: "string \<Rightarrow> sqlite_column answer"
  q_sqlite_indexes :: "string \<Rightarrow> sqlite_index answer"
  q_sqlite_index_info :: "string \<Rightarrow> string answer"
  q_sqlite_fks :: "string \<Rightarrow> sqlite_fk answer"
  q_sqlite_tables :: "string answer"

subsection \<open>Unique constraints\<close>

type_synonym groups = "(string \<times> string list) list"

definition append_group :: "groups \<Rightarrow> string \<times> string \<Rightarrow> groups" where
  "append_group groups r =
     (let (name, col) = r in
      AList.update name ((case map_of groups name of None \<Rightarrow> [] | Some cs \<Rightarrow> cs) @ [col]) groups)"

definition scanUniqueGroups :: "(string \<times> string) answer \<Rightarrow> (gerr, groups) result" where
  "scanUniqueGroups a = (case query_rows a of Inl err \<Rightarrow> Inl err | Inr rs \<Rightarrow> Inr (foldl append_group [] rs))"

definition mark_unique :: "string \<Rightarrow> string list \<Rightarrow> Column list \<Rightarrow> string \<Rightarrow> Column list" where
  "mark_unique grp cols columns colName =
     map (\<lambda>c. if co_Name c \<noteq> colName \<or> co_Unique c then c
              else if co_PrimaryKey c \<and> length cols = 1 then c
              else if length cols > 1 then c\<lparr>co_Unique := True, co_UniqueGroup := grp\<rparr>
              else c\<lparr>co_Unique := True\<rparr>) columns"

definition mark_group :: "Column list \<Rightarrow> string \<times> string list \<Rightarrow> Column list" where
  "mark_group columns g = foldl (mark_unique (fst g) (snd g)) columns (snd g)"

text \<open>The groups by size and then by name.\<close>

definition applyUniqueConstraints :: "Column list \<Rightarrow> groups \<Rightarrow> Column list" where
  "applyUniqueConstraints columns groups =
     foldl mark_group columns (sort_key (\<lambda>g. (length (snd g), fst g)) groups)"

definition zero_Column :: Column where
  "zero_Column = \<lparr>co_Name = '''', co_Type = '''', co_ColumnType = '''', co_UDTName = '''', co_Nullable = False, co_Default = '''',
     co_Comment = '''', co_PrimaryKey = False, co_AutoIncrement = False, co_Unique = False, co_UniqueGroup = '''', co_Unsigned = False,
     co_Length = 0, co_ArrayDims = 0, co_EnumValues = []\<rparr>"

subsection \<open>Foreign keys\<close>

record ForeignKeyConstraint =
  fk_Name :: string
  fk_Columns :: "string list"
  fk_ReferencedTableName :: string
  fk_ReferencedColumns :: "string list"

text \<open>One row: it opens a constraint or adds a pair of columns to it. The list keeps the order in which they were opened.\<close>

definition add_fk ::
  "('k \<Rightarrow> string) \<Rightarrow> ('k \<times> ForeignKeyConstraint) list \<Rightarrow> 'k \<times> string \<times> string \<times> string \<Rightarrow> ('k \<times> ForeignKeyConstraint) list" where
  "add_fk name_of grouped row =
     (let (key, column, refTable, refColumn) = row;
          fk = (case map_of grouped key of
                  Some f \<Rightarrow> f
                | None \<Rightarrow> \<lparr>fk_Name = name_of key, fk_Columns = [], fk_ReferencedTableName = refTable, fk_ReferencedColumns = []\<rparr>)
      in AList.update key (fk\<lparr>fk_Columns := fk_Columns fk @ [column], fk_ReferencedColumns := fk_ReferencedColumns fk @ [refColumn]\<rparr>) grouped)"

definition group_fks :: "('k \<Rightarrow> string) \<Rightarrow> ('k \<times> string \<times> string \<times> string) list \<Rightarrow> ForeignKeyConstraint list" where
  "group_fks name_of rows = map snd (foldl (add_fk name_of) [] rows)"

subsection \<open>Table names\<close>

definition scanTableNames :: "string answer \<Rightarrow> (gerr, string list) result" where
  "scanTableNames a =
     (case query_rows a of
        Inl err \<Rightarrow> Inl err
      | Inr ts \<Rightarrow> Inr (filter (\<lambda>t. \<not> (t = ''bun_migrations'' \<or> t = ''bun_migration_locks'')) ts))"

subsection \<open>MySQL\<close>

definition mysql_to_column :: "mysql_column \<Rightarrow> Column" where
  "mysql_to_column r =
     zero_Column\<lparr>co_Name := null_text (my_columnName r), co_Type := null_text (my_dataType r),
       co_ColumnType := null_text (my_columnType r), co_Nullable := (null_text (my_isNullable r) = ''YES''),
       co_Default := null_text (my_columnDefault r), co_Comment := null_text (my_columnComment r),
       co_PrimaryKey := (my_isPrimaryKey r = 1),
       co_AutoIncrement := contains (to_lower (null_text (my_extra r))) ''auto_increment'',
       co_Unsigned := contains (to_lower (null_text (my_columnType r))) ''unsigned''\<rparr>"

definition scanMySQLColumns :: "mysql_column answer \<Rightarrow> (gerr, Column list) result" where
  "scanMySQLColumns a = (case query_rows a of Inl err \<Rightarrow> Inl err | Inr rs \<Rightarrow> Inr (map mysql_to_column rs))"

definition getMySQLUniqueGroups :: "schema_db \<Rightarrow> string \<Rightarrow> (gerr, groups) result" where
  "getMySQLUniqueGroups db tableName = scanUniqueGroups (q_mysql_unique db tableName)"

definition getMySQLColumns :: "schema_db \<Rightarrow> string \<Rightarrow> (gerr, Column list) result" where
  "getMySQLColumns db tableName =
     (case scanMySQLColumns (q_mysql_columns db tableName) of
        Inl err \<Rightarrow> Inl err
      | Inr columns \<Rightarrow>
          (case getMySQLUniqueGroups db tableName of
             Inl err \<Rightarrow> Inl err
           | Inr groups \<Rightarrow> Inr (applyUniqueConstraints columns groups)))"

definition getMySQLForeignKeyConstraints :: "schema_db \<Rightarrow> string \<Rightarrow> (gerr, ForeignKeyConstraint list) result" where
  "getMySQLForeignKeyConstraints db tableName =
     (case query_rows (q_mysql_fks db tableName) of Inl err \<Rightarrow> Inl err | Inr rs \<Rightarrow> Inr (group_fks (\<lambda>k. k) rs))"

definition listMySQLTables :: "schema_db \<Rightarrow> (gerr, string list) result" where
  "listMySQLTables db = scanTableNames (q_mysql_tables db)"

subsection \<open>PostgreSQL\<close>

definition resolvePostgresSchema :: "schema_db \<Rightarrow> string \<Rightarrow> (gerr, string) result" where
  "resolvePostgresSchema db schema =
     (if schema \<noteq> ''''
      then (case validateTableName schema of Some err \<Rightarrow> Inl (wrapl ''invalid schema'' err) | None \<Rightarrow> Inr schema)
      else (case q_current_schema db of
              Inl err \<Rightarrow> Inl (wrapl ''current_schema'' err)
            | Inr current \<Rightarrow> Inr (if current = '''' then ''public'' else current)))"

definition postgres_to_column :: "postgres_column \<Rightarrow> Column" where
  "postgres_to_column r =
     (let autoIncrement = (pg_isIdentity r = Some ''YES'')
      in zero_Column\<lparr>co_Name := null_text (pg_columnName r), co_Type := null_text (pg_dataType r),
           co_UDTName := null_text (pg_udtName r), co_Nullable := (null_text (pg_isNullable r) = ''YES''),
           co_Default := null_text (pg_columnDefault r), co_Comment := null_text (pg_columnComment r),
           co_PrimaryKey := (pg_isPrimaryKey r = 1),
           co_AutoIncrement := (if autoIncrement then True else contains (null_text (pg_columnDefault r)) ''nextval''),
           co_Length := pg_charLen r, co_ArrayDims := pg_arrayDims r\<rparr>)"

definition scanPostgresColumns :: "postgres_column answer \<Rightarrow> (gerr, Column list) result" where
  "scanPostgresColumns a = (case query_rows a of Inl err \<Rightarrow> Inl err | Inr rs \<Rightarrow> Inr (map postgres_to_column rs))"

text \<open>The labels of each enum type that has any; \<open>types\<close> is in the order of the map iteration.\<close>

fun enum_cache :: "schema_db \<Rightarrow> string \<Rightarrow> (string \<times> string list) list \<Rightarrow> string list \<Rightarrow> (gerr, (string \<times> string list) list) result" where
  "enum_cache db schema cache [] = Inr cache"
| "enum_cache db schema cache (udt # types) =
     (if validateTableName udt \<noteq> None then enum_cache db schema cache types
      else (case query_rows (q_postgres_enum db udt schema) of
              Inl err \<Rightarrow> Inl err
            | Inr labels \<Rightarrow> enum_cache db schema (if length labels > 0 then (udt, labels) # cache else cache) types))"

definition attach_enum :: "(string \<times> string list) list \<Rightarrow> Column \<Rightarrow> Column" where
  "attach_enum cache c =
     (case map_of cache (co_UDTName c) of
        None \<Rightarrow> c
      | Some vals \<Rightarrow>
          c\<lparr>co_EnumValues := vals,
            co_Type := if co_Type c = '''' \<or> equal_fold (co_Type c) ''USER-DEFINED'' then co_UDTName c else co_Type c\<rparr>)"

definition attachPostgresEnums ::
  "(string list \<Rightarrow> string list) \<Rightarrow> schema_db \<Rightarrow> string \<Rightarrow> Column list \<Rightarrow> (gerr, Column list) result" where
  "attachPostgresEnums iter db schema columns =
     (let enumTypes = remdups (map co_UDTName (filter (\<lambda>c. equal_fold (co_Type c) ''USER-DEFINED'' \<and> co_UDTName c \<noteq> '''') columns))
      in if enumTypes = [] then Inr columns
         else (case enum_cache db schema [] (iter enumTypes) of
                 Inl err \<Rightarrow> Inl err
               | Inr cache \<Rightarrow> Inr (map (attach_enum cache) columns)))"

definition getPostgresUniqueGroups :: "schema_db \<Rightarrow> string \<Rightarrow> string \<Rightarrow> (gerr, groups) result" where
  "getPostgresUniqueGroups db schema tableName = scanUniqueGroups (q_postgres_unique db schema tableName)"

definition getPostgresColumns ::
  "(string list \<Rightarrow> string list) \<Rightarrow> schema_db \<Rightarrow> string \<Rightarrow> string \<Rightarrow> (gerr, Column list) result" where
  "getPostgresColumns iter db schema tableName =
     (case scanPostgresColumns (q_postgres_columns db schema tableName) of
        Inl err \<Rightarrow> Inl err
      | Inr columns0 \<Rightarrow>
          (case attachPostgresEnums iter db schema columns0 of
             Inl err \<Rightarrow> Inl err
           | Inr columns \<Rightarrow>
               (case getPostgresUniqueGroups db schema tableName of
                  Inl err \<Rightarrow> Inl err
                | Inr groups \<Rightarrow> Inr (applyUniqueConstraints columns groups))))"

definition getPostgresForeignKeyConstraints ::
  "schema_db \<Rightarrow> string \<Rightarrow> string \<Rightarrow> (gerr, ForeignKeyConstraint list) result" where
  "getPostgresForeignKeyConstraints db schema tableName =
     (case query_rows (q_postgres_fks db schema tableName) of Inl err \<Rightarrow> Inl err | Inr rs \<Rightarrow> Inr (group_fks (\<lambda>k. k) rs))"

definition listPostgresTables :: "schema_db \<Rightarrow> string \<Rightarrow> (gerr, string list) result" where
  "listPostgresTables db schema = scanTableNames (q_postgres_tables db schema)"

subsection \<open>SQLite\<close>

definition pragma :: "string \<Rightarrow> string \<Rightarrow> string" where
  "pragma name tableName = ''PRAGMA '' @ name @ ''('' @ go_quote tableName @ '')''"

definition sqlite_to_column :: "nat \<Rightarrow> sqlite_column \<Rightarrow> Column" where
  "sqlite_to_column pkCount r =
     (let primaryKey = (sl_pk r > 0);
          b0 = to_upper (trim_space (sl_dataType r));
          baseType = (case index_byte b0 CHR ''('' of None \<Rightarrow> b0 | Some i \<Rightarrow> trim_space (take i b0))
      in zero_Column\<lparr>co_Name := sl_name r, co_Type := sl_dataType r, co_Nullable := (sl_notNull r = 0 \<and> \<not> primaryKey),
           co_Default := null_text (sl_dfltValue r), co_PrimaryKey := primaryKey,
           co_AutoIncrement := (primaryKey \<and> pkCount = 1 \<and> baseType = ''INTEGER'')\<rparr>)"

text \<open>\<^verbatim>\<open>strings.ReplaceAll(name, "'", "''")\<close>.\<close>

definition double_quotes :: "string \<Rightarrow> string" where
  "double_quotes s = concat (map (\<lambda>c. if c = CHR 0x27 then [c, c] else [c]) s)"

definition index_info_query :: "string \<Rightarrow> string" where
  "index_info_query name =
     ''SELECT seqno, name FROM pragma_index_info('' @ [CHR 0x27] @ double_quotes name @ [CHR 0x27] @ '') ORDER BY seqno''"

fun sqlite_groups :: "schema_db \<Rightarrow> groups \<Rightarrow> string list \<Rightarrow> (gerr, groups) result" where
  "sqlite_groups db groups [] = Inr groups"
| "sqlite_groups db groups (name # names) =
     (case query_rows (q_sqlite_index_info db (index_info_query name)) of
        Inl err \<Rightarrow> Inl err
      | Inr cols \<Rightarrow> sqlite_groups db (foldl append_group groups (map (Pair name) cols)) names)"

definition getSQLiteUniqueGroups :: "schema_db \<Rightarrow> string \<Rightarrow> (gerr, groups) result" where
  "getSQLiteUniqueGroups db tableName =
     (case query_rows (q_sqlite_indexes db (pragma ''index_list'' tableName)) of
        Inl err \<Rightarrow> Inl err
      | Inr ixs \<Rightarrow> sqlite_groups db [] (map ix_name (filter (\<lambda>i. ix_unique i = 1 \<and> ix_origin i \<noteq> ''pk'') ixs)))"

definition getSQLiteColumns :: "schema_db \<Rightarrow> string \<Rightarrow> (gerr, Column list) result" where
  "getSQLiteColumns db tableName =
     (case query_rows (q_sqlite_columns db (pragma ''table_info'' tableName)) of
        Inl err \<Rightarrow> Inl err
      | Inr rawCols \<Rightarrow>
          (let pkCount = length (filter (\<lambda>r. sl_pk r > 0) rawCols);
               columns = map (sqlite_to_column pkCount) rawCols
           in case getSQLiteUniqueGroups db tableName of
                Inl err \<Rightarrow> Inl err
              | Inr groups \<Rightarrow> Inr (applyUniqueConstraints columns groups)))"

definition getSQLiteForeignKeyConstraints :: "schema_db \<Rightarrow> string \<Rightarrow> (gerr, ForeignKeyConstraint list) result" where
  "getSQLiteForeignKeyConstraints db tableName =
     (case query_rows (q_sqlite_fks db (pragma ''foreign_key_list'' tableName)) of
        Inl err \<Rightarrow> Inl err
      | Inr rs \<Rightarrow>
          Inr (group_fks (\<lambda>i. ''fk_'' @ show_int i)
            (List.map_filter (\<lambda>r. map_option (\<lambda>t. (sf_id r, null_text (sf_from r), t, null_text (sf_to r))) (sf_table r)) rs)))"

definition listSQLiteTables :: "schema_db \<Rightarrow> (gerr, string list) result" where
  "listSQLiteTables db = scanTableNames (q_sqlite_tables db)"

subsection \<open>Dispatch\<close>

definition unsupported_driver :: "string \<Rightarrow> gerr" where
  "unsupported_driver driver = Errorf (''unsupported database driver: '' @ driver) []"

definition resolveSchema :: "schema_db \<Rightarrow> string \<Rightarrow> string \<Rightarrow> (gerr, string) result" where
  "resolveSchema db driver schema =
     (if driver = DriverPostgres \<or> driver = DriverPostgreSQL then resolvePostgresSchema db schema else Inr schema)"

definition GetTablesInSchema :: "schema_db \<Rightarrow> string \<Rightarrow> string \<Rightarrow> (gerr, string list) result" where
  "GetTablesInSchema db driver schema =
     (if driver = DriverMySQL then listMySQLTables db
      else if driver = DriverPostgres \<or> driver = DriverPostgreSQL then
        (case resolvePostgresSchema db schema of Inl err \<Rightarrow> Inl err | Inr resolved \<Rightarrow> listPostgresTables db resolved)
      else if driver = DriverSQLite \<or> driver = DriverSQLite3 then listSQLiteTables db
      else Inl (unsupported_driver driver))"

definition GetTables :: "schema_db \<Rightarrow> string \<Rightarrow> (gerr, string list) result" where
  "GetTables db driver = GetTablesInSchema db driver ''''"

definition GetTableColumns ::
  "(string list \<Rightarrow> string list) \<Rightarrow> schema_db \<Rightarrow> string \<Rightarrow> string \<Rightarrow> string \<Rightarrow> (gerr, Column list) result" where
  "GetTableColumns iter db driver schema tableName =
     (case validateTableName tableName of
        Some err \<Rightarrow> Inl err
      | None \<Rightarrow>
          if driver = DriverMySQL then getMySQLColumns db tableName
          else if driver = DriverPostgres \<or> driver = DriverPostgreSQL then
            (case resolvePostgresSchema db schema of Inl err \<Rightarrow> Inl err | Inr resolved \<Rightarrow> getPostgresColumns iter db resolved tableName)
          else if driver = DriverSQLite \<or> driver = DriverSQLite3 then getSQLiteColumns db tableName
          else Inl (unsupported_driver driver))"

definition getForeignKeyConstraints ::
  "schema_db \<Rightarrow> string \<Rightarrow> string \<Rightarrow> string \<Rightarrow> (gerr, ForeignKeyConstraint list) result" where
  "getForeignKeyConstraints db driver schema tableName =
     (if driver = DriverMySQL then getMySQLForeignKeyConstraints db tableName
      else if driver = DriverPostgres \<or> driver = DriverPostgreSQL then getPostgresForeignKeyConstraints db schema tableName
      else if driver = DriverSQLite \<or> driver = DriverSQLite3 then getSQLiteForeignKeyConstraints db tableName
      else Inl (unsupported_driver driver))"

fun getPhysicalRelations :: "schema_db \<Rightarrow> string \<Rightarrow> string \<Rightarrow> string list \<Rightarrow> (gerr, Relation list) result" where
  "getPhysicalRelations db driver schema [] = Inr []"
| "getPhysicalRelations db driver schema (tableName # tables) =
     (case getForeignKeyConstraints db driver schema tableName of
        Inl err \<Rightarrow> Inl (wrapl (''get foreign keys for table '' @ tableName) err)
      | Inr fks \<Rightarrow>
          (case getPhysicalRelations db driver schema tables of
             Inl err \<Rightarrow> Inl err
           | Inr rs \<Rightarrow>
               Inr (map (\<lambda>fk. zero_Relation\<lparr>r_SourceTable := tableName, r_SourceColumn := join ''+'' (fk_Columns fk),
                                r_TargetTable := fk_ReferencedTableName fk, r_TargetColumn := join ''+'' (fk_ReferencedColumns fk)\<rparr>) fks @ rs)))"

subsection \<open>Lemmas\<close>

text \<open>What the loops over the groups do to one column: the first group that names it, in the order of the loop, unless
  the column is a primary key and the group has one column only.\<close>

definition claims :: "Column \<Rightarrow> string \<times> string list \<Rightarrow> bool" where
  "claims c g \<longleftrightarrow> co_Name c \<in> set (snd g) \<and> \<not> (co_PrimaryKey c \<and> length (snd g) = 1)"

definition claimed :: "string \<times> string list \<Rightarrow> Column \<Rightarrow> Column" where
  "claimed g c = (if length (snd g) > 1 then c\<lparr>co_Unique := True, co_UniqueGroup := fst g\<rparr> else c\<lparr>co_Unique := True\<rparr>)"

definition unique_spec :: "groups \<Rightarrow> Column \<Rightarrow> Column" where
  "unique_spec gs c = (if co_Unique c then c else case find (claims c) gs of None \<Rightarrow> c | Some g \<Rightarrow> claimed g c)"

lemma foldl_map_columns: "foldl (\<lambda>cs x. map (f x) cs) cs xs = map (\<lambda>c. foldl (\<lambda>c x. f x c) c xs) cs"
  by (induction xs arbitrary: cs) simp_all

lemma claimed_keeps [simp]:
  "co_Name (claimed g c) = co_Name c" "co_PrimaryKey (claimed g c) = co_PrimaryKey c" "co_Unique (claimed g c)"
  by (simp_all add: claimed_def)

definition mark_one :: "string \<times> string list \<Rightarrow> string \<Rightarrow> Column \<Rightarrow> Column" where
  "mark_one g colName c =
     (if co_Name c \<noteq> colName \<or> co_Unique c \<or> co_PrimaryKey c \<and> length (snd g) = 1 then c else claimed g c)"

lemma mark_unique_one: "mark_unique (fst g) (snd g) columns colName = map (mark_one g colName) columns"
  by (simp add: mark_unique_def mark_one_def claimed_def)

lemma mark_one_loop:
  "foldl (\<lambda>c x. mark_one g x c) c xs =
     (if co_Unique c \<or> co_Name c \<notin> set xs \<or> co_PrimaryKey c \<and> length (snd g) = 1 then c else claimed g c)"
  by (induction xs arbitrary: c) (auto simp: mark_one_def)

lemma mark_group_map: "mark_group columns g = map (unique_spec [g]) columns"
proof -
  have "mark_unique (fst g) (snd g) = (\<lambda>cs x. map (mark_one g x) cs)"
    by (intro ext) (rule mark_unique_one)
  then show ?thesis
    by (auto simp: mark_group_def foldl_map_columns mark_one_loop unique_spec_def claims_def)
qed

lemma unique_spec_loop: "foldl (\<lambda>c g. unique_spec [g] c) c gs = unique_spec gs c"
proof (induction gs arbitrary: c)
  case (Cons g gs)
  show ?case
  proof (cases "\<not> co_Unique c \<and> claims c g")
    case True
    then have "unique_spec [g] c = claimed g c" by (simp add: unique_spec_def)
    then show ?thesis using Cons True by (simp add: unique_spec_def)
  next
    case False
    then have "unique_spec [g] c = c" by (auto simp: unique_spec_def)
    then show ?thesis using Cons False by (auto simp: unique_spec_def)
  qed
qed (simp add: unique_spec_def)

lemma mark_groups_map: "foldl mark_group columns gs = map (\<lambda>c. foldl (\<lambda>c g. unique_spec [g] c) c gs) columns"
  by (induction gs arbitrary: columns) (simp_all add: mark_group_map)

lemma applyUniqueConstraints_map:
  "applyUniqueConstraints columns groups = map (unique_spec (sort_key (\<lambda>g. (length (snd g), fst g)) groups)) columns"
  by (simp add: applyUniqueConstraints_def mark_groups_map unique_spec_loop)

lemma find_sorted_least:
  fixes k :: "'a \<Rightarrow> 'b :: linorder"
  assumes "find P (sort_key k xs) = Some y"
  shows "y \<in> set xs \<and> P y \<and> (\<forall>z \<in> set xs. P z \<longrightarrow> k y \<le> k z)"
proof -
  let ?s = "sort_key k xs"
  obtain i where i: "i < length ?s" "P (?s ! i)" "y = ?s ! i" "\<forall>j < i. \<not> P (?s ! j)"
    using assms unfolding find_Some_iff by blast
  have "k y \<le> k z" if z: "z \<in> set xs" "P z" for z
  proof -
    have "z \<in> set ?s" using z(1) by simp
    then obtain j where j: "j < length ?s" "z = ?s ! j" unfolding in_set_conv_nth by blast
    then have "i \<le> j" using i(4) z(2) by (meson not_le_imp_less)
    then have "map k ?s ! i \<le> map k ?s ! j" using j(1) by (intro sorted_nth_mono) simp_all
    then show ?thesis using i j by simp
  qed
  moreover have "y \<in> set ?s" using i(1,3) nth_mem by blast
  ultimately show ?thesis using i(2,3) by simp
qed

text \<open>The keys of a list of rows in the order of their first occurrence.\<close>

definition first_keys :: "('k \<times> 'v) list \<Rightarrow> 'k list" where
  "first_keys rows = rev (remdups (rev (map fst rows)))"

lemma first_keys_snoc:
  "first_keys (rows @ [r]) = (if fst r \<in> set (first_keys rows) then first_keys rows else first_keys rows @ [fst r])"
  by (simp add: first_keys_def)

lemma first_keys_props [simp]: "distinct (first_keys rows)" "set (first_keys rows) = fst ` set rows"
  by (simp_all add: first_keys_def)

lemma alist_update_map:
  "distinct ks \<Longrightarrow> AList.update k v (map (\<lambda>x. (x, f x)) ks) =
     map (\<lambda>x. (x, if x = k then v else f x)) (if k \<in> set ks then ks else ks @ [k])"
  by (induction ks) auto

lemma map_of_keys: "map_of (map (\<lambda>x. (x, f x)) ks) k = (if k \<in> set ks then Some (f k) else None)"
  by (induction ks) auto

definition rows_of :: "'k \<Rightarrow> ('k \<times> string \<times> string \<times> string) list \<Rightarrow> (string \<times> string \<times> string) list" where
  "rows_of k rows = map snd (filter (\<lambda>r. fst r = k) rows)"

definition fk_of :: "('k \<Rightarrow> string) \<Rightarrow> 'k \<Rightarrow> ('k \<times> string \<times> string \<times> string) list \<Rightarrow> ForeignKeyConstraint" where
  "fk_of name_of k rows =
     \<lparr>fk_Name = name_of k, fk_Columns = map fst (rows_of k rows), fk_ReferencedTableName = fst (snd (hd (rows_of k rows))),
      fk_ReferencedColumns = map (\<lambda>r. snd (snd r)) (rows_of k rows)\<rparr>"

lemma rows_of_snoc: "rows_of k (rows @ [r]) = rows_of k rows @ (if fst r = k then [snd r] else [])"
  by (simp add: rows_of_def)

lemma rows_of_Nil: "k \<notin> fst ` set rows \<Longrightarrow> rows_of k rows = []"
  by (auto simp: rows_of_def filter_empty_conv)

lemma rows_of_Cons: "k \<in> fst ` set rows \<Longrightarrow> rows_of k rows \<noteq> []"
  by (auto simp: rows_of_def filter_empty_conv)

lemma group_fks_fold: "foldl (add_fk name_of) [] rows = map (\<lambda>k. (k, fk_of name_of k rows)) (first_keys rows)"
proof (induction rows rule: rev_induct)
  case Nil
  then show ?case by (simp add: first_keys_def)
next
  case (snoc r rows)
  obtain k column refTable refColumn where r: "r = (k, column, refTable, refColumn)" by (cases r)
  have other: "fk_of name_of x (rows @ [r]) = fk_of name_of x rows" if "x \<noteq> k" for x
    using that by (simp add: fk_of_def rows_of_snoc r)
  show ?case
  proof (cases "k \<in> fst ` set rows")
    case True
    then have "fk_of name_of k (rows @ [r]) =
      (fk_of name_of k rows)\<lparr>fk_Columns := fk_Columns (fk_of name_of k rows) @ [column],
         fk_ReferencedColumns := fk_ReferencedColumns (fk_of name_of k rows) @ [refColumn]\<rparr>"
      using rows_of_Cons [OF True] by (simp add: fk_of_def rows_of_snoc r)
    then show ?thesis using True snoc other
      by (simp add: add_fk_def r map_of_keys alist_update_map first_keys_snoc Let_def)
  next
    case False
    then show ?thesis using snoc other rows_of_Nil [OF False]
      by (auto simp: add_fk_def r map_of_keys alist_update_map first_keys_snoc fk_of_def rows_of_snoc Let_def)
  qed
qed

subsection \<open>Properties\<close>

lemma applyUniqueConstraints_marks:
  assumes "i < length columns" "\<not> co_Unique (columns ! i)" "co_UniqueGroup (columns ! i) = ''''"
    and "c = applyUniqueConstraints columns groups ! i"
  shows "co_Unique c \<longleftrightarrow> (\<exists>g \<in> set groups. claims (columns ! i) g)"
    and "\<not> co_PrimaryKey (columns ! i) \<and> (n, [co_Name (columns ! i)]) \<in> set groups \<longrightarrow> co_UniqueGroup c = ''''"
    and "co_UniqueGroup c \<noteq> '''' \<longrightarrow>
      (\<exists>cols. (co_UniqueGroup c, cols) \<in> set groups \<and> co_Name (columns ! i) \<in> set cols \<and> length cols > 1 \<and>
        (\<forall>g \<in> set groups. claims (columns ! i) g \<longrightarrow> length cols \<le> length (snd g)))"
proof -
  let ?c = "columns ! i" and ?k = "\<lambda>g. (length (snd g), fst g)"
  have c: "c = (case find (claims ?c) (sort_key ?k groups) of None \<Rightarrow> ?c | Some g \<Rightarrow> claimed g ?c)"
    using assms by (simp add: applyUniqueConstraints_map unique_spec_def)
  show "co_Unique c \<longleftrightarrow> (\<exists>g \<in> set groups. claims ?c g)"
    using c assms(2) find_sorted_least [of "claims ?c" ?k groups]
    by (cases "find (claims ?c) (sort_key ?k groups)") (auto simp: find_None_iff)
  show "\<not> co_PrimaryKey ?c \<and> (n, [co_Name ?c]) \<in> set groups \<longrightarrow> co_UniqueGroup c = ''''"
  proof
    assume own: "\<not> co_PrimaryKey ?c \<and> (n, [co_Name ?c]) \<in> set groups"
    show "co_UniqueGroup c = ''''"
    proof (cases "find (claims ?c) (sort_key ?k groups)")
      case (Some g)
      have "claims ?c (n, [co_Name ?c])" using own by (simp add: claims_def)
      then have "?k g \<le> ?k (n, [co_Name ?c])" using find_sorted_least [OF Some] own by blast
      then have "length (snd g) \<le> 1" by (auto simp: less_eq_prod_def)
      then show ?thesis using c Some assms(3) by (simp add: claimed_def)
    qed (use c assms(3) in simp)
  qed
  show "co_UniqueGroup c \<noteq> '''' \<longrightarrow>
      (\<exists>cols. (co_UniqueGroup c, cols) \<in> set groups \<and> co_Name ?c \<in> set cols \<and> length cols > 1 \<and>
        (\<forall>g \<in> set groups. claims ?c g \<longrightarrow> length cols \<le> length (snd g)))"
  proof
    assume grp: "co_UniqueGroup c \<noteq> ''''"
    then obtain g where g: "find (claims ?c) (sort_key ?k groups) = Some g"
      using c assms(3) by (cases "find (claims ?c) (sort_key ?k groups)") auto
    then have "length (snd g) > 1" "co_UniqueGroup c = fst g" using c grp assms(3) by (auto simp: claimed_def split: if_splits)
    moreover have "length (snd g) \<le> length (snd h)" if "h \<in> set groups" "claims ?c h" for h
      using find_sorted_least [OF g] that by (fastforce simp: less_eq_prod_def)
    ultimately show "\<exists>cols. (co_UniqueGroup c, cols) \<in> set groups \<and> co_Name ?c \<in> set cols \<and> length cols > 1 \<and>
        (\<forall>g \<in> set groups. claims ?c g \<longrightarrow> length cols \<le> length (snd g))"
      using find_sorted_least [OF g] by (intro exI [of _ "snd g"]) (auto simp: claims_def)
  qed
qed

text \<open>Unique constraints are turned into column marks as intended: a column without marks becomes unique exactly when some
  constraint names it (a one-column constraint does not count for a primary key), a column with a
  unique constraint of its own is never put into the group of a composite one, and a group it is put into is a composite
  constraint that names it, the smallest of those.\<close>

lemma applyUniqueConstraints_correct:
  assumes "i < length columns" "\<not> co_Unique (columns ! i)" "co_UniqueGroup (columns ! i) = ''''"
    and "c = applyUniqueConstraints columns groups ! i"
  shows "(co_Unique c \<longleftrightarrow> (\<exists>g \<in> set groups. claims (columns ! i) g)) \<and>
    (\<not> co_PrimaryKey (columns ! i) \<and> (\<exists>n. (n, [co_Name (columns ! i)]) \<in> set groups) \<longrightarrow> co_UniqueGroup c = '''') \<and>
    (co_UniqueGroup c \<noteq> '''' \<longrightarrow>
      (\<exists>cols. (co_UniqueGroup c, cols) \<in> set groups \<and> co_Name (columns ! i) \<in> set cols \<and> length cols > 1 \<and>
        (\<forall>g \<in> set groups. claims (columns ! i) g \<longrightarrow> length cols \<le> length (snd g))))"
  using applyUniqueConstraints_marks [OF assms] by blast

lemma applyUniqueConstraints_correct_example:
  "co_Unique (applyUniqueConstraints [demo_column ''tenant_id'' False, demo_column ''email'' False] [(''uq'', [''email''])] ! 1)"
proof -
  let ?cols = "[demo_column ''tenant_id'' False, demo_column ''email'' False]"
  have "claims (?cols ! 1) (''uq'', [''email''])" by code_simp
  then show ?thesis
    using applyUniqueConstraints_correct [of 1 ?cols, OF _ _ _ refl, of "[(''uq'', [''email''])]"]
    by (simp add: demo_column_def)
qed

text \<open>Foreign keys are read without mixing their columns: the constraints come in the order of their first rows, and each has the
  local and the referenced columns of exactly its own rows, pair by pair in their order, and the referenced table of its first row.\<close>

lemma group_fks_reference: "group_fks name_of rows = map (\<lambda>k. fk_of name_of k rows) (first_keys rows)"
  by (simp add: group_fks_def group_fks_fold)

text \<open>A column that is unique alone drops out of a composite constraint, whose other column then stands as unique alone.\<close>

lemma composite_constraint_shrinks:
  "map (\<lambda>c. (co_Name c, co_Unique c, co_UniqueGroup c))
     (applyUniqueConstraints [demo_column ''tenant_id'' False, demo_column ''email'' False]
        [(''uq_email'', [''email'']), (''uq_tenant_email'', [''tenant_id'', ''email''])]) =
   [(''tenant_id'', True, ''uq_tenant_email''), (''email'', True, '''')]"
  by code_simp

text \<open>An SQLite foreign key that leaves out the referenced column gives a relation that passes validation and has an empty join clause.\<close>

definition implicit_fk :: sqlite_fk where
  "implicit_fk = \<lparr>sf_id = 0, sf_table = Some ''users'', sf_from = Some ''user_id'', sf_to = None\<rparr>"

definition empty_db :: schema_db where
  "empty_db = \<lparr>q_current_schema = Inr ''public'', q_mysql_columns = (\<lambda>_. Inr ([], None)), q_mysql_unique = (\<lambda>_. Inr ([], None)),
     q_mysql_fks = (\<lambda>_. Inr ([], None)), q_mysql_tables = Inr ([], None), q_postgres_columns = (\<lambda>_ _. Inr ([], None)),
     q_postgres_enum = (\<lambda>_ _. Inr ([], None)), q_postgres_unique = (\<lambda>_ _. Inr ([], None)), q_postgres_fks = (\<lambda>_ _. Inr ([], None)),
     q_postgres_tables = (\<lambda>_. Inr ([], None)), q_sqlite_columns = (\<lambda>_. Inr ([], None)), q_sqlite_indexes = (\<lambda>_. Inr ([], None)),
     q_sqlite_index_info = (\<lambda>_. Inr ([], None)), q_sqlite_fks = (\<lambda>_. Inr ([], None)), q_sqlite_tables = Inr ([], None)\<rparr>"

lemma implicit_reference_has_no_join:
  "getPhysicalRelations (empty_db\<lparr>q_sqlite_fks := \<lambda>_. Inr ([Inr implicit_fk], None)\<rparr>) DriverSQLite '''' [''posts''] =
     Inr [demo_relation\<lparr>r_TargetColumn := ''''\<rparr>]"
  "validateRelation (demo_relation\<lparr>r_TargetColumn := ''''\<rparr>) = None" "buildJoinClause ''user_id'' '''' = ''''"
  by code_simp+

text \<open>A partial unique index counts as a unique constraint.\<close>

lemma partial_index_counts:
  "getSQLiteUniqueGroups (empty_db\<lparr>q_sqlite_indexes := \<lambda>_. Inr ([Inr \<lparr>ix_name = ''ux'', ix_unique = 1, ix_origin = ''c'', ix_partial = 1\<rparr>], None),
       q_sqlite_index_info := \<lambda>_. Inr ([Inr ''email''], None)\<rparr>) ''users'' = Inr [(''ux'', [''email''])]"
  by code_simp

end
