(* ===== verification/Gen_Models.thy ===== *)
theory Gen_Models
  imports Dialects
begin

section \<open>Model generator: the run\<close>

text \<open>
  \<open>GenerateModels\<close> and \<open>writeModel\<close> of \<^verbatim>\<open>internal/database/gen/model.go\<close>. The outside world is the record \<open>gen_world\<close>: the files by
  directory and name, and the text printed on a dry run. \<open>gen_env\<close> holds what the source calls and this library does not
  define: \<^verbatim>\<open>format.Source\<close>, the naming libraries, map iteration orders, and which of the calls that create the directory, write a file or print
  fail: a failed write may leave other content in the file, a failed print may have printed something.
  The database answers every query of a run from one state.
\<close>

subsection \<open>The world\<close>

record gen_world =
  gw_files :: "string \<times> string \<rightharpoonup> string"
  gw_out :: string

record gen_env =
  ge_names :: name_lib
  ge_fields :: "(string \<times> string) list \<Rightarrow> (string \<times> string) list"
  ge_iter :: "string list \<Rightarrow> string list"
  ge_format :: "string \<Rightarrow> (gerr, string) result"
  ge_MkdirAll :: "string \<Rightarrow> gerr option"
  ge_WriteFile :: "string \<times> string \<Rightarrow> string \<Rightarrow> (gerr \<times> string option) option"
  ge_Fprintf :: "string \<Rightarrow> (gerr \<times> string) option"

subsection \<open>Loading the tables\<close>

definition load_table ::
  "(string \<Rightarrow> (gerr, Column list) result) \<Rightarrow> table_columns \<Rightarrow> string \<Rightarrow> (gerr, table_columns) result" where
  "load_table get columnsByTable tableName =
     (case columnsByTable tableName of
        Some cols \<Rightarrow> Inr columnsByTable
      | None \<Rightarrow> (case get tableName of Inl err \<Rightarrow> Inl err | Inr cols \<Rightarrow> Inr (columnsByTable(tableName \<mapsto> cols))))"

fun load_tables ::
  "(string \<Rightarrow> (gerr, Column list) result) \<Rightarrow> string \<Rightarrow> table_columns \<Rightarrow> string list \<Rightarrow> (gerr, table_columns) result" where
  "load_tables get what columnsByTable [] = Inr columnsByTable"
| "load_tables get what columnsByTable (t # ts) =
     (case load_table get columnsByTable t of
        Inl err \<Rightarrow> Inl (wrapl (what @ t) err)
      | Inr columns' \<Rightarrow> load_tables get what columns' ts)"

definition relation_tables :: "Relation list \<Rightarrow> string list" where
  "relation_tables rs = filter (\<lambda>t. t \<noteq> '''') (concat (map (\<lambda>r. [r_SourceTable r, r_TargetTable r, r_Through r]) rs))"

subsection \<open>Generating\<close>

text \<open>The part of \<open>GenerateModels\<close> before anything is written: the tables, their columns and the relations.\<close>

definition expand_tables :: "GenerateOptions \<Rightarrow> string list \<Rightarrow> Relation list \<Rightarrow> string list" where
  "expand_tables opts tables rs = (if opt_NoExpand opts then tables else expandTablesForRelations tables rs)"

definition all_relations ::
  "gen_env \<Rightarrow> schema_db \<Rightarrow> string \<Rightarrow> string \<Rightarrow> GenerateOptions \<Rightarrow> string list \<Rightarrow> (gerr, string list \<times> Relation list) result" where
  "all_relations env db driver schema opts tables =
     (let rs = opt_Relations opts; tables1 = expand_tables opts tables rs
      in if \<not> opt_WithRelations opts then Inr (tables1, rs)
         else (case getPhysicalRelations db driver schema tables1 of
                 Inl err \<Rightarrow> Inl (wrapl ''get physical relations'' err)
               | Inr physical \<Rightarrow>
                   (case mergeRelations (ge_names env) (ge_fields env) physical rs of
                      Inl err \<Rightarrow> Inl err
                    | Inr merged \<Rightarrow> Inr (expand_tables opts tables1 merged, merged))))"

definition finish_relations ::
  "gen_env \<Rightarrow> table_columns \<Rightarrow> Relation list \<Rightarrow> (gerr, Relation list) result" where
  "finish_relations env columns rs1 =
     (case mergeRelations (ge_names env) (ge_fields env) [] (prepare_relations (ge_names env) (ge_iter env) columns rs1) of
        Inl err \<Rightarrow> Inl err
      | Inr rs4 \<Rightarrow>
          (case resolveM2MJoins (ge_names env) rs4 of
             Inl err \<Rightarrow> Inl err
           | Inr rs5 \<Rightarrow>
               (case validateRelationColumns (ge_names env) columns rs5 of Some err \<Rightarrow> Inl err | None \<Rightarrow> Inr rs5)))"

definition gen_plan ::
  "gen_env \<Rightarrow> schema_db \<Rightarrow> string \<Rightarrow> GenerateOptions \<Rightarrow> string list \<Rightarrow>
     (gerr, string list \<times> table_columns \<times> Relation list) result" where
  "gen_plan env db driver opts tables =
     (case resolveSchema db driver (opt_Schema opts) of
        Inl err \<Rightarrow> Inl err
      | Inr schema \<Rightarrow>
          (case validateRelations (opt_Relations opts) of
             Some err \<Rightarrow> Inl err
           | None \<Rightarrow>
               (case all_relations env db driver schema opts tables of
                  Inl err \<Rightarrow> Inl err
                | Inr (tables', rs1) \<Rightarrow>
                    let get = GetTableColumns (ge_iter env) db driver schema in
                    (case load_tables get ''read table '' Map.empty tables' of
                       Inl err \<Rightarrow> Inl err
                     | Inr columns0 \<Rightarrow>
                         (case load_tables get ''read relation table '' columns0 (relation_tables rs1) of
                            Inl err \<Rightarrow> Inl err
                          | Inr columns \<Rightarrow>
                              (case finish_relations env columns rs1 of
                                 Inl err \<Rightarrow> Inl err
                               | Inr rs \<Rightarrow> Inr (tables', columns, rs)))))))"

definition model_file :: "string \<Rightarrow> string" where
  "model_file tableName = to_lower tableName @ ''.gen.go''"

definition model_source :: "gen_env \<Rightarrow> GenerateOptions \<Rightarrow> string \<Rightarrow> Column list \<Rightarrow> Relation list \<Rightarrow> (gerr, string) result" where
  "model_source env opts tableName columns rs =
     ge_format env (GenerateModelCode (ge_names env) opts (camel (ge_names env) tableName) tableName columns rs)"

definition writeModel ::
  "gen_env \<Rightarrow> GenerateOptions \<Rightarrow> string \<Rightarrow> Column list \<Rightarrow> Relation list \<Rightarrow> gen_world \<Rightarrow> gerr option \<times> gen_world" where
  "writeModel env opts tableName columns rs w =
     (case model_source env opts tableName columns rs of
        Inl err \<Rightarrow> (Some (wrapl ''format generated code'' err), w)
      | Inr formatted \<Rightarrow>
          let filename = model_file tableName in
          if opt_DryRun opts
          then let text = ''// file: '' @ filename @ NL @ formatted in
            (case ge_Fprintf env text of
               Some (err, printed) \<Rightarrow> (Some err, w\<lparr>gw_out := gw_out w @ printed\<rparr>)
             | None \<Rightarrow> (None, w\<lparr>gw_out := gw_out w @ text\<rparr>))
          else
            (case ge_WriteFile env (opt_OutputDir opts, filename) formatted of
               Some (err, None) \<Rightarrow> (Some err, w)
             | Some (err, Some left) \<Rightarrow> (Some err, w\<lparr>gw_files := (gw_files w)((opt_OutputDir opts, filename) \<mapsto> left)\<rparr>)
             | None \<Rightarrow> (None, w\<lparr>gw_files := (gw_files w)((opt_OutputDir opts, filename) \<mapsto> formatted)\<rparr>)))"

text \<open>The loop at the end. By then the columns of every table are loaded.\<close>

fun write_models ::
  "gen_env \<Rightarrow> (string \<Rightarrow> (gerr, Column list) result) \<Rightarrow> GenerateOptions \<Rightarrow> table_columns \<Rightarrow> Relation list \<Rightarrow> string list \<Rightarrow>
     gen_world \<Rightarrow> gerr option \<times> gen_world" where
  "write_models env get opts columns rs [] w = (None, w)"
| "write_models env get opts columns rs (t # ts) w =
     (if t \<in> set (opt_Exclude opts) then write_models env get opts columns rs ts w
      else (case load_table get columns t of
              Inl err \<Rightarrow> (Some (wrapl (''generate model for table '' @ t) err), w)
            | Inr columns' \<Rightarrow>
                (case writeModel env opts t (the (columns' t)) rs w of
                   (Some err, w') \<Rightarrow> (Some (wrapl (''generate model for table '' @ t) err), w')
                 | (None, w') \<Rightarrow> write_models env get opts columns' rs ts w')))"

definition GenerateModels ::
  "gen_env \<Rightarrow> schema_db \<Rightarrow> string \<Rightarrow> string list \<Rightarrow> GenerateOptions \<Rightarrow> gen_world \<Rightarrow> gerr option \<times> gen_world" where
  "GenerateModels env db driver tables opts0 w =
     (if tables = [] then (None, w)
      else let opts1 = opts0\<lparr>opt_Driver := driver\<rparr> in
        case gen_plan env db driver opts1 tables of
          Inl err \<Rightarrow> (Some err, w)
        | Inr (tables', columns, rs) \<Rightarrow>
            let schema = (case resolveSchema db driver (opt_Schema opts1) of Inl err \<Rightarrow> '''' | Inr s \<Rightarrow> s);
                opts = opts1\<lparr>opt_Schema := schema, opt_Aliases := UniqueAliases tables'\<rparr>;
                run = write_models env (GetTableColumns (ge_iter env) db driver schema) opts columns rs tables' w
            in if opt_DryRun opts then run
               else (case ge_MkdirAll env (opt_OutputDir opts) of
                       Some err \<Rightarrow> (Some (wrapl ''create output directory'' err), w)
                     | None \<Rightarrow> run))"

subsection \<open>Lemmas\<close>

lemma load_table_ok:
  assumes "load_table get columns t = Inr columns'"
  shows "columns \<subseteq>\<^sub>m columns' \<and> t \<in> dom columns'"
  using assms by (auto simp: load_table_def map_le_def split: option.splits sum.splits)

lemma load_table_hit: "t \<in> dom columns \<Longrightarrow> load_table get columns t = Inr columns"
  by (auto simp: load_table_def)

lemma load_tables_ok: "load_tables get what columns ts = Inr columns' \<Longrightarrow> columns \<subseteq>\<^sub>m columns' \<and> set ts \<subseteq> dom columns'"
proof (induction get what columns ts rule: load_tables.induct)
  case (2 get what columns t ts)
  then obtain c where c: "load_table get columns t = Inr c" "load_tables get what c ts = Inr columns'"
    by (auto split: sum.splits)
  then have "c \<subseteq>\<^sub>m columns' \<and> set ts \<subseteq> dom columns'" using 2 by blast
  then show ?case using load_table_ok [OF c(1)] map_le_trans [of columns c columns'] map_le_implies_dom_le [of c columns'] by auto
qed simp

lemma gen_plan_parts:
  assumes "gen_plan env db driver opts tables = Inr (tables', columns, rs)"
  obtains schema rs1 columns0 where "validateRelations (opt_Relations opts) = None"
    "all_relations env db driver schema opts tables = Inr (tables', rs1)"
    "load_tables (GetTableColumns (ge_iter env) db driver schema) ''read table '' Map.empty tables' = Inr columns0"
    "load_tables (GetTableColumns (ge_iter env) db driver schema) ''read relation table '' columns0 (relation_tables rs1) = Inr columns"
    "finish_relations env columns rs1 = Inr rs"
  using assms by (auto simp: gen_plan_def Let_def split: sum.splits option.splits prod.splits)

lemma gen_plan_loaded:
  assumes "gen_plan env db driver opts tables = Inr (tables', columns, rs)"
  shows "set tables' \<subseteq> dom columns"
  using assms
proof (rule gen_plan_parts)
  fix schema rs1 columns0
  assume "load_tables (GetTableColumns (ge_iter env) db driver schema) ''read table '' Map.empty tables' = Inr columns0"
    "load_tables (GetTableColumns (ge_iter env) db driver schema) ''read relation table '' columns0 (relation_tables rs1) = Inr columns"
  then have "set tables' \<subseteq> dom columns0" "columns0 \<subseteq>\<^sub>m columns" using load_tables_ok by blast+
  then show ?thesis using map_le_implies_dom_le by blast
qed

lemma all_relations_merged:
  assumes "all_relations env db driver schema opts tables = Inr (tables', rs1)"
  shows "rs1 = opt_Relations opts \<or> (\<exists>ph. mergeRelations (ge_names env) (ge_fields env) ph (opt_Relations opts) = Inr rs1)"
  using assms by (auto simp: all_relations_def Let_def split: sum.splits if_splits)

text \<open>Writing one model touches at most its own file, and nothing on a dry run.\<close>

lemma writeModel_frame:
  assumes "writeModel env opts t cols rs w = (r, w')"
  shows "gw_files w' f \<noteq> gw_files w f \<longrightarrow> \<not> opt_DryRun opts \<and> f = (opt_OutputDir opts, model_file t)"
  using assms by (auto simp: writeModel_def Let_def split: sum.splits if_splits option.splits prod.splits)

lemma write_models_frame:
  "write_models env get opts columns rs ts w = (r, w') \<Longrightarrow> gw_files w' f \<noteq> gw_files w f \<Longrightarrow>
   \<not> opt_DryRun opts \<and> (\<exists>t \<in> set ts. t \<notin> set (opt_Exclude opts) \<and> f = (opt_OutputDir opts, model_file t))"
proof (induction env get opts columns rs ts w rule: write_models.induct)
  case (2 env get opts columns rs t ts w)
  show ?case
  proof (cases "t \<in> set (opt_Exclude opts)")
    case True
    then show ?thesis using 2 by auto
  next
    case False
    show ?thesis
    proof (cases "load_table get columns t")
      case (Inl err)
      then show ?thesis using False 2(3,4) by auto
    next
      case (Inr columns')
      obtain e w1 where w1: "writeModel env opts t (the (columns' t)) rs w = (e, w1)" by fastforce
      show ?thesis
      proof (cases "gw_files w1 f = gw_files w f")
        case True
        then have "e = None" "write_models env get opts columns' rs ts w1 = (r, w')"
          using 2(3,4) False Inr w1 by (cases e; auto)+
        then show ?thesis using 2(2) [OF False Inr] w1 2(4) True by fastforce
      next
        case changed: False
        then show ?thesis using writeModel_frame [OF w1, of f] False by auto
      qed
    qed
  qed
qed simp

lemma writeModel_ok:
  assumes "writeModel env opts t cols rs w = (None, w')" "\<not> opt_DryRun opts"
  shows "\<exists>src. model_source env opts t cols rs = Inr src \<and> gw_files w' (opt_OutputDir opts, model_file t) = Some src \<and> gw_out w' = gw_out w"
  using assms by (auto simp: writeModel_def Let_def split: sum.splits option.splits prod.splits)

definition written :: "gen_env \<Rightarrow> GenerateOptions \<Rightarrow> table_columns \<Rightarrow> Relation list \<Rightarrow> gen_world \<Rightarrow> string \<Rightarrow> bool" where
  "written env opts columns rs w t \<longleftrightarrow>
     (\<exists>src. model_source env opts t (the (columns t)) rs = Inr src \<and> gw_files w (opt_OutputDir opts, model_file t) = Some src)"

lemma write_models_ok:
  assumes "write_models env get opts columns rs ts w = (None, w')" "\<not> opt_DryRun opts" "set ts \<subseteq> dom columns"
    "inj_on model_file (set ts - set (opt_Exclude opts))" "t \<in> set ts - set (opt_Exclude opts)"
  shows "written env opts columns rs w' t"
  using assms
proof (induction ts arbitrary: w)
  case (Cons u ts)
  have hit: "load_table get columns u = Inr columns" using Cons.prems(3) by (intro load_table_hit) auto
  show ?case
  proof (cases "u \<in> set (opt_Exclude opts)")
    case True
    then show ?thesis using Cons by (auto intro: inj_on_subset)
  next
    case False
    obtain w1 where w1: "writeModel env opts u (the (columns u)) rs w = (None, w1)" "write_models env get opts columns rs ts w1 = (None, w')"
      using Cons.prems(1) False hit by (auto split: prod.splits option.splits)
    have inj: "inj_on model_file (set ts - set (opt_Exclude opts))" using Cons.prems(4) by (rule inj_on_subset) auto
    show ?thesis
    proof (cases "t \<in> set ts")
      case True
      then show ?thesis using Cons.IH [OF w1(2)] Cons.prems(2,3,5) inj by auto
    next
      case out: False
      then have t: "t = u" using Cons.prems(5) by auto
      have "model_file v \<noteq> model_file t" if "v \<in> set ts" "v \<notin> set (opt_Exclude opts)" for v
        using inj_onD [OF Cons.prems(4), of v t] that out False t by auto
      then have "gw_files w' (opt_OutputDir opts, model_file t) = gw_files w1 (opt_OutputDir opts, model_file t)"
        using write_models_frame [OF w1(2), of "(opt_OutputDir opts, model_file t)"] by fastforce
      then show ?thesis using writeModel_ok [OF w1(1) Cons.prems(2)] t by (auto simp: written_def)
    qed
  qed
qed simp

subsection \<open>Properties\<close>

text \<open>C35: The generator never writes a struct with two relation fields of one name or a relation field named like a
  column. Whatever relations are configured, whatever the database answers, whatever the word
  inflection library does and in whatever order Go iterates over its maps: once \<open>GenerateModels\<close> has planned its run, the
  struct of every planned table has relation fields with pairwise distinct names, none of them the name of a column
  field or of the embedded base model.\<close>

theorem generated_structs_unique:
  assumes "\<forall>xs. set (ge_fields env xs) = set xs" "gen_plan env db driver opts tables = Inr (tables', columns, rs)" "t \<in> set tables'"
  shows "distinct (map fst (render_relations (ge_names env) t rs)) \<and>
    set (map fst (render_relations (ge_names env) t rs)) \<inter> set (column_fields (ge_names env) (the (columns t))) = {}"
  using assms(2)
proof (rule gen_plan_parts)
  fix schema rs1 columns0
  assume v: "validateRelations (opt_Relations opts) = None" and all: "all_relations env db driver schema opts tables = Inr (tables', rs1)"
    and fin: "finish_relations env columns rs1 = Inr rs"
  have "columns t = Some (the (columns t))" using gen_plan_loaded [OF assms(2)] assms(3) by auto
  then show ?thesis
    using relation_fields_unique [OF assms(1) v all_relations_merged [OF all]] fin
    by (auto simp: finish_relations_def split: sum.splits option.splits)
qed

text \<open>What a run may touch: whether it succeeds or fails, a file differs afterwards only if the run was not a dry run, everything
  was read and all relations were checked without an error, and the file is the model file, in the output directory, of a planned table that
  is not excluded.\<close>

lemma GenerateModels_touches:
  assumes "GenerateModels env db driver tables opts w = (r, w')" "gw_files w' f \<noteq> gw_files w f"
  shows "\<not> opt_DryRun opts \<and>
    (\<exists>tables' columns rs t. gen_plan env db driver (opts\<lparr>opt_Driver := driver\<rparr>) tables = Inr (tables', columns, rs) \<and>
       t \<in> set tables' - set (opt_Exclude opts) \<and> f = (opt_OutputDir opts, model_file t))"
proof (cases "gen_plan env db driver (opts\<lparr>opt_Driver := driver\<rparr>) tables")
  case (Inl err)
  then show ?thesis using assms by (auto simp: GenerateModels_def Let_def split: if_splits)
next
  case (Inr p)
  obtain tables' columns rs where p: "p = (tables', columns, rs)" by (cases p)
  obtain get opts' where "write_models env get opts' columns rs tables' w = (r, w')" "opt_DryRun opts' = opt_DryRun opts"
    "opt_Exclude opts' = opt_Exclude opts" "opt_OutputDir opts' = opt_OutputDir opts"
    using assms Inr p by (auto simp: GenerateModels_def Let_def split: if_splits option.splits)
  then show ?thesis using write_models_frame [of env get opts' columns rs tables' w r w' f] assms(2) Inr p by auto
qed


subsection \<open>A run\<close>

text \<open>An SQLite database with users and their posts; the source is kept as it is rendered.\<close>

definition demo_db :: schema_db where
  "demo_db = empty_db
     \<lparr>q_sqlite_columns := (\<lambda>q.
        if q = pragma ''table_info'' ''posts''
        then Inr ([Inr \<lparr>sl_name = ''id'', sl_dataType = ''INTEGER'', sl_notNull = 0, sl_dfltValue = None, sl_pk = 1\<rparr>,
                   Inr \<lparr>sl_name = ''user_id'', sl_dataType = ''INTEGER'', sl_notNull = 1, sl_dfltValue = None, sl_pk = 0\<rparr>,
                   Inr \<lparr>sl_name = ''created_at'', sl_dataType = ''INTEGER'', sl_notNull = 1, sl_dfltValue = None, sl_pk = 0\<rparr>], None)
        else if q = pragma ''table_info'' ''users''
        then Inr ([Inr \<lparr>sl_name = ''id'', sl_dataType = ''INTEGER'', sl_notNull = 0, sl_dfltValue = None, sl_pk = 1\<rparr>], None)
        else Inr ([], None)),
      q_sqlite_fks := (\<lambda>q.
        if q = pragma ''foreign_key_list'' ''posts'' then Inr ([Inr (implicit_fk\<lparr>sf_to := Some ''id''\<rparr>)], None) else Inr ([], None))\<rparr>"

definition demo_env :: gen_env where
  "demo_env = \<lparr>ge_names = demo_names, ge_fields = id, ge_iter = id, ge_format = Inr, ge_MkdirAll = (\<lambda>_. None),
     ge_WriteFile = (\<lambda>_ _. None), ge_Fprintf = (\<lambda>_. None)\<rparr>"

definition demo_opts :: GenerateOptions where
  "demo_opts = \<lparr>opt_OutputDir = ''model'', opt_PackageName = ''model'', opt_Driver = '''', opt_Schema = '''', opt_JSONTags = True,
     opt_ValidatorTags = False, opt_WithRelations = True, opt_NoExpand = False, opt_DryRun = False, opt_Exclude = [], opt_Aliases = None,
     opt_Relations = []\<rparr>"

abbreviation demo_run :: "gerr option \<times> gen_world" where
  "demo_run \<equiv> GenerateModels demo_env demo_db DriverSQLite [''posts''] demo_opts \<lparr>gw_files = Map.empty, gw_out = ''''\<rparr>"

lemma demo_plan_eval:
  "map_sum id (\<lambda>(ts, columns, rs). (ts, rs)) (gen_plan demo_env demo_db DriverSQLite (demo_opts\<lparr>opt_Driver := DriverSQLite\<rparr>) [''posts'']) =
   Inr ([''posts'', ''users''], [demo_relation])"
  by code_simp

lemma demo_plan:
  obtains columns where "gen_plan demo_env demo_db DriverSQLite (demo_opts\<lparr>opt_Driver := DriverSQLite\<rparr>) [''posts''] =
    Inr ([''posts'', ''users''], columns, [demo_relation])"
  using demo_plan_eval
  by (cases "gen_plan demo_env demo_db DriverSQLite (demo_opts\<lparr>opt_Driver := DriverSQLite\<rparr>) [''posts'']") auto

lemma demo_run_ok: "fst demo_run = None" "gw_files (snd demo_run) (''model'', ''posts.gen.go'') \<noteq> None"
proof -
  obtain columns where p: "gen_plan demo_env demo_db DriverSQLite (demo_opts\<lparr>opt_Driver := DriverSQLite\<rparr>) [''posts''] =
    Inr ([''posts'', ''users''], columns, [demo_relation])" by (rule demo_plan)
  have hit: "load_table get columns ''posts'' = Inr columns" "load_table get columns ''users'' = Inr columns" for get
    using gen_plan_loaded [OF p] by (auto intro: load_table_hit)
  have files: "model_file ''posts'' = ''posts.gen.go''" "model_file ''users'' = ''users.gen.go''" by code_simp+
  have wr: "writeModel demo_env opts t cols rs w =
      (None, w\<lparr>gw_files := (gw_files w)((opt_OutputDir opts, model_file t) \<mapsto> GenerateModelCode demo_names opts (camel demo_names t) t cols rs)\<rparr>)"
    if "\<not> opt_DryRun opts" for opts t cols rs w
    using that by (simp add: writeModel_def model_source_def demo_env_def Let_def)
  have env: "ge_MkdirAll demo_env d = None" "opt_Exclude demo_opts = []" "\<not> opt_DryRun demo_opts" for d
    by (simp_all add: demo_env_def demo_opts_def)
  show "fst demo_run = None" "gw_files (snd demo_run) (''model'', ''posts.gen.go'') \<noteq> None"
    by (simp_all add: GenerateModels_def p Let_def env hit wr files) (simp add: demo_opts_def)
qed

theorem generated_structs_unique_witness:
  "distinct (map fst (render_relations demo_names ''posts'' [demo_relation])) \<and>
   map fst (render_relations demo_names ''posts'' [demo_relation]) = [''User'']"
proof -
  obtain columns where p: "gen_plan demo_env demo_db DriverSQLite (demo_opts\<lparr>opt_Driver := DriverSQLite\<rparr>) [''posts''] =
    Inr ([''posts'', ''users''], columns, [demo_relation])" by (rule demo_plan)
  have "distinct (map fst (render_relations (ge_names demo_env) ''posts'' [demo_relation]))"
    using generated_structs_unique [OF _ p, of "''posts''"] by (simp add: demo_env_def)
  then show ?thesis using demo_render by (simp add: demo_env_def)
qed

lemma GenerateModels_touches_example:
  "\<exists>tables' columns rs t. gen_plan demo_env demo_db DriverSQLite (demo_opts\<lparr>opt_Driver := DriverSQLite\<rparr>) [''posts''] = Inr (tables', columns, rs) \<and>
     t \<in> set tables' \<and> (''model'', ''posts.gen.go'') = (''model'', model_file t)"
proof -
  have "GenerateModels demo_env demo_db DriverSQLite [''posts''] demo_opts \<lparr>gw_files = Map.empty, gw_out = ''''\<rparr> = (fst demo_run, snd demo_run)"
    by simp
  from GenerateModels_touches [OF this, of "(''model'', ''posts.gen.go'')"] demo_run_ok(2)
  show ?thesis by (simp add: demo_opts_def)
qed


text \<open>The hook sets \<open>created_at\<close> to a time whatever the type of the column: here it is an integer. Columns whose names differ in
  underscores only get one field name, and tables whose names differ in case only one file.\<close>

lemma hook_ignores_type:
  "ft_GoType (MapColumn DriverSQLite (demo_column ''created_at'' False)) = ''int64''"
  "contains (hook_text ''Post'' [demo_column ''created_at'' False]) ''m.CreatedAt = now''"
  by code_simp+

lemma names_collide: "camel demo_names ''user_id'' = camel demo_names ''user__id''" "model_file ''Users'' = model_file ''users''"
  by code_simp+

end
