(* ===== verification/Migrate.thy ===== *)
theory Migrate
  imports Gen_Models
begin

section \<open>Database migrations\<close>

text \<open>
  \<^verbatim>\<open>internal/database/migrate/load.go\<close> and \<^verbatim>\<open>runner.go\<close>, with the Unix rules of \<^verbatim>\<open>path/filepath\<close> they rely on. The migrator of
  \<^verbatim>\<open>github.com/uptrace/bun/migrate\<close> is the record \<open>migrator_lib\<close> over a database state \<open>'d\<close>; the clock is the parameter \<open>timestamp\<close>, the
  working directory \<open>wd\<close>.
\<close>

subsection \<open>Paths\<close>

abbreviation SL :: char where "SL \<equiv> CHR ''/''"

text \<open>The loop of \<^verbatim>\<open>filepath.Clean\<close> over the elements of a path; \<open>rooted\<close> says whether it starts with a slash.\<close>

definition clean_step :: "bool \<Rightarrow> string list \<Rightarrow> string \<Rightarrow> string list" where
  "clean_step rooted out c =
     (if c = '''' \<or> c = ''.'' then out
      else if c = ''..'' then
        (if out \<noteq> [] \<and> last out \<noteq> ''..'' then butlast out
         else if rooted then out else out @ [''..''])
      else out @ [c])"

definition clean_parts :: "bool \<Rightarrow> string list \<Rightarrow> string list" where
  "clean_parts rooted cs = foldl (clean_step rooted) [] cs"

definition rooted :: "string \<Rightarrow> bool" where
  "rooted p \<longleftrightarrow> p \<noteq> [] \<and> hd p = SL"

definition path_parts :: "string \<Rightarrow> string list" where
  "path_parts p = clean_parts (rooted p) (splitc SL p)"

definition filepath_Clean :: "string \<Rightarrow> string" where
  "filepath_Clean p =
     (let out = join [SL] (path_parts p)
      in if rooted p then SL # out else if out = '''' then ''.'' else out)"

definition filepath_Join :: "string list \<Rightarrow> string" where
  "filepath_Join elems =
     (case dropWhile (\<lambda>e. e = '''') elems of [] \<Rightarrow> '''' | e # es \<Rightarrow> filepath_Clean (join [SL] (e # es)))"

definition filepath_Abs :: "string \<Rightarrow> string \<Rightarrow> string" where
  "filepath_Abs wd p = (if rooted p then filepath_Clean p else filepath_Join [wd, p])"

fun strip_common :: "string list \<Rightarrow> string list \<Rightarrow> string list \<times> string list" where
  "strip_common (b # bs) (t # ts) = (if b = t then strip_common bs ts else (b # bs, t # ts))"
| "strip_common bs ts = (bs, ts)"

definition filepath_Rel :: "string \<Rightarrow> string \<Rightarrow> (gerr, string) result" where
  "filepath_Rel basepath targpath =
     (let base = filepath_Clean basepath; targ = filepath_Clean targpath;
          err = Errorf (''Rel: can'' @ [CHR 0x27] @ ''t make '' @ targpath @ '' relative to '' @ basepath) []
      in if targ = base then Inr ''.''
         else if rooted base \<noteq> rooted targ then Inl err
         else let (bs, ts) = strip_common (path_parts base) (path_parts targ) in
           if bs = [] then Inr (join [SL] ts)
           else if hd bs = ''..'' then Inl err
           else Inr (join [SL] (replicate (length bs) ''..'' @ ts)))"

subsection \<open>Creating migrations\<close>

definition migrationNameRE :: "string \<Rightarrow> bool" where
  "migrationNameRE s \<longleftrightarrow>
     s \<noteq> [] \<and> list_all (\<lambda>c. is_digit c \<or> 0x61 \<le> byte_of c \<and> byte_of c \<le> 0x7A \<or> c = CHR ''_'' \<or> c = CHR ''-'') s"

definition validateMigrationName :: "string \<Rightarrow> gerr option" where
  "validateMigrationName name =
     (if name = '''' then Some (Errorf ''migration name is required'' [])
      else if SL \<in> set name \<or> CHR 0x5C \<in> set name then Some (Errorf ''migration name must not contain path separators'' [])
      else if \<not> migrationNameRE name then Some (Errorf ''migration name must match [0-9a-z_-]+'' [])
      else None)"

definition ensurePathWithinDir :: "string \<Rightarrow> string \<Rightarrow> string \<Rightarrow> gerr option" where
  "ensurePathWithinDir wd dir filePath =
     (case filepath_Rel (filepath_Abs wd dir) (filepath_Abs wd filePath) of
        Inl err \<Rightarrow> Some (wrapl ''migration file must be inside migrations directory'' err)
      | Inr rel \<Rightarrow>
          if rel = ''..'' \<or> has_prefix rel ''../'' then Some (Errorf ''migration file must be inside migrations directory'' [])
          else None)"

record file_env =
  fe_MkdirAll :: "string \<Rightarrow> gerr option"
  fe_WriteFile :: "string \<Rightarrow> string \<Rightarrow> (gerr \<times> string option) option"

definition write_file :: "file_env \<Rightarrow> string \<Rightarrow> string \<Rightarrow> (string \<rightharpoonup> string) \<Rightarrow> gerr option \<times> (string \<rightharpoonup> string)" where
  "write_file env path content fs =
     (case fe_WriteFile env path content of
        None \<Rightarrow> (None, fs(path \<mapsto> content))
      | Some (err, None) \<Rightarrow> (Some err, fs)
      | Some (err, Some left) \<Rightarrow> (Some err, fs(path \<mapsto> left)))"

definition up_text :: string where "up_text = ''-- Up migration'' @ NL"
definition down_text :: string where "down_text = ''-- Down migration'' @ NL"

definition Create ::
  "file_env \<Rightarrow> string \<Rightarrow> string \<Rightarrow> string \<Rightarrow> string \<Rightarrow> (string \<rightharpoonup> string) \<Rightarrow> (gerr, string \<times> string) result \<times> (string \<rightharpoonup> string)" where
  "Create env wd timestamp dir name fs =
     (case validateMigrationName name of
        Some err \<Rightarrow> (Inl err, fs)
      | None \<Rightarrow>
          let baseName = timestamp @ ''_'' @ name;
              upFile = filepath_Join [dir, baseName @ ''.up.sql'']; downFile = filepath_Join [dir, baseName @ ''.down.sql''] in
          (case first_error [ensurePathWithinDir wd dir upFile, ensurePathWithinDir wd dir downFile,
                             map_option (wrapl ''create migrations directory'') (fe_MkdirAll env dir)] of
             Some err \<Rightarrow> (Inl err, fs)
           | None \<Rightarrow>
               (case write_file env upFile up_text fs of
                  (Some err, fs1) \<Rightarrow> (Inl (wrapl ''create up migration file'' err), fs1)
                | (None, fs1) \<Rightarrow>
                    (case write_file env downFile down_text fs1 of
                       (Some err, fs2) \<Rightarrow> (Inl (wrapl ''create down migration file'' err), fs2)
                     | (None, fs2) \<Rightarrow> (Inr (upFile, downFile), fs2)))))"

subsection \<open>Running migrations\<close>

record Migration =
  mi_Name :: string
  mi_GroupID :: int
  mi_MigratedAt :: int

text \<open>The migrator: \<open>ml_Migrate\<close> and \<open>ml_Rollback\<close> answer the text of the group they handled, if there is one.\<close>

record 'd migrator_lib =
  ml_Discover :: "string \<Rightarrow> gerr option"
  ml_Init :: "'d \<Rightarrow> gerr option \<times> 'd"
  ml_Status :: "'d \<Rightarrow> (gerr, Migration list) result"
  ml_Lock :: "'d \<Rightarrow> gerr option \<times> 'd"
  ml_Unlock :: "'d \<Rightarrow> 'd"
  ml_Migrate :: "'d \<Rightarrow> (gerr, string option) result \<times> 'd"
  ml_Rollback :: "'d \<Rightarrow> (gerr, string option) result \<times> 'd"

record UpResult =
  up_AppliedCount :: int
  up_PendingCount :: int
  up_PendingNames :: "string list"
  up_Group :: string

record DownResult =
  dn_RollbackCount :: int
  dn_RollbackNames :: "string list"
  dn_Group :: string

record StatusLine =
  sl_Name :: string
  sl_Applied :: bool
  sl_GroupID :: int
  sl_MigratedAt :: int

definition zero_UpResult :: UpResult where
  "zero_UpResult = \<lparr>up_AppliedCount = 0, up_PendingCount = 0, up_PendingNames = [], up_Group = ''''\<rparr>"

definition zero_DownResult :: DownResult where
  "zero_DownResult = \<lparr>dn_RollbackCount = 0, dn_RollbackNames = [], dn_Group = ''''\<rparr>"

definition pendingMigrations :: "Migration list \<Rightarrow> Migration list" where
  "pendingMigrations ms = filter (\<lambda>m. mi_GroupID m = 0) ms"

definition lastMigrationGroup :: "Migration list \<Rightarrow> Migration list" where
  "lastMigrationGroup ms =
     (let maxGroupID = foldl (\<lambda>g m. if mi_GroupID m > g then mi_GroupID m else g) 0 ms
      in if maxGroupID = 0 then [] else filter (\<lambda>m. mi_GroupID m = maxGroupID) ms)"

definition migrationNames :: "Migration list \<Rightarrow> string list" where
  "migrationNames ms = map mi_Name ms"

definition LoadMigrations :: "'d migrator_lib \<Rightarrow> string \<Rightarrow> gerr option" where
  "LoadMigrations lib dir = map_option (wrapl ''discover migrations'') (ml_Discover lib dir)"

definition newMigrator :: "'d migrator_lib \<Rightarrow> string \<Rightarrow> 'd \<Rightarrow> gerr option \<times> 'd" where
  "newMigrator lib dir d =
     (case LoadMigrations lib dir of
        Some err \<Rightarrow> (Some err, d)
      | None \<Rightarrow> (case ml_Init lib d of (e, d1) \<Rightarrow> (map_option (wrapl ''initialize migrations'') e, d1)))"

text \<open>The part that \<open>Up\<close>, \<open>Down\<close> and \<open>Status\<close> share: the migrator and the list of migrations.\<close>

definition list_migrations :: "'d migrator_lib \<Rightarrow> string \<Rightarrow> string \<Rightarrow> 'd \<Rightarrow> (gerr, Migration list) result \<times> 'd" where
  "list_migrations lib what dir d =
     (case newMigrator lib dir d of
        (Some err, d1) \<Rightarrow> (Inl err, d1)
      | (None, d1) \<Rightarrow>
          (case ml_Status lib d1 of Inl err \<Rightarrow> (Inl (wrapl what err), d1) | Inr ms \<Rightarrow> (Inr ms, d1)))"

text \<open>Under the lock, with the deferred \<open>Unlock\<close>.\<close>

definition locked_run ::
  "'d migrator_lib \<Rightarrow> string \<Rightarrow> ('d \<Rightarrow> (gerr, string option) result \<times> 'd) \<Rightarrow> 'd \<Rightarrow> (gerr, string option) result \<times> 'd" where
  "locked_run lib what run d =
     (case ml_Lock lib d of
        (Some err, d1) \<Rightarrow> (Inl (wrapl ''lock migrations'' err), d1)
      | (None, d1) \<Rightarrow>
          (case run d1 of
             (Inl err, d2) \<Rightarrow> (Inl (wrapl what err), ml_Unlock lib d2)
           | (Inr g, d2) \<Rightarrow> (Inr g, ml_Unlock lib d2)))"

definition group_text :: "string option \<Rightarrow> string" where
  "group_text g = (case g of None \<Rightarrow> '''' | Some t \<Rightarrow> t)"

definition Up :: "'d migrator_lib \<Rightarrow> string \<Rightarrow> bool \<Rightarrow> 'd \<Rightarrow> (gerr, UpResult) result \<times> 'd" where
  "Up lib dir dryRun d =
     (case list_migrations lib ''get migrations'' dir d of
        (Inl err, d1) \<Rightarrow> (Inl err, d1)
      | (Inr ms, d1) \<Rightarrow>
          let pending = pendingMigrations ms;
              result = zero_UpResult\<lparr>up_PendingCount := int (length pending), up_PendingNames := migrationNames pending\<rparr> in
          if pending = [] then (Inr zero_UpResult, d1)
          else if dryRun then (Inr result, d1)
          else (case locked_run lib ''run migrations'' (ml_Migrate lib) d1 of
                  (Inl err, d2) \<Rightarrow> (Inl err, d2)
                | (Inr g, d2) \<Rightarrow> (Inr (result\<lparr>up_AppliedCount := int (length pending), up_Group := group_text g\<rparr>), d2)))"

definition Down :: "'d migrator_lib \<Rightarrow> string \<Rightarrow> bool \<Rightarrow> 'd \<Rightarrow> (gerr, DownResult) result \<times> 'd" where
  "Down lib dir dryRun d =
     (case list_migrations lib ''get migrations'' dir d of
        (Inl err, d1) \<Rightarrow> (Inl err, d1)
      | (Inr ms, d1) \<Rightarrow>
          let lastGroup = lastMigrationGroup ms;
              result = zero_DownResult\<lparr>dn_RollbackCount := int (length lastGroup), dn_RollbackNames := migrationNames lastGroup\<rparr> in
          if lastGroup = [] then (Inr zero_DownResult, d1)
          else if dryRun then (Inr result, d1)
          else (case locked_run lib ''rollback migrations'' (ml_Rollback lib) d1 of
                  (Inl err, d2) \<Rightarrow> (Inl err, d2)
                | (Inr g, d2) \<Rightarrow> (Inr (result\<lparr>dn_Group := group_text g\<rparr>), d2)))"

definition status_line :: "Migration \<Rightarrow> StatusLine" where
  "status_line m =
     (if mi_GroupID m \<noteq> 0
      then \<lparr>sl_Name = mi_Name m, sl_Applied = True, sl_GroupID = mi_GroupID m, sl_MigratedAt = mi_MigratedAt m\<rparr>
      else \<lparr>sl_Name = mi_Name m, sl_Applied = False, sl_GroupID = 0, sl_MigratedAt = 0\<rparr>)"

definition Status :: "'d migrator_lib \<Rightarrow> string \<Rightarrow> 'd \<Rightarrow> (gerr, StatusLine list) result \<times> 'd" where
  "Status lib dir d =
     (case list_migrations lib ''get migration status'' dir d of
        (Inl err, d1) \<Rightarrow> (Inl err, d1)
      | (Inr ms, d1) \<Rightarrow> (Inr (map status_line ms), d1))"

subsection \<open>Cleaned paths\<close>

lemma splitc_sep: "splitc d (a @ d # b) = splitc d a @ splitc d b"
proof (induction a)
  case (Cons c a)
  then show ?case by (cases "splitc d a") auto
qed simp

definition plain_part :: "string \<Rightarrow> bool" where
  "plain_part c \<longleftrightarrow> c \<noteq> '''' \<and> c \<noteq> ''.'' \<and> c \<noteq> ''..''"

lemma clean_step_plain: "plain_part c \<Longrightarrow> clean_step r out c = out @ [c]"
  by (simp add: clean_step_def plain_part_def)

lemma foldl_clean_plain: "\<forall>c \<in> set cs. plain_part c \<Longrightarrow> foldl (clean_step r) out cs = out @ cs"
  by (induction cs arbitrary: out) (simp_all add: clean_step_plain)

lemma clean_parts_snoc: "clean_parts r (cs @ [c]) = clean_step r (clean_parts r cs) c"
  by (simp add: clean_parts_def)

lemma clean_parts_elems:
  "c \<in> set (clean_parts r cs) \<Longrightarrow> c \<in> set cs \<and> c \<noteq> '''' \<and> c \<noteq> ''.'' \<and> (r \<longrightarrow> c \<noteq> ''..'')"
proof (induction cs rule: rev_induct)
  case (snoc d cs)
  then show ?case by (auto simp: clean_parts_snoc clean_step_def dest: in_set_butlastD split: if_splits)
qed (simp add: clean_parts_def)

lemma clean_step_pop: "x \<noteq> ''..'' \<Longrightarrow> clean_step r (out @ [x]) ''..'' = out"
  by (simp add: clean_step_def)

text \<open>Cleaning a relative path first makes no difference to what it leads to.\<close>

lemma foldl_clean_parts: "foldl (clean_step r) out (clean_parts False cs) = foldl (clean_step r) out cs"
proof (induction cs rule: rev_induct)
  case (snoc c cs)
  let ?R = "clean_parts False cs"
  show ?case
  proof (cases "c = ''..'' \<and> ?R \<noteq> [] \<and> last ?R \<noteq> ''..''")
    case True
    have "last ?R \<in> set ?R" using True by simp
    then have p: "plain_part (last ?R)" using clean_parts_elems [of "last ?R" False cs] True unfolding plain_part_def by blast
    have "foldl (clean_step r) out ?R = clean_step r (foldl (clean_step r) out (butlast ?R)) (last ?R)"
      using True by (metis append_butlast_last_id foldl_Cons foldl_Nil foldl_append)
    then have "foldl (clean_step r) out cs = foldl (clean_step r) out (butlast ?R) @ [last ?R]"
      using snoc p by (simp add: clean_step_plain)
    moreover have "clean_parts False (cs @ [c]) = butlast ?R" using True by (simp add: clean_parts_snoc clean_step_def)
    ultimately show ?thesis using True clean_step_pop by simp
  next
    case False
    show ?thesis
    proof (cases "c = '''' \<or> c = ''.''")
      case True
      then show ?thesis using snoc by (auto simp: clean_parts_snoc clean_step_def)
    next
      case other: False
      then have "clean_parts False (cs @ [c]) = ?R @ [c]" using False by (auto simp: clean_parts_snoc clean_step_def)
      then show ?thesis using snoc by simp
    qed
  qed
qed (simp add: clean_parts_def)

lemma clean_parts_idem: "clean_parts r (clean_parts r cs) = clean_parts r cs"
proof (cases r)
  case True
  then have "\<forall>c \<in> set (clean_parts r cs). plain_part c" using clean_parts_elems by (auto simp: plain_part_def)
  then show ?thesis using foldl_clean_plain [of "clean_parts r cs" r "[]"] by (simp add: clean_parts_def)
next
  case False
  then show ?thesis using foldl_clean_parts [of False "[]" cs] by (simp add: clean_parts_def)
qed

lemma clean_parts_Nil [simp]: "clean_parts r ('''' # cs) = clean_parts r cs"
  by (simp add: clean_parts_def clean_step_def)

lemma path_parts_free: "\<forall>c \<in> set (path_parts p). SL \<notin> set c \<and> c \<noteq> ''''"
  using clean_parts_elems splitc_free unfolding path_parts_def by blast

lemma join_parts_not_rooted: "\<forall>c \<in> set cs. SL \<notin> set c \<and> c \<noteq> '''' \<Longrightarrow> \<not> rooted (join [SL] cs)"
proof (cases cs)
  case (Cons c ds)
  assume "\<forall>c \<in> set cs. SL \<notin> set c \<and> c \<noteq> ''''"
  then obtain x xs where "c = x # xs" "x \<noteq> SL" using Cons by (cases c) auto
  then show ?thesis using Cons by (simp add: join_Cons_head rooted_def)
qed (simp add: rooted_def)

lemma rooted_Clean: "rooted (filepath_Clean p) = rooted p"
proof (cases "rooted p")
  case False
  have "\<not> rooted ''.''" by (simp add: rooted_def)
  then show ?thesis using False join_parts_not_rooted [OF path_parts_free [of p]] by (simp add: filepath_Clean_def Let_def)
qed (simp add: filepath_Clean_def Let_def rooted_def)

lemma splitc_join_parts: "cs \<noteq> [] \<Longrightarrow> \<forall>c \<in> set cs. SL \<notin> set c \<and> c \<noteq> '''' \<Longrightarrow> splitc SL (join [SL] cs) = cs"
  by (intro splitc_join) auto

lemma join_parts_empty: "\<forall>c \<in> set cs. SL \<notin> set c \<and> c \<noteq> '''' \<Longrightarrow> join [SL] cs = '''' \<longleftrightarrow> cs = []"
  by (cases cs; cases "tl cs") auto

lemma path_parts_Clean: "path_parts (filepath_Clean p) = path_parts p"
proof (cases "path_parts p = []")
  case True
  then show ?thesis
    by (auto simp: filepath_Clean_def Let_def path_parts_def [of "''.''"] path_parts_def [of "[SL]"] rooted_def clean_parts_def clean_step_def)
next
  case False
  note free = path_parts_free [of p]
  have split: "splitc SL (join [SL] (path_parts p)) = path_parts p" by (rule splitc_join_parts [OF False free])
  have "clean_parts (rooted p) (path_parts p) = path_parts p" by (simp add: path_parts_def clean_parts_idem)
  moreover have "\<not> rooted (join [SL] (path_parts p))" by (rule join_parts_not_rooted [OF free])
  ultimately show ?thesis
    using split join_parts_empty [OF free] False
    by (cases "rooted p")
      (simp_all add: filepath_Clean_def Let_def path_parts_def [of "_ # _"] path_parts_def [of "join _ _"], simp add: rooted_def)
qed

text \<open>The parts of a file in a directory.\<close>

lemma path_parts_append: "path_parts (p @ SL # q) = foldl (clean_step (rooted (p @ SL # q))) [] (splitc SL p @ splitc SL q)"
  by (simp add: path_parts_def splitc_sep clean_parts_def)

lemma Abs_parts:
  assumes "rooted wd"
  shows "path_parts (filepath_Abs wd p) =
    (if rooted p then path_parts p else foldl (clean_step True) (path_parts wd) (splitc SL p))"
proof -
  have "rooted (wd @ SL # p)" "wd \<noteq> ''''" using assms by (auto simp: rooted_def)
  then show ?thesis
    using assms by (simp add: filepath_Abs_def filepath_Join_def path_parts_Clean path_parts_append) (simp add: path_parts_def clean_parts_def)
qed

lemma file_parts:
  assumes "rooted wd" "plain_part b" "SL \<notin> set b"
  shows "path_parts (filepath_Abs wd (filepath_Join [dir, b])) = path_parts (filepath_Abs wd dir) @ [b]"
proof -
  have b: "splitc SL b = [b]" "\<not> rooted b" using assms(3) by (rule splitc_plain) (use assms(3) in \<open>cases b; auto simp: rooted_def\<close>)
  let ?j = "if dir = '''' then b else dir @ SL # b"
  have j: "filepath_Join [dir, b] = filepath_Clean ?j" using assms(2) by (simp add: filepath_Join_def plain_part_def)
  have r: "rooted ?j = rooted dir" using b(2) by (auto simp: rooted_def)
  show ?thesis
  proof (cases "rooted dir")
    case True
    then have "path_parts ?j = path_parts dir @ [b]"
      using r assms(2) b(1) True by (auto simp: path_parts_def splitc_sep clean_parts_def clean_step_plain rooted_def)
    then show ?thesis using True r by (simp add: Abs_parts [OF assms(1)] j rooted_Clean path_parts_Clean)
  next
    case False
    have parts: "path_parts ?j = clean_parts False (splitc SL dir @ [b])"
      using r False b(1) by (auto simp: path_parts_def splitc_sep clean_parts_def clean_step_def)
    also have "\<dots> = clean_parts False (splitc SL dir) @ [b]" using assms(2) by (simp add: clean_parts_snoc clean_step_plain)
    finally have ne: "path_parts ?j \<noteq> []" by simp
    then have tx: "filepath_Clean ?j = join [SL] (path_parts ?j)"
      using r False join_parts_empty [OF path_parts_free [of ?j]] by (simp add: filepath_Clean_def Let_def)
    have "path_parts (filepath_Abs wd (filepath_Clean ?j)) = foldl (clean_step True) (path_parts wd) (path_parts ?j)"
    proof -
      have "\<not> rooted (filepath_Clean ?j)" using r False rooted_Clean by blast
      moreover have "splitc SL (filepath_Clean ?j) = path_parts ?j"
        unfolding tx by (rule splitc_join_parts [OF ne path_parts_free])
      ultimately show ?thesis by (simp only: Abs_parts [OF assms(1)] if_False)
    qed
    also have "\<dots> = foldl (clean_step True) (path_parts wd) (splitc SL dir @ [b])" unfolding parts by (rule foldl_clean_parts)
    finally show ?thesis using False assms(2) j by (simp add: Abs_parts [OF assms(1)] clean_step_plain)
  qed
qed

lemma strip_common_prefix: "strip_common xs (xs @ ys) = ([], ys)"
  by (induction xs) (cases ys; simp)+

lemma rooted_append: "rooted p \<Longrightarrow> rooted (p @ q) \<and> p \<noteq> ''''"
  by (auto simp: rooted_def)

lemma rooted_Abs: "rooted wd \<Longrightarrow> rooted (filepath_Abs wd p)"
  using rooted_append by (auto simp: filepath_Abs_def filepath_Join_def rooted_Clean)

lemma inside_ok:
  assumes "rooted wd" "plain_part b" "SL \<notin> set b"
  shows "ensurePathWithinDir wd dir (filepath_Join [dir, b]) = None"
proof -
  let ?d = "filepath_Abs wd dir" and ?f = "filepath_Abs wd (filepath_Join [dir, b])"
  have p: "path_parts ?f = path_parts ?d @ [b]" by (rule file_parts [OF assms])
  then have "filepath_Clean ?f \<noteq> filepath_Clean ?d" using path_parts_Clean by (metis append_self_conv not_Cons_self2)
  then have "filepath_Rel ?d ?f = Inr b"
    using p assms(1) by (simp add: filepath_Rel_def Let_def rooted_Clean rooted_Abs path_parts_Clean strip_common_prefix)
  moreover have "\<not> has_prefix b ''../''" using assms(3) by (auto simp: has_prefix_iff)
  ultimately show ?thesis using assms(2) by (simp add: ensurePathWithinDir_def plain_part_def)
qed

subsection \<open>The migrator as an interface\<close>

text \<open>What the documentation of \<^verbatim>\<open>bun/migrate\<close> promises: \<open>st\<close> are the migrations with their groups, \<open>held\<close> says whether the migration
  lock is taken. A group number is positive; applying gives all pending migrations the next number, rolling back
  clears the migrations of the last one.\<close>

definition last_group :: "Migration list \<Rightarrow> int" where
  "last_group ms = foldl (\<lambda>g m. max g (mi_GroupID m)) 0 ms"

definition apply_pending :: "int \<Rightarrow> Migration list \<Rightarrow> Migration list" where
  "apply_pending now ms =
     map (\<lambda>m. if mi_GroupID m = 0 then m\<lparr>mi_GroupID := last_group ms + 1, mi_MigratedAt := now\<rparr> else m) ms"

definition drop_last_group :: "Migration list \<Rightarrow> Migration list" where
  "drop_last_group ms =
     map (\<lambda>m. if mi_GroupID m = last_group ms then m\<lparr>mi_GroupID := 0, mi_MigratedAt := 0\<rparr> else m) ms"

locale migrator =
  fixes lib :: "'d migrator_lib" and st :: "'d \<Rightarrow> Migration list" and held :: "'d \<Rightarrow> bool"
  assumes init: "ml_Init lib d = (e, d') \<Longrightarrow> st d' = st d \<and> held d' = held d"
    and status: "ml_Status lib d = Inr ms \<Longrightarrow> ms = st d"
    and lock: "ml_Lock lib d = (e, d') \<Longrightarrow> st d' = st d \<and> (e = None \<longrightarrow> \<not> held d \<and> held d') \<and> (e \<noteq> None \<longrightarrow> held d' = held d)"
    and unlock: "st (ml_Unlock lib d) = st d \<and> \<not> held (ml_Unlock lib d)"
    and migrate: "ml_Migrate lib d = (Inr g, d') \<Longrightarrow> (\<exists>now. st d' = apply_pending now (st d)) \<and> held d' = held d"
    and rollback: "ml_Rollback lib d = (Inr g, d') \<Longrightarrow> st d' = drop_last_group (st d) \<and> held d' = held d"
    and groups: "m \<in> set (st d) \<Longrightarrow> 0 \<le> mi_GroupID m"
begin

lemma list_ok: "list_migrations lib what dir d = (r, d') \<Longrightarrow> st d' = st d \<and> held d' = held d \<and> (\<forall>ms. r = Inr ms \<longrightarrow> ms = st d)"
  using init status by (fastforce simp: list_migrations_def newMigrator_def split: option.splits prod.splits sum.splits)

lemma locked_releases: "locked_run lib what run d = (r, d') \<Longrightarrow> \<not> held d \<Longrightarrow> \<not> held d'"
  using lock unlock by (fastforce simp: locked_run_def split: prod.splits option.splits sum.splits)

lemma locked_ok:
  assumes "locked_run lib what run d = (Inr g, d')"
  shows "\<exists>d1 d2. run d1 = (Inr g, d2) \<and> st d1 = st d \<and> st d' = st d2"
  using assms lock unlock by (fastforce simp: locked_run_def split: prod.splits option.splits sum.splits)

lemma Up_ok:
  assumes "Up lib dir False d = (Inr r, d')"
  shows "up_PendingNames r = map mi_Name (pendingMigrations (st d)) \<and> up_AppliedCount r = int (length (pendingMigrations (st d))) \<and>
    (if pendingMigrations (st d) = [] then st d' = st d else \<exists>now. st d' = apply_pending now (st d))"
proof -
  obtain ms d1 where l: "list_migrations lib ''get migrations'' dir d = (Inr ms, d1)"
    using assms by (auto simp: Up_def split: prod.splits sum.splits)
  then have ms: "ms = st d" "st d1 = st d" using list_ok by auto
  show ?thesis
  proof (cases "pendingMigrations (st d) = []")
    case True
    then show ?thesis using assms l ms by (auto simp: Up_def Let_def zero_UpResult_def)
  next
    case False
    then obtain g where g: "locked_run lib ''run migrations'' (ml_Migrate lib) d1 = (Inr g, d')"
      using assms l ms by (auto simp: Up_def Let_def split: prod.splits sum.splits)
    from locked_ok [OF g] obtain da db where "ml_Migrate lib da = (Inr g, db)" "st da = st d1" "st d' = st db" by blast
    with migrate have "\<exists>now. st d' = apply_pending now (st d)" using ms by metis
    then show ?thesis using assms l ms False g by (auto simp: Up_def Let_def zero_UpResult_def migrationNames_def)
  qed
qed

lemma Down_ok:
  assumes "Down lib dir False d = (Inr r, d')"
  shows "dn_RollbackNames r = map mi_Name (lastMigrationGroup (st d)) \<and>
    st d' = (if lastMigrationGroup (st d) = [] then st d else drop_last_group (st d))"
proof -
  obtain ms d1 where l: "list_migrations lib ''get migrations'' dir d = (Inr ms, d1)"
    using assms by (auto simp: Down_def split: prod.splits sum.splits)
  then have ms: "ms = st d" "st d1 = st d" using list_ok by auto
  show ?thesis
  proof (cases "lastMigrationGroup (st d) = []")
    case True
    then show ?thesis using assms l ms by (auto simp: Down_def Let_def zero_DownResult_def)
  next
    case False
    then obtain g where g: "locked_run lib ''rollback migrations'' (ml_Rollback lib) d1 = (Inr g, d')"
      using assms l ms by (auto simp: Down_def Let_def split: prod.splits sum.splits)
    from locked_ok [OF g] obtain da db where "ml_Rollback lib da = (Inr g, db)" "st da = st d1" "st d' = st db" by blast
    with rollback have "st d' = drop_last_group (st d)" using ms by metis
    then show ?thesis using assms l ms False g by (auto simp: Down_def Let_def zero_DownResult_def migrationNames_def)
  qed
qed

end

subsection \<open>Groups\<close>

lemma max_group: "foldl (\<lambda>g m. if mi_GroupID m > g then mi_GroupID m else g) a ms = foldl (\<lambda>g m. max g (mi_GroupID m)) a ms"
  by (rule arg_cong [where f = "\<lambda>f. foldl f a ms"]) (auto simp: fun_eq_iff max_def)

lemma foldl_max:
  fixes a :: int
  shows "a \<le> foldl (\<lambda>g m. max g (mi_GroupID m)) a ms \<and> (\<forall>m \<in> set ms. mi_GroupID m \<le> foldl (\<lambda>g m. max g (mi_GroupID m)) a ms) \<and>
    (foldl (\<lambda>g m. max g (mi_GroupID m)) a ms = a \<or> (\<exists>m \<in> set ms. mi_GroupID m = foldl (\<lambda>g m. max g (mi_GroupID m)) a ms))"
proof (induction ms arbitrary: a)
  case (Cons m ms)
  show ?case using Cons.IH [of "max a (mi_GroupID m)"] by (auto simp: max_def split: if_splits)
qed simp

lemma lastMigrationGroup_alt:
  "lastMigrationGroup ms = (if last_group ms = 0 then [] else filter (\<lambda>m. mi_GroupID m = last_group ms) ms)"
  by (simp add: lastMigrationGroup_def last_group_def max_group)

lemma last_group_apply:
  assumes "\<forall>m \<in> set ms. 0 \<le> mi_GroupID m" "pendingMigrations ms \<noteq> []"
  shows "last_group (apply_pending now ms) = last_group ms + 1"
proof -
  obtain m where m: "m \<in> set ms" "mi_GroupID m = 0" using assms(2) by (auto simp: pendingMigrations_def filter_empty_conv)
  let ?ap = "apply_pending now ms"
  have old: "\<forall>m \<in> set ms. mi_GroupID m \<le> last_group ms" "0 \<le> last_group ms" using foldl_max [of 0 ms] by (auto simp: last_group_def)
  have le: "\<forall>x \<in> set ?ap. mi_GroupID x \<le> last_group ms + 1" using old by (auto simp: apply_pending_def)
  have "\<exists>x \<in> set ?ap. mi_GroupID x = last_group ms + 1" 
    unfolding apply_pending_def set_map by (rule bexI [OF _ imageI [OF m(1)]]) (simp add: m(2))
  then show ?thesis using foldl_max [of 0 ?ap] le old(2) unfolding last_group_def [of ?ap] by (force simp: antisym)
qed

text \<open>Rolling back what was just applied.\<close>

lemma drop_apply:
  assumes "\<forall>m \<in> set ms. 0 \<le> mi_GroupID m" "pendingMigrations ms \<noteq> []"
  shows "map (\<lambda>m. (mi_Name m, mi_GroupID m)) (drop_last_group (apply_pending now ms)) = map (\<lambda>m. (mi_Name m, mi_GroupID m)) ms"
    and "map mi_Name (lastMigrationGroup (apply_pending now ms)) = map mi_Name (pendingMigrations ms)"
proof -
  have g: "last_group (apply_pending now ms) = last_group ms + 1" by (rule last_group_apply [OF assms])
  have old: "\<forall>m \<in> set ms. mi_GroupID m \<le> last_group ms" "0 \<le> last_group ms" using foldl_max [of 0 ms] by (auto simp: last_group_def)
  then have ne: "\<forall>m \<in> set ms. mi_GroupID m \<noteq> last_group ms + 1" by force
  then show "map (\<lambda>m. (mi_Name m, mi_GroupID m)) (drop_last_group (apply_pending now ms)) = map (\<lambda>m. (mi_Name m, mi_GroupID m)) ms"
    by (auto simp: drop_last_group_def g) (auto simp: apply_pending_def)
  have "filter (\<lambda>m. mi_GroupID m = last_group ms + 1) (apply_pending now ms) =
      map (\<lambda>m. m\<lparr>mi_GroupID := last_group ms + 1, mi_MigratedAt := now\<rparr>) (pendingMigrations ms)"
  proof -
    define n where "n = last_group ms + 1"
    have "filter (\<lambda>m. mi_GroupID m = n) (map (\<lambda>m. if mi_GroupID m = 0 then m\<lparr>mi_GroupID := n, mi_MigratedAt := now\<rparr> else m) xs) =
        map (\<lambda>m. m\<lparr>mi_GroupID := n, mi_MigratedAt := now\<rparr>) (filter (\<lambda>m. mi_GroupID m = 0) xs)" if "\<forall>m \<in> set xs. mi_GroupID m \<noteq> n" for xs
      using that by (induction xs) auto
    from this [of ms] show ?thesis using ne unfolding apply_pending_def pendingMigrations_def n_def by blast
  qed
  then show "map mi_Name (lastMigrationGroup (apply_pending now ms)) = map mi_Name (pendingMigrations ms)"
    using g old(2) by (simp add: lastMigrationGroup_alt comp_def)
qed

text \<open>A list of migrations and the lock satisfy the interface.\<close>

definition ref_st :: "Migration list \<times> bool \<Rightarrow> Migration list" where
  "ref_st d = map (\<lambda>m. if mi_GroupID m \<le> 0 then m\<lparr>mi_GroupID := 0, mi_MigratedAt := 0\<rparr> else m) (fst d)"

definition ref_migrator :: "(Migration list \<times> bool) migrator_lib" where
  "ref_migrator =
     \<lparr>ml_Discover = (\<lambda>_. None), ml_Init = (\<lambda>d. (None, d)), ml_Status = (\<lambda>d. Inr (ref_st d)),
      ml_Lock = (\<lambda>d. if snd d then (Some (Sentinel ''locked''), d) else (None, (fst d, True))), ml_Unlock = (\<lambda>d. (fst d, False)),
      ml_Migrate = (\<lambda>d. (Inr (Some ''group''), (apply_pending 1 (ref_st d), snd d))),
      ml_Rollback = (\<lambda>d. (Inr (Some ''group''), (drop_last_group (ref_st d), snd d)))\<rparr>"

lemma last_group_nonneg: "0 \<le> last_group ms"
  using foldl_max [of 0 ms] by (simp add: last_group_def)

lemma ref_st_apply: "ref_st (apply_pending now (ref_st d), b) = apply_pending now (ref_st d)"
  unfolding ref_st_def [of "(_, b)"] fst_conv
proof (rule map_idI)
  fix m assume "m \<in> set (apply_pending now (ref_st d))"
  then have "mi_GroupID m > 0"
    using last_group_nonneg [of "ref_st d"] by (auto simp: apply_pending_def ref_st_def split: if_splits)
  then show "(if mi_GroupID m \<le> 0 then m\<lparr>mi_GroupID := 0, mi_MigratedAt := 0\<rparr> else m) = m" by simp
qed

lemma ref_st_drop: "ref_st (drop_last_group (ref_st d), b) = drop_last_group (ref_st d)"
  unfolding ref_st_def [of "(_, b)"] fst_conv
  by (rule map_idI) (auto simp: drop_last_group_def ref_st_def split: if_splits)

lemma ref_st_flag: "ref_st (fst d, b) = ref_st d"
  by (simp add: ref_st_def)

lemma ref_st_nonneg: "m \<in> set (ref_st d) \<Longrightarrow> 0 \<le> mi_GroupID m"
  by (auto simp: ref_st_def split: if_splits)

interpretation ref_mig: migrator ref_migrator ref_st snd
  by unfold_locales (auto simp: ref_migrator_def ref_st_apply ref_st_drop ref_st_flag ref_st_nonneg split: if_splits)

subsection \<open>Properties\<close>

lemma plain_part_long: "2 < length c \<Longrightarrow> plain_part c"
  by (auto simp: plain_part_def)

lemma snd_case_result:
  "snd (case x of (Inl err, d) \<Rightarrow> (Inl err, d) | (Inr g, d) \<Rightarrow> (Inr (f g), d)) = snd x"
  by (simp split: prod.split sum.split)

text \<open>C34: Rolling back undoes the last run: when \<open>Up\<close> has applied something and \<open>Down\<close> then succeeds, every migration is in the
  group it was in before, and the names \<open>Down\<close> reports are those \<open>Up\<close> reported, for every migrator that keeps the promises of
  its documentation.\<close>

theorem Down_undoes_Up:
  assumes "migrator lib st held" "Up lib dir False d = (Inr r, d1)" "up_AppliedCount r > 0" "Down lib dir False d1 = (Inr r', d2)"
  shows "map (\<lambda>m. (mi_Name m, mi_GroupID m)) (st d2) = map (\<lambda>m. (mi_Name m, mi_GroupID m)) (st d) \<and>
    dn_RollbackNames r' = up_PendingNames r"
proof -
  note up = migrator.Up_ok [OF assms(1,2)] and down = migrator.Down_ok [OF assms(1,4)]
  have p: "pendingMigrations (st d) \<noteq> []" using up assms(3) by auto
  then obtain now where now: "st d1 = apply_pending now (st d)" using up by auto
  have nn: "\<forall>m \<in> set (st d). 0 \<le> mi_GroupID m" using migrator.groups [OF assms(1)] by blast
  note drop = drop_apply [OF nn p, of now]
  have "map mi_Name (lastMigrationGroup (st d1)) \<noteq> []" using drop(2) now p by simp
  then show ?thesis using drop down up now by auto
qed

text \<open>No run leaves the migration lock behind, and a dry run changes nothing: starting without the lock, after \<open>Up\<close> and
  after \<open>Down\<close>, successful or not, the lock is free, and with \<open>dryRun\<close> set every migration is as it was.\<close>

lemma migrate_lock_released:
  assumes "migrator lib st held" "\<not> held d"
  shows "\<not> held (snd (Up lib dir dryRun d)) \<and> \<not> held (snd (Down lib dir dryRun d)) \<and>
    (dryRun \<longrightarrow> st (snd (Up lib dir dryRun d)) = st d \<and> st (snd (Down lib dir dryRun d)) = st d)"
proof -
  obtain l d1 where l: "list_migrations lib ''get migrations'' dir d = (l, d1)" by fastforce
  then have d1: "\<not> held d1" "st d1 = st d" using migrator.list_ok [OF assms(1) l] assms(2) by auto
  have rel: "\<not> held (snd (locked_run lib what run d1))" for what run
    using migrator.locked_releases [OF assms(1) _ d1(1)] by (metis prod.collapse)
  show ?thesis using l d1 rel
    by (cases l) (auto simp: Up_def Down_def Let_def snd_case_result)
qed

text \<open>A migration is always created where it should be: for an accepted name the path check never refuses and both files lie directly
  in the migrations directory, whatever the directory looks like; when no file operation fails exactly these two files are written.\<close>

lemma Create_in_directory:
  assumes "rooted wd" "validateMigrationName name = None" "SL \<notin> set timestamp"
    and "fe_MkdirAll env dir = None" "\<forall>p c. fe_WriteFile env p c = None"
  shows "\<exists>up down. Create env wd timestamp dir name fs = (Inr (up, down), fs(up \<mapsto> up_text, down \<mapsto> down_text)) \<and>
    path_parts (filepath_Abs wd up) = path_parts (filepath_Abs wd dir) @ [timestamp @ ''_'' @ name @ ''.up.sql''] \<and>
    path_parts (filepath_Abs wd down) = path_parts (filepath_Abs wd dir) @ [timestamp @ ''_'' @ name @ ''.down.sql'']"
proof -
  have n: "SL \<notin> set name" using assms(2) by (auto simp: validateMigrationName_def split: if_splits)
  have b: "plain_part (timestamp @ ''_'' @ name @ sfx) \<and> SL \<notin> set (timestamp @ ''_'' @ name @ sfx)"
    if "sfx \<in> {''.up.sql'', ''.down.sql''}" for sfx
  proof -
    have "length (timestamp @ ''_'' @ name @ sfx) > 2" using that by auto
    then have "plain_part (timestamp @ ''_'' @ name @ sfx)" by (rule plain_part_long)
    then show ?thesis using that n assms(3) by auto
  qed
  let ?up = "filepath_Join [dir, timestamp @ ''_'' @ name @ ''.up.sql'']" and ?down = "filepath_Join [dir, timestamp @ ''_'' @ name @ ''.down.sql'']"
  have "Create env wd timestamp dir name fs = (Inr (?up, ?down), fs(?up \<mapsto> up_text, ?down \<mapsto> down_text))"
  proof -
    have "ensurePathWithinDir wd dir ?up = None" "ensurePathWithinDir wd dir ?down = None"
      using b [of "''.up.sql''"] b [of "''.down.sql''"] inside_ok [OF assms(1)] by blast+
    moreover have "write_file env p c g = (None, g(p \<mapsto> c))" for p c g using assms(5) by (simp add: write_file_def)
    ultimately show ?thesis using assms(2,4) by (simp add: Create_def Let_def)
  qed
  moreover have "path_parts (filepath_Abs wd ?up) = path_parts (filepath_Abs wd dir) @ [timestamp @ ''_'' @ name @ ''.up.sql'']"
    "path_parts (filepath_Abs wd ?down) = path_parts (filepath_Abs wd dir) @ [timestamp @ ''_'' @ name @ ''.down.sql'']"
    using b [of "''.up.sql''"] b [of "''.down.sql''"] file_parts [OF assms(1)] by blast+
  ultimately show ?thesis by blast
qed

subsection \<open>Examples\<close>

definition demo_migrations :: "Migration list \<times> bool" where
  "demo_migrations =
     ([\<lparr>mi_Name = ''1_users'', mi_GroupID = 1, mi_MigratedAt = 7\<rparr>, \<lparr>mi_Name = ''2_posts'', mi_GroupID = 0, mi_MigratedAt = 0\<rparr>], False)"

lemma demo_up_down:
  "fst (Up ref_migrator ''m'' False demo_migrations) =
     Inr \<lparr>up_AppliedCount = 1, up_PendingCount = 1, up_PendingNames = [''2_posts''], up_Group = ''group''\<rparr>"
  "fst (Down ref_migrator ''m'' False (snd (Up ref_migrator ''m'' False demo_migrations))) =
     Inr \<lparr>dn_RollbackCount = 1, dn_RollbackNames = [''2_posts''], dn_Group = ''group''\<rparr>"
  by code_simp+

theorem Down_undoes_Up_witness:
  "map mi_GroupID (ref_st (snd (Down ref_migrator ''m'' False (snd (Up ref_migrator ''m'' False demo_migrations))))) =
   map mi_GroupID (ref_st demo_migrations)"
proof -
  let ?u = "Up ref_migrator ''m'' False demo_migrations"
  let ?d = "Down ref_migrator ''m'' False (snd ?u)"
  have "?u = (Inr \<lparr>up_AppliedCount = 1, up_PendingCount = 1, up_PendingNames = [''2_posts''], up_Group = ''group''\<rparr>, snd ?u)"
    "?d = (Inr \<lparr>dn_RollbackCount = 1, dn_RollbackNames = [''2_posts''], dn_Group = ''group''\<rparr>, snd ?d)"
    using demo_up_down by (metis prod.collapse)+
  from Down_undoes_Up [OF ref_mig.migrator_axioms this(1) _ this(2)]
  have "map snd (map (\<lambda>m. (mi_Name m, mi_GroupID m)) (ref_st (snd ?d))) = map snd (map (\<lambda>m. (mi_Name m, mi_GroupID m)) (ref_st demo_migrations))"
    by simp
  then show ?thesis by (simp add: comp_def)
qed

lemma migrate_lock_released_example: "\<not> snd (snd (Up ref_migrator ''m'' True demo_migrations))"
  using migrate_lock_released [OF ref_mig.migrator_axioms, of demo_migrations "''m''" True] by (simp add: demo_migrations_def)

lemma Create_in_directory_example:
  "\<exists>up down. fst (Create \<lparr>fe_MkdirAll = \<lambda>_. None, fe_WriteFile = \<lambda>_ _. None\<rparr> ''/srv'' ''20250101120000'' ''../db//migrations'' ''add_users'' Map.empty) =
       Inr (up, down) \<and>
     path_parts (filepath_Abs ''/srv'' up) = path_parts (filepath_Abs ''/srv'' ''../db//migrations'') @ [''20250101120000_add_users.up.sql'']"
proof -
  have "rooted ''/srv''" "validateMigrationName ''add_users'' = None" "SL \<notin> set ''20250101120000''" by code_simp+
  from Create_in_directory [OF this, of "\<lparr>fe_MkdirAll = \<lambda>_. None, fe_WriteFile = \<lambda>_ _. None\<rparr>" "''../db//migrations''" Map.empty]
  show ?thesis by auto
qed

text \<open>The counts of \<open>Up\<close> are taken before the lock: another process that finishes in between leaves nothing to apply, and
  \<open>Up\<close> still reports its migrations as applied.\<close>

definition raced_migrator :: "(Migration list \<times> bool) migrator_lib" where
  "raced_migrator = ref_migrator\<lparr>ml_Lock := (\<lambda>d. (None, (apply_pending 1 (ref_st d), True)))\<rparr>"

lemma stale_applied_count:
  "pendingMigrations (ref_st (snd (ml_Lock raced_migrator demo_migrations))) = []"
  "map_sum id up_AppliedCount (fst (Up raced_migrator ''m'' False demo_migrations)) = Inr 1"
  by code_simp+

end
