(* ===== verification/Go_Url.thy ===== *)
theory Go_Url
  imports Go_Errors
begin

section \<open>URLs\<close>

text \<open>
  What the sources use of Go's \<^verbatim>\<open>net/url\<close>: \<open>Parse\<close> with its percent-decoding of hosts and paths, as of Go releases that take an IP
  literal in brackets as it is, and \<open>String\<close> for a URL that has only a scheme and a host.
\<close>

text \<open>The fields that the sources read. \<open>u_User\<close> keeps the text of the user information; the path is unescaped.\<close>

record URL =
  u_Scheme :: string
  u_Opaque :: string
  u_User :: "string option"
  u_Host :: string
  u_Path :: string
  u_ForceQuery :: bool
  u_RawQuery :: string

definition is_alpha :: "char \<Rightarrow> bool" where
  "is_alpha c \<longleftrightarrow> 0x61 \<le> byte_of c \<and> byte_of c \<le> 0x7A \<or> 0x41 \<le> byte_of c \<and> byte_of c \<le> 0x5A"

definition hex_val :: "char \<Rightarrow> nat option" where
  "hex_val c =
     (if is_digit c then Some (digit_val c)
      else if 0x61 \<le> byte_of c \<and> byte_of c \<le> 0x66 then Some (byte_of c - 87)
      else if 0x41 \<le> byte_of c \<and> byte_of c \<le> 0x46 then Some (byte_of c - 55)
      else None)"

text \<open>Bytes that stand for themselves in the host of a URL.\<close>

definition host_char :: "char \<Rightarrow> bool" where
  "host_char c \<longleftrightarrow> is_alpha c \<or> is_digit c \<or> c \<in> set ''-_.~!$&()*+,;=:[]<>'' \<or> c = CHR 0x22 \<or> c = CHR 0x27"

datatype escape_mode = EscPath | EscHost | EscZone

definition escape_ok :: "escape_mode \<Rightarrow> char \<Rightarrow> nat \<Rightarrow> nat \<Rightarrow> bool" where
  "escape_ok m a hi lo =
     (case m of
        EscPath \<Rightarrow> True
      | EscHost \<Rightarrow> \<not> (hi < 8 \<and> \<not> (hi = 2 \<and> lo = 5))
      | EscZone \<Rightarrow> hi = 2 \<and> lo = 5 \<or> a = CHR '' '' \<or> host_char a)"

definition plain_ok :: "escape_mode \<Rightarrow> char \<Rightarrow> bool" where
  "plain_ok m c = (case m of EscPath \<Rightarrow> True | _ \<Rightarrow> byte_of c \<ge> 0x80 \<or> host_char c)"

fun unescape :: "escape_mode \<Rightarrow> string \<Rightarrow> string option" where
  "unescape m [] = Some []"
| "unescape m (c # s) =
     (if c = CHR ''%'' then
        (case s of
           a # b # t \<Rightarrow>
             (case (hex_val a, hex_val b) of
                (Some hi, Some lo) \<Rightarrow>
                  if escape_ok m (char_of (16 * hi + lo)) hi lo
                  then map_option (Cons (char_of (16 * hi + lo))) (unescape m t) else None
              | _ \<Rightarrow> None)
         | _ \<Rightarrow> None)
      else if plain_ok m c then map_option (Cons c) (unescape m s) else None)"

definition upper_hex :: "nat \<Rightarrow> char" where
  "upper_hex n = (if n < 10 then char_of (48 + n) else char_of (55 + n))"

definition escape_host_char :: "char \<Rightarrow> string" where
  "escape_host_char c = (if host_char c then [c] else [CHR ''%'', upper_hex (byte_of c div 16), upper_hex (byte_of c mod 16)])"

definition escape_host :: "string \<Rightarrow> string" where
  "escape_host h = concat (map escape_host_char h)"

definition valid_optional_port :: "string \<Rightarrow> bool" where
  "valid_optional_port p \<longleftrightarrow> p = '''' \<or> hd p = CHR '':'' \<and> list_all is_digit (tl p)"

text \<open>The text before and after the first occurrence of a byte, and of the three bytes \<^verbatim>\<open>%25\<close>.\<close>

definition cut :: "char \<Rightarrow> string \<Rightarrow> string \<times> string" where
  "cut d s = (takeWhile (\<lambda>c. c \<noteq> d) s, drop 1 (dropWhile (\<lambda>c. c \<noteq> d) s))"

fun before_zone :: "string \<Rightarrow> (string \<times> string) option" where
  "before_zone [] = None"
| "before_zone (c # s) = (if has_prefix (c # s) ''%25'' then Some ([], c # s) else map_option (map_prod (Cons c) id) (before_zone s))"

text \<open>The text before and from the last occurrence of a byte.\<close>

definition cut_last :: "char \<Rightarrow> string \<Rightarrow> (string \<times> string) option" where
  "cut_last d s =
     (if d \<in> set s then Some (rev (drop 1 (dropWhile (\<lambda>c. c \<noteq> d) (rev s))), d # rev (takeWhile (\<lambda>c. c \<noteq> d) (rev s))) else None)"

definition cat3 :: "string option \<Rightarrow> string option \<Rightarrow> string option \<Rightarrow> string option" where
  "cat3 a b c = (case (a, b, c) of (Some x, Some y, Some z) \<Rightarrow> Some (x @ y @ z) | _ \<Rightarrow> None)"

definition parse_host :: "string \<Rightarrow> string option" where
  "parse_host h =
     (if has_prefix h ''['' then
        (case cut_last (CHR '']'') h of
           None \<Rightarrow> None
         | Some (lit, rest) \<Rightarrow>
             if \<not> valid_optional_port (drop 1 rest) then None
             else (case before_zone lit of
                     Some (addr, zone) \<Rightarrow> cat3 (unescape EscHost addr) (unescape EscZone zone) (unescape EscHost rest)
                   | None \<Rightarrow> unescape EscHost h))
      else (case cut_last (CHR '':'') h of
              Some (_, port) \<Rightarrow> if valid_optional_port port then unescape EscHost h else None
            | None \<Rightarrow> unescape EscHost h))"

definition user_char :: "char \<Rightarrow> bool" where
  "user_char c \<longleftrightarrow> is_alpha c \<or> is_digit c \<or> c \<in> set ''-._:~!$&()*+,;=%@'' \<or> c = CHR 0x27"

definition parse_authority :: "string \<Rightarrow> (string option \<times> string) option" where
  "parse_authority a =
     (case cut_last (CHR ''@'') a of
        None \<Rightarrow> map_option (Pair None) (parse_host a)
      | Some (user, rest) \<Rightarrow>
          (case parse_host (drop 1 rest) of
             None \<Rightarrow> None
           | Some h \<Rightarrow> if list_all user_char user \<and> unescape EscPath user \<noteq> None then Some (Some user, h) else None))"

text \<open>The scheme and the rest; \<open>None\<close> is the error of a missing scheme.\<close>

fun scheme_chars :: "string \<Rightarrow> string \<Rightarrow> string \<Rightarrow> (string \<times> string) option" where
  "scheme_chars url seen [] = Some ('''', url)"
| "scheme_chars url seen (c # s) =
     (if is_alpha c then scheme_chars url (seen @ [c]) s
      else if is_digit c \<or> c \<in> set ''+-.'' then (if seen = [] then Some ('''', url) else scheme_chars url (seen @ [c]) s)
      else if c = CHR '':'' then (if seen = [] then None else Some (seen, s))
      else Some ('''', url))"

definition get_scheme :: "string \<Rightarrow> (string \<times> string) option" where
  "get_scheme url = scheme_chars url [] url"

definition force_query :: "string \<Rightarrow> bool" where
  "force_query rest \<longleftrightarrow> has_suffix rest ''?'' \<and> length (filter (\<lambda>c. c = CHR ''?'') rest) = 1"

text \<open>\<^verbatim>\<open>url.Parse\<close>: \<open>None\<close> is an error.\<close>

definition url_Parse :: "string \<Rightarrow> URL option" where
  "url_Parse raw =
     (let (u, frag) = cut (CHR ''#'') raw;
          empty = \<lparr>u_Scheme = '''', u_Opaque = '''', u_User = None, u_Host = '''', u_Path = '''', u_ForceQuery = False, u_RawQuery = ''''\<rparr>
      in if list_ex (\<lambda>c. byte_of c < 32 \<or> byte_of c = 127) u \<or> unescape EscPath frag = None then None
         else if u = ''*'' then Some (empty\<lparr>u_Path := ''*''\<rparr>)
         else case get_scheme u of
           None \<Rightarrow> None
         | Some (scheme, rest0) \<Rightarrow>
             let force = force_query rest0;
                 rest = fst (cut (CHR ''?'') rest0);
                 base = empty\<lparr>u_Scheme := to_lower scheme, u_ForceQuery := force,
                              u_RawQuery := (if force then '''' else snd (cut (CHR ''?'') rest0))\<rparr>
             in if \<not> has_prefix rest ''/'' \<and> scheme \<noteq> '''' then Some (base\<lparr>u_Opaque := rest\<rparr>)
                else if \<not> has_prefix rest ''/'' \<and> CHR '':'' \<in> set (fst (cut (CHR ''/'') rest)) then None
                else if (scheme \<noteq> '''' \<or> \<not> has_prefix rest ''///'') \<and> has_prefix rest ''//'' then
                  (case parse_authority (takeWhile (\<lambda>c. c \<noteq> CHR ''/'') (drop 2 rest)) of
                     None \<Rightarrow> None
                   | Some (user, h) \<Rightarrow>
                       map_option (\<lambda>p. base\<lparr>u_User := user, u_Host := h, u_Path := p\<rparr>)
                         (unescape EscPath (dropWhile (\<lambda>c. c \<noteq> CHR ''/'') (drop 2 rest))))
                else map_option (\<lambda>p. base\<lparr>u_Path := p\<rparr>) (unescape EscPath rest))"

text \<open>\<^verbatim>\<open>String\<close> of a URL with a scheme and a host and with no user, path, query or fragment.\<close>

definition bare_String :: "URL \<Rightarrow> string" where
  "bare_String u = u_Scheme u @ ''://'' @ escape_host (u_Host u) @ (if u_ForceQuery u then ''?'' else '''')"

subsection \<open>Plain URLs\<close>

text \<open>Parsing of URLs in which nothing is escaped.\<close>

lemma takeWhile_stop: "d \<notin> set a \<Longrightarrow> takeWhile (\<lambda>c. c \<noteq> d) (a @ d # b) = a" "d \<notin> set a \<Longrightarrow> dropWhile (\<lambda>c. c \<noteq> d) (a @ d # b) = d # b"
  by (induction a) auto

lemma cut_first: "d \<notin> set a \<Longrightarrow> cut d (a @ d # b) = (a, b)"
  by (simp add: cut_def takeWhile_stop)

lemma cut_none: "d \<notin> set a \<Longrightarrow> cut d a = (a, '''')"
  by (induction a) (auto simp: cut_def)

lemma cut_last_app:
  assumes "d \<notin> set b"
  shows "cut_last d (a @ d # b) = Some (a, d # b)"
  using assms takeWhile_stop [of d "rev b" "rev a"] by (simp add: cut_last_def)

lemma unescape_plain: "CHR ''%'' \<notin> set s \<Longrightarrow> \<forall>c \<in> set s. plain_ok m c \<Longrightarrow> unescape m s = Some s"
  by (induction s) auto

text \<open>Bytes that mean nothing in a URL.\<close>

definition literal :: "char \<Rightarrow> bool" where
  "literal c \<longleftrightarrow> graphic c \<and> c \<noteq> CHR ''/'' \<and> c \<noteq> CHR ''?'' \<and> c \<noteq> CHR ''#'' \<and> c \<noteq> CHR ''%''"

lemma alnum_literal: "is_alpha c \<or> is_digit c \<Longrightarrow> literal c \<and> c \<notin> {CHR ''@'', CHR '':'', CHR ''[''}"
  by (auto simp: is_alpha_def is_digit_def literal_def graphic_def)

definition name_char :: "char \<Rightarrow> bool" where
  "name_char c \<longleftrightarrow> is_alpha c \<or> is_digit c \<or> c = CHR ''-'' \<or> c = CHR ''.''"

lemma name_char_literal: "name_char c \<Longrightarrow> literal c \<and> host_char c \<and> c \<notin> {CHR ''@'', CHR '':'', CHR ''[''}"
  using alnum_literal [of c] by (auto simp: name_char_def host_char_def) (simp_all add: literal_def graphic_def)

lemma user_char_literal: "user_char c \<Longrightarrow> c \<noteq> CHR ''%'' \<Longrightarrow> literal c"
  using alnum_literal [of c] by (auto simp: user_char_def) (simp_all add: literal_def graphic_def)

lemma show_int_name: "0 \<le> n \<Longrightarrow> c \<in> set (show_int n) \<Longrightarrow> name_char c"
  using show_nat_digits [of "nat n"] by (auto simp: show_int_def name_char_def)

lemma valid_port_show: "0 \<le> n \<Longrightarrow> valid_optional_port (CHR '':'' # show_int n)"
  using show_nat_digits by (simp add: valid_optional_port_def show_int_def list_all_iff)

lemma parse_plain_host:
  assumes "h \<noteq> ''''" "\<forall>c \<in> set h. name_char c" "0 \<le> n"
  shows "parse_host (h @ CHR '':'' # show_int n) = Some (h @ CHR '':'' # show_int n)"
proof -
  let ?h = "h @ CHR '':'' # show_int n"
  have h: "literal c \<and> host_char c \<and> c \<noteq> CHR ''[''" if "c \<in> set h \<union> set (show_int n)" for c
    using that assms(2) show_int_name [OF assms(3)] name_char_literal by blast
  have "hd h \<noteq> CHR ''[''" using h [of "hd h"] assms(1) by simp
  then have b: "\<not> has_prefix ?h ''[''" using assms(1) by (cases h) (auto simp: has_prefix_iff)
  have "CHR '':'' \<notin> set (show_int n)" using show_int_name [OF assms(3)] name_char_literal by blast
  then have c: "cut_last CHR '':'' ?h = Some (h, CHR '':'' # show_int n)" by (rule cut_last_app)
  have colon: "host_char CHR '':''" by (simp add: host_char_def)
  have "unescape EscHost ?h = Some ?h"
    using h colon by (intro unescape_plain) (auto simp: plain_ok_def literal_def)
  then show ?thesis using b c valid_port_show [OF assms(3)] by (simp add: parse_host_def)
qed

lemma parse_plain_authority:
  assumes "\<forall>c \<in> set user. user_char c \<and> c \<noteq> CHR ''%''" "h \<noteq> ''''" "\<forall>c \<in> set h. name_char c" "0 \<le> n"
  shows "parse_authority (user @ CHR ''@'' # h @ CHR '':'' # show_int n) = Some (Some user, h @ CHR '':'' # show_int n)"
proof -
  have "CHR ''@'' \<notin> set (h @ CHR '':'' # show_int n)"
    using assms(3) show_int_name [OF assms(4)] name_char_literal by auto
  moreover have "unescape EscPath user = Some user"
    using assms(1) by (intro unescape_plain) (auto simp: plain_ok_def)
  ultimately show ?thesis
    using assms(1) parse_plain_host [OF assms(2-4)] by (simp add: parse_authority_def cut_last_app list_all_iff)
qed

definition rest_char :: "char \<Rightarrow> bool" where
  "rest_char c \<longleftrightarrow> graphic c \<and> c \<noteq> CHR ''?'' \<and> c \<noteq> CHR ''#'' \<and> c \<noteq> CHR ''%''"

lemma literal_rest: "literal c \<Longrightarrow> rest_char c"
  by (simp add: literal_def rest_char_def)

lemma rest_char_ctl: "\<forall>c \<in> set s. graphic c \<Longrightarrow> \<not> list_ex (\<lambda>c. byte_of c < 32 \<or> byte_of c = 127) s"
  by (auto simp: list_ex_iff graphic_def)

text \<open>A URL with the scheme \<open>postgres\<close>, of which every part is plain.\<close>

lemma parse_postgres:
  assumes "\<forall>c \<in> set user. user_char c \<and> c \<noteq> CHR ''%''" "h \<noteq> ''''" "\<forall>c \<in> set h. name_char c" "0 \<le> n"
    "\<forall>c \<in> set p. rest_char c" "\<forall>c \<in> set q. rest_char c" "q \<noteq> ''''"
  shows "url_Parse (''postgres://'' @ user @ CHR ''@'' # h @ CHR '':'' # show_int n @ CHR ''/'' # p @ CHR ''?'' # q) =
    Some \<lparr>u_Scheme = ''postgres'', u_Opaque = '''', u_User = Some user, u_Host = h @ CHR '':'' # show_int n, u_Path = CHR ''/'' # p,
          u_ForceQuery = False, u_RawQuery = q\<rparr>"
proof -
  let ?a = "user @ CHR ''@'' # h @ CHR '':'' # show_int n"
  let ?rest = "''//'' @ ?a @ CHR ''/'' # p"
  let ?url = "''postgres:'' @ ?rest @ CHR ''?'' # q"
  have chars: "rest_char CHR ''@''" "rest_char CHR '':''" "rest_char CHR ''/''" by (simp_all add: rest_char_def graphic_def)
  have lit: "literal c" if c: "c \<in> set user \<union> set h \<union> set (show_int n)" for c
  proof -
    consider "c \<in> set user" | "name_char c" using c assms(3) show_int_name [OF assms(4)] by blast
    then show ?thesis using assms(1) user_char_literal [of c] name_char_literal [of c] by cases auto
  qed
  have rest: "\<forall>c \<in> set ?rest. rest_char c"
    using chars lit literal_rest assms(5) by auto
  have q: "CHR ''?'' \<notin> set q" "CHR ''?'' \<notin> set ?rest" using assms(6) rest by (auto simp: rest_char_def)
  have a: "CHR ''/'' \<notin> set ?a" using lit by (auto simp: literal_def)
  have g: "\<forall>c \<in> set ?rest \<union> set q. graphic c" using rest assms(6) by (auto simp: rest_char_def)
  have pre: "\<forall>c \<in> set ''postgres:?''. graphic c \<and> c \<noteq> CHR ''#''" by (simp add: graphic_def)
  have "\<forall>c \<in> set ?url. graphic c" using g pre by auto
  then have ctl: "\<not> list_ex (\<lambda>c. byte_of c < 32 \<or> byte_of c = 127) ?url" by (rule rest_char_ctl)
  have "CHR ''#'' \<notin> set ?rest" "CHR ''#'' \<notin> set q" using rest assms(6) by (auto simp: rest_char_def)
  then have "CHR ''#'' \<notin> set ?url" using pre by simp
  then have hash: "cut CHR ''#'' ?url = (?url, '''')" by (rule cut_none)
  have sch: "get_scheme ?url = Some (''postgres'', ?rest @ CHR ''?'' # q)"
    by (simp add: get_scheme_def is_alpha_def is_digit_def)
  have cq: "cut CHR ''?'' (?rest @ CHR ''?'' # q) = (?rest, q)" by (rule cut_first [OF q(2)])
  have "last q \<noteq> CHR ''?''" using q(1) assms(7) last_in_set by fastforce
  then have fq: "\<not> force_query (?rest @ CHR ''?'' # q)"
    using assms(7) by (cases q rule: rev_cases) (auto simp: force_query_def has_suffix_def has_prefix_def)
  have pre2: "has_prefix ?rest ''//''" "has_prefix ?rest ''/''" by (simp_all add: has_prefix_def)
  have split: "takeWhile (\<lambda>c. c \<noteq> CHR ''/'') (drop 2 ?rest) = ?a" "dropWhile (\<lambda>c. c \<noteq> CHR ''/'') (drop 2 ?rest) = CHR ''/'' # p"
    using takeWhile_stop [OF a, of p] by simp_all
  have path: "unescape EscPath (CHR ''/'' # p) = Some (CHR ''/'' # p)"
    using assms(5) by (intro unescape_plain) (auto simp: plain_ok_def rest_char_def)
  have star: "?url \<noteq> ''*''" "to_lower ''postgres'' = ''postgres''" by (simp_all add: lower_char_def)
  have "url_Parse ?url =
    Some \<lparr>u_Scheme = ''postgres'', u_Opaque = '''', u_User = Some user, u_Host = h @ CHR '':'' # show_int n, u_Path = CHR ''/'' # p,
          u_ForceQuery = False, u_RawQuery = q\<rparr>"
    unfolding url_Parse_def Let_def hash prod.case sch option.case cq fst_conv snd_conv
    using ctl star fq pre2 by (simp only: split path parse_plain_authority [OF assms(1-4)]) simp
  then show ?thesis by simp
qed

end
