(* ===== verification/Object_Storage.thy ===== *)
theory Object_Storage
  imports Go_Url
begin

section \<open>Object storage\<close>

text \<open>
  \<^verbatim>\<open>pkg/objectstorage\<close>: the configuration check, the acceleration domain, the factory and the drivers for Aliyun, Tencent and
  Qiniu. The vendors' clients are the record \<open>object_sdk\<close> over the state of the remote store; a driver holds what it was
  constructed from.
\<close>

subsection \<open>Trimming\<close>

definition trim_right :: "char \<Rightarrow> string \<Rightarrow> string" where
  "trim_right d s = rev (dropWhile (\<lambda>c. c = d) (rev s))"

definition trim_left :: "char \<Rightarrow> string \<Rightarrow> string" where
  "trim_left d s = dropWhile (\<lambda>c. c = d) s"

subsection \<open>Configuration\<close>

definition ProviderAliyun :: string where "ProviderAliyun = ''aliyun''"
definition ProviderTencent :: string where "ProviderTencent = ''tencent''"
definition ProviderQiniu :: string where "ProviderQiniu = ''qiniu''"

lemmas provider_defs = ProviderAliyun_def ProviderTencent_def ProviderQiniu_def

record StorageConfig =
  sc_Bucket :: string
  sc_Region :: string
  sc_Endpoint :: string
  sc_AccessKey :: string
  sc_SecretKey :: string
  sc_CDNDomain :: string

definition os_err :: "string \<Rightarrow> gerr" where
  "os_err t = Errorf (''objectstorage: '' @ t) []"

definition NormalizeCDNDomain :: "string \<Rightarrow> (gerr, string) result" where
  "NormalizeCDNDomain raw =
     (let v = trim_space raw in
      if v = '''' then Inr ''''
      else case url_Parse v of
        None \<Rightarrow> Inl (os_err ''invalid cdn domain'')
      | Some u \<Rightarrow>
          if u_Scheme u \<noteq> ''https'' then Inl (os_err ''cdn domain must use https'')
          else if u_Host u = '''' then Inl (os_err ''cdn domain missing host'')
          else if u_User u \<noteq> None then Inl (os_err ''cdn domain must not contain credentials'')
          else let path = trim_right (CHR ''/'') (u_Path u); path = (if path = ''/'' then '''' else path) in
            if path \<noteq> '''' then Inl (os_err ''cdn domain must not contain a path'')
            else Inr (trim_right (CHR ''/'') (bare_String (u\<lparr>u_RawQuery := '''', u_Path := ''''\<rparr>))))"

definition storage_Validate :: "StorageConfig \<Rightarrow> gerr option" where
  "storage_Validate c =
     (if trim_space (sc_Bucket c) = '''' then Some (os_err ''bucket is required'')
      else if trim_space (sc_AccessKey c) = '''' then Some (os_err ''access key is required'')
      else if trim_space (sc_SecretKey c) = '''' then Some (os_err ''secret key is required'')
      else case NormalizeCDNDomain (sc_CDNDomain c) of
        Inl err \<Rightarrow> Some err
      | Inr cdn \<Rightarrow> if cdn = '''' then Some (os_err ''cdn domain is required'') else None)"

definition JoinPublicURL :: "string \<Rightarrow> string \<Rightarrow> string" where
  "JoinPublicURL cdnDomain key =
     (let cdn = trim_right (CHR ''/'') (trim_space cdnDomain); k = trim_left (CHR ''/'') (trim_space key)
      in if cdn = '''' then '''' else if k = '''' then cdn else cdn @ ''/'' @ k)"

text \<open>The step every constructor starts with.\<close>

definition normalized :: "StorageConfig \<Rightarrow> (gerr, StorageConfig) result" where
  "normalized cfg =
     (case NormalizeCDNDomain (sc_CDNDomain cfg) of
        Inl err \<Rightarrow> Inl err
      | Inr cdn \<Rightarrow>
          let cfg' = cfg\<lparr>sc_CDNDomain := cdn\<rparr> in
          (case storage_Validate cfg' of Some err \<Rightarrow> Inl err | None \<Rightarrow> Inr cfg'))"

subsection \<open>Drivers\<close>

datatype Zone = ZoneHuadong | ZoneHuabei | ZoneHuanan | ZoneBeimei | ZoneXinjiapo

text \<open>A driver: the endpoint, the keys and the bucket its client was made with, and its acceleration domain.\<close>

datatype Storage =
    AliyunStorage (st_endpoint: string) (st_access: string) (st_secret: string) (st_bucket: string) (st_cdn: string)
  | TencentStorage (st_url: URL) (st_access: string) (st_secret: string) (st_cdn: string)
  | QiniuStorage (st_access: string) (st_secret: string) (st_zone: "Zone option") (st_bucket: string) (st_cdn: string)

text \<open>The requests to the vendors: for Aliyun the options that are set, for Tencent and Qiniu the fields of the option structs, whose
  zero values mean unset.\<close>

datatype remote_call =
    OssPut string string string "string option" "int option"
  | OssDelete string string
  | CosPut URL string string string int
  | CosDelete URL string
  | KodoPut string string string int string
  | KodoDelete string string

record 'w object_sdk =
  sdk_oss_New :: "string \<Rightarrow> string \<Rightarrow> string \<Rightarrow> gerr option"
  sdk_oss_Bucket :: "string \<Rightarrow> gerr option"
  sdk_call :: "Storage \<Rightarrow> remote_call \<Rightarrow> 'w \<Rightarrow> gerr option \<times> 'w"

definition aliyun_endpoint :: "StorageConfig \<Rightarrow> (gerr, string) result" where
  "aliyun_endpoint cfg =
     (let endpoint = trim_space (sc_Endpoint cfg); region = trim_space (sc_Region cfg);
          strip = (\<lambda>e. trim_prefix (trim_prefix e ''https://'') ''http://'')
      in if endpoint \<noteq> '''' then Inr (strip endpoint)
         else if region = '''' then Inl (os_err ''aliyun region or endpoint is required'')
         else Inr (strip ((if has_prefix region ''oss-'' then region else ''oss-'' @ region) @ ''.aliyuncs.com'')))"

definition NewAliyun :: "'w object_sdk \<Rightarrow> StorageConfig \<Rightarrow> (gerr, Storage) result" where
  "NewAliyun sdk cfg0 =
     (case normalized cfg0 of Inl err \<Rightarrow> Inl err
      | Inr cfg \<Rightarrow>
          (case aliyun_endpoint cfg of Inl err \<Rightarrow> Inl err
           | Inr endpoint \<Rightarrow>
               (case sdk_oss_New sdk endpoint (sc_AccessKey cfg) (sc_SecretKey cfg) of
                  Some err \<Rightarrow> Inl (wrapl ''objectstorage: create aliyun client'' err)
                | None \<Rightarrow>
                    (case sdk_oss_Bucket sdk (sc_Bucket cfg) of
                       Some err \<Rightarrow> Inl (wrapl ''objectstorage: open aliyun bucket'' err)
                     | None \<Rightarrow> Inr (AliyunStorage endpoint (sc_AccessKey cfg) (sc_SecretKey cfg) (sc_Bucket cfg) (sc_CDNDomain cfg))))))"

definition tencent_url :: "StorageConfig \<Rightarrow> string \<Rightarrow> string" where
  "tencent_url cfg region =
     (let url = (if trim_space (sc_Endpoint cfg) = '''' then ''https://'' @ sc_Bucket cfg @ ''.cos.'' @ region @ ''.myqcloud.com''
                 else trim_space (sc_Endpoint cfg))
      in if \<not> has_prefix url ''http://'' \<and> \<not> has_prefix url ''https://'' then ''https://'' @ url else url)"

text \<open>The error of \<^verbatim>\<open>url.Parse\<close> is the parameter \<open>perr\<close>.\<close>

definition NewTencent :: "gerr \<Rightarrow> StorageConfig \<Rightarrow> (gerr, Storage) result" where
  "NewTencent perr cfg0 =
     (case normalized cfg0 of Inl err \<Rightarrow> Inl err
      | Inr cfg \<Rightarrow>
          let region = trim_space (sc_Region cfg) in
          if region = '''' then Inl (os_err ''tencent region is required'')
          else (case url_Parse (tencent_url cfg region) of
                  None \<Rightarrow> Inl (wrapl ''objectstorage: invalid tencent endpoint'' perr)
                | Some u \<Rightarrow> Inr (TencentStorage u (sc_AccessKey cfg) (sc_SecretKey cfg) (sc_CDNDomain cfg))))"

definition qiniuRegion :: "string \<Rightarrow> Zone option" where
  "qiniuRegion region =
     (let r = to_lower region in
      if r \<in> {''z0'', ''cn-east-1'', ''huadong''} then Some ZoneHuadong
      else if r \<in> {''z1'', ''cn-north-1'', ''huabei''} then Some ZoneHuabei
      else if r \<in> {''z2'', ''cn-south-1'', ''huanan''} then Some ZoneHuanan
      else if r \<in> {''na0'', ''us-north-1'', ''beimei''} then Some ZoneBeimei
      else if r \<in> {''as0'', ''ap-southeast-1'', ''xinjiapo''} then Some ZoneXinjiapo
      else None)"

definition NewQiniu :: "StorageConfig \<Rightarrow> (gerr, Storage) result" where
  "NewQiniu cfg0 =
     (case normalized cfg0 of Inl err \<Rightarrow> Inl err
      | Inr cfg \<Rightarrow>
          let region = trim_space (sc_Region cfg)
          in Inr (QiniuStorage (sc_AccessKey cfg) (sc_SecretKey cfg) (if region \<noteq> '''' then qiniuRegion region else None)
                    (sc_Bucket cfg) (sc_CDNDomain cfg)))"

definition storage_New :: "'w object_sdk \<Rightarrow> gerr \<Rightarrow> string \<Rightarrow> StorageConfig \<Rightarrow> (gerr, Storage) result" where
  "storage_New sdk perr provider cfg0 =
     (case normalized cfg0 of Inl err \<Rightarrow> Inl err
      | Inr cfg \<Rightarrow>
          let p = to_lower (trim_space provider) in
          if p = ProviderAliyun then NewAliyun sdk cfg
          else if p = ProviderTencent then NewTencent perr cfg
          else if p = ProviderQiniu then NewQiniu cfg
          else Inl (os_err (''unsupported provider '' @ go_quote provider)))"

fun storage_Name :: "Storage \<Rightarrow> string" where
  "storage_Name (AliyunStorage e a k b c) = ProviderAliyun"
| "storage_Name (TencentStorage u a k c) = ProviderTencent"
| "storage_Name (QiniuStorage a k z b c) = ProviderQiniu"

text \<open>\<open>ctx_err\<close> is what \<^verbatim>\<open>ctx.Err()\<close> answers; the drivers that do not ask it hand the context to the client.\<close>

definition remote :: "'w object_sdk \<Rightarrow> Storage \<Rightarrow> string \<Rightarrow> remote_call \<Rightarrow> 'w \<Rightarrow> gerr option \<times> 'w" where
  "remote sdk st what call w = (case sdk_call sdk st call w of (e, w') \<Rightarrow> (map_option (wrapl (''objectstorage: '' @ what)) e, w'))"

text \<open>Writing and deleting with each vendor; \<open>b\<close> is the bucket, \<open>u\<close> the address of the bucket of the driver \<open>st\<close>.\<close>

definition aliyun_Put ::
  "'w object_sdk \<Rightarrow> gerr option \<Rightarrow> Storage \<Rightarrow> string \<Rightarrow> string \<Rightarrow> string \<Rightarrow> int \<Rightarrow> string \<Rightarrow> 'w \<Rightarrow> gerr option \<times> 'w" where
  "aliyun_Put sdk ctx_err st b key data n contentType w =
     (case ctx_err of
        Some err \<Rightarrow> (Some err, w)
      | None \<Rightarrow>
          remote sdk st ''aliyun put''
            (OssPut b key data (if contentType \<noteq> '''' then Some contentType else None) (if n \<ge> 0 then Some n else None)) w)"

definition aliyun_Delete :: "'w object_sdk \<Rightarrow> gerr option \<Rightarrow> Storage \<Rightarrow> string \<Rightarrow> string \<Rightarrow> 'w \<Rightarrow> gerr option \<times> 'w" where
  "aliyun_Delete sdk ctx_err st b key w =
     (case ctx_err of Some err \<Rightarrow> (Some err, w) | None \<Rightarrow> remote sdk st ''aliyun delete'' (OssDelete b key) w)"

definition tencent_Put ::
  "'w object_sdk \<Rightarrow> Storage \<Rightarrow> URL \<Rightarrow> string \<Rightarrow> string \<Rightarrow> int \<Rightarrow> string \<Rightarrow> 'w \<Rightarrow> gerr option \<times> 'w" where
  "tencent_Put sdk st u key data n contentType w =
     remote sdk st ''tencent put''
       (CosPut u key data (if contentType \<noteq> '''' then contentType else '''') (if n \<ge> 0 then n else 0)) w"

definition tencent_Delete :: "'w object_sdk \<Rightarrow> Storage \<Rightarrow> URL \<Rightarrow> string \<Rightarrow> 'w \<Rightarrow> gerr option \<times> 'w" where
  "tencent_Delete sdk st u key w = remote sdk st ''tencent delete'' (CosDelete u key) w"

definition qiniu_Put ::
  "'w object_sdk \<Rightarrow> Storage \<Rightarrow> string \<Rightarrow> string \<Rightarrow> string \<Rightarrow> int \<Rightarrow> string \<Rightarrow> 'w \<Rightarrow> gerr option \<times> 'w" where
  "qiniu_Put sdk st b key data n contentType w =
     remote sdk st ''qiniu put''
       (KodoPut b key data (if n < 0 then -1 else n) (if contentType \<noteq> '''' then contentType else '''')) w"

definition qiniu_Delete :: "'w object_sdk \<Rightarrow> gerr option \<Rightarrow> Storage \<Rightarrow> string \<Rightarrow> string \<Rightarrow> 'w \<Rightarrow> gerr option \<times> 'w" where
  "qiniu_Delete sdk ctx_err st b key w =
     (case ctx_err of Some err \<Rightarrow> (Some err, w) | None \<Rightarrow> remote sdk st ''qiniu delete'' (KodoDelete b key) w)"

text \<open>The methods of the interface.\<close>

definition storage_Put ::
  "'w object_sdk \<Rightarrow> gerr option \<Rightarrow> Storage \<Rightarrow> string \<Rightarrow> string \<Rightarrow> int \<Rightarrow> string \<Rightarrow> 'w \<Rightarrow> gerr option \<times> 'w" where
  "storage_Put sdk ctx_err st key data n contentType w =
     (case st of
        AliyunStorage e a k b c \<Rightarrow> aliyun_Put sdk ctx_err st b key data n contentType w
      | TencentStorage u a k c \<Rightarrow> tencent_Put sdk st u key data n contentType w
      | QiniuStorage a k z b c \<Rightarrow> qiniu_Put sdk st b key data n contentType w)"

definition storage_Delete :: "'w object_sdk \<Rightarrow> gerr option \<Rightarrow> Storage \<Rightarrow> string \<Rightarrow> 'w \<Rightarrow> gerr option \<times> 'w" where
  "storage_Delete sdk ctx_err st key w =
     (case st of
        AliyunStorage e a k b c \<Rightarrow> aliyun_Delete sdk ctx_err st b key w
      | TencentStorage u a k c \<Rightarrow> tencent_Delete sdk st u key w
      | QiniuStorage a k z b c \<Rightarrow> qiniu_Delete sdk ctx_err st b key w)"

definition PublicURL :: "Storage \<Rightarrow> string \<Rightarrow> string" where
  "PublicURL st key = JoinPublicURL (st_cdn st) key"

subsection \<open>Lemmas\<close>

lemma dropWhile_rev_id: "s = '''' \<or> last s \<noteq> d \<Longrightarrow> trim_right d s = s"
  by (cases s rule: rev_cases) (auto simp: trim_right_def)

lemma upper_hex_byte: "n < 16 \<Longrightarrow> byte_of (upper_hex n) = (if n < 10 then 48 + n else 55 + n)"
  by (simp add: upper_hex_def)

lemma upper_hex_alnum: "n < 16 \<Longrightarrow> is_digit (upper_hex n) \<or> is_alpha (upper_hex n)"
  by (auto simp: is_digit_def is_alpha_def upper_hex_byte)

definition cdn_char :: "char \<Rightarrow> bool" where
  "cdn_char c \<longleftrightarrow> graphic c \<and> c \<noteq> CHR ''/'' \<and> c \<noteq> CHR ''@'' \<and> c \<noteq> CHR ''?'' \<and> c \<noteq> CHR ''#''"

lemma alnum_cdn: "is_digit c \<or> is_alpha c \<Longrightarrow> cdn_char c"
  by (auto simp: is_digit_def is_alpha_def cdn_char_def graphic_def)

lemma host_char_cdn: "host_char c \<Longrightarrow> cdn_char c"
  by (auto simp: host_char_def alnum_cdn) (auto simp: cdn_char_def graphic_def)

lemma escape_host_char_cdn: "d \<in> set (escape_host_char c) \<Longrightarrow> cdn_char d"
proof -
  have b: "byte_of c div 16 < 16" "byte_of c mod 16 < 16"
    using less_mult_imp_div_less [of "byte_of c" 16 16] by simp_all
  have "cdn_char CHR ''%''" by (simp add: cdn_char_def graphic_def)
  then show "d \<in> set (escape_host_char c) \<Longrightarrow> cdn_char d"
    using host_char_cdn [of c] alnum_cdn [OF upper_hex_alnum [OF b(1)]] alnum_cdn [OF upper_hex_alnum [OF b(2)]]
    by (auto simp: escape_host_char_def split: if_splits)
qed

lemma escape_host_cdn: "d \<in> set (escape_host h) \<Longrightarrow> cdn_char d"
  using escape_host_char_cdn by (auto simp: escape_host_def)

lemma escape_host_not_Nil: "h \<noteq> '''' \<Longrightarrow> escape_host h \<noteq> ''''"
  by (cases h) (auto simp: escape_host_def escape_host_char_def)

text \<open>A normalized domain: \<^verbatim>\<open>https://\<close>, a host, and the question mark of a query that was there but empty.\<close>

definition cdn_form :: "string \<Rightarrow> string \<Rightarrow> bool \<Rightarrow> bool" where
  "cdn_form cdn h force \<longleftrightarrow> cdn = ''https://'' @ h @ (if force then ''?'' else '''') \<and> h \<noteq> '''' \<and> list_all cdn_char h"

lemma NormalizeCDNDomain_form:
  assumes "NormalizeCDNDomain raw = Inr cdn"
  shows "cdn = '''' \<and> trim_space raw = '''' \<or> (\<exists>u. url_Parse (trim_space raw) = Some u \<and> cdn_form cdn (escape_host (u_Host u)) (u_ForceQuery u))"
proof (cases "trim_space raw = ''''")
  case False
  then obtain u where u: "url_Parse (trim_space raw) = Some u" "u_Scheme u = ''https''" "u_Host u \<noteq> ''''"
    "cdn = trim_right (CHR ''/'') (bare_String (u\<lparr>u_RawQuery := '''', u_Path := ''''\<rparr>))"
    using assms by (auto simp: NormalizeCDNDomain_def Let_def split: option.splits if_splits)
  let ?s = "''https://'' @ escape_host (u_Host u) @ (if u_ForceQuery u then ''?'' else '''')"
  have ne: "escape_host (u_Host u) \<noteq> ''''" by (rule escape_host_not_Nil [OF u(3)])
  have "cdn_char (last (escape_host (u_Host u)))" by (rule escape_host_cdn [OF last_in_set [OF ne]])
  then have "last ?s \<noteq> CHR ''/''" using ne by (auto simp: cdn_char_def)
  then have "cdn = ?s" using u(2,4) dropWhile_rev_id [of ?s] by (simp add: bare_String_def)
  then show ?thesis using u(1) ne escape_host_cdn by (auto simp: cdn_form_def list_all_iff)
qed (use assms in \<open>simp add: NormalizeCDNDomain_def\<close>)

lemma cdn_form_join:
  assumes "cdn_form cdn h force"
  shows "JoinPublicURL cdn key = (let k = trim_left (CHR ''/'') (trim_space key) in if k = '''' then cdn else cdn @ ''/'' @ k)"
proof -
  have g: "graphic (last h)" "last h \<noteq> CHR ''/''"
    using assms last_in_set [of h] by (auto simp: cdn_form_def list_all_iff cdn_char_def)
  have "cdn \<noteq> ''''" "graphic (hd cdn)" "graphic (last cdn)" "last cdn \<noteq> CHR ''/''"
    using assms g by (auto simp: cdn_form_def graphic_def)
  then show ?thesis by (simp add: JoinPublicURL_def trim_space_graphic dropWhile_rev_id)
qed

lemma normalized_ok:
  assumes "normalized cfg = Inr cfg'"
  shows "\<exists>h force. cdn_form (sc_CDNDomain cfg') h force" "cfg' = cfg\<lparr>sc_CDNDomain := sc_CDNDomain cfg'\<rparr>"
    "storage_Validate cfg' = None"
proof -
  obtain cdn where c: "NormalizeCDNDomain (sc_CDNDomain cfg) = Inr cdn" "cfg' = cfg\<lparr>sc_CDNDomain := cdn\<rparr>" "storage_Validate cfg' = None"
    using assms by (auto simp: normalized_def Let_def split: sum.splits option.splits)
  have "cdn \<noteq> ''''" using c(2,3) by (auto simp: storage_Validate_def NormalizeCDNDomain_def split: if_splits)
  then show "\<exists>h force. cdn_form (sc_CDNDomain cfg') h force" using NormalizeCDNDomain_form [OF c(1)] c(2) by auto
  show "cfg' = cfg\<lparr>sc_CDNDomain := sc_CDNDomain cfg'\<rparr>" "storage_Validate cfg' = None" using c(2,3) by auto
qed

text \<open>What every constructor gives on success.\<close>

definition made_from :: "Storage \<Rightarrow> StorageConfig \<Rightarrow> bool" where
  "made_from st cfg \<longleftrightarrow> (\<exists>h force. cdn_form (st_cdn st) h force) \<and> st_access st = sc_AccessKey cfg \<and> st_secret st = sc_SecretKey cfg"

lemma made_from_normalized:
  assumes "normalized cfg = Inr cfg'" "st_cdn st = sc_CDNDomain cfg'" "st_access st = sc_AccessKey cfg'" "st_secret st = sc_SecretKey cfg'"
  shows "made_from st cfg"
proof -
  have "sc_AccessKey cfg' = sc_AccessKey cfg" "sc_SecretKey cfg' = sc_SecretKey cfg"
    by (subst normalized_ok(2) [OF assms(1)], simp)+
  then show ?thesis using normalized_ok(1) [OF assms(1)] assms(2-4) by (simp add: made_from_def)
qed

lemma normalized_bucket: "normalized cfg = Inr cfg' \<Longrightarrow> sc_Bucket cfg' = sc_Bucket cfg"
  by (subst normalized_ok(2), assumption) simp

lemma NewAliyun_ok: "NewAliyun sdk cfg = Inr st \<Longrightarrow> made_from st cfg \<and> storage_Name st = ProviderAliyun \<and> st_bucket st = sc_Bucket cfg"
  by (auto simp: NewAliyun_def normalized_bucket split: sum.splits option.splits intro: made_from_normalized)

lemma NewTencent_ok: "NewTencent perr cfg = Inr st \<Longrightarrow> made_from st cfg \<and> storage_Name st = ProviderTencent"
  by (auto simp: NewTencent_def Let_def split: sum.splits option.splits if_splits intro: made_from_normalized)

lemma NewQiniu_ok: "NewQiniu cfg = Inr st \<Longrightarrow> made_from st cfg \<and> storage_Name st = ProviderQiniu \<and> st_bucket st = sc_Bucket cfg"
  by (auto simp: NewQiniu_def Let_def normalized_bucket split: sum.splits intro: made_from_normalized)

lemma storage_New_ok:
  assumes "storage_New sdk perr provider cfg = Inr st"
  shows "made_from st cfg" "storage_Name st = to_lower (trim_space provider)" "trim_space (sc_Bucket cfg) \<noteq> ''''"
    "trim_space (sc_AccessKey cfg) \<noteq> ''''" "trim_space (sc_SecretKey cfg) \<noteq> ''''"
proof -
  obtain cfg' where n: "normalized cfg = Inr cfg'"
    using assms by (auto simp: storage_New_def split: sum.splits)
  have same: "sc_Bucket cfg' = sc_Bucket cfg" "sc_AccessKey cfg' = sc_AccessKey cfg" "sc_SecretKey cfg' = sc_SecretKey cfg"
    by (subst normalized_ok(2) [OF n], simp)+
  have "made_from st cfg' \<and> storage_Name st = to_lower (trim_space provider)"
    using assms n NewAliyun_ok [of sdk cfg' st] NewTencent_ok [of perr cfg' st] NewQiniu_ok [of cfg' st]
    by (auto simp: storage_New_def Let_def split: if_splits)
  then show "made_from st cfg" "storage_Name st = to_lower (trim_space provider)" by (auto simp: made_from_def same)
  show "trim_space (sc_Bucket cfg) \<noteq> ''''" "trim_space (sc_AccessKey cfg) \<noteq> ''''" "trim_space (sc_SecretKey cfg) \<noteq> ''''"
    using normalized_ok(3) [OF n] by (auto simp: storage_Validate_def same split: if_splits)
qed

subsection \<open>Properties\<close>

text \<open>Configurations and clients for the runs below: the remote store is a map from buckets and keys to objects.\<close>

definition demo_storage :: StorageConfig where
  "demo_storage = \<lparr>sc_Bucket = ''assets'', sc_Region = ''cn-hangzhou'', sc_Endpoint = '''', sc_AccessKey = ''ak'', sc_SecretKey = ''sk'',
     sc_CDNDomain = '' https://cdn.example.com/ ''\<rparr>"

fun demo_remote :: "remote_call \<Rightarrow> (string \<times> string \<rightharpoonup> string) \<Rightarrow> gerr option \<times> (string \<times> string \<rightharpoonup> string)" where
  "demo_remote (OssPut b k d t n) w = (None, w((b, k) \<mapsto> d))"
| "demo_remote (OssDelete b k) w = (None, w((b, k) := None))"
| "demo_remote (CosPut u k d t n) w = (None, w((u_Host u, k) \<mapsto> d))"
| "demo_remote (CosDelete u k) w = (None, w((u_Host u, k) := None))"
| "demo_remote (KodoPut b k d n t) w = (None, w((b, k) \<mapsto> d))"
| "demo_remote (KodoDelete b k) w = (None, w((b, k) := None))"

definition demo_sdk :: "(string \<times> string \<rightharpoonup> string) object_sdk" where
  "demo_sdk = \<lparr>sdk_oss_New = (\<lambda>_ _ _. None), sdk_oss_Bucket = (\<lambda>_. None), sdk_call = (\<lambda>_. demo_remote)\<rparr>"

definition demo_driver :: Storage where
  "demo_driver = AliyunStorage ''oss-cn-hangzhou.aliyuncs.com'' ''ak'' ''sk'' ''assets'' ''https://cdn.example.com''"

lemma demo_driver_New: "storage_New demo_sdk perr '' Aliyun'' demo_storage = Inr demo_driver"
proof -
  have n: "normalized demo_storage = Inr (demo_storage\<lparr>sc_CDNDomain := ''https://cdn.example.com''\<rparr>)"
    "normalized (demo_storage\<lparr>sc_CDNDomain := ''https://cdn.example.com''\<rparr>) = Inr (demo_storage\<lparr>sc_CDNDomain := ''https://cdn.example.com''\<rparr>)"
    by code_simp+
  have e: "aliyun_endpoint (demo_storage\<lparr>sc_CDNDomain := ''https://cdn.example.com''\<rparr>) = Inr ''oss-cn-hangzhou.aliyuncs.com''"
    "to_lower (trim_space '' Aliyun'') = ''aliyun''"
    by code_simp+
  show ?thesis unfolding storage_New_def n
    by (simp add: e NewAliyun_def n provider_defs demo_sdk_def) (simp add: demo_storage_def demo_driver_def)
qed



text \<open>Domains the check refuses and accepts. With a bare question mark the key of an object ends up in the query of its address.\<close>

lemma NormalizeCDNDomain_examples:
  "NormalizeCDNDomain ''http://cdn.example.com'' = Inl (os_err ''cdn domain must use https'')"
  "NormalizeCDNDomain ''cdn.example.com'' = Inl (os_err ''cdn domain must use https'')"
  "NormalizeCDNDomain ''https:cdn.example.com'' = Inl (os_err ''cdn domain missing host'')"
  "NormalizeCDNDomain ''https://me@cdn.example.com'' = Inl (os_err ''cdn domain must not contain credentials'')"
  "NormalizeCDNDomain ''https://cdn.example.com/v1'' = Inl (os_err ''cdn domain must not contain a path'')"
  "NormalizeCDNDomain ''https://cdn.example.com:80x'' = Inl (os_err ''invalid cdn domain'')"
  "NormalizeCDNDomain ''HTTPS://cdn.example.com//?v=1#top'' = Inr ''https://cdn.example.com''"
  "NormalizeCDNDomain ''https://cdn.example.com?'' = Inr ''https://cdn.example.com?''"
  by code_simp+

lemma question_mark_domain:
  "\<exists>st. NewQiniu (demo_storage\<lparr>sc_CDNDomain := ''https://cdn.example.com?''\<rparr>) = Inr st \<and>
     PublicURL st ''a.png'' = ''https://cdn.example.com?/a.png''"
proof -
  have "map_sum id (\<lambda>st. PublicURL st ''a.png'') (NewQiniu (demo_storage\<lparr>sc_CDNDomain := ''https://cdn.example.com?''\<rparr>)) =
    Inr ''https://cdn.example.com?/a.png''"
    by code_simp
  then show ?thesis by (cases "NewQiniu (demo_storage\<lparr>sc_CDNDomain := ''https://cdn.example.com?''\<rparr>)") auto
qed

text \<open>An object that was put is in the bucket of the driver until it is deleted, and a cancelled context leaves the bucket alone.\<close>

lemma put_delete_example:
  "storage_Put demo_sdk None demo_driver ''a.png'' ''data'' (-1) '''' w = (None, w((''assets'', ''a.png'') \<mapsto> ''data''))"
  "storage_Delete demo_sdk None demo_driver ''a.png'' w = (None, w((''assets'', ''a.png'') := None))"
  "storage_Delete demo_sdk (Some err) demo_driver ''a.png'' w = (Some err, w)"
  by (simp_all add: demo_driver_def demo_sdk_def remote_def storage_Put_def storage_Delete_def aliyun_Put_def aliyun_Delete_def)

end
