(* ===== verification/Database.thy ===== *)
theory Database
  imports App_Config Go_Url
begin

section \<open>Opening the database\<close>

text \<open>
  \<^verbatim>\<open>internal/database/db.go\<close>: the data source names of the three drivers, the pool, and the check of the connection; and
  \<^verbatim>\<open>internal/health/database.go\<close>. The \<^verbatim>\<open>database/sql\<close> drivers, the file system and the remote server are the record \<open>db_env\<close> over
  its state.
\<close>

subsection \<open>Data source names\<close>

definition mysql_dsn :: "DatabaseConfig \<Rightarrow> string" where
  "mysql_dsn d =
     db_User d @ '':'' @ db_Password d @ ''@tcp('' @ db_Host d @ '':'' @ show_int (db_Port d) @ '')/'' @ db_Database d @ ''?parseTime=true''"

definition postgres_dsn :: "DatabaseConfig \<Rightarrow> string" where
  "postgres_dsn d =
     ''postgres://'' @ db_User d @ '':'' @ db_Password d @ ''@'' @ db_Host d @ '':'' @ show_int (db_Port d) @ ''/'' @ db_Database d @
     ''?sslmode='' @ db_SSLMode d"

definition in_memory :: "string \<Rightarrow> bool" where
  "in_memory p \<longleftrightarrow> p = '''' \<or> p = '':memory:''"

definition sqlite_dsn :: "string \<Rightarrow> string" where
  "sqlite_dsn p = (if in_memory p then ''file::memory:?cache=shared'' else ''file:'' @ p @ ''?_journal_mode=WAL&_busy_timeout=5000'')"

subsection \<open>Connections\<close>

datatype dialect = DialectMySQL | DialectPostgres | DialectSQLite

record Pool =
  pl_MaxOpenConns :: int
  pl_MaxIdleConns :: int
  pl_ConnMaxLifetime :: int
  pl_ConnMaxIdleTime :: int

record DB =
  d_dialect :: dialect
  d_dsn :: string
  d_debug :: bool
  d_pool :: Pool

text \<open>\<open>de_Open\<close> is \<^verbatim>\<open>sql.Open\<close> or \<^verbatim>\<open>pgdriver.NewConnector\<close>, which never fails with an error; \<open>de_Ping\<close> takes the limit in nanoseconds.\<close>

record 'w db_env =
  de_MkdirAll :: "string \<Rightarrow> 'w \<Rightarrow> gerr option \<times> 'w"
  de_Open :: "dialect \<Rightarrow> string \<Rightarrow> gerr option"
  de_Ping :: "DB \<Rightarrow> int \<Rightarrow> 'w \<Rightarrow> gerr option \<times> 'w"
  de_Close :: "DB \<Rightarrow> 'w \<Rightarrow> gerr option \<times> 'w"

definition or_default :: "int \<Rightarrow> int \<Rightarrow> int" where
  "or_default d n = (if n \<le> 0 then d else n)"

definition pool_of :: "DatabaseConfig \<Rightarrow> Pool" where
  "pool_of d =
     \<lparr>pl_MaxOpenConns = or_default 25 (db_MaxOpenConns d), pl_MaxIdleConns = or_default 10 (db_MaxIdleConns d),
      pl_ConnMaxLifetime = wrap64 (or_default 300 (db_ConnMaxLife d) * 1000000000),
      pl_ConnMaxIdleTime = wrap64 (or_default 60 (db_ConnMaxIdle d) * 1000000000)\<rparr>"

definition open_sqlite :: "'w db_env \<Rightarrow> string \<Rightarrow> 'w \<Rightarrow> gerr option \<times> 'w" where
  "open_sqlite env p w =
     (let dir = path_Dir p;
          (e, w1) = (if in_memory p \<or> dir = ''.'' then (None, w) else de_MkdirAll env dir w)
      in case e of
           Some err \<Rightarrow> (Some (wrapl (''failed to create database directory '' @ dir) err), w1)
         | None \<Rightarrow> (map_option (wrapl ''failed to open sqlite connection'') (de_Open env DialectSQLite (sqlite_dsn p)), w1))"

definition open_dialect :: "'w db_env \<Rightarrow> DatabaseConfig \<Rightarrow> 'w \<Rightarrow> (gerr, dialect \<times> string) result \<times> 'w" where
  "open_dialect env d w =
     (if db_Driver d = DriverMySQL then
        (case de_Open env DialectMySQL (mysql_dsn d) of
           Some err \<Rightarrow> (Inl (wrapl ''failed to open mysql connection'' err), w)
         | None \<Rightarrow> (Inr (DialectMySQL, mysql_dsn d), w))
      else if db_Driver d = DriverPostgres \<or> db_Driver d = DriverPostgreSQL then (Inr (DialectPostgres, postgres_dsn d), w)
      else if db_Driver d = DriverSQLite \<or> db_Driver d = DriverSQLite3 then
        (case open_sqlite env (db_Database d) w of
           (Some err, w1) \<Rightarrow> (Inl err, w1)
         | (None, w1) \<Rightarrow> (Inr (DialectSQLite, sqlite_dsn (db_Database d)), w1))
      else (Inl (Errorf (''unsupported database driver: '' @ db_Driver d) []), w))"

definition NewDB :: "'w db_env \<Rightarrow> Config \<Rightarrow> 'w \<Rightarrow> (gerr, DB) result \<times> 'w" where
  "NewDB env cfg w =
     (case open_dialect env (cfg_Database cfg) w of
        (Inl err, w1) \<Rightarrow> (Inl err, w1)
      | (Inr (dl, dsn), w1) \<Rightarrow>
          let db = \<lparr>d_dialect = dl, d_dsn = dsn, d_debug = (log_Level (cfg_Log cfg) = ''debug''), d_pool = pool_of (cfg_Database cfg)\<rparr> in
          (case de_Ping env db (5 * 1000000000) w1 of
             (Some err, w2) \<Rightarrow> (Inl (wrapl ''failed to ping database'' err), w2)
           | (None, w2) \<Rightarrow> (Inr db, w2)))"

text \<open>The methods answer on a nil receiver, \<open>None\<close>.\<close>

definition HealthCheck :: "'w db_env \<Rightarrow> int \<Rightarrow> DB option \<Rightarrow> 'w \<Rightarrow> gerr option \<times> 'w" where
  "HealthCheck env limit db w =
     (case db of None \<Rightarrow> (Some (Errorf ''database is not initialized'' []), w) | Some d \<Rightarrow> de_Ping env d limit w)"

definition db_Close :: "'w db_env \<Rightarrow> DB option \<Rightarrow> 'w \<Rightarrow> gerr option \<times> 'w" where
  "db_Close env db w = (case db of None \<Rightarrow> (None, w) | Some d \<Rightarrow> de_Close env d w)"

record DatabaseChecker =
  dc_db :: "DB option"
  dc_timeout :: int

definition NewDatabaseChecker :: "DB option \<Rightarrow> DatabaseChecker" where
  "NewDatabaseChecker db = \<lparr>dc_db = db, dc_timeout = 5 * 1000000000\<rparr>"

definition checker_Name :: string where "checker_Name = ''database''"

text \<open>\<open>left\<close> is what remains of the context's own limit; the earlier of the two ends the check.\<close>

definition checker_Check :: "'w db_env \<Rightarrow> DatabaseChecker \<Rightarrow> int \<Rightarrow> 'w \<Rightarrow> gerr option \<times> 'w" where
  "checker_Check env c left w = HealthCheck env (min left (or_default (5 * 1000000000) (dc_timeout c))) (dc_db c) w"

subsection \<open>Lemmas\<close>

lemma pool_positive: "pl_MaxOpenConns (pool_of d) > 0" "pl_MaxIdleConns (pool_of d) > 0"
  by (simp_all add: pool_of_def or_default_def)

lemma validated_driver:
  assumes "Validate cfg = None"
  shows "db_Driver (cfg_Database cfg) \<in> {DriverMySQL, DriverPostgres, DriverPostgreSQL, DriverSQLite, DriverSQLite3}"
    "db_Database (cfg_Database cfg) \<noteq> ''''"
proof -
  have "valid_database (cfg_Database cfg)" using assms unfolding Validate_valid valid_config_def by blast
  then show "db_Driver (cfg_Database cfg) \<in> {DriverMySQL, DriverPostgres, DriverPostgreSQL, DriverSQLite, DriverSQLite3}"
    "db_Database (cfg_Database cfg) \<noteq> ''''"
    unfolding valid_database_def constants by blast+
qed

lemma in_memory_validated: "Validate cfg = None \<Longrightarrow> in_memory (db_Database (cfg_Database cfg)) \<longleftrightarrow> db_Database (cfg_Database cfg) = '':memory:''"
  using validated_driver(2) by (simp add: in_memory_def)

definition dialect_of :: "string \<Rightarrow> dialect" where
  "dialect_of driver =
     (if driver = DriverMySQL then DialectMySQL
      else if driver = DriverPostgres \<or> driver = DriverPostgreSQL then DialectPostgres else DialectSQLite)"

definition dsn_of :: "DatabaseConfig \<Rightarrow> string" where
  "dsn_of d =
     (case dialect_of (db_Driver d) of DialectMySQL \<Rightarrow> mysql_dsn d | DialectPostgres \<Rightarrow> postgres_dsn d | DialectSQLite \<Rightarrow> sqlite_dsn (db_Database d))"

lemma open_dialect_ok:
  assumes "db_Driver d \<in> {DriverMySQL, DriverPostgres, DriverPostgreSQL, DriverSQLite, DriverSQLite3}"
    "\<And>dl s. de_Open env dl s = None" "\<And>dir w. fst (de_MkdirAll env dir w) = None"
  shows "fst (open_dialect env d w) = Inr (dialect_of (db_Driver d), dsn_of d)"
proof -
  have "fst (open_sqlite env p w) = None" for p w
    using assms(2,3) by (auto simp: open_sqlite_def Let_def split: prod.splits option.splits) (metis fst_conv option.distinct(1))
  then have sq: "\<exists>w1. open_sqlite env p w = (None, w1)" for p w by (metis prod.collapse)
  have ne: "DriverSQLite \<noteq> DriverMySQL" "DriverSQLite3 \<noteq> DriverMySQL" "DriverSQLite \<noteq> DriverPostgres" "DriverSQLite3 \<noteq> DriverPostgres"
    "DriverSQLite \<noteq> DriverPostgreSQL" "DriverSQLite3 \<noteq> DriverPostgreSQL" "DriverPostgres \<noteq> DriverMySQL" "DriverPostgreSQL \<noteq> DriverMySQL"
    by (simp_all add: constants)
  obtain w1 where w1: "open_sqlite env (db_Database d) w = (None, w1)" using sq by blast
  show ?thesis
    using assms(1,2) ne w1 unfolding open_dialect_def dsn_of_def dialect_of_def by (elim insertE) auto
qed

lemma demo_config_valid: "Validate demo_config = None"
  unfolding Validate_valid
  by (simp add: demo_config_def valid_config_def valid_log_def valid_database_def valid_http_def valid_secret_def
    valid_rate_limit_def valid_tcp_def valid_udp_def valid_cache_def valid_telemetry_def
    enum_ok_def enum_fold_ok_def constants equal_fold_def)

subsection \<open>Properties\<close>


definition demo_pg :: DatabaseConfig where
  "demo_pg = \<lparr>db_Driver = DriverPostgreSQL, db_Host = ''db'', db_Port = 5432, db_User = ''app'', db_Password = ''s@cret:1'',
     db_Database = ''shop'', db_SSLMode = ''disable'', db_MaxOpenConns = 0, db_MaxIdleConns = 0, db_ConnMaxLife = 0, db_ConnMaxIdle = 0\<rparr>"


text \<open>A slash in the password makes the name unreadable, and a question mark cuts it off.\<close>

lemma demo_dsn:
  "postgres_dsn (demo_pg\<lparr>db_Password := pw\<rparr>) = ''postgres://app:'' @ pw @ ''@db:5432/shop?sslmode=disable''"
  by (simp add: postgres_dsn_def demo_pg_def show_int_def show_nat.simps)

lemma postgres_dsn_unescaped:
  "url_Parse (postgres_dsn (demo_pg\<lparr>db_Password := ''s/cret''\<rparr>)) = None"
  "url_Parse (postgres_dsn (demo_pg\<lparr>db_Password := ''s%cret''\<rparr>)) = None"
  "url_Parse (postgres_dsn (demo_pg\<lparr>db_Password := ''1?cret''\<rparr>)) =
     Some \<lparr>u_Scheme = ''postgres'', u_Opaque = '''', u_User = None, u_Host = ''app:1'', u_Path = '''', u_ForceQuery = False,
           u_RawQuery = ''cret@db:5432/shop?sslmode=disable''\<rparr>"
  unfolding demo_dsn by code_simp+

text \<open>A validated configuration always opens its database when the server answers and the file system allows it: the driver
  name is never refused, the connection speaks the dialect of the driver with the data source name of that dialect, the pool has
  at least one connection, and the only error left is the one of the first ping, which is reported and closes nothing.\<close>

lemma validated_database_opens:
  assumes "Validate cfg = None" "\<forall>dl s. de_Open env dl s = None" "\<forall>dir w. fst (de_MkdirAll env dir w) = None"
  shows "\<exists>db w1 w2 e. de_Ping env db 5000000000 w1 = (e, w2) \<and>
    NewDB env cfg w = ((case e of None \<Rightarrow> Inr db | Some err \<Rightarrow> Inl (wrapl ''failed to ping database'' err)), w2) \<and>
    d_dialect db = dialect_of (db_Driver (cfg_Database cfg)) \<and> d_dsn db = dsn_of (cfg_Database cfg) \<and>
    pl_MaxOpenConns (d_pool db) > 0 \<and> pl_MaxIdleConns (d_pool db) > 0"
proof -
  let ?d = "cfg_Database cfg"
  have "fst (open_dialect env ?d w) = Inr (dialect_of (db_Driver ?d), dsn_of ?d)"
    using assms(2,3) by (intro open_dialect_ok [OF validated_driver(1) [OF assms(1)]]) auto
  then obtain w1 where w1: "open_dialect env ?d w = (Inr (dialect_of (db_Driver ?d), dsn_of ?d), w1)" by (metis prod.collapse)
  let ?db = "\<lparr>d_dialect = dialect_of (db_Driver ?d), d_dsn = dsn_of ?d, d_debug = (log_Level (cfg_Log cfg) = ''debug''), d_pool = pool_of ?d\<rparr>"
  obtain e w2 where p: "de_Ping env ?db 5000000000 w1 = (e, w2)" by fastforce
  show ?thesis
    by (intro exI [of _ ?db] exI [of _ w1] exI [of _ w2] exI [of _ e])
      (simp add: NewDB_def w1 p pool_positive split: option.split)
qed

definition demo_db_env :: "bool db_env" where
  "demo_db_env = \<lparr>de_MkdirAll = (\<lambda>_ w. (None, w)), de_Open = (\<lambda>_ _. None),
     de_Ping = (\<lambda>_ _ up. (if up then None else Some (Sentinel ''connection refused''), up)), de_Close = (\<lambda>_ w. (None, w))\<rparr>"

lemma validated_database_opens_example:
  "\<exists>db. fst (NewDB demo_db_env demo_config True) = Inr db \<and> d_dialect db = DialectSQLite"
proof -
  have "Validate demo_config = None" by (rule demo_config_valid)
  then obtain db w1 w2 e where p: "de_Ping demo_db_env db 5000000000 w1 = (e, w2)"
    "NewDB demo_db_env demo_config True = ((case e of None \<Rightarrow> Inr db | Some err \<Rightarrow> Inl (wrapl ''failed to ping database'' err)), w2)"
    "d_dialect db = dialect_of (db_Driver (cfg_Database demo_config))"
    using validated_database_opens [of demo_config demo_db_env True] by (auto simp: demo_db_env_def)
  have "is_ok (fst (NewDB demo_db_env demo_config True))" by code_simp
  then show ?thesis using p by (auto simp: dialect_of_def demo_config_def constants split: option.splits)
qed

end
