(* ===== verification/Health.thy ===== *)
theory Health
  imports Http_Router Database
begin

section \<open>Health endpoints\<close>

text \<open>
  \<^verbatim>\<open>internal/handler/http/health.go\<close> and \<^verbatim>\<open>internal/health\<close>: liveness, readiness and version, and what a probe of these paths sees behind
  the middleware of the server. A checker is its name and its \<open>Check\<close> over the state of the dependencies.
\<close>

type_synonym 'w Checker = "string \<times> ('w \<Rightarrow> gerr option \<times> 'w)"

record 'w HealthHandler =
  hh_appName :: string
  hh_appVersion :: string
  hh_checkers :: "'w Checker list"

datatype health_data = HStatus string | HReady string "string \<rightharpoonup> bool" | HVersion string string

definition NewHealthHandler :: "Config \<Rightarrow> 'w HealthHandler" where
  "NewHealthHandler cfg = \<lparr>hh_appName = app_Name (cfg_App cfg), hh_appVersion = app_Version (cfg_App cfg), hh_checkers = []\<rparr>"

definition AddChecker :: "'w Checker \<Rightarrow> 'w HealthHandler \<Rightarrow> 'w HealthHandler" where
  "AddChecker c h = h\<lparr>hh_checkers := hh_checkers h @ [c]\<rparr>"

text \<open>The loop of \<open>Readiness\<close>: the results by name, whether all passed, and the state.\<close>

fun run_checks :: "'w Checker list \<Rightarrow> (string \<rightharpoonup> bool) \<Rightarrow> bool \<Rightarrow> 'w \<Rightarrow> (string \<rightharpoonup> bool) \<times> bool \<times> 'w" where
  "run_checks [] checks allReady w = (checks, allReady, w)"
| "run_checks ((name, check) # cs) checks allReady w =
     (case check w of (e, w1) \<Rightarrow> run_checks cs (checks(name \<mapsto> (e = None))) (allReady \<and> e = None) w1)"

definition Readiness :: "bool \<Rightarrow> 'w HealthHandler \<Rightarrow> 'w \<Rightarrow> (int \<times> health_data Response) \<times> 'w" where
  "Readiness sc h w =
     (case run_checks (hh_checkers h) Map.empty True w of
        (checks, allReady, w1) \<Rightarrow>
          let status = (if allReady then ''ready'' else ''not_ready''); payload = HReady status checks in
          ((if allReady then Success (Some payload)
            else ErrorWithData sc (Some (WithMessage ServiceUnavailable status)) (Some payload)), w1))"

definition Liveness :: "int \<times> health_data Response" where
  "Liveness = Success (Some (HStatus ''alive''))"

definition Health_handler :: "int \<times> health_data Response" where
  "Health_handler = Liveness"

definition Version :: "'w HealthHandler \<Rightarrow> int \<times> health_data Response" where
  "Version h = Success (Some (HVersion (hh_appName h) (hh_appVersion h)))"

text \<open>The handler as \<open>wireHTTP\<close> builds it: the database is its only dependency. \<open>left\<close> is the time the request leaves for the check.\<close>

definition app_health :: "'w db_env \<Rightarrow> int \<Rightarrow> Config \<Rightarrow> DB \<Rightarrow> 'w HealthHandler" where
  "app_health env left cfg db =
     AddChecker (checker_Name, checker_Check env (NewDatabaseChecker (Some db)) left) (NewHealthHandler cfg)"

definition readinessCheckTimeout :: int where "readinessCheckTimeout = 5 * 1000000000"

text \<open>A request to a system path: the middleware of the server, then the handler of the route.\<close>

definition system_handler :: "bool \<Rightarrow> 'w HealthHandler \<Rightarrow> string \<Rightarrow> 'w \<Rightarrow> (int \<times> health_data Response) \<times> 'w" where
  "system_handler sc h name w =
     (if name = ''Readiness'' then Readiness sc h w
      else if name = ''Health'' then (Health_handler, w)
      else if name = ''Liveness'' then (Liveness, w) else (Version h, w))"

definition probe_status ::
  "jwt_lib \<Rightarrow> bool \<Rightarrow> Config \<Rightarrow> JWTManager option \<Rightarrow> 's RateLimitStore option \<Rightarrow> 's RateLimitStore \<Rightarrow> 'w HealthHandler \<Rightarrow>
   gctx \<Rightarrow> 's \<Rightarrow> 'w \<Rightarrow> int option" where
  "probe_status lib sc cfg jwt redis memory h c s w =
     (case find (\<lambda>r. ro_Method r = gx_Method c \<and> ro_Path r = gx_Path c) (registerSystemRoutes :: 's route list) of
        None \<Rightarrow> None
      | Some r \<Rightarrow>
          (case run_chain (http_chain lib sc cfg jwt redis memory @ ro_Chain r) c s of
             (Some reply, _, _) \<Rightarrow> Some (fst reply)
           | (None, _, _) \<Rightarrow> Some (fst (fst (system_handler sc h (ro_Handler r) w)))))"

subsection \<open>Lemmas\<close>

fun checks_pass :: "'w Checker list \<Rightarrow> 'w \<Rightarrow> bool" where
  "checks_pass [] w = True"
| "checks_pass ((name, check) # cs) w = (fst (check w) = None \<and> checks_pass cs (snd (check w)))"

lemma run_checks_ready: "fst (snd (run_checks cs checks b w)) \<longleftrightarrow> b \<and> checks_pass cs w"
  by (induction cs arbitrary: checks b w) (auto split: prod.splits)

lemma run_checks_other: "n \<notin> fst ` set cs \<Longrightarrow> fst (run_checks cs checks b w) n = checks n"
  by (induction cs arbitrary: checks b w) (auto split: prod.splits)

text \<open>With distinct names, every checker that is reported as failing did fail.\<close>

lemma run_checks_all:
  "distinct (map fst cs) \<Longrightarrow> checks_pass cs w \<longleftrightarrow> (\<forall>n \<in> fst ` set cs. fst (run_checks cs checks b w) n = Some True)"
proof (induction cs arbitrary: checks b w)
  case (Cons c cs)
  obtain name check where c: "c = (name, check)" by (cases c)
  obtain e w1 where e: "check w = (e, w1)" by fastforce
  have "fst (run_checks cs (checks(name \<mapsto> (e = None))) (b \<and> e = None) w1) name = Some (e = None)"
    using Cons.prems by (subst run_checks_other) (auto simp: c)
  moreover have "checks_pass cs w1 \<longleftrightarrow> (\<forall>n \<in> fst ` set cs. fst (run_checks cs (checks(name \<mapsto> (e = None))) (b \<and> e = None) w1) n = Some True)"
    using Cons.prems by (intro Cons.IH) simp
  ultimately show ?case by (simp add: c e)
qed simp

lemma Readiness_status:
  "fst (fst (Readiness sc h w)) = (if checks_pass (hh_checkers h) w then 200 else 503)"
proof -
  obtain checks ready w1 where r: "run_checks (hh_checkers h) Map.empty True w = (checks, ready, w1)" by (metis prod.collapse)
  then have "ready = checks_pass (hh_checkers h) w" using run_checks_ready [of "hh_checkers h" Map.empty True w] by simp
  then show ?thesis by (simp add: Readiness_def r Let_def Success_def ErrorWithData_def ServiceUnavailable_def)
qed

lemma app_health_pass: "checks_pass (hh_checkers (app_health env left cfg db)) w \<longleftrightarrow> fst (de_Ping env db (min left 5000000000) w) = None"
  by (simp add: app_health_def AddChecker_def NewHealthHandler_def checker_Check_def NewDatabaseChecker_def HealthCheck_def or_default_def)

text \<open>No middleware answers a request to a system path.\<close>

lemma system_path_not_limited: "gx_FullPath c \<in> set SystemPaths \<Longrightarrow> rlc_SkipPaths r = RateLimitSkipPaths \<Longrightarrow> RateLimit sc store r c s = (None, c, s)"
  by (simp add: RateLimit_def RateLimitSkipPaths_def)

lemma SecurityHeaders_passes: "\<exists>c'. SecurityHeaders c s = (None, c', s) \<and> gx_FullPath c' = gx_FullPath c"
  by (simp add: SecurityHeaders_def)

lemma JWTAuth_passes:
  assumes "gx_FullPath c \<in> set ps" "gx_FullPath c \<noteq> ''''"
  shows "\<exists>c'. JWTAuth lib sc m ps c s = (None, c', s) \<and> gx_FullPath c' = gx_FullPath c"
proof -
  have "pathSkipped (gx_FullPath c) (gx_Path c) ps" using assms by (auto simp: pathSkipped_iff skip_pattern_def)
  then show ?thesis by (auto simp: JWTAuth_def Let_def split: option.split sum.split)
qed

lemma system_paths_skipped: "p \<in> set SystemPaths \<Longrightarrow> p \<in> set (MergeJWTSkipPaths ps) \<and> p \<noteq> ''''"
  by (auto simp: MergeJWTSkipPaths_spec DefaultJWTSkipPaths_def SystemPaths_def path_defs)

lemma chain_passes_system:
  assumes "gx_FullPath c \<in> set SystemPaths"
  shows "\<exists>c' s'. run_chain (http_chain lib sc cfg jwt redis memory) c s = (None, c', s')"
proof -
  from SecurityHeaders_passes [of c s]
  obtain c1 where c1: "SecurityHeaders c s = (None, c1, s)" "gx_FullPath c1 = gx_FullPath c" by blast
  let ?jwt = "case jwt of None \<Rightarrow> [] | Some m \<Rightarrow> [JWTAuth lib sc m (MergeJWTSkipPaths (jwt_SkipPaths (cfg_JWT cfg)))]"
  have "\<exists>c2. run_chain ?jwt c1 s = (None, c2, s) \<and> gx_FullPath c2 = gx_FullPath c"
  proof (cases jwt)
    case (Some m)
    have "gx_FullPath c1 \<in> set (MergeJWTSkipPaths (jwt_SkipPaths (cfg_JWT cfg)))" "gx_FullPath c1 \<noteq> ''''"
      using system_paths_skipped [OF assms] c1(2) by simp_all
    from JWTAuth_passes [OF this, of lib sc m s] obtain c2
      where "JWTAuth lib sc m (MergeJWTSkipPaths (jwt_SkipPaths (cfg_JWT cfg))) c1 s = (None, c2, s)" "gx_FullPath c2 = gx_FullPath c1"
      by blast
    then show ?thesis using Some c1(2) by simp
  qed (use c1 in auto)
  then obtain c2 where c2: "run_chain ?jwt c1 s = (None, c2, s)" "gx_FullPath c2 = gx_FullPath c" by blast
  have rl: "RateLimit sc store r c2 s = (None, c2, s)" if "rlc_SkipPaths r = RateLimitSkipPaths" for store r
    by (rule system_path_not_limited) (use that assms c2(2) in simp_all)
  show ?thesis
    unfolding http_chain_def using c1(1) c2(1) by (simp add: run_chain_append rl)
qed

lemma probe_passes:
  assumes "gx_Method c = ''GET''" "gx_FullPath c = gx_Path c" "gx_Path c \<in> set SystemPaths"
  shows "probe_status lib sc cfg jwt redis memory h c s w =
    Some (if gx_Path c = PathReadiness \<and> \<not> checks_pass (hh_checkers h) w then 503 else 200)"
proof -
  have "gx_FullPath c \<in> set SystemPaths" using assms(2,3) by simp
  from chain_passes_system [OF this, of lib sc cfg jwt redis memory s]
  obtain c' s' where "run_chain (http_chain lib sc cfg jwt redis memory) c s = (None, c', s')" by blast
  then show ?thesis
    using assms(1,3) Readiness_status [of sc h w]
    by (auto simp: probe_status_def registerSystemRoutes_def new_route_def SystemPaths_def path_defs system_handler_def
        Health_handler_def Liveness_def Version_def Success_def)
qed

subsection \<open>Properties\<close>

text \<open>C21: A readiness probe tells the state of the dependencies, whatever the configuration: no exempt path, token or rate limit
  setting lets the middleware answer in the handler's place, the status is 200 exactly when every checker passes and 503 otherwise, and
  the body names each failing dependency. The other system paths always answer 200, so a lost database never makes the
  process look dead.\<close>

theorem readiness_probe:
  assumes "gx_Method c = ''GET''" "gx_FullPath c = gx_Path c" "gx_Path c \<in> set SystemPaths" "distinct (map fst (hh_checkers h))"
  shows "probe_status lib sc cfg jwt redis memory h c s w =
      Some (if gx_Path c = PathReadiness \<and> \<not> checks_pass (hh_checkers h) w then 503 else 200) \<and>
    (\<exists>checks. fst (Readiness sc h w) = (if checks_pass (hh_checkers h) w
        then (200, \<lparr>Code = 0, Message = ''success'', Data = Some (HReady ''ready'' checks), Cause = ''''\<rparr>)
        else (503, \<lparr>Code = 9000005, Message = ''not_ready'', Data = Some (HReady ''not_ready'' checks), Cause = ''''\<rparr>)) \<and>
      (checks_pass (hh_checkers h) w \<longleftrightarrow> (\<forall>n \<in> fst ` set (hh_checkers h). checks n = Some True)))"
proof (rule conjI)
  show "probe_status lib sc cfg jwt redis memory h c s w =
      Some (if gx_Path c = PathReadiness \<and> \<not> checks_pass (hh_checkers h) w then 503 else 200)"
    by (rule probe_passes [OF assms(1-3)])
  obtain checks ready w1 where r: "run_checks (hh_checkers h) Map.empty True w = (checks, ready, w1)" by (metis prod.collapse)
  then have "ready = checks_pass (hh_checkers h) w" using run_checks_ready [of "hh_checkers h" Map.empty True w] by simp
  moreover have "checks_pass (hh_checkers h) w \<longleftrightarrow> (\<forall>n \<in> fst ` set (hh_checkers h). checks n = Some True)"
    using run_checks_all [OF assms(4), of w Map.empty True] r by simp
  ultimately show "\<exists>checks. fst (Readiness sc h w) = (if checks_pass (hh_checkers h) w
        then (200, \<lparr>Code = 0, Message = ''success'', Data = Some (HReady ''ready'' checks), Cause = ''''\<rparr>)
        else (503, \<lparr>Code = 9000005, Message = ''not_ready'', Data = Some (HReady ''not_ready'' checks), Cause = ''''\<rparr>)) \<and>
      (checks_pass (hh_checkers h) w \<longleftrightarrow> (\<forall>n \<in> fst ` set (hh_checkers h). checks n = Some True))"
    by (intro exI [of _ checks]) (auto simp: Readiness_def r Let_def Success_def ErrorWithData_def ServiceUnavailable_def)
qed

definition probe_request :: "string \<Rightarrow> gctx" where
  "probe_request path = \<lparr>gx_FullPath = path, gx_Path = path, gx_Method = ''GET'', gx_ClientIP = ''10.0.0.1'', gx_Headers = (\<lambda>_. ''''),
     gx_Now = 0, gx_Claims = None, gx_Out = []\<rparr>"

definition demo_DB :: DB where
  "demo_DB = \<lparr>d_dialect = DialectSQLite, d_dsn = sqlite_dsn ''app.db'', d_debug = False, d_pool = pool_of (cfg_Database demo_config)\<rparr>"

theorem readiness_probe_witness:
  "probe_status ref_jwt False demo_config (Some demo_manager) None demo_store (app_health demo_db_env 5000000000 demo_config demo_DB)
     (probe_request PathReadiness) () False = Some 503"
  using readiness_probe [of "probe_request PathReadiness" "app_health demo_db_env 5000000000 demo_config demo_DB" ref_jwt False demo_config
      "Some demo_manager" None demo_store "()" False]
  by (simp add: app_health_pass demo_db_env_def) (simp add: probe_request_def SystemPaths_def app_health_def AddChecker_def NewHealthHandler_def)

end
