(* ===== verification/Logging.thy ===== *)
theory Logging
  imports App_Config
begin

section \<open>Logging\<close>

text \<open>
  \<^verbatim>\<open>internal/logger/logger.go\<close> and \<open>newLoggerFromConfig\<close> of \<^verbatim>\<open>cmd/database.go\<close>: where a logger writes, in which format and from which level
  on. \<open>parse_level\<close> is \<^verbatim>\<open>zapcore.ParseLevel\<close>; a logger is described by its cores, its fields and its name.
\<close>

subsection \<open>Loggers\<close>

record logger_Config =
  lc_Level :: string
  lc_Format :: string
  lc_Output :: string
  lc_Filename :: string
  lc_MaxSize :: int
  lc_MaxBackups :: int
  lc_MaxAge :: int
  lc_Compress :: bool

text \<open>The encoders: JSON, and console text with coloured levels. A file is rotated by \<^verbatim>\<open>lumberjack\<close>.\<close>

datatype encoder = JSONEncoder | ConsoleEncoder

datatype sink = Stdout | Rotated (sink_file: string) int int int bool

record 'l core =
  co_encoder :: encoder
  co_sink :: sink
  co_level :: 'l

record 'l Logger =
  lg_cores :: "'l core list"
  lg_fields :: "(string \<times> string) list"
  lg_name :: string

definition createFileCore :: "logger_Config \<Rightarrow> encoder \<Rightarrow> 'l \<Rightarrow> 'l core" where
  "createFileCore cfg enc level =
     \<lparr>co_encoder = enc, co_sink = Rotated (lc_Filename cfg) (lc_MaxSize cfg) (lc_MaxBackups cfg) (lc_MaxAge cfg) (lc_Compress cfg),
      co_level = level\<rparr>"

definition createStdoutCore :: "encoder \<Rightarrow> 'l \<Rightarrow> 'l core" where
  "createStdoutCore enc level = \<lparr>co_encoder = enc, co_sink = Stdout, co_level = level\<rparr>"

definition level_or_info :: "(string \<Rightarrow> (gerr, 'l) result) \<Rightarrow> 'l \<Rightarrow> string \<Rightarrow> 'l" where
  "level_or_info parse_level info s = (case parse_level s of Inl err \<Rightarrow> info | Inr l \<Rightarrow> l)"

definition logger_New :: "(string \<Rightarrow> (gerr, 'l) result) \<Rightarrow> 'l \<Rightarrow> logger_Config \<Rightarrow> (gerr, 'l Logger) result" where
  "logger_New parse_level info cfg =
     (let level = level_or_info parse_level info (lc_Level cfg);
          enc = (if to_lower (lc_Format cfg) = ''console'' then ConsoleEncoder else JSONEncoder);
          output = to_lower (lc_Output cfg);
          cores = (if output = LogOutputFile then [createFileCore cfg enc level]
                   else if output = LogOutputBoth then [createFileCore cfg enc level, createStdoutCore enc level]
                   else [createStdoutCore enc level])
      in Inr \<lparr>lg_cores = cores, lg_fields = [], lg_name = ''''\<rparr>)"

definition NewStdoutLogger :: "(string \<Rightarrow> (gerr, 'l) result) \<Rightarrow> 'l \<Rightarrow> string \<Rightarrow> 'l Logger" where
  "NewStdoutLogger parse_level info level =
     \<lparr>lg_cores = [createStdoutCore ConsoleEncoder (level_or_info parse_level info level)], lg_fields = [], lg_name = ''''\<rparr>"

text \<open>\<open>Init\<close>: the package-level logger, kept when the new one cannot be made.\<close>

definition logger_Init ::
  "(string \<Rightarrow> (gerr, 'l) result) \<Rightarrow> 'l \<Rightarrow> logger_Config \<Rightarrow> 'l Logger option \<Rightarrow> gerr option \<times> 'l Logger option" where
  "logger_Init parse_level info cfg cur =
     (case logger_New parse_level info cfg of Inl err \<Rightarrow> (Some err, cur) | Inr l \<Rightarrow> (None, Some l))"

definition logger_With :: "(string \<times> string) list \<Rightarrow> 'l Logger \<Rightarrow> 'l Logger" where
  "logger_With fs l = l\<lparr>lg_fields := lg_fields l @ fs\<rparr>"

definition WithTraceID :: "string \<Rightarrow> 'l Logger \<Rightarrow> 'l Logger" where
  "WithTraceID traceID l = logger_With [(''trace_id'', traceID)] l"

text \<open>\<open>Named\<close>: zap joins the names with a dot and ignores an empty one.\<close>

definition Named :: "string \<Rightarrow> 'l Logger \<Rightarrow> 'l Logger" where
  "Named n l = (if n = '''' then l else if lg_name l = '''' then l\<lparr>lg_name := n\<rparr> else l\<lparr>lg_name := lg_name l @ ''.'' @ n\<rparr>)"

definition newLoggerFromConfig :: "(string \<Rightarrow> (gerr, 'l) result) \<Rightarrow> 'l \<Rightarrow> Config \<Rightarrow> (gerr, 'l Logger) result" where
  "newLoggerFromConfig parse_level info cfg =
     (let l = cfg_Log cfg in
      case logger_New parse_level info
        \<lparr>lc_Level = log_Level l, lc_Format = log_Format l, lc_Output = log_Output l, lc_Filename = log_Filename l,
         lc_MaxSize = log_MaxSize l, lc_MaxBackups = log_MaxBackups l, lc_MaxAge = log_MaxAge l, lc_Compress = log_Compress l\<rparr> of
        Inl err \<Rightarrow> Inl (wrapl ''failed to create logger'' err)
      | Inr lg \<Rightarrow> Inr lg)"

subsection \<open>Lemmas\<close>

definition ascii :: "string \<Rightarrow> bool" where
  "ascii s \<longleftrightarrow> list_all (\<lambda>c. byte_of c < 128) s"

lemma ascii_fold: "ascii s \<Longrightarrow> to_lower s = map lower_char s \<and> fold_case s = map lower_char s"
proof (induction s)
  case (Cons c s)
  then have "c \<noteq> CHR 0xC4" "c \<noteq> CHR 0xE2" "c \<noteq> CHR 0xC5" by (auto simp: ascii_def)
  then show ?case using Cons by (simp add: ascii_def)
qed simp

lemma newLoggerFromConfig_ok: "\<exists>lg. newLoggerFromConfig parse_level info cfg = Inr lg \<and> lg_cores lg \<noteq> []"
  by (simp add: newLoggerFromConfig_def logger_New_def Let_def)

text \<open>A validated configuration never logs to a file without a name, when its output is plain ASCII.\<close>

lemma validated_log_files:
  assumes "Validate cfg = None" "ascii (log_Output (cfg_Log cfg))" "newLoggerFromConfig parse_level info cfg = Inr lg"
    "co \<in> set (lg_cores lg)" "co_sink co \<noteq> Stdout"
  shows "sink_file (co_sink co) \<noteq> ''''"
proof -
  let ?l = "cfg_Log cfg"
  have v: "valid_log ?l" using assms(1) unfolding Validate_valid valid_config_def by blast
  have "to_lower (log_Output ?l) = LogOutputFile \<or> to_lower (log_Output ?l) = LogOutputBoth"
    using assms(3-5) by (auto simp: newLoggerFromConfig_def logger_New_def Let_def createStdoutCore_def split: if_splits)
  moreover have "fold_case ''file'' = ''file''" "fold_case ''both'' = ''both''" by (simp_all add: lower_char_def)
  ultimately have "equal_fold (log_Output ?l) ''file'' \<or> equal_fold (log_Output ?l) ''both''"
    using ascii_fold [OF assms(2)] by (auto simp: equal_fold_def constants)
  then have "log_Filename ?l \<noteq> ''''" using v by (simp add: valid_log_def)
  then show ?thesis
    using assms(3-5)
    by (auto simp: newLoggerFromConfig_def logger_New_def Let_def createFileCore_def createStdoutCore_def split: if_splits)
qed

text \<open>Validation compares the output with the two rules of case folding: the capital dotted I passes the first and
  escapes the second, and the logger writes to a file without a name.\<close>

lemma dotted_I: "utf8 [0x130] = [CHR 0xC4, CHR 0xB0]"
  by code_simp

lemma dotted_I_output:
  "Validate (demo_config\<lparr>cfg_Log := (cfg_Log demo_config)\<lparr>log_Output := ''f'' @ utf8 [0x130] @ ''le'', log_Filename := ''''\<rparr>\<rparr>) = None"
  unfolding Validate_valid dotted_I
  by (simp add: demo_config_def valid_config_def valid_log_def valid_database_def valid_http_def valid_secret_def
    valid_rate_limit_def valid_tcp_def valid_udp_def valid_cache_def valid_telemetry_def
    enum_ok_def enum_fold_ok_def constants equal_fold_def lower_char_def)

end
