(* ===== verification/Commands.thy ===== *)
theory Commands
  imports Health Wiring
begin

section \<open>Commands: config, health and serve\<close>

text \<open>
  The commands of \<^verbatim>\<open>cmd/config.go\<close>, \<^verbatim>\<open>cmd/health.go\<close>, \<^verbatim>\<open>cmd/serve.go\<close> and \<^verbatim>\<open>cmd/version.go\<close>, with \<^verbatim>\<open>internal/config/dump.go\<close>. A command
  answers its error, if any, and what it prints. The YAML library, the HTTP client and the running servers are parameters; the rest is
  composed from the theories of the components.
\<close>

abbreviation NewLine :: string where "NewLine \<equiv> [CHR 0x0A]"

record cli_flags =
  fl_cfgFile :: string
  fl_env :: string
  fl_check :: bool
  fl_url :: string
  fl_probe :: string

subsection \<open>Configuration\<close>

record 'm yaml_api =
  ya_Decode :: "Config \<Rightarrow> (gerr, 'm) result"
  ya_Marshal :: "'m \<Rightarrow> (gerr, string) result"

definition MarshalYAMLMasked :: "'m yaml_api \<Rightarrow> Config \<Rightarrow> (gerr, string) result" where
  "MarshalYAMLMasked ya c =
     (case ya_Decode ya (MaskedCopy c) of
        Inl err \<Rightarrow> Inl (wrapl ''failed to decode config for dump'' err)
      | Inr m \<Rightarrow>
          (case ya_Marshal ya m of
             Inl err \<Rightarrow> Inl (wrapl ''failed to marshal config yaml'' err)
           | Inr out \<Rightarrow> Inr out))"

definition println :: "string \<Rightarrow> string" where
  "println t = t @ NewLine"

definition printLoadSummary :: "Config \<Rightarrow> LoadMeta \<Rightarrow> string" where
  "printLoadSummary cfg meta =
     println (''App: '' @ app_Name (cfg_App cfg) @ '' '' @ app_Version (cfg_App cfg)) @
     println (''Environment: '' @ app_Env (cfg_App cfg)) @
     println (''Base config: '' @ (if m_BasePath meta \<noteq> '''' then m_BasePath meta else ''(defaults only)'')) @
     (if m_OverlayPath meta \<noteq> '''' then println (''Overlay ('' @ m_OverlayEnv meta @ ''): '' @ m_OverlayPath meta)
      else if m_OverlayEnv meta \<noteq> '''' then println (''Overlay ('' @ m_OverlayEnv meta @ ''): (file not found)'') else '''') @
     (if m_DotenvPaths meta \<noteq> [] then println (''Dotenv: '' @ join '', '' (m_DotenvPaths meta)) else '''') @
     (if EnabledModules cfg \<noteq> [] then println (''Enabled modules: '' @ join '', '' (EnabledModules cfg)) else '''')"

definition runConfigValidate :: "'e os_api \<Rightarrow> ('v, 'e) viper_api \<Rightarrow> cli_flags \<Rightarrow> 'e \<Rightarrow> gerr option \<times> string" where
  "runConfigValidate os vi fl e =
     (case LoadWithMeta os vi (fl_cfgFile fl) (fl_env fl) e of
        (Inl err, _) \<Rightarrow> (Some (wrapl ''configuration validation failed'' err), '''')
      | (Inr cfg, meta) \<Rightarrow>
          (case Validate cfg of
             Some err \<Rightarrow> (Some (wrapl ''configuration validation failed'' err), '''')
           | None \<Rightarrow> (None, println ''Configuration is valid'' @ printLoadSummary cfg meta)))"

definition runConfigShow :: "'e os_api \<Rightarrow> ('v, 'e) viper_api \<Rightarrow> 'm yaml_api \<Rightarrow> cli_flags \<Rightarrow> 'e \<Rightarrow> gerr option \<times> string" where
  "runConfigShow os vi ya fl e =
     (case LoadWithMeta os vi (fl_cfgFile fl) (fl_env fl) e of
        (Inl err, _) \<Rightarrow> (Some (wrapl ''failed to load config'' err), '''')
      | (Inr cfg, meta) \<Rightarrow>
          (case (if fl_check fl then Validate cfg else None) of
             Some err \<Rightarrow> (Some (wrapl ''configuration validation failed'' err), '''')
           | None \<Rightarrow>
               let out = printLoadSummary cfg meta @ println ''---'' in
               (case MarshalYAMLMasked ya cfg of
                  Inl err \<Rightarrow> (Some (wrapl ''failed to dump config'' err), out)
                | Inr yaml \<Rightarrow> (None, out @ yaml))))"

definition cli_version :: string where "cli_version = ''1.0.0''"

definition runVersion :: "gerr option \<times> string" where
  "runVersion = (None, println (''app-tpl version '' @ cli_version))"

subsection \<open>Probing a running server\<close>

definition probePath :: "string \<Rightarrow> (gerr, string) result" where
  "probePath probe =
     (let p = to_lower (trim_space probe) in
      if p = ''health'' then Inr PathHealth
      else if p = ''readiness'' \<or> p = ''ready'' then Inr PathReadiness
      else if p = ''liveness'' \<or> p = ''live'' then Inr PathLiveness
      else Inl (Errorf (''invalid probe '' @ go_quote probe @ '': use health, readiness, or liveness'') []))"

definition buildHealthURL :: "Config option \<Rightarrow> string \<Rightarrow> (gerr, string) result" where
  "buildHealthURL cfg probe =
     (case cfg of
        None \<Rightarrow> Inl (Errorf ''config is required'' [])
      | Some c \<Rightarrow>
          if \<not> http_Enabled (cfg_HTTP c) then Inl (Errorf ''http server is disabled; enable http.enabled or pass --url'' [])
          else (case probePath probe of
                  Inl err \<Rightarrow> Inl err
                | Inr path \<Rightarrow>
                    let host = (if http_Host (cfg_HTTP c) = ''0.0.0.0'' \<or> http_Host (cfg_HTTP c) = '''' then ''127.0.0.1'' else http_Host (cfg_HTTP c));
                        scheme = (if tls_Enabled (http_TLS (cfg_HTTP c)) then ''https'' else ''http'')
                    in Inr (scheme @ ''://'' @ host @ '':'' @ show_int (http_Port (cfg_HTTP c)) @ path)))"

definition resolveHealthProbe :: "'e os_api \<Rightarrow> ('v, 'e) viper_api \<Rightarrow> cli_flags \<Rightarrow> 'e \<Rightarrow> (gerr, string \<times> bool) result" where
  "resolveHealthProbe os vi fl e =
     (if fl_url fl \<noteq> '''' then Inr (fl_url fl, has_prefix (fl_url fl) ''https://'')
      else case LoadWithEnv os vi (fl_cfgFile fl) (fl_env fl) e of
        Inl err \<Rightarrow> Inl (wrapl ''failed to load config'' err)
      | Inr cfg \<Rightarrow>
          (case buildHealthURL (Some cfg) (fl_probe fl) of
             Inl err \<Rightarrow> Inl err
           | Inr url \<Rightarrow> Inr (url, tls_Enabled (http_TLS (cfg_HTTP cfg)))))"

text \<open>\<open>newHealthClient\<close>: a limit of five seconds, and whether certificates are left unchecked; the default transport may have been
  replaced by another type.\<close>

record health_client =
  hc_Timeout :: int
  hc_SkipVerify :: bool

definition newHealthClient :: "bool \<Rightarrow> bool \<Rightarrow> health_client" where
  "newHealthClient std_transport insecureTLS =
     \<lparr>hc_Timeout = 5 * 1000000000, hc_SkipVerify = (std_transport \<and> insecureTLS)\<rparr>"

text \<open>\<open>get\<close> answers the status of a GET request.\<close>

definition runHealth ::
  "'e os_api \<Rightarrow> ('v, 'e) viper_api \<Rightarrow> bool \<Rightarrow> (health_client \<Rightarrow> string \<Rightarrow> (gerr, int) result) \<Rightarrow> cli_flags \<Rightarrow> 'e \<Rightarrow> gerr option" where
  "runHealth os vi std_transport get fl e =
     (case resolveHealthProbe os vi fl e of
        Inl err \<Rightarrow> Some err
      | Inr (targetURL, insecureTLS) \<Rightarrow>
          (case get (newHealthClient std_transport insecureTLS) targetURL of
             Inl err \<Rightarrow> Some (wrapl ''health probe failed'' err)
           | Inr status \<Rightarrow>
               if status < 200 \<or> status \<ge> 300
               then Some (Errorf (''health probe returned status '' @ show_int status @ '' for '' @ targetURL) []) else None))"

subsection \<open>Serving\<close>

text \<open>The error, whether Gin runs in release mode, and what was opened and closed.\<close>

definition runServe ::
  "'e os_api \<Rightarrow> ('v, 'e) viper_api \<Rightarrow> wire_env \<Rightarrow> (Wired \<Rightarrow> wire_event list Servers) \<Rightarrow> cli_flags \<Rightarrow> 'e \<Rightarrow>
   gerr option \<times> bool \<times> wire_event list" where
  "runServe os vi wenv servers fl e =
     (case LoadWithEnv os vi (fl_cfgFile fl) (fl_env fl) e of
        Inl err \<Rightarrow> (Some (wrapl ''failed to load config'' err), False, [])
      | Inr cfg \<Rightarrow>
          (case Validate cfg of
             Some err \<Rightarrow> (Some (wrapl ''configuration validation failed'' err), False, [])
           | None \<Rightarrow>
               let release = (app_Env (cfg_App cfg) = EnvProd) in
               (case New_app wenv cfg of
                  (Some err, a) \<Rightarrow> (Some (wrapl ''failed to initialize application'' err), release, a_world (wd_app a))
                | (None, a) \<Rightarrow>
                    (case Run (servers a) (wd_app a) of
                       (err, a') \<Rightarrow> (map_option (wrapl ''application error'') err, release, a_world a')))))"

subsection \<open>What a run leaves open\<close>

text \<open>An operation that only appends to the log, and opens nothing.\<close>

definition log_only :: "(wire_event list \<Rightarrow> 'r \<times> wire_event list) \<Rightarrow> bool" where
  "log_only f \<longleftrightarrow> (\<forall>w. \<exists>es. snd (f w) = w @ es \<and> (\<forall>r. Opened r \<notin> set es))"

definition logged_hook :: "wire_env \<Rightarrow> wire_event list Hook \<Rightarrow> bool" where
  "logged_hook env h \<longleftrightarrow> (\<exists>name r st. h = (stop_hook env name r)\<lparr>hk_OnStart := st\<rparr> \<and> (\<forall>f. st = Some f \<longrightarrow> log_only f))"

definition closed_in :: "wire_event list \<Rightarrow> resource \<Rightarrow> bool" where
  "closed_in w r \<longleftrightarrow> (\<exists>b. Closed r b \<in> set w)"

definition tidy :: "wire_env \<Rightarrow> wire_event list App \<Rightarrow> bool" where
  "tidy env a \<longleftrightarrow>
     length (a_stopped a) = length (a_hooks a) \<and> (\<forall>h \<in> set (a_hooks a). logged_hook env h) \<and>
     (\<forall>r. Opened r \<in> set (a_world a) \<longrightarrow> (\<exists>i < length (a_hooks a). \<exists>name. a_hooks a ! i = stop_hook env name r)) \<and>
     (\<forall>i < length (a_hooks a). a_stopped a ! i \<longrightarrow> (\<forall>name r. a_hooks a ! i = stop_hook env name r \<longrightarrow> closed_in (a_world a) r))"

text \<open>The application moves on: the same hooks, a longer log, still tidy.\<close>

definition moves :: "wire_env \<Rightarrow> wire_event list App \<Rightarrow> wire_event list App \<Rightarrow> bool" where
  "moves env a a' \<longleftrightarrow> a_hooks a' = a_hooks a \<and> set (a_world a) \<subseteq> set (a_world a') \<and> tidy env a'"

lemma moves_refl: "tidy env a \<Longrightarrow> moves env a a"
  by (simp add: moves_def)

lemma moves_trans: "moves env a b \<Longrightarrow> moves env b c \<Longrightarrow> moves env a c"
  by (auto simp: moves_def)

lemma closed_in_mono: "closed_in w r \<Longrightarrow> set w \<subseteq> set w' \<Longrightarrow> closed_in w' r"
  by (auto simp: closed_in_def)

lemma moves_log:
  assumes "tidy env a" "\<forall>r. Opened r \<notin> set es"
  shows "moves env a (a\<lparr>a_world := a_world a @ es\<rparr>)" "moves env a (a\<lparr>a_world := a_world a @ es, a_started := st\<rparr>)"
  using assms closed_in_mono [of "a_world a" _ "a_world a @ es"] by (auto simp: moves_def tidy_def)

lemma moves_log_only:
  assumes "tidy env a" "log_only f"
  shows "moves env a (a\<lparr>a_world := snd (f (a_world a))\<rparr>)" "moves env a (a\<lparr>a_world := snd (f (a_world a)), a_started := st\<rparr>)"
proof -
  obtain es where "snd (f (a_world a)) = a_world a @ es" "\<forall>r. Opened r \<notin> set es" using assms(2) unfolding log_only_def by blast
  then show "moves env a (a\<lparr>a_world := snd (f (a_world a))\<rparr>)" "moves env a (a\<lparr>a_world := snd (f (a_world a)), a_started := st\<rparr>)"
    using moves_log [OF assms(1)] by simp_all
qed

lemma stop_hook_inj: "stop_hook env n r = (stop_hook env n' r')\<lparr>hk_OnStart := st\<rparr> \<Longrightarrow> r = r'"
  by (simp add: stop_hook_def) (metis (no_types, lifting) append_same_eq list.inject prod.inject wire_event.inject(3) same_append_eq)

lemma moves_stopped:
  assumes "tidy env a" "i < length (a_hooks a)" "\<And>name r'. a_hooks a ! i = stop_hook env name r' \<Longrightarrow> r' = r"
  shows "moves env a (a\<lparr>a_world := a_world a @ [Closed r b], a_stopped := (a_stopped a)[i := True]\<rparr>)"
proof -
  let ?w = "a_world a @ [Closed r b]"
  have "closed_in ?w r'" if "j < length (a_hooks a)" "(a_stopped a)[i := True] ! j" "a_hooks a ! j = stop_hook env name r'" for j name r'
  proof (cases "j = i")
    case True
    then show ?thesis using that(3) assms(3) by (auto simp: closed_in_def)
  next
    case False
    then have "closed_in (a_world a) r'" using that assms(1) by (auto simp: tidy_def)
    then show ?thesis by (rule closed_in_mono) auto
  qed
  then show ?thesis using assms(1) by (auto simp: moves_def tidy_def)
qed

text \<open>Stopping a hook closes its resource.\<close>

lemma stop_at_closes:
  assumes "tidy env a" "i < length (a_hooks a)"
  shows "moves env a (snd (stopHookAt a i))"
    and "a_hooks a ! i = stop_hook env name r \<Longrightarrow> closed_in (a_world (snd (stopHookAt a i))) r"
proof -
  obtain n r0 st where h: "a_hooks a ! i = (stop_hook env n r0)\<lparr>hk_OnStart := st\<rparr>"
    using assms nth_mem [OF assms(2)] unfolding tidy_def logged_hook_def by blast
  have same: "r' = r0" if "a_hooks a ! i = stop_hook env name r'" for name r'
    using h that by (intro stop_hook_inj [where st = st]) simp
  define b where "b = (we_close env r0 (a_world a) = None)"
  let ?w = "a_world a @ [Closed r0 b]"
  let ?skip = "a_stopped a ! i \<or> st \<noteq> None \<and> \<not> a_started a ! i"
  have step: "snd (stopHookAt a i) =
      (if ?skip then a else if b then a\<lparr>a_world := ?w, a_stopped := (a_stopped a)[i := True]\<rparr> else a\<lparr>a_world := ?w\<rparr>)"
    by (cases st; cases "we_close env r0 (a_world a)") (simp_all add: b_def stopHookAt_def h stop_hook_def Let_def)
  show "moves env a (snd (stopHookAt a i))"
    using moves_refl [OF assms(1)] moves_log(1) [OF assms(1), of "[Closed r0 b]"] moves_stopped [OF assms, of r0 b] same unfolding step by (cases b) simp_all
  assume eq: "a_hooks a ! i = stop_hook env name r"
  then have st: "st = None" "r = r0" using h same by (simp_all add: stop_hook_def)
  show "closed_in (a_world (snd (stopHookAt a i))) r"
  proof (cases ?skip)
    case True
    then show ?thesis using st eq assms by (auto simp: step tidy_def)
  qed (use st in \<open>auto simp: step closed_in_def\<close>)
qed

lemma stop_loop_tidy:
  "tidy env a \<Longrightarrow> \<forall>i \<in> set is. i < length (a_hooks a) \<Longrightarrow>
   moves env a (snd (stop_loop is a)) \<and>
   (\<forall>i \<in> set is. \<forall>name r. a_hooks a ! i = stop_hook env name r \<longrightarrow> closed_in (a_world (snd (stop_loop is a))) r)"
proof (induction "is" arbitrary: a)
  case (Cons i "is")
  let ?a = "snd (stopHookAt a i)"
  have m: "moves env a ?a" using stop_at_closes(1) [OF Cons.prems(1)] Cons.prems(2) by simp
  then have IH: "moves env ?a (snd (stop_loop is ?a))"
    "\<forall>i \<in> set is. \<forall>name r. a_hooks ?a ! i = stop_hook env name r \<longrightarrow> closed_in (a_world (snd (stop_loop is ?a))) r"
    using Cons.IH [of ?a] Cons.prems(2) by (auto simp: moves_def)
  have "snd (stop_loop (i # is) a) = snd (stop_loop is ?a)" by (simp add: Let_def split_beta)
  moreover have "closed_in (a_world (snd (stop_loop is ?a))) r" if "a_hooks a ! i = stop_hook env name r" for name r
    using stop_at_closes(2) [OF Cons.prems(1) _ that] Cons.prems(2) IH(1) closed_in_mono by (auto simp: moves_def)
  ultimately show ?case using moves_trans [OF m IH(1)] IH(2) m by (simp add: moves_def)
qed (simp add: moves_refl)

definition all_closed :: "wire_event list \<Rightarrow> bool" where
  "all_closed w \<longleftrightarrow> (\<forall>r. Opened r \<in> set w \<longrightarrow> closed_in w r)"

lemma stopHooks_closes:
  assumes "tidy env a"
  shows "all_closed (a_world (snd (stopHooks a)))" "moves env a (snd (stopHooks a))"
proof -
  let ?a = "snd (stop_loop (rev [0..<length (a_hooks a)]) a)"
  have s: "moves env a ?a" "\<forall>i < length (a_hooks a). \<forall>name r. a_hooks a ! i = stop_hook env name r \<longrightarrow> closed_in (a_world ?a) r"
    using stop_loop_tidy [OF assms, of "rev [0..<length (a_hooks a)]"] by auto
  have eq: "snd (stopHooks a) = ?a" by (simp add: stopHooks_def split_beta)
  show "all_closed (a_world (snd (stopHooks a)))" unfolding eq using s unfolding all_closed_def moves_def tidy_def by metis
  show "moves env a (snd (stopHooks a))" unfolding eq by (rule s(1))
qed

lemma moves_tidy: "moves env a b \<Longrightarrow> tidy env b"
  by (simp add: moves_def)

lemma on_world_moves: "tidy env a \<Longrightarrow> log_only f \<Longrightarrow> moves env a (snd (on_world f label a))"
  using moves_log_only(1) [of env a f] by (simp add: on_world_def split_beta)

lemma start_loop_moves:
  "tidy env a \<Longrightarrow> \<forall>i \<in> set is. i < length (a_hooks a) \<Longrightarrow> moves env a (snd (start_loop is a))"
proof (induction "is" arbitrary: a)
  case (Cons i "is")
  have i: "i < length (a_hooks a)" using Cons.prems(2) by simp
  obtain n r st where h: "a_hooks a ! i = (stop_hook env n r)\<lparr>hk_OnStart := st\<rparr>" "\<And>f. st = Some f \<Longrightarrow> log_only f"
    using Cons.prems(1) nth_mem [OF i] unfolding tidy_def logged_hook_def by blast
  show ?case
  proof (cases st)
    case None
    then show ?thesis using Cons h by (simp add: Let_def)
  next
    case (Some f)
    obtain e w where f: "f (a_world a) = (e, w)" by fastforce
    have w: "w = snd (f (a_world a))" using f by simp
    show ?thesis
    proof (cases e)
      case None
      let ?a = "a\<lparr>a_world := w, a_started := (a_started a)[i := True]\<rparr>"
      have m: "moves env a ?a" unfolding w by (rule moves_log_only(2) [OF Cons.prems(1) h(2) [OF Some]])
      then have "moves env ?a (snd (start_loop is ?a))"
        using Cons.IH [of ?a] Cons.prems(2) by (auto simp: moves_def)
      then show ?thesis using moves_trans [OF m] h Some f None by (simp add: Let_def)
    next
      case err: (Some err)
      let ?a = "a\<lparr>a_world := w\<rparr>"
      have m: "moves env a ?a" unfolding w by (rule moves_log_only(1) [OF Cons.prems(1) h(2) [OF Some]])
      have "moves env ?a (snd (stop_loop (rev [0..<i]) ?a))"
        using stop_loop_tidy [OF moves_tidy [OF m], of "rev [0..<i]"] i by auto
      then show ?thesis using moves_trans [OF m] h Some f err by (simp add: Let_def rollbackStartedHooks_def split_beta)
    qed
  qed
qed (simp add: moves_refl)

definition quiet_servers :: "wire_event list Servers \<Rightarrow> bool" where
  "quiet_servers sv \<longleftrightarrow>
     (\<forall>f g. sv_tcp sv = Some (f, g) \<longrightarrow> log_only f \<and> log_only g) \<and> (\<forall>f g. sv_udp sv = Some (f, g) \<longrightarrow> log_only f \<and> log_only g) \<and>
     (\<forall>f. sv_http_shutdown sv = Some f \<longrightarrow> log_only f) \<and> log_only (sv_publishStarted sv) \<and> log_only (sv_publishStopped sv)"

text \<open>A call that is made when there is something to call.\<close>

lemma opt_moves:
  assumes "tidy env a" "\<And>x. s = Some x \<Longrightarrow> log_only (f x)"
  shows "moves env a (snd (case s of None \<Rightarrow> (None, a) | Some x \<Rightarrow> on_world (f x) label a))"
  using assms moves_refl on_world_moves [OF assms(1)] by (cases s) auto

lemma shutdown_all_closed:
  assumes "tidy env a" "quiet_servers sv"
  shows "all_closed (a_world (snd (shutdown sv started a)))" "moves env a (snd (shutdown sv started a))"
proof -
  define a1 where "a1 = snd (case sv_http_shutdown sv of None \<Rightarrow> (None, a) | Some f \<Rightarrow> on_world f ''http shutdown'' a)"
  define a2 where "a2 = snd (case sv_tcp sv of None \<Rightarrow> (None, a1) | Some s \<Rightarrow> on_world (snd s) ''tcp stop'' a1)"
  define a3 where "a3 = snd (case sv_udp sv of None \<Rightarrow> (None, a2) | Some s \<Rightarrow> on_world (snd s) ''udp stop'' a2)"
  define a4 where "a4 = snd (if started then on_world (sv_publishStopped sv) ''publish app stopped'' a3 else (None, a3))"
  have m1: "moves env a a1" unfolding a1_def using assms(2) by (intro opt_moves [OF assms(1)]) (auto simp: quiet_servers_def)
  have m2: "moves env a1 a2" unfolding a2_def using assms(2) by (intro opt_moves [OF moves_tidy [OF m1]]) (auto simp: quiet_servers_def)
  have m3: "moves env a2 a3" unfolding a3_def using assms(2) by (intro opt_moves [OF moves_tidy [OF m2]]) (auto simp: quiet_servers_def)
  have m4: "moves env a3 a4" unfolding a4_def using assms(2) moves_refl [OF moves_tidy [OF m3]] on_world_moves [OF moves_tidy [OF m3]]
    by (auto simp: quiet_servers_def)
  have eq: "snd (shutdown sv started a) = snd (stopHooks a4)"
    unfolding shutdown_def a4_def a3_def a2_def a1_def Let_def split_beta by simp
  show "all_closed (a_world (snd (shutdown sv started a)))" unfolding eq by (rule stopHooks_closes(1) [OF moves_tidy [OF m4]])
  show "moves env a (snd (shutdown sv started a))"
    unfolding eq by (rule moves_trans [OF m1 moves_trans [OF m2 moves_trans [OF m3 moves_trans [OF m4 stopHooks_closes(2) [OF moves_tidy [OF m4]]]]]])
qed

lemma startServers_moves:
  assumes "tidy env a" "quiet_servers sv"
  shows "moves env a (snd (startServers sv a))"
proof -
  define a1 where "a1 = snd (case sv_tcp sv of None \<Rightarrow> (None, a) | Some s \<Rightarrow> on_world (fst s) ''failed to start TCP server'' a)"
  define a2 where "a2 = snd (case sv_udp sv of None \<Rightarrow> (None, a1) | Some s \<Rightarrow> on_world (fst s) ''failed to start UDP server'' a1)"
  define a3 where "a3 = (case sv_tcp sv of None \<Rightarrow> a2 | Some s \<Rightarrow> snd (on_world (snd s) '''' a2))"
  have m1: "moves env a a1" unfolding a1_def using assms(2) by (intro opt_moves [OF assms(1)]) (auto simp: quiet_servers_def)
  have m2: "moves env a1 a2" unfolding a2_def using assms(2) by (intro opt_moves [OF moves_tidy [OF m1]]) (auto simp: quiet_servers_def)
  have m3: "moves env a2 a3" unfolding a3_def using assms(2) moves_refl [OF moves_tidy [OF m2]] on_world_moves [OF moves_tidy [OF m2]]
    by (auto simp: quiet_servers_def split: option.split)
  have "snd (startServers sv a) \<in> {a1, a2, a3}"
    unfolding startServers_def a3_def a2_def a1_def Let_def split_beta by simp
  then show ?thesis using m1 moves_trans [OF m1 m2] moves_trans [OF m1 moves_trans [OF m2 m3]] by auto
qed

text \<open>However a run ends, everything that was opened has been closed.\<close>

lemma Run_all_closed:
  assumes "tidy env a" "quiet_servers sv"
  shows "all_closed (a_world (snd (Run sv a))) \<and> moves env a (snd (Run sv a))"
proof -
  obtain e1 a1 where 1: "startHooks a = (e1, a1)" by fastforce
  obtain e2 w2 where 2: "sv_publishStarted sv (a_world a1) = (e2, w2)" by fastforce
  define a2 where "a2 = a1\<lparr>a_world := w2\<rparr>"
  obtain e3 a3 where 3: "startServers sv a2 = (e3, a3)" by fastforce
  have "a1 = snd (start_loop [0..<length (a_hooks a)] a)" using 1 by (simp add: startHooks_def)
  then have m1: "moves env a a1" using start_loop_moves [OF assms(1), of "[0..<length (a_hooks a)]"] by simp
  have "w2 = snd (sv_publishStarted sv (a_world a1))" using 2 by simp
  then have m2: "moves env a1 a2"
    using moves_log_only(1) [OF moves_tidy [OF m1], of "sv_publishStarted sv"] assms(2) by (simp add: quiet_servers_def a2_def)
  have m3: "moves env a2 a3" using startServers_moves [OF moves_tidy [OF m2] assms(2)] 3 by simp
  obtain b st where b: "snd (Run sv a) = snd (shutdown sv st b)" "b \<in> {a1, a2, a3}"
  proof (cases e1)
    case (Some err)
    then have "snd (Run sv a) = snd (shutdown sv False a1)" using 1 by (simp add: Run_def)
    then show thesis by (intro that [of False a1]) auto
  next
    case n1: None
    show thesis
    proof (cases e2)
      case (Some err)
      then have "snd (Run sv a) = snd (shutdown sv False a2)" using 1 2 n1 by (simp add: Run_def a2_def)
      then show thesis by (intro that [of False a2]) auto
    next
      case None
      then have "snd (Run sv a) = snd (shutdown sv True a3)"
        using 1 2 3 n1 by (cases "shutdown sv True a3") (simp add: Run_def a2_def split: option.split)
      then show thesis by (intro that [of True a3]) auto
    qed
  qed
  have m: "moves env a b" using b(2) m1 moves_trans [OF m1 m2] moves_trans [OF m1 moves_trans [OF m2 m3]] by blast
  show ?thesis
    unfolding b(1) using shutdown_all_closed [OF moves_tidy [OF m] assms(2)] moves_trans [OF m] by simp
qed

subsection \<open>The wired application is tidy\<close>

lemma log_only_sched: "log_only (\<lambda>w. (we_sched_start env w, w @ [Started RScheduler (we_sched_start env w = None)]))"
  by (auto simp: log_only_def)

lemma stop_hook_plain: "logged_hook env (stop_hook env name r)"
  unfolding logged_hook_def by (rule exI [of _ name], rule exI [of _ r], rule exI [of _ None]) (simp add: stop_hook_def)

lemma stop_hook_update [simp]: "(stop_hook env name r)\<lparr>hk_OnStart := None\<rparr> = stop_hook env name r"
  by (simp add: stop_hook_def)

lemma holds_tidy:
  assumes "holds env a rs"
  shows "tidy env (wd_app a)"
proof -
  obtain names where n: "length names = length rs" "a_hooks (wd_app a) = map2 (stop_hook env) names rs"
    using assms by (auto simp: holds_def)
  have h: "a_hooks (wd_app a) ! i = stop_hook env (names ! i) (rs ! i)" if "i < length rs" for i using n that by simp
  have "\<exists>i < length rs. \<exists>name. a_hooks (wd_app a) ! i = stop_hook env name r" if "r \<in> set rs" for r
    using that h by (metis in_set_conv_nth)
  moreover have "\<forall>x \<in> set (a_hooks (wd_app a)). logged_hook env x" using n stop_hook_plain by (auto simp: in_set_zip)
  ultimately show ?thesis using assms n by (auto simp: tidy_def holds_def)
qed

lemma tidy_addHook:
  assumes "tidy env a" "logged_hook env h"
  shows "tidy env (addHook a h)"
proof -
  have "a_hooks (addHook a h) = a_hooks a @ [h]" "a_stopped (addHook a h) = a_stopped a @ [False]" "a_world (addHook a h) = a_world a"
    by (simp_all add: addHook_def)
  then show ?thesis using assms by (auto simp: tidy_def nth_append less_Suc_eq) blast
qed

lemma tidy_open:
  assumes "tidy env (wd_app a)"
  shows "tidy env (wd_app (open_with (stop_hook env name r) r a))"
proof -
  let ?b = "wd_app a" and ?a = "wd_app (open_with (stop_hook env name r) r a)"
  have f: "a_hooks ?a = a_hooks ?b @ [stop_hook env name r]" "a_stopped ?a = a_stopped ?b @ [False]"
    "a_world ?a = a_world ?b @ [Opened r]" by (simp_all add: open_with_def addHook_def)
  have "\<exists>i < length (a_hooks ?a). \<exists>name. a_hooks ?a ! i = stop_hook env name r'" if op: "Opened r' \<in> set (a_world ?a)" for r'
  proof (cases "r' = r")
    case True
    then show ?thesis by (intro exI [of _ "length (a_hooks ?b)"]) (auto simp: f)
  next
    case False
    then obtain i nm where "i < length (a_hooks ?b)" "a_hooks ?b ! i = stop_hook env nm r'"
      using op f(3) assms by (auto simp: tidy_def)
    then show ?thesis by (intro exI [of _ i]) (auto simp: f nth_append)
  qed
  moreover have "closed_in (a_world ?a) r'"
    if "i < length (a_hooks ?a)" "a_stopped ?a ! i" "a_hooks ?a ! i = stop_hook env nm r'" for i nm r'
  proof -
    have "length (a_stopped ?b) = length (a_hooks ?b)" using assms by (simp add: tidy_def)
    then have "i < length (a_hooks ?b)" using that(1,2) by (auto simp: f nth_append split: if_splits)
    then have "closed_in (a_world ?b) r'" using that(2,3) assms by (simp add: tidy_def f nth_append)
    then show ?thesis by (rule closed_in_mono) (auto simp: f)
  qed
  ultimately show ?thesis using assms stop_hook_plain unfolding tidy_def by (simp add: f)
qed

lemma New_app_tidy:
  assumes "New_app env cfg = (None, a)"
  shows "tidy env (wd_app a)"
proof -
  obtain b where i: "wireInfra env cfg empty_wired = (None, b)"
    using assms by (cases "wireInfra env cfg empty_wired") (auto simp: New_app_def split: option.splits)
  obtain b0 where b0: "holds env b0 (infra_resources cfg)" "b = wireScheduler env cfg b0" using wireInfra_ok [OF i] by blast
  have "logged_hook env ((stop_hook env ''scheduler'' RScheduler)\<lparr>hk_OnStart :=
      Some (\<lambda>w. (we_sched_start env w, w @ [Started RScheduler (we_sched_start env w = None)]))\<rparr>)"
    unfolding logged_hook_def using log_only_sched by fastforce
  then have "tidy env (wd_app b)" using b0(2) holds_tidy [OF b0(1)] tidy_addHook by (simp add: wireScheduler_def)
  moreover obtain c where c: "wireHTTP cfg b = (None, c)" using wireHTTP_total(1) [of cfg b] by (cases "wireHTTP cfg b") simp
  ultimately have "tidy env (wd_app c)" using wireHTTP_total(2) [of cfg b] by simp
  moreover have "a = snd (wireUDP cfg (snd (wireTCP env cfg c)))"
    using assms i c by (auto simp: New_app_def wireTCP_def wireUDP_def split: if_splits)
  ultimately show ?thesis using tidy_open [of env "c\<lparr>wd_tcp := True\<rparr>"] by (auto simp: wireTCP_def wireUDP_def)
qed

lemma New_app_opens:
  assumes "New_app env cfg = (None, a)"
  shows "Opened ` set (infra_resources cfg) \<subseteq> set (a_world (wd_app a))"
proof -
  obtain b where i: "wireInfra env cfg empty_wired = (None, b)"
    using assms by (cases "wireInfra env cfg empty_wired") (auto simp: New_app_def split: option.splits)
  obtain b0 where b0: "holds env b0 (infra_resources cfg)" "b = wireScheduler env cfg b0" using wireInfra_ok [OF i] by blast
  then have "a_world (wd_app b) = map Opened (infra_resources cfg)" by (auto simp: holds_def wireScheduler_def addHook_def)
  moreover obtain c where c: "wireHTTP cfg b = (None, c)" using wireHTTP_total(1) [of cfg b] by (cases "wireHTTP cfg b") simp
  moreover have "a = snd (wireUDP cfg (snd (wireTCP env cfg c)))"
    using assms i c by (auto simp: New_app_def wireTCP_def wireUDP_def split: if_splits)
  ultimately show ?thesis using wireHTTP_total(2) [of cfg b] by (auto simp: wireTCP_def wireUDP_def open_with_def addHook_def)
qed

lemma New_app_fails_closed:
  assumes "New_app env cfg = (Some err, a)"
  shows "all_closed (a_world (wd_app a))"
proof -
  obtain e b where i: "wireInfra env cfg empty_wired = (e, b)" by fastforce
  have "fst (wireHTTP cfg b) = None" by (rule wireHTTP_total)
  then obtain err' where "e = Some err'" "a = shutdown_wired b"
    using assms i by (cases e) (auto simp: New_app_def wireTCP_def wireUDP_def split: prod.splits option.splits if_splits)
  moreover have "quiet_servers (no_servers (wd_http b))" by (auto simp: quiet_servers_def no_servers_def log_only_def split: option.splits if_splits)
  ultimately show ?thesis
    using wireInfra_fails [of env cfg err' b] i holds_tidy shutdown_all_closed [of env "wd_app b" "no_servers (wd_http b)" False]
    by (auto simp: shutdown_wired_def holding_def)
qed

subsection \<open>Properties\<close>


text \<open>Loading a single file, with a Viper whose result is \<open>f\<close>.\<close>

definition demo_flags :: cli_flags where
  "demo_flags = \<lparr>fl_cfgFile = ''/etc/app.yaml'', fl_env = '''', fl_check = False, fl_url = '''', fl_probe = ''ready''\<rparr>"

abbreviation file_viper :: "((string \<Rightarrow> string) \<Rightarrow> Config) \<Rightarrow> (bool, string \<Rightarrow> string) viper_api" where
  "file_viper f \<equiv> demo_viper\<lparr>vi_Unmarshal := (\<lambda>v e. Inr (f e))\<rparr>"

definition demo_meta :: LoadMeta where
  "demo_meta = \<lparr>m_BasePath = ''/etc/app.yaml'', m_OverlayPath = '''', m_OverlayEnv = '''', m_DotenvPaths = []\<rparr>"

lemma demo_defaults: "foldl (\<lambda>v (k, d). vi_SetDefault (file_viper f) v k d) v xs = v"
  by (induction xs) (auto simp: demo_viper_def)

lemma demo_binds: "bind_all (file_viper f) bs v = Inr v"
  by (induction bs) (auto simp: demo_viper_def)

lemma demo_dotenv: "load_dotenvs demo_os ps e = ([], e)"
  by (induction ps) (auto simp: demo_os_def)

lemma demo_base: "read_base demo_os (file_viper f) ''/etc/app.yaml'' v = Inr (v, ''/etc/app.yaml'', ''/etc'', False)"
proof -
  have p: "path_Abs demo_os ''/etc/app.yaml'' = Inr ''/etc/app.yaml''" "path_Dir ''/etc/app.yaml'' = ''/etc''"
    "\<not> equal_fold (path_Base ''/etc/app.yaml'') ''config.yaml''" by code_simp+
  then show ?thesis by (simp add: read_base_def) (simp add: demo_viper_def)
qed

lemma demo_load:
  assumes "e ''APP_ENV'' = ''''" "app_Env (cfg_App (f e)) \<noteq> ''''"
  shows "LoadWithMeta demo_os (file_viper f) ''/etc/app.yaml'' '''' e = (Inr (f e), demo_meta)"
proof -
  have env: "os_Getenv demo_os e EnvVarAppEnv = ''''" using assms(1) by (simp add: demo_os_def constants)
  show ?thesis
    using assms(2) unfolding LoadWithMeta_def Let_def bindSensitiveEnvs_def loadDotenvFiles_def demo_defaults demo_binds demo_dotenv
    by (simp add: env demo_base) (simp add: demo_viper_def demo_meta_def resolve_env_def)
qed

lemma demo_load_config:
  "LoadWithMeta demo_os (file_viper (\<lambda>_. demo_config)) (fl_cfgFile demo_flags) (fl_env demo_flags) (\<lambda>_. '''') = (Inr demo_config, demo_meta)"
  using demo_load [of "\<lambda>_. ''''" "\<lambda>_. demo_config"] by (simp add: demo_flags_def demo_config_def constants)


text \<open>C20: Showing the configuration never shows a secret: two runs that load configurations differing only in the value of one of the
  bound secrets, set in both, print the same text and end the same way, provided the optional validation passes in both.\<close>

theorem config_show_hides_secrets:
  assumes "LoadWithMeta os vi (fl_cfgFile fl) (fl_env fl) e = (Inr cfg, meta)"
    "LoadWithMeta os vi (fl_cfgFile fl) (fl_env fl) e' = (Inr (set_secret key s cfg), meta)"
    "s \<noteq> ''''" "secret_at key cfg \<noteq> ''''" "fl_check fl \<longrightarrow> Validate cfg = None \<and> Validate (set_secret key s cfg) = None"
  shows "runConfigShow os vi ya fl e' = runConfigShow os vi ya fl e"
proof -
  have "MaskedCopy cfg = MaskedCopy (set_secret key (secret_at key cfg) cfg)" by (simp add: set_secret_same)
  also have "\<dots> = MaskedCopy (set_secret key s cfg)" using assms(3,4) by (simp add: MaskedCopy_set_secret mask_def)
  finally have m: "MaskedCopy (set_secret key s cfg) = MaskedCopy cfg" by simp
  have "cfg_App (set_secret key s cfg) = cfg_App cfg" by (simp add: set_secret_def)
  moreover have "EnabledModules (set_secret key s cfg) = EnabledModules cfg" using m MaskedCopy_modules by metis
  ultimately have "printLoadSummary (set_secret key s cfg) meta = printLoadSummary cfg meta" by (simp add: printLoadSummary_def)
  then show ?thesis using assms(1,2,5) m by (auto simp: runConfigShow_def MarshalYAMLMasked_def)
qed

definition demo_yaml :: "Config yaml_api" where
  "demo_yaml = \<lparr>ya_Decode = Inr, ya_Marshal = (\<lambda>c. Inr (''password: '' @ db_Password (cfg_Database c)))\<rparr>"

theorem config_show_hides_secrets_witness:
  "runConfigShow demo_os (file_viper (\<lambda>e. set_secret ''database.password'' (e ''DATABASE_PASSWORD'') demo_config)) demo_yaml demo_flags
     (\<lambda>k. if k = ''DATABASE_PASSWORD'' then ''hunter2'' else '''') =
   runConfigShow demo_os (file_viper (\<lambda>e. set_secret ''database.password'' (e ''DATABASE_PASSWORD'') demo_config)) demo_yaml demo_flags
     (\<lambda>k. if k = ''DATABASE_PASSWORD'' then ''letmein'' else '''')"
proof -
  let ?f = "\<lambda>e :: string \<Rightarrow> string. set_secret ''database.password'' (e ''DATABASE_PASSWORD'') demo_config"
  let ?e = "\<lambda>pw k. if k = ''DATABASE_PASSWORD'' then pw else ''''"
  have set2: "set_secret ''database.password'' x (set_secret ''database.password'' y demo_config) = set_secret ''database.password'' x demo_config" for x y
    by (simp add: set_secret_def)
  have env: "app_Env (cfg_App (?f (?e pw))) \<noteq> ''''" for pw by (simp add: set_secret_def demo_config_def constants)
  have l: "LoadWithMeta demo_os (file_viper ?f) (fl_cfgFile demo_flags) (fl_env demo_flags) (?e pw) =
      (Inr (set_secret ''database.password'' pw demo_config), demo_meta)" for pw
    using demo_load [of "?e pw" ?f] env by (simp add: demo_flags_def)
  show ?thesis
  proof (rule config_show_hides_secrets [OF l [of "''letmein''"]])
    show "LoadWithMeta demo_os (file_viper ?f) (fl_cfgFile demo_flags) (fl_env demo_flags) (?e ''hunter2'') =
      (Inr (set_secret ''database.password'' ''hunter2'' (set_secret ''database.password'' ''letmein'' demo_config)), demo_meta)"
      unfolding set2 by (rule l)
    show "secret_at ''database.password'' (set_secret ''database.password'' ''letmein'' demo_config) \<noteq> ''''"
      by (simp add: secret_at_def set_secret_def)
  qed (simp_all add: demo_flags_def)
qed

text \<open>The health command tells whether the server it is configured for is healthy: with a loaded configuration whose HTTP server is
  enabled and a known probe, it asks the address of that server, by TLS exactly when the server uses it, for one of the system
  paths; and if the server answers as its router and middleware say, the command succeeds exactly when the path is not
  the readiness path or every dependency check passes.\<close>

lemma health_command_reports:
  assumes "LoadWithEnv os vi (fl_cfgFile fl) (fl_env fl) e = Inr cfg" "http_Enabled (cfg_HTTP cfg)" "probePath (fl_probe fl) = Inr path" "fl_url fl = ''''"
    "gx_Method c = ''GET''" "gx_FullPath c = path" "gx_Path c = path"
    "\<And>client url. url = (if tls_Enabled (http_TLS (cfg_HTTP cfg)) then ''https'' else ''http'') @ ''://'' @
        (if http_Host (cfg_HTTP cfg) \<in> {''0.0.0.0'', ''''} then ''127.0.0.1'' else http_Host (cfg_HTTP cfg)) @ '':'' @
        show_int (http_Port (cfg_HTTP cfg)) @ path \<Longrightarrow>
      hc_SkipVerify client = tls_Enabled (http_TLS (cfg_HTTP cfg)) \<Longrightarrow>
      Some (get client url) = map_option Inr (probe_status lib sc cfg jwt redis memory h c s w)"
  shows "runHealth os vi True get fl e = None \<longleftrightarrow> path \<noteq> PathReadiness \<or> checks_pass (hh_checkers h) w"
proof -
  let ?tls = "tls_Enabled (http_TLS (cfg_HTTP cfg))"
  obtain url where url: "resolveHealthProbe os vi fl e = Inr (url, ?tls)"
    "url = (if ?tls then ''https'' else ''http'') @ ''://'' @
        (if http_Host (cfg_HTTP cfg) \<in> {''0.0.0.0'', ''''} then ''127.0.0.1'' else http_Host (cfg_HTTP cfg)) @ '':'' @
        show_int (http_Port (cfg_HTTP cfg)) @ path"
    using assms(1-4) by (simp add: resolveHealthProbe_def buildHealthURL_def Let_def)
  have sys: "path \<in> set SystemPaths" using assms(3) by (auto simp: probePath_def SystemPaths_def Let_def split: if_splits)
  have "Some (get (newHealthClient True ?tls) url) = map_option Inr (probe_status lib sc cfg jwt redis memory h c s w)"
    by (rule assms(8) [OF url(2)]) (simp add: newHealthClient_def)
  then have "get (newHealthClient True ?tls) url = Inr (if path = PathReadiness \<and> \<not> checks_pass (hh_checkers h) w then 503 else 200)"
    using probe_passes [OF assms(5), of lib sc cfg jwt redis memory h s w] assms(6,7) sys by simp
  then show ?thesis using url(1) by (auto simp: runHealth_def)
qed

lemma health_command_reports_example:
  "runHealth demo_os (file_viper (\<lambda>_. demo_config)) True
     (\<lambda>client url. if url = ''http://127.0.0.1:8080/readiness'' then Inr 503 else Inl (Sentinel ''refused'')) demo_flags (\<lambda>_. '''') \<noteq> None"
proof -
  let ?h = "app_health demo_db_env 5000000000 demo_config demo_DB" and ?c = "probe_request PathReadiness"
  have l: "LoadWithEnv demo_os (file_viper (\<lambda>_. demo_config)) (fl_cfgFile demo_flags) (fl_env demo_flags) (\<lambda>_. '''') = Inr demo_config"
    using demo_load_config by (simp add: LoadWithEnv_def)
  have p: "probePath (fl_probe demo_flags) = Inr PathReadiness" unfolding demo_flags_def by code_simp
  have fails: "\<not> checks_pass (hh_checkers ?h) False" by (simp add: app_health_pass demo_db_env_def)
  have st: "probe_status ref_jwt False demo_config None None demo_store ?h ?c () False = Some 503"
    using probe_passes [of ?c ref_jwt False demo_config None None demo_store ?h "()" False] fails by (simp add: probe_request_def SystemPaths_def)
  have u: "''http'' @ ''://'' @ ''127.0.0.1'' @ '':'' @ show_int (http_Port (cfg_HTTP demo_config)) @ PathReadiness = ''http://127.0.0.1:8080/readiness''"
    by (simp add: demo_config_def show_int_def show_nat.simps path_defs)
  show ?thesis
    by (subst health_command_reports [OF l _ p, where h = ?h and c = ?c and w = False and s = "()" and lib = ref_jwt and sc = False
          and jwt = None and redis = None and memory = demo_store])
      (use st u fails in \<open>simp_all add: probe_request_def demo_config_def demo_flags_def\<close>)
qed

end
