(* ===== verification/Data_Commands.thy ===== *)
theory Data_Commands
  imports Migrate Database Logging
begin

section \<open>Commands: migrations and model generation\<close>

text \<open>
  \<^verbatim>\<open>cmd/database.go\<close>, \<^verbatim>\<open>cmd/migrate.go\<close> and \<^verbatim>\<open>cmd/gen.go\<close>. A command loads the configuration, opens the database, does its work and
  closes the database again; it answers its error and what it prints. \<open>'d\<close> is the state of the database server.
\<close>

abbreviation LF :: string where "LF \<equiv> [CHR 0x0A]"

text \<open>What the commands share: the loader, the logger's level parser and the database.\<close>

record ('e, 'v, 'l, 'd) cmd_env =
  ce_os :: "'e os_api"
  ce_viper :: "('v, 'e) viper_api"
  ce_parse_level :: "string \<Rightarrow> (gerr, 'l) result"
  ce_info :: 'l
  ce_db :: "'d db_env"
  ce_migrator :: "DB \<Rightarrow> 'd migrator_lib"
  ce_rfc3339 :: "int \<Rightarrow> string"

record cmd_flags =
  cf_cfgFile :: string
  cf_env :: string
  cf_dir :: string
  cf_dryRun :: bool

definition open_database ::
  "('e, 'v, 'l, 'd) cmd_env \<Rightarrow> cmd_flags \<Rightarrow> 'e \<Rightarrow> 'd \<Rightarrow> (gerr, Config \<times> DB) result \<times> 'd" where
  "open_database ce fl e d =
     (case LoadWithEnv (ce_os ce) (ce_viper ce) (cf_cfgFile fl) (cf_env fl) e of
        Inl err \<Rightarrow> (Inl (wrapl ''failed to load config'' err), d)
      | Inr cfg \<Rightarrow>
          (case newLoggerFromConfig (ce_parse_level ce) (ce_info ce) cfg of
             Inl err \<Rightarrow> (Inl err, d)
           | Inr lg \<Rightarrow>
               (case NewDB (ce_db ce) cfg d of
                  (Inl err, d1) \<Rightarrow> (Inl (wrapl ''failed to initialize database'' err), d1)
                | (Inr db, d1) \<Rightarrow> (Inr (cfg, db), d1))))"

definition loadDatabase :: "('e, 'v, 'l, 'd) cmd_env \<Rightarrow> cmd_flags \<Rightarrow> 'e \<Rightarrow> 'd \<Rightarrow> (gerr, DB) result \<times> 'd" where
  "loadDatabase ce fl e d = (case open_database ce fl e d of (Inl err, d1) \<Rightarrow> (Inl err, d1) | (Inr (cfg, db), d1) \<Rightarrow> (Inr db, d1))"

text \<open>Work on the opened database, with the deferred \<open>Close\<close>, whose error is dropped.\<close>

definition with_database ::
  "('e, 'v, 'l, 'd) cmd_env \<Rightarrow> cmd_flags \<Rightarrow> 'e \<Rightarrow> (DB \<Rightarrow> 'd \<Rightarrow> (gerr option \<times> string) \<times> 'd) \<Rightarrow> 'd \<Rightarrow> (gerr option \<times> string) \<times> 'd" where
  "with_database ce fl e work d =
     (case loadDatabase ce fl e d of
        (Inl err, d1) \<Rightarrow> ((Some err, ''''), d1)
      | (Inr db, d1) \<Rightarrow> (case work db d1 of (r, d2) \<Rightarrow> (r, snd (db_Close (ce_db ce) (Some db) d2))))"

definition name_lines :: "string list \<Rightarrow> string" where
  "name_lines ns = concat (map (\<lambda>n. ''  - '' @ n @ LF) ns)"

definition up_report :: "bool \<Rightarrow> UpResult \<Rightarrow> string" where
  "up_report dryRun r =
     (if up_PendingCount r = 0 \<and> up_AppliedCount r = 0 then ''No migrations to run'' @ LF
      else if dryRun then ''Dry run: would apply '' @ show_int (up_PendingCount r) @ '' migrations'' @ LF @ name_lines (up_PendingNames r)
      else if up_Group r \<noteq> '''' then ''Migrated to '' @ up_Group r @ LF
      else if up_AppliedCount r > 0 then ''Applied '' @ show_int (up_AppliedCount r) @ '' migration(s)'' @ LF else '''')"

definition runMigrateUp :: "('e, 'v, 'l, 'd) cmd_env \<Rightarrow> cmd_flags \<Rightarrow> 'e \<Rightarrow> 'd \<Rightarrow> (gerr option \<times> string) \<times> 'd" where
  "runMigrateUp ce fl e d =
     with_database ce fl e
       (\<lambda>db d1. case Up (ce_migrator ce db) (cf_dir fl) (cf_dryRun fl) d1 of
                   (Inl err, d2) \<Rightarrow> ((Some err, ''''), d2)
                 | (Inr r, d2) \<Rightarrow> ((None, up_report (cf_dryRun fl) r), d2)) d"

definition down_report :: "bool \<Rightarrow> DownResult \<Rightarrow> string" where
  "down_report dryRun r =
     (if dn_RollbackCount r = 0 then ''No migrations to rollback'' @ LF
      else if dryRun then
        ''Dry run: would rollback the last migration group ('' @ show_int (dn_RollbackCount r) @ '' migrations)'' @ LF @ name_lines (dn_RollbackNames r)
      else if dn_Group r \<noteq> '''' then ''Rolled back to '' @ dn_Group r @ LF else '''')"

definition runMigrateDown :: "('e, 'v, 'l, 'd) cmd_env \<Rightarrow> cmd_flags \<Rightarrow> 'e \<Rightarrow> 'd \<Rightarrow> (gerr option \<times> string) \<times> 'd" where
  "runMigrateDown ce fl e d =
     with_database ce fl e
       (\<lambda>db d1. case Down (ce_migrator ce db) (cf_dir fl) (cf_dryRun fl) d1 of
                   (Inl err, d2) \<Rightarrow> ((Some err, ''''), d2)
                 | (Inr r, d2) \<Rightarrow> ((None, down_report (cf_dryRun fl) r), d2)) d"

definition status_text :: "(int \<Rightarrow> string) \<Rightarrow> StatusLine \<Rightarrow> string" where
  "status_text rfc l =
     sl_Name l @ '': '' @
     (if sl_Applied l then ''APPLIED (Group '' @ show_int (sl_GroupID l) @ '', '' @ rfc (sl_MigratedAt l) @ '')'' else ''PENDING'') @ LF"

definition status_report :: "(int \<Rightarrow> string) \<Rightarrow> StatusLine list \<Rightarrow> string" where
  "status_report rfc ls =
     (if ls = [] then ''No migrations found'' @ LF
      else ''Migration Status:'' @ LF @ ''================'' @ LF @ concat (map (status_text rfc) ls) @
           LF @ ''Total migrations: '' @ show_int (int (length ls)) @ LF)"

definition runMigrateStatus :: "('e, 'v, 'l, 'd) cmd_env \<Rightarrow> cmd_flags \<Rightarrow> 'e \<Rightarrow> 'd \<Rightarrow> (gerr option \<times> string) \<times> 'd" where
  "runMigrateStatus ce fl e d =
     with_database ce fl e
       (\<lambda>db d1. case Status (ce_migrator ce db) (cf_dir fl) d1 of
                   (Inl err, d2) \<Rightarrow> ((Some err, ''''), d2)
                 | (Inr ls, d2) \<Rightarrow> ((None, status_report (ce_rfc3339 ce) ls), d2)) d"

definition runMigrateCreate ::
  "file_env \<Rightarrow> string \<Rightarrow> string \<Rightarrow> cmd_flags \<Rightarrow> string \<Rightarrow> (string \<rightharpoonup> string) \<Rightarrow> (gerr option \<times> string) \<times> (string \<rightharpoonup> string)" where
  "runMigrateCreate env wd timestamp fl name fs =
     (case Create env wd timestamp (cf_dir fl) name fs of
        (Inl err, fs1) \<Rightarrow> ((Some err, ''''), fs1)
      | (Inr (upFile, downFile), fs1) \<Rightarrow>
          ((None, ''Created migration files:'' @ LF @ ''  '' @ upFile @ LF @ ''  '' @ downFile @ LF), fs1))"

subsection \<open>Generating models\<close>

record gen_flags =
  gf_Tables :: "string list"
  gf_Exclude :: "string list"
  gf_Output :: string
  gf_Package :: string
  gf_Schema :: string
  gf_JSONTags :: bool
  gf_ValidatorTags :: bool
  gf_WithRelations :: bool
  gf_NoExpand :: bool
  gf_DryRun :: bool
  gf_RelationsChanged :: bool

definition add_value :: "string list \<Rightarrow> string \<Rightarrow> string list" where
  "add_value out part =
     (let p = trim_space part in if p = '''' then out else if p \<in> set out then out else out @ [p])"

definition splitFlagValues :: "string list \<Rightarrow> string list" where
  "splitFlagValues vs = foldl (\<lambda>out v. foldl add_value out (splitc CHR '','' v)) [] vs"

fun check_names :: "string \<Rightarrow> string list \<Rightarrow> gerr option" where
  "check_names flag [] = None"
| "check_names flag (n # ns) =
     (case validateTableName n of
        Some err \<Rightarrow> Some (wrapl (''invalid '' @ flag @ '' '' @ go_quote n) err)
      | None \<Rightarrow> check_names flag ns)"

text \<open>\<open>schema db\<close> is the catalogue of the opened database; \<open>relations\<close> reads and checks the file of \<open>--relations\<close>.\<close>

definition gen_options :: "gen_flags \<Rightarrow> string list \<Rightarrow> Relation list \<Rightarrow> GenerateOptions" where
  "gen_options gf exclude relations =
     \<lparr>opt_OutputDir = gf_Output gf, opt_PackageName = gf_Package gf, opt_Driver = '''', opt_Schema = gf_Schema gf,
      opt_JSONTags = gf_JSONTags gf, opt_ValidatorTags = gf_ValidatorTags gf, opt_WithRelations = gf_WithRelations gf,
      opt_NoExpand = gf_NoExpand gf, opt_DryRun = gf_DryRun gf, opt_Exclude = exclude, opt_Aliases = None, opt_Relations = relations\<rparr>"

definition gen_tables :: "schema_db \<Rightarrow> string \<Rightarrow> gen_flags \<Rightarrow> (gerr, string list) result" where
  "gen_tables sdb driver gf =
     (let tableFlags = splitFlagValues (gf_Tables gf) in
      if tableFlags \<noteq> [] then (case check_names ''--table'' tableFlags of Some err \<Rightarrow> Inl err | None \<Rightarrow> Inr tableFlags)
      else (case GetTablesInSchema sdb driver (gf_Schema gf) of
              Inl err \<Rightarrow> Inl (wrapl ''failed to get tables'' err)
            | Inr ts \<Rightarrow> Inr ts))"

definition print_out :: "string \<Rightarrow> gen_world \<Rightarrow> gen_world" where
  "print_out t w = w\<lparr>gw_out := gw_out w @ t\<rparr>"

definition gen_work ::
  "gen_env \<Rightarrow> schema_db \<Rightarrow> (bool \<Rightarrow> (gerr, Relation list) result) \<Rightarrow> string \<Rightarrow> gen_flags \<Rightarrow> gen_world \<Rightarrow> gerr option \<times> gen_world" where
  "gen_work env sdb relations driver gf w =
     (case gen_tables sdb driver gf of
        Inl err \<Rightarrow> (Some err, w)
      | Inr tables \<Rightarrow>
          if tables = [] then (None, print_out (''No tables found'' @ LF) w)
          else (case relations (gf_RelationsChanged gf) of
                  Inl err \<Rightarrow> (Some (wrapl ''load --relations'' err), w)
                | Inr rs \<Rightarrow>
                    let exclude = splitFlagValues (gf_Exclude gf) in
                    (case check_names ''--exclude'' exclude of
                       Some err \<Rightarrow> (Some err, w)
                     | None \<Rightarrow>
                         (case GenerateModels env sdb driver tables (gen_options gf exclude rs) w of
                            (Some err, w1) \<Rightarrow> (Some err, w1)
                          | (None, w1) \<Rightarrow>
                              if gf_DryRun gf then (None, w1)
                              else (None, print_out (LF @ ''Successfully generated model(s) into '' @ gf_Output gf @ LF) w1)))))"

definition runGenModel ::
  "('e, 'v, 'l, 'd) cmd_env \<Rightarrow> gen_env \<Rightarrow> ('d \<Rightarrow> schema_db) \<Rightarrow> (bool \<Rightarrow> (gerr, Relation list) result) \<Rightarrow> cmd_flags \<Rightarrow> gen_flags \<Rightarrow> 'e \<Rightarrow>
   gen_world \<Rightarrow> 'd \<Rightarrow> gerr option \<times> gen_world \<times> 'd" where
  "runGenModel ce env schema relations fl gf e w d =
     (case open_database ce fl e d of
        (Inl err, d1) \<Rightarrow> (Some err, w, d1)
      | (Inr (cfg, db), d1) \<Rightarrow>
          (case gen_work env (schema d1) relations (db_Driver (cfg_Database cfg)) gf w of
             (err, w1) \<Rightarrow> (err, w1, snd (db_Close (ce_db ce) (Some db) d1))))"

subsection \<open>Lemmas\<close>

lemma foldl_add_value:
  "distinct out \<Longrightarrow> distinct (foldl add_value out ps)" "set (foldl add_value out ps) = set out \<union> (trim_space ` set ps - {''''})"
  by (induction ps arbitrary: out) (auto simp: add_value_def Let_def)

text \<open>The values of a repeatable, comma-separated flag: every non-blank part, trimmed, once.\<close>

lemma splitFlagValues_spec:
  "distinct (splitFlagValues vs)" "set (splitFlagValues vs) = trim_space ` (\<Union>v \<in> set vs. set (splitc CHR '','' v)) - {''''}"
proof -
  have "distinct (foldl (\<lambda>out v. foldl add_value out (splitc CHR '','' v)) out vs) \<and>
      set (foldl (\<lambda>out v. foldl add_value out (splitc CHR '','' v)) out vs) =
        set out \<union> (trim_space ` (\<Union>v \<in> set vs. set (splitc CHR '','' v)) - {''''})" if "distinct out" for out
    using that by (induction vs arbitrary: out) (auto simp: foldl_add_value)
  from this [of "[]"] show "distinct (splitFlagValues vs)"
    "set (splitFlagValues vs) = trim_space ` (\<Union>v \<in> set vs. set (splitc CHR '','' v)) - {''''}"
    by (simp_all add: splitFlagValues_def)
qed

lemma check_names_None: "check_names flag ns = None \<longleftrightarrow> (\<forall>n \<in> set ns. validateTableName n = None)"
  by (induction ns) (auto split: option.splits)

text \<open>Opening and closing leaves the migrations alone.\<close>

definition db_keeps :: "('d \<Rightarrow> Migration list) \<Rightarrow> 'd db_env \<Rightarrow> bool" where
  "db_keeps st env \<longleftrightarrow>
     (\<forall>db l d. st (snd (de_Ping env db l d)) = st d) \<and> (\<forall>db d. st (snd (de_Close env db d)) = st d) \<and>
     (\<forall>p d. st (snd (de_MkdirAll env p d)) = st d)"

lemma keeps_Ping: "db_keeps st env \<Longrightarrow> de_Ping env db l d = (r, d') \<Longrightarrow> st d' = st d"
  unfolding db_keeps_def by (metis snd_conv)

lemma keeps_Mkdir: "db_keeps st env \<Longrightarrow> de_MkdirAll env p d = (r, d') \<Longrightarrow> st d' = st d"
  unfolding db_keeps_def by (metis snd_conv)

lemma open_dialect_keeps: "db_keeps st env \<Longrightarrow> open_dialect env dc d = (r, d') \<Longrightarrow> st d' = st d"
  by (auto simp: open_dialect_def open_sqlite_def Let_def dest: keeps_Mkdir split: if_splits option.splits prod.splits)

lemma NewDB_keeps:
  assumes "db_keeps st env" "NewDB env cfg d = (r, d')"
  shows "st d' = st d"
proof -
  obtain r1 d1 where o: "open_dialect env (cfg_Database cfg) d = (r1, d1)" by fastforce
  then have "st d1 = st d" by (rule open_dialect_keeps [OF assms(1)])
  then show ?thesis
    using assms o by (auto simp: NewDB_def Let_def dest: keeps_Ping split: sum.splits prod.splits option.splits)
qed

lemma with_database_ok:
  assumes "db_keeps st (ce_db ce)" "with_database ce fl e work d = ((None, out), d')"
  shows "\<exists>db d1 d2. st d1 = st d \<and> work db d1 = ((None, out), d2) \<and> st d' = st d2"
proof -
  obtain db d1 where l: "loadDatabase ce fl e d = (Inr db, d1)"
    using assms(2) by (auto simp: with_database_def split: prod.splits sum.splits)
  then obtain cfg where "NewDB (ce_db ce) cfg d = (Inr db, d1)"
    by (auto simp: loadDatabase_def open_database_def split: sum.splits prod.splits)
  then have "st d1 = st d" by (rule NewDB_keeps [OF assms(1)])
  moreover obtain d2 where "work db d1 = ((None, out), d2)" "d' = snd (db_Close (ce_db ce) (Some db) d2)"
    using assms(2) l by (auto simp: with_database_def split: prod.splits)
  moreover have "st (snd (db_Close (ce_db ce) (Some db) d2)) = st d2" using assms(1) by (simp add: db_Close_def db_keeps_def)
  ultimately show ?thesis by metis
qed

lemma apply_pending_applied: "m \<in> set (apply_pending now ms) \<Longrightarrow> mi_GroupID m \<noteq> 0"
  using last_group_nonneg [of ms] by (auto simp: apply_pending_def split: if_splits)

lemma apply_pending_names: "map mi_Name (apply_pending now ms) = map mi_Name ms"
  by (simp add: apply_pending_def)

subsection \<open>Properties\<close>


definition demo_cmd_env :: "(string \<Rightarrow> string, bool, unit, Migration list \<times> bool) cmd_env" where
  "demo_cmd_env = \<lparr>ce_os = demo_os, ce_viper = demo_viper, ce_parse_level = (\<lambda>_. Inr ()), ce_info = (),
     ce_db = \<lparr>de_MkdirAll = (\<lambda>_ w. (None, w)), de_Open = (\<lambda>_ _. None), de_Ping = (\<lambda>_ _ w. (None, w)), de_Close = (\<lambda>_ w. (None, w))\<rparr>,
     ce_migrator = (\<lambda>_. ref_migrator), ce_rfc3339 = (\<lambda>_. ''2025-01-01T00:00:00Z'')\<rparr>"

definition demo_cmd_flags :: cmd_flags where
  "demo_cmd_flags = \<lparr>cf_cfgFile = '''', cf_env = '''', cf_dir = ''m'', cf_dryRun = False\<rparr>"

lemma demo_up_command:
  "fst (runMigrateUp demo_cmd_env demo_cmd_flags (\<lambda>_. '''') demo_migrations) = (None, ''Migrated to group'' @ LF)"
  "fst (fst (runMigrateStatus demo_cmd_env demo_cmd_flags (\<lambda>_. '''') (snd (runMigrateUp demo_cmd_env demo_cmd_flags (\<lambda>_. '''') demo_migrations)))) = None"
  by code_simp+


end
