(* ===== verification/Metrics.thy ===== *)
theory Metrics
  imports Http_Router
begin

section \<open>Metrics and tracing\<close>

text \<open>
  \<^verbatim>\<open>internal/metrics\<close> and \<^verbatim>\<open>internal/tracing\<close>. The state is the set of families that \<open>NewMetrics\<close> makes and the calls
  that the program has made on them, in order; what Prometheus computes from the calls is not modelled. A call on a field that is
  \<open>nil\<close>, with a wrong number of label values or with a negative amount for a counter panics: it is \<open>None\<close>. Durations are of type \<open>'f\<close>.
\<close>

subsection \<open>Families\<close>

datatype metric_kind = Counter | Gauge | Histogram

datatype 'f metric_call =
  M_Add string "string list" int
| M_Set string int
| M_Inc string
| M_Dec string
| M_Observe string "string list" 'f

record 'f Metrics =
  mt_registry :: bool
  mt_families :: "string \<rightharpoonup> metric_kind \<times> string list"
  mt_calls :: "'f metric_call list"

definition http_families :: "(string \<times> metric_kind \<times> string list) list" where
  "http_families =
     [(''http_requests_total'', Counter, [''method'', ''path'', ''status'']),
      (''http_request_duration_seconds'', Histogram, [''method'', ''path'']),
      (''http_in_flight_requests'', Gauge, [])]"

definition db_families :: "(string \<times> metric_kind \<times> string list) list" where
  "db_families =
     [(''db_connections_active'', Gauge, []), (''db_connections_idle'', Gauge, []),
      (''db_query_duration_seconds'', Histogram, [''operation'', ''table''])]"

definition redis_families :: "(string \<times> metric_kind \<times> string list) list" where
  "redis_families =
     [(''redis_cache_hits_total'', Counter, [''key_prefix'']), (''redis_cache_misses_total'', Counter, [''key_prefix'']),
      (''redis_operation_duration_seconds'', Histogram, [''operation''])]"

definition net_families :: "(string \<times> metric_kind \<times> string list) list" where
  "net_families =
     [(''tcp_connections'', Gauge, []), (''tcp_bytes_received_total'', Counter, [''remote_addr'']),
      (''tcp_bytes_sent_total'', Counter, [''remote_addr'']), (''udp_packets_received_total'', Counter, [''remote_addr'']),
      (''udp_packets_sent_total'', Counter, [''remote_addr''])]"

definition all_families :: "(string \<times> metric_kind \<times> string list) list" where
  "all_families = http_families @ db_families @ redis_families @ net_families"

definition NewMetrics :: "Config \<Rightarrow> 'f Metrics" where
  "NewMetrics cfg =
     (if \<not> met_Enabled (cfg_Metrics cfg)
      then \<lparr>mt_registry = False, mt_families = Map.empty, mt_calls = []\<rparr>
      else \<lparr>mt_registry = True, mt_families = map_of all_families, mt_calls = []\<rparr>)"

definition Registry :: "'f Metrics \<Rightarrow> bool" where
  "Registry m = mt_registry m"

subsection \<open>Calls\<close>

fun call_ok :: "'f Metrics \<Rightarrow> 'f metric_call \<Rightarrow> bool" where
  "call_ok m (M_Add name ls n) = (case mt_families m name of Some (Counter, names) \<Rightarrow> length names = length ls \<and> 0 \<le> n | _ \<Rightarrow> False)"
| "call_ok m (M_Set name n) = (mt_families m name = Some (Gauge, []))"
| "call_ok m (M_Inc name) = (mt_families m name = Some (Gauge, []))"
| "call_ok m (M_Dec name) = (mt_families m name = Some (Gauge, []))"
| "call_ok m (M_Observe name ls v) = (case mt_families m name of Some (Histogram, names) \<Rightarrow> length names = length ls | _ \<Rightarrow> False)"

definition metric_call :: "'f metric_call \<Rightarrow> 'f Metrics \<Rightarrow> 'f Metrics option" where
  "metric_call k m = (if call_ok m k then Some (m\<lparr>mt_calls := mt_calls m @ [k]\<rparr>) else None)"

subsection \<open>Recording\<close>

definition UpdateDBConnectionStats :: "int \<Rightarrow> int \<Rightarrow> 'f Metrics \<Rightarrow> 'f Metrics option" where
  "UpdateDBConnectionStats active idle m =
     (if \<not> mt_registry m then Some m
      else Option.bind (metric_call (M_Set ''db_connections_active'' active) m) (metric_call (M_Set ''db_connections_idle'' idle)))"

definition RecordDBQuery :: "string \<Rightarrow> string \<Rightarrow> 'f \<Rightarrow> 'f Metrics \<Rightarrow> 'f Metrics option" where
  "RecordDBQuery operation table duration m =
     (if \<not> mt_registry m then Some m
      else metric_call (M_Observe ''db_query_duration_seconds'' [operation, table] duration) m)"

definition RecordRedisCacheHit :: "string \<Rightarrow> 'f Metrics \<Rightarrow> 'f Metrics option" where
  "RecordRedisCacheHit keyPrefix m =
     (if \<not> mt_registry m then Some m else metric_call (M_Add ''redis_cache_hits_total'' [keyPrefix] 1) m)"

definition RecordRedisCacheMiss :: "string \<Rightarrow> 'f Metrics \<Rightarrow> 'f Metrics option" where
  "RecordRedisCacheMiss keyPrefix m =
     (if \<not> mt_registry m then Some m else metric_call (M_Add ''redis_cache_misses_total'' [keyPrefix] 1) m)"

definition RecordRedisOperation :: "string \<Rightarrow> 'f \<Rightarrow> 'f Metrics \<Rightarrow> 'f Metrics option" where
  "RecordRedisOperation operation duration m =
     (if \<not> mt_registry m then Some m
      else metric_call (M_Observe ''redis_operation_duration_seconds'' [operation] duration) m)"

definition UpdateTCPConnections :: "int \<Rightarrow> 'f Metrics \<Rightarrow> 'f Metrics option" where
  "UpdateTCPConnections count m = (if \<not> mt_registry m then Some m else metric_call (M_Set ''tcp_connections'' count) m)"

definition RecordTCPBytesReceived :: "string \<Rightarrow> int \<Rightarrow> 'f Metrics \<Rightarrow> 'f Metrics option" where
  "RecordTCPBytesReceived addr bytes m =
     (if \<not> mt_registry m then Some m else metric_call (M_Add ''tcp_bytes_received_total'' [addr] bytes) m)"

definition RecordTCPBytesSent :: "string \<Rightarrow> int \<Rightarrow> 'f Metrics \<Rightarrow> 'f Metrics option" where
  "RecordTCPBytesSent addr bytes m =
     (if \<not> mt_registry m then Some m else metric_call (M_Add ''tcp_bytes_sent_total'' [addr] bytes) m)"

definition RecordUDPPacketReceived :: "string \<Rightarrow> 'f Metrics \<Rightarrow> 'f Metrics option" where
  "RecordUDPPacketReceived addr m =
     (if \<not> mt_registry m then Some m else metric_call (M_Add ''udp_packets_received_total'' [addr] 1) m)"

definition RecordUDPPacketSent :: "string \<Rightarrow> 'f Metrics \<Rightarrow> 'f Metrics option" where
  "RecordUDPPacketSent addr m =
     (if \<not> mt_registry m then Some m else metric_call (M_Add ''udp_packets_sent_total'' [addr] 1) m)"

subsection \<open>Requests\<close>

text \<open>How the rest of the chain ends: with a status, or with a panic that goes on to the recovery middleware, which stands
  before this one.\<close>

datatype 'm ending = Finished int 'm | Panicked 'm

definition go_on :: "'m option \<Rightarrow> 'm \<Rightarrow> ('m \<Rightarrow> 'm ending) \<Rightarrow> 'm ending" where
  "go_on r m k = (case r of None \<Rightarrow> Panicked m | Some m' \<Rightarrow> k m')"

definition path_label :: "gctx \<Rightarrow> string" where
  "path_label c = (if gx_FullPath c = '''' then ''unknown'' else gx_FullPath c)"

definition metrics_Middleware ::
  "string list \<Rightarrow> gctx \<Rightarrow> 'f \<Rightarrow> ('f Metrics \<Rightarrow> 'f Metrics ending) \<Rightarrow> 'f Metrics \<Rightarrow> 'f Metrics ending" where
  "metrics_Middleware skipPaths c duration following m =
     (if \<not> mt_registry m then following m
      else if gx_FullPath c \<in> set skipPaths then following m
      else go_on (metric_call (M_Inc ''http_in_flight_requests'') m) m (\<lambda>m1.
        case following m1 of
          Panicked m2 \<Rightarrow> Panicked m2
        | Finished status m2 \<Rightarrow>
            go_on (metric_call (M_Dec ''http_in_flight_requests'') m2) m2 (\<lambda>m3.
            go_on (metric_call (M_Add ''http_requests_total'' [gx_Method c, path_label c, show_int status] 1) m3) m3 (\<lambda>m4.
            go_on (metric_call (M_Observe ''http_request_duration_seconds'' [gx_Method c, path_label c] duration) m4) m4
              (Finished status)))))"

text \<open>The endpoint: what the library's handler writes for the registry, or 503.\<close>

definition metrics_Handler :: "('f Metrics \<Rightarrow> int \<times> string) \<Rightarrow> 'f Metrics \<Rightarrow> int \<times> string" where
  "metrics_Handler expose m =
     (if \<not> mt_registry m then (503, ''{'' @ go_quote ''error'' @ '':'' @ go_quote ''metrics disabled'' @ ''}'') else expose m)"

subsection \<open>Tracing\<close>

record 'p Tracer =
  tc_provider :: "'p option"

text \<open>\<open>export\<close> makes the exporter for an endpoint, \<open>provide\<close> the provider that samples at a rate.\<close>

definition NewTracer :: "(string \<Rightarrow> (gerr, 'x) result) \<Rightarrow> ('x \<Rightarrow> float64 \<Rightarrow> 'p) \<Rightarrow> Config \<Rightarrow> (gerr, 'p Tracer) result" where
  "NewTracer export provide cfg =
     (if \<not> tr_Enabled (cfg_Tracing cfg) then Inr \<lparr>tc_provider = None\<rparr>
      else case export (tr_Endpoint (cfg_Tracing cfg)) of
        Inl err \<Rightarrow> Inl (wrapl ''failed to create trace exporter'' err)
      | Inr x \<Rightarrow> Inr \<lparr>tc_provider = Some (provide x (tr_SampleRate (cfg_Tracing cfg)))\<rparr>)"

definition tracer_Shutdown :: "('p \<Rightarrow> gerr option) \<Rightarrow> 'p Tracer \<Rightarrow> gerr option" where
  "tracer_Shutdown stop t = (case tc_provider t of None \<Rightarrow> None | Some p \<Rightarrow> stop p)"

text \<open>\<open>base\<close> is the middleware of \<^verbatim>\<open>otelgin\<close>.\<close>

definition tracing_Middleware :: "string list \<Rightarrow> 's middleware \<Rightarrow> 's middleware" where
  "tracing_Middleware skipPaths base c s = (if gx_FullPath c \<in> set skipPaths then (None, c, s) else base c s)"

subsection \<open>Lemmas\<close>

text \<open>A registry as \<open>NewMetrics\<close> makes it, with whatever was recorded since.\<close>

definition registered :: "'f Metrics \<Rightarrow> bool" where
  "registered m \<longleftrightarrow> (mt_registry m \<longrightarrow> mt_families m = map_of all_families)"

lemmas families_defs = all_families_def http_families_def db_families_def redis_families_def net_families_def

lemma NewMetrics_registered: "registered (NewMetrics cfg)"
  by (simp add: registered_def NewMetrics_def)

lemma registered_call [simp]: "registered (m\<lparr>mt_calls := ks\<rparr>) = registered m"
  by (simp add: registered_def)

lemma families_of:
  assumes "registered m" "mt_registry m"
  shows "mt_families m name = map_of all_families name"
  using assms by (simp add: registered_def)

lemma metric_call_ok: "call_ok m k \<Longrightarrow> metric_call k m = Some (m\<lparr>mt_calls := mt_calls m @ [k]\<rparr>)"
  by (simp add: metric_call_def)

lemma call_ok_update [simp]: "call_ok (m\<lparr>mt_calls := ks\<rparr>) k = call_ok m k"
  by (cases k) simp_all

text \<open>All recorders, as the calls they stand for.\<close>

datatype 'f recording =
  R_DBStats int int | R_DBQuery string string 'f | R_Hit string | R_Miss string | R_RedisOp string 'f
| R_TCP int | R_TCPIn string int | R_TCPOut string int | R_UDPIn string | R_UDPOut string

fun recorder :: "'f recording \<Rightarrow> 'f Metrics \<Rightarrow> 'f Metrics option" where
  "recorder (R_DBStats a i) = UpdateDBConnectionStats a i"
| "recorder (R_DBQuery q t d) = RecordDBQuery q t d"
| "recorder (R_Hit p) = RecordRedisCacheHit p"
| "recorder (R_Miss p) = RecordRedisCacheMiss p"
| "recorder (R_RedisOp q d) = RecordRedisOperation q d"
| "recorder (R_TCP n) = UpdateTCPConnections n"
| "recorder (R_TCPIn a n) = RecordTCPBytesReceived a n"
| "recorder (R_TCPOut a n) = RecordTCPBytesSent a n"
| "recorder (R_UDPIn a) = RecordUDPPacketReceived a"
| "recorder (R_UDPOut a) = RecordUDPPacketSent a"

fun calls_of :: "'f recording \<Rightarrow> 'f metric_call list" where
  "calls_of (R_DBStats a i) = [M_Set ''db_connections_active'' a, M_Set ''db_connections_idle'' i]"
| "calls_of (R_DBQuery q t d) = [M_Observe ''db_query_duration_seconds'' [q, t] d]"
| "calls_of (R_Hit p) = [M_Add ''redis_cache_hits_total'' [p] 1]"
| "calls_of (R_Miss p) = [M_Add ''redis_cache_misses_total'' [p] 1]"
| "calls_of (R_RedisOp q d) = [M_Observe ''redis_operation_duration_seconds'' [q] d]"
| "calls_of (R_TCP n) = [M_Set ''tcp_connections'' n]"
| "calls_of (R_TCPIn a n) = [M_Add ''tcp_bytes_received_total'' [a] n]"
| "calls_of (R_TCPOut a n) = [M_Add ''tcp_bytes_sent_total'' [a] n]"
| "calls_of (R_UDPIn a) = [M_Add ''udp_packets_received_total'' [a] 1]"
| "calls_of (R_UDPOut a) = [M_Add ''udp_packets_sent_total'' [a] 1]"

fun not_negative :: "'f recording \<Rightarrow> bool" where
  "not_negative (R_TCPIn a n) = (0 \<le> n)"
| "not_negative (R_TCPOut a n) = (0 \<le> n)"
| "not_negative _ = True"

lemmas recording_defs = UpdateDBConnectionStats_def RecordDBQuery_def RecordRedisCacheHit_def RecordRedisCacheMiss_def
  RecordRedisOperation_def UpdateTCPConnections_def RecordTCPBytesReceived_def RecordTCPBytesSent_def
  RecordUDPPacketReceived_def RecordUDPPacketSent_def

lemma recorder_spec:
  assumes "registered m" "not_negative r"
  shows "recorder r m = Some (if mt_registry m then m\<lparr>mt_calls := mt_calls m @ calls_of r\<rparr> else m)"
  using assms by (cases r) (auto simp: recording_defs metric_call_def families_of families_defs)

subsection \<open>A history of requests\<close>

text \<open>A request: its context, how long it took, what its handler records and the status it ends with, \<open>None\<close> for a panic.
  The recovery middleware catches the panic.\<close>

type_synonym 'f request = "gctx \<times> 'f \<times> 'f recording list \<times> int option"

fun record_all :: "'f recording list \<Rightarrow> int option \<Rightarrow> 'f Metrics \<Rightarrow> 'f Metrics ending" where
  "record_all [] (Some status) m = Finished status m"
| "record_all [] None m = Panicked m"
| "record_all (r # rs) status m = go_on (recorder r m) m (record_all rs status)"

fun serve_request :: "string list \<Rightarrow> 'f request \<Rightarrow> 'f Metrics \<Rightarrow> 'f Metrics" where
  "serve_request skipPaths (c, duration, rs, status) m =
     (case metrics_Middleware skipPaths c duration (record_all rs status) m of Finished _ m' \<Rightarrow> m' | Panicked m' \<Rightarrow> m')"

text \<open>The calls a request should leave: the gauge goes down only after a handler that returns.\<close>

fun request_calls :: "string list \<Rightarrow> 'f request \<Rightarrow> 'f metric_call list" where
  "request_calls skipPaths (c, duration, rs, status) =
     (if gx_FullPath c \<in> set skipPaths then concat (map calls_of rs)
      else M_Inc ''http_in_flight_requests'' # concat (map calls_of rs) @
        (case status of None \<Rightarrow> []
         | Some st \<Rightarrow> [M_Dec ''http_in_flight_requests'', M_Add ''http_requests_total'' [gx_Method c, path_label c, show_int st] 1,
             M_Observe ''http_request_duration_seconds'' [gx_Method c, path_label c] duration]))"

fun well_recorded :: "'f request \<Rightarrow> bool" where
  "well_recorded (c, duration, rs, status) = list_all not_negative rs"

lemma record_all_spec:
  assumes "registered m" "mt_registry m" "list_all not_negative rs"
  shows "record_all rs status m =
    (let m' = m\<lparr>mt_calls := mt_calls m @ concat (map calls_of rs)\<rparr> in case status of None \<Rightarrow> Panicked m' | Some st \<Rightarrow> Finished st m')"
  using assms
proof (induction rs arbitrary: m)
  case Nil
  then show ?case by (cases status) simp_all
next
  case (Cons r rs)
  have "recorder r m = Some (m\<lparr>mt_calls := mt_calls m @ calls_of r\<rparr>)"
    using recorder_spec [of m r] Cons.prems by simp
  then show ?case
    using Cons.IH [of "m\<lparr>mt_calls := mt_calls m @ calls_of r\<rparr>"] Cons.prems
    by (simp add: go_on_def Let_def cong: option.case_cong)
qed

lemma serve_request_spec:
  assumes "registered m" "mt_registry m" "well_recorded q"
  shows "serve_request skipPaths q m = m\<lparr>mt_calls := mt_calls m @ request_calls skipPaths q\<rparr>"
proof -
  obtain c d rs st where q: "q = (c, d, rs, st)" by (cases q)
  show ?thesis
    using assms unfolding q
    by (auto simp: metrics_Middleware_def go_on_def metric_call_def families_of record_all_spec Let_def families_defs
        split: option.splits)
qed

lemma serve_requests_spec:
  assumes "registered m" "mt_registry m" "list_all well_recorded qs"
  shows "fold (serve_request skipPaths) qs m = m\<lparr>mt_calls := mt_calls m @ concat (map (request_calls skipPaths) qs)\<rparr>"
  using assms
proof (induction qs arbitrary: m)
  case (Cons q qs)
  then show ?case
    using serve_request_spec [of m q skipPaths] Cons.IH [of "m\<lparr>mt_calls := mt_calls m @ request_calls skipPaths q\<rparr>"] by simp
qed simp

fun in_flight_change :: "'f metric_call \<Rightarrow> int" where
  "in_flight_change (M_Inc name) = (if name = ''http_in_flight_requests'' then 1 else 0)"
| "in_flight_change (M_Dec name) = (if name = ''http_in_flight_requests'' then -1 else 0)"
| "in_flight_change _ = 0"

definition in_flight :: "'f Metrics \<Rightarrow> int" where
  "in_flight m = sum_list (map in_flight_change (mt_calls m))"

definition times_counted :: "string list \<Rightarrow> 'f Metrics \<Rightarrow> nat" where
  "times_counted ls m = length (filter (\<lambda>k. k = M_Add ''http_requests_total'' ls 1) (mt_calls m))"

fun lost_panic :: "string list \<Rightarrow> 'f request \<Rightarrow> bool" where
  "lost_panic skipPaths (c, duration, rs, status) = (gx_FullPath c \<notin> set skipPaths \<and> status = None)"

fun ended_as :: "string list \<Rightarrow> string list \<Rightarrow> 'f request \<Rightarrow> bool" where
  "ended_as skipPaths ls (c, duration, rs, status) =
     (gx_FullPath c \<notin> set skipPaths \<and> (case status of None \<Rightarrow> False | Some st \<Rightarrow> ls = [gx_Method c, path_label c, show_int st]))"

lemma calls_of_in_flight: "sum_list (map in_flight_change (calls_of r)) = 0"
  by (cases r) simp_all

lemma calls_of_in_flight_sum: "sum_list (map in_flight_change (concat (map calls_of rs))) = 0"
  by (induction rs) (simp_all add: calls_of_in_flight)

lemma calls_of_not_counted: "filter (\<lambda>k. k = M_Add ''http_requests_total'' ls 1) (calls_of r) = []"
  by (cases r) auto

lemma calls_not_counted: "filter (\<lambda>k. k = M_Add ''http_requests_total'' ls 1) (concat (map calls_of rs)) = []"
  by (induction rs) (simp_all add: calls_of_not_counted)

lemma request_in_flight:
  "sum_list (map in_flight_change (request_calls skipPaths q)) = (if lost_panic skipPaths q then 1 else 0)"
proof -
  obtain c d rs st where "q = (c, d, rs, st)" by (cases q)
  then show ?thesis
    using calls_of_in_flight_sum [of rs] by (auto split: option.splits)
qed

lemma request_counted:
  "length (filter (\<lambda>k. k = M_Add ''http_requests_total'' ls 1) (request_calls skipPaths q)) = (if ended_as skipPaths ls q then 1 else 0)"
proof -
  obtain c d rs st where "q = (c, d, rs, st)" by (cases q)
  then show ?thesis
    using calls_not_counted [of ls rs] by (auto split: option.splits)
qed

lemma requests_in_flight:
  "sum_list (map in_flight_change (concat (map (request_calls skipPaths) qs))) = int (length (filter (lost_panic skipPaths) qs))"
  by (induction qs) (simp_all add: request_in_flight del: request_calls.simps lost_panic.simps)

lemma requests_counted:
  "length (filter (\<lambda>k. k = M_Add ''http_requests_total'' ls 1) (concat (map (request_calls skipPaths) qs))) =
     length (filter (ended_as skipPaths ls) qs)"
  by (induction qs) (simp_all add: request_counted del: request_calls.simps ended_as.simps)

text \<open>C23: What the metrics say after a history of requests, whatever their handlers record. The request counter with some
  label values has counted exactly the requests of no skipped path that ended with that method, route and status. The in-flight
  gauge, with no request running, is the number of requests that panicked: the gauge is not lowered on the way of a panic, so it
  is zero only if no handler ever panicked.\<close>

theorem request_metrics:
  fixes m :: "'f Metrics"
  assumes "met_Enabled (cfg_Metrics cfg)" "list_all well_recorded qs"
    and "m = fold (serve_request skipPaths) qs (NewMetrics cfg)"
  shows "times_counted ls m = length (filter (ended_as skipPaths ls) qs) \<and>
    in_flight m = int (length (filter (lost_panic skipPaths) qs))"
proof -
  let ?m = "NewMetrics cfg :: 'f Metrics"
  have "registered ?m" "mt_registry ?m" "mt_calls ?m = []"
    using assms(1) by (simp_all add: NewMetrics_registered) (simp_all add: NewMetrics_def)
  then have "mt_calls m = concat (map (request_calls skipPaths) qs)"
    using serve_requests_spec [OF _ _ assms(2)] assms(3) by simp
  then show ?thesis
    by (simp add: times_counted_def in_flight_def requests_in_flight requests_counted)
qed

definition metrics_config :: Config where
  "metrics_config = demo_config\<lparr>cfg_Metrics := (cfg_Metrics demo_config)\<lparr>met_Enabled := True\<rparr>\<rparr>"

definition metrics_request :: "string \<Rightarrow> gctx" where
  "metrics_request path = (demo_request '''')\<lparr>gx_FullPath := path\<rparr>"

definition demo_requests :: "string request list" where
  "demo_requests =
     [(metrics_request ''/api/v1/users'', ''0.01'', [R_Miss ''user''], Some 200),
      (metrics_request ''/health'', ''0.01'', [], Some 200),
      (metrics_request ''/api/v1/users'', ''0.02'', [], None)]"

lemma demo_requests_recorded: "list_all well_recorded demo_requests"
  by (simp add: demo_requests_def)

theorem request_metrics_witness:
  "times_counted [''GET'', ''/api/v1/users'', ''200''] (fold (serve_request [''/health'']) demo_requests (NewMetrics metrics_config)) = 1 \<and>
   in_flight (fold (serve_request [''/health'']) demo_requests (NewMetrics metrics_config)) = 1"
proof -
  have "show_int 200 = ''200''" by code_simp
  then show ?thesis
    using request_metrics [OF _ demo_requests_recorded refl, of metrics_config "[''GET'', ''/api/v1/users'', ''200'']" "[''/health'']"]
    by (simp add: metrics_config_def demo_requests_def path_label_def metrics_request_def demo_request_def)
qed

end
