(* ===== verification/Validation.thy ===== *)
theory Validation
  imports User_Service
begin

section \<open>Binding errors and their translation\<close>

text \<open>
  \<^verbatim>\<open>internal/validator/validator.go\<close> and the binding helpers of \<^verbatim>\<open>internal/handler/http/helper.go\<close>. The validator and its Chinese
  translations are libraries: a field error is a tag and what the library's own \<open>Error\<close> says of it, and a registered translation is
  either the library's text or the function that \<open>RegisterTranslation\<close> installs, which asks for the translation again. An answer of
  \<open>None\<close> is a call that does not return.
\<close>

subsection \<open>Errors\<close>

record field_error =
  fe_Field :: string
  fe_Tag :: string
  fe_Error :: string

text \<open>\<^verbatim>\<open>validator.ValidationErrors\<close>, \<^verbatim>\<open>binding.SliceValidationError\<close>, which have nothing to unwrap,
  \<^verbatim>\<open>http.MaxBytesError\<close>, an error that wraps one with its own text, and any other error.\<close>

datatype bind_error =
  FieldErrors "field_error list"
| SliceErrors "bind_error option list"
| MaxBytes int
| Wrapping string bind_error
| OtherError gerr

fun as_fields :: "bind_error \<Rightarrow> field_error list option" where
  "as_fields (FieldErrors fs) = Some fs"
| "as_fields (Wrapping t e) = as_fields e"
| "as_fields _ = None"

fun as_slice :: "bind_error \<Rightarrow> bind_error option list option" where
  "as_slice (SliceErrors es) = Some es"
| "as_slice (Wrapping t e) = as_slice e"
| "as_slice _ = None"

fun as_max_bytes :: "bind_error \<Rightarrow> bool" where
  "as_max_bytes (MaxBytes n) = True"
| "as_max_bytes (Wrapping t e) = as_max_bytes e"
| "as_max_bytes _ = False"

text \<open>The text of an error; \<open>lib\<close> is the text of the library's own errors.\<close>

fun bind_text :: "(bind_error \<Rightarrow> string) \<Rightarrow> bind_error \<Rightarrow> string" where
  "bind_text lib (Wrapping t e) = t"
| "bind_text lib (OtherError g) = error_text g"
| "bind_text lib e = lib e"

definition plain_error :: "string \<Rightarrow> bind_error" where
  "plain_error t = OtherError (Errorf t [])"

subsection \<open>Translation\<close>

datatype translation = Builtin "field_error \<Rightarrow> string" | Retranslate

type_synonym trans_table = "string \<rightharpoonup> translation"

text \<open>\<open>FieldError.Translate\<close>: the registered function of the tag, or the library's error text.\<close>

partial_function (option) Translate :: "trans_table \<Rightarrow> field_error \<Rightarrow> string option" where
  "Translate T fe =
     (case T (fe_Tag fe) of
        None \<Rightarrow> Some (fe_Error fe)
      | Some (Builtin f) \<Rightarrow> Some (f fe)
      | Some Retranslate \<Rightarrow> Translate T fe)"

definition RegisterTranslation :: "string \<Rightarrow> trans_table \<Rightarrow> trans_table" where
  "RegisterTranslation tag T = T(tag \<mapsto> Retranslate)"

text \<open>the translations after \<open>init\<close>, over those of the library.\<close>

definition init_translations :: "trans_table \<Rightarrow> trans_table" where
  "init_translations zh = RegisterTranslation ''search'' zh"

lemma as_slice_size:
  assumes "as_slice e = Some es" "x \<in> set es"
  shows "size_option size x < size_option size (Some e)"
  using assms
proof (induction e)
  case (SliceErrors ys)
  then show ?case
    using size_list_estimation' [of x ys "size_option size x" "size_option size"] by simp
qed auto

definition joined :: "string list \<Rightarrow> bind_error" where
  "joined ms = plain_error (join ''; '' ms)"

function TranslateError :: "(bind_error \<Rightarrow> string) \<Rightarrow> trans_table \<Rightarrow> bind_error option \<Rightarrow> bind_error option option" where
  "TranslateError lib T None = Some None"
| "TranslateError lib T (Some err) =
     (case as_fields err of
        Some fs \<Rightarrow> map_option (\<lambda>ms. Some (joined ms)) (those (map (Translate T) fs))
      | None \<Rightarrow>
          (case as_slice err of
             Some es \<Rightarrow>
               if es = [] then Some None
               else map_option
                      (\<lambda>rs. let ms = map (bind_text lib) (List.map_filter id rs) in if ms = [] then None else Some (joined ms))
                      (those (map (TranslateError lib T) es))
           | None \<Rightarrow> Some (Some err)))"
  by pat_completeness auto
termination
  by (relation "measure (\<lambda>(lib, T, e). size_option size e)") (auto dest: as_slice_size)

text \<open>\<open>ValidateVar\<close> reports the first field error with its tag; \<open>var\<close> is the library's answer for one value.\<close>

definition ValidateVar :: "trans_table \<Rightarrow> bind_error option \<Rightarrow> bind_error option option" where
  "ValidateVar T var =
     (case var of
        None \<Rightarrow> Some None
      | Some err \<Rightarrow>
          (case as_fields err of
             Some (fe # fs) \<Rightarrow> map_option (\<lambda>t. Some (plain_error (t @ '' ('' @ fe_Tag fe @ '')''))) (Translate T fe)
           | _ \<Rightarrow> Some (Some err)))"

definition validator_Validate :: "(bind_error \<Rightarrow> string) \<Rightarrow> trans_table \<Rightarrow> bind_error option \<Rightarrow> bind_error option option" where
  "validator_Validate lib T answer = TranslateError lib T answer"

subsection \<open>Names and keywords\<close>

text \<open>The name by which a field is reported: its JSON name up to the first comma, or its own.\<close>

definition tag_name :: "string \<Rightarrow> string \<Rightarrow> string" where
  "tag_name name jsonTag =
     (if jsonTag = '''' then name
      else case index_byte jsonTag CHR '','' of None \<Rightarrow> jsonTag | Some i \<Rightarrow> take i jsonTag)"

definition allowed_runes :: "nat list" where
  "allowed_runes =
     map of_char '' .,!?;:'' @ [0x27, 0x22] @ map of_char ''()[]{}@#&*_-~'' @
     [0x3002, 0xFF0C, 0x3001, 0xFF1B, 0xFF1A, 0xFF1F, 0xFF01, 0x2026, 0x2014, 0x00B7, 0xFF08, 0xFF09, 0x3010, 0x3011,
      0x300A, 0x300B, 0x201C, 0x201D, 0x2018, 0x2019]"

text \<open>The argument is the sequence of runes that the loop reads; \<open>han\<close>, \<open>latin\<close> and \<open>number\<close> are the classes of \<^verbatim>\<open>unicode\<close>.\<close>

fun searchKeyword :: "(nat \<Rightarrow> bool) \<Rightarrow> (nat \<Rightarrow> bool) \<Rightarrow> (nat \<Rightarrow> bool) \<Rightarrow> nat list \<Rightarrow> bool" where
  "searchKeyword han latin number [] = True"
| "searchKeyword han latin number (r # rs) =
     (if han r \<or> latin r \<or> number r \<or> r = 0x20 \<or> r \<in> set allowed_runes then searchKeyword han latin number rs else False)"

subsection \<open>Binding\<close>

text \<open>\<open>bound\<close> is what gin's binding answers. The answer of the helper is the error response, if any.\<close>

definition wrapped_bind_error :: "(bind_error \<Rightarrow> string) \<Rightarrow> trans_table \<Rightarrow> bool \<Rightarrow> bind_error \<Rightarrow> (int \<times> unit Response) option" where
  "wrapped_bind_error lib T sc err =
     map_option (\<lambda>t. Error sc (Some (Wrap ParamError (map_option (\<lambda>e. Sentinel (bind_text lib e)) t)))) (TranslateError lib T (Some err))"

definition BindAndValidate ::
  "(bind_error \<Rightarrow> string) \<Rightarrow> trans_table \<Rightarrow> bool \<Rightarrow> bind_error option \<Rightarrow> (int \<times> unit Response) option option" where
  "BindAndValidate lib T sc bound =
     (case bound of None \<Rightarrow> Some None | Some err \<Rightarrow> map_option Some (wrapped_bind_error lib T sc err))"

definition BindUploadAndValidate ::
  "(bind_error \<Rightarrow> string) \<Rightarrow> trans_table \<Rightarrow> bool \<Rightarrow> bind_error option \<Rightarrow> (int \<times> unit Response) option option" where
  "BindUploadAndValidate lib T sc bound =
     (case bound of
        None \<Rightarrow> Some None
      | Some err \<Rightarrow>
          if as_max_bytes err then Some (Some (Error sc (Some (WithMessage ParamError ''upload too large''))))
          else map_option Some (wrapped_bind_error lib T sc err))"

text \<open>The other three only differ in the binding they ask for.\<close>

definition BindJSON ::
  "(bind_error \<Rightarrow> string) \<Rightarrow> trans_table \<Rightarrow> bool \<Rightarrow> bind_error option \<Rightarrow> (int \<times> unit Response) option option" where
  "BindJSON lib T sc bound =
     (case bound of None \<Rightarrow> Some None | Some err \<Rightarrow> map_option Some (wrapped_bind_error lib T sc err))"

definition BindQuery ::
  "(bind_error \<Rightarrow> string) \<Rightarrow> trans_table \<Rightarrow> bool \<Rightarrow> bind_error option \<Rightarrow> (int \<times> unit Response) option option" where
  "BindQuery lib T sc bound =
     (case bound of None \<Rightarrow> Some None | Some err \<Rightarrow> map_option Some (wrapped_bind_error lib T sc err))"

definition BindURI ::
  "(bind_error \<Rightarrow> string) \<Rightarrow> trans_table \<Rightarrow> bool \<Rightarrow> bind_error option \<Rightarrow> (int \<times> unit Response) option option" where
  "BindURI lib T sc bound =
     (case bound of None \<Rightarrow> Some None | Some err \<Rightarrow> map_option Some (wrapped_bind_error lib T sc err))"

subsection \<open>Which translations end, and what they say\<close>

primrec reached :: "bind_error \<Rightarrow> field_error list" where
  "reached (FieldErrors fs) = fs"
| "reached (SliceErrors es) = concat (map (case_option [] id) (map (map_option reached) es))"
| "reached (MaxBytes n) = []"
| "reached (Wrapping t e) = reached e"
| "reached (OtherError g) = []"

text \<open>Errors as the validator and gin make them: no list is empty and no member is nil.\<close>

primrec validation_error :: "bind_error \<Rightarrow> bool" where
  "validation_error (FieldErrors fs) = (fs \<noteq> [])"
| "validation_error (SliceErrors es) = (es \<noteq> [] \<and> list_all (case_option False id) (map (map_option validation_error) es))"
| "validation_error (MaxBytes n) = False"
| "validation_error (Wrapping t e) = validation_error e"
| "validation_error (OtherError g) = False"

definition asks_again :: "trans_table \<Rightarrow> field_error \<Rightarrow> bool" where
  "asks_again T fe \<longleftrightarrow> T (fe_Tag fe) = Some Retranslate"

definition message_of :: "trans_table \<Rightarrow> field_error \<Rightarrow> string" where
  "message_of T fe = (case T (fe_Tag fe) of Some (Builtin f) \<Rightarrow> f fe | _ \<Rightarrow> fe_Error fe)"

lemma Translate_returns:
  assumes "Translate T fe = Some t"
  shows "\<not> asks_again T fe"
  using assms
proof (rule Translate.raw_induct [where P = "\<lambda>T fe t. \<not> asks_again T fe", rotated])
  fix f T fe t
  assume "\<And>T fe t. f T fe = Some t \<Longrightarrow> \<not> asks_again T fe"
    and "(case T (fe_Tag fe) of None \<Rightarrow> Some (fe_Error fe) | Some (Builtin g) \<Rightarrow> Some (g fe) | Some Retranslate \<Rightarrow> f T fe) = Some t"
  then show "\<not> asks_again T fe" by (fastforce simp: asks_again_def)
qed

lemma Translate_eq: "Translate T fe = (if asks_again T fe then None else Some (message_of T fe))"
proof (cases "asks_again T fe")
  case True
  then show ?thesis using Translate_returns [of T fe] by (cases "Translate T fe") auto
next
  case False
  then show ?thesis by (subst Translate.simps) (auto simp: asks_again_def message_of_def split: option.splits translation.splits)
qed

lemma those_None: "those xs = None \<longleftrightarrow> None \<in> set xs"
  by (induction xs) (auto split: option.splits)

lemma those_map_Some: "(\<And>x. x \<in> set xs \<Longrightarrow> f x = Some (g x)) \<Longrightarrow> those (map f xs) = Some (map g xs)"
  by (induction xs) auto

lemma Translate_all:
  "those (map (Translate T) fs) = (if list_ex (asks_again T) fs then None else Some (map (message_of T) fs))"
  by (induction fs) (auto simp: Translate_eq)

lemma as_fields_reached: "as_fields e = Some fs \<Longrightarrow> reached e = fs"
  by (induction e) auto

lemma as_slice_reached:
  "as_slice e = Some es \<Longrightarrow> as_fields e = None \<and> reached e = concat (map (case_option [] reached) es)"
  by (induction e) (auto simp: option.case_eq_if comp_def map_option_case intro!: arg_cong [where f = concat] map_cong split: option.splits)

lemma nothing_reached: "as_fields e = None \<Longrightarrow> as_slice e = None \<Longrightarrow> reached e = []"
  by (induction e) auto

lemma TranslateError_None:
  "TranslateError lib T x = None \<longleftrightarrow> list_ex (asks_again T) (case_option [] reached x)"
proof (induction lib T x rule: TranslateError.induct)
  case (2 lib T err)
  show ?case
  proof (cases "as_fields err")
    case (Some fs)
    then show ?thesis by (simp add: Translate_all as_fields_reached)
  next
    case fields: None
    show ?thesis
    proof (cases "as_slice err")
      case (Some es)
      have "None \<in> set (map (TranslateError lib T) es) \<longleftrightarrow> (\<exists>x \<in> set es. list_ex (asks_again T) (case_option [] reached x))"
        using 2 [OF fields Some] by (cases "es = []") force+
      then show ?thesis
        using fields Some as_slice_reached [OF Some] by (auto simp: those_None list_ex_iff)
    next
      case None
      then show ?thesis using fields nothing_reached [OF fields None] by simp
    qed
  qed
qed simp

lemma join_append: "xs \<noteq> [] \<Longrightarrow> ys \<noteq> [] \<Longrightarrow> join sep (xs @ ys) = join sep xs @ sep @ join sep ys"
proof (induction sep xs rule: join.induct)
  case (2 sep w)
  then show ?case by (cases ys) auto
qed auto

lemma join_join: "list_all (\<lambda>ws. ws \<noteq> []) wss \<Longrightarrow> join sep (map (join sep) wss) = join sep (concat wss)"
proof (induction wss)
  case (Cons ws wss)
  show ?case
  proof (cases "wss = []")
    case False
    then obtain v vs where v: "wss = v # vs" by (cases wss) auto
    then have "concat wss \<noteq> []" using Cons.prems by auto
    then show ?thesis using Cons v by (simp add: join_append)
  qed simp
qed simp

lemma validation_error_reaches: "validation_error e \<Longrightarrow> reached e \<noteq> []"
proof (induction e)
  case (SliceErrors es)
  then obtain e es' where "es = Some e # es'" "validation_error e" by (cases es) (auto split: option.splits)
  with SliceErrors show ?case by auto
qed auto

lemma validation_error_fields: "validation_error e \<Longrightarrow> as_fields e = Some fs \<Longrightarrow> fs \<noteq> []"
  by (induction e) auto

lemma validation_error_slice:
  assumes "validation_error e" "as_slice e = Some es"
  obtains gs where "es = map Some gs" "gs \<noteq> []" "list_all validation_error gs"
proof -
  have "es \<noteq> [] \<and> list_all (\<lambda>x. \<exists>g. x = Some g \<and> validation_error g) es"
    using assms by (induction e) (auto simp: list_all_iff split: option.splits)
  moreover from this have "es = map Some (map the es)" by (auto simp: list_all_iff comp_def intro!: map_idI [symmetric])
  moreover from calculation have "list_all validation_error (map the es)" by (auto simp: list_all_iff)
  ultimately show ?thesis using that [of "map the es"] by blast
qed

lemma validation_error_kind: "validation_error e \<Longrightarrow> as_fields e = None \<Longrightarrow> as_slice e \<noteq> None"
  by (induction e) auto

lemma map_filter_map_Some: "List.map_filter id (map (\<lambda>x. Some (f x)) xs) = map f xs"
  by (induction xs) (simp_all add: List.map_filter_simps)

lemma TranslateError_messages:
  "x = Some e \<Longrightarrow> validation_error e \<Longrightarrow> \<not> list_ex (asks_again T) (reached e) \<Longrightarrow>
     TranslateError lib T x = Some (Some (joined (map (message_of T) (reached e))))"
proof (induction lib T x arbitrary: e rule: TranslateError.induct)
  case (2 lib T err)
  then have [simp]: "e = err" by simp
  show ?case
  proof (cases "as_fields err")
    case (Some fs)
    then show ?thesis using 2(4) by (simp add: Translate_all as_fields_reached)
  next
    case fields: None
    then obtain es where es: "as_slice err = Some es" using validation_error_kind 2(3) by auto
    then obtain gs where gs: "es = map Some gs" "gs \<noteq> []" "list_all validation_error gs"
      using validation_error_slice 2(3) by auto
    have r: "reached err = concat (map reached gs)"
      using as_slice_reached [OF es] gs(1) by (simp add: comp_def)
    have "TranslateError lib T (Some g) = Some (Some (joined (map (message_of T) (reached g))))" if "g \<in> set gs" for g
      using that gs 2(4) by (intro 2(1) [OF fields es _ _ refl]) (auto simp: r list_all_iff list_ex_iff)
    then have "those (map (TranslateError lib T) es) = Some (map (\<lambda>g. Some (joined (map (message_of T) (reached g)))) gs)"
      using those_map_Some [of gs "\<lambda>g. TranslateError lib T (Some g)"] by (simp add: gs(1) comp_def)
    moreover have "list_all (\<lambda>ws. ws \<noteq> []) (map (\<lambda>g. map (message_of T) (reached g)) gs)"
      using gs(3) validation_error_reaches by (auto simp: list_all_iff)
    from join_join [OF this, of "''; ''"]
    have "join ''; '' (map (\<lambda>g. join ''; '' (map (message_of T) (reached g))) gs) = join ''; '' (map (message_of T) (reached err))"
      by (simp add: comp_def r map_concat)
    ultimately show ?thesis
      using fields es gs(1,2) by (simp add: map_filter_map_Some joined_def plain_error_def comp_def)
  qed
qed simp

text \<open>C24: Translating an error always ends, except when a field error in it, however deep in slices and wrappers, carries a tag whose
  translation was registered with \<open>RegisterTranslation\<close>: that function asks for the translation of the same field again and never
  returns. When it ends, a validation error becomes one error whose text is the messages of all its fields, in their order, joined by
  semicolons, and an error that is no validation error is returned unchanged.\<close>

theorem TranslateError_correct:
  "(TranslateError lib T (Some e) = None \<longleftrightarrow> list_ex (asks_again T) (reached e)) \<and>
   (validation_error e \<and> \<not> list_ex (asks_again T) (reached e) \<longrightarrow>
      TranslateError lib T (Some e) = Some (Some (joined (map (message_of T) (reached e))))) \<and>
   (as_fields e = None \<and> as_slice e = None \<longrightarrow> TranslateError lib T (Some e) = Some (Some e))"
  using TranslateError_None [of lib T "Some e"] TranslateError_messages [OF refl, of e T lib] by simp

definition demo_bind_error :: "string \<Rightarrow> bind_error" where
  "demo_bind_error tag =
     SliceErrors [Some (FieldErrors [\<lparr>fe_Field = ''email'', fe_Tag = ''email'', fe_Error = ''bad email''\<rparr>]),
       Some (Wrapping ''item 2'' (FieldErrors
         [\<lparr>fe_Field = ''name'', fe_Tag = ''required'', fe_Error = ''no name''\<rparr>, \<lparr>fe_Field = ''q'', fe_Tag = tag, fe_Error = ''bad q''\<rparr>]))]"

theorem TranslateError_correct_witness:
  "TranslateError (\<lambda>_. '''') (init_translations [''email'' \<mapsto> Builtin (\<lambda>f. fe_Field f @ '' must be an address'')]) (Some (demo_bind_error ''min'')) =
     Some (Some (joined [''email must be an address'', ''no name'', ''bad q''])) \<and>
   TranslateError (\<lambda>_. '''') (init_translations Map.empty) (Some (demo_bind_error ''search'')) = None"
  using TranslateError_correct [of "\<lambda>_. ''''" "init_translations [''email'' \<mapsto> Builtin (\<lambda>f. fe_Field f @ '' must be an address'')]" "demo_bind_error ''min''"]
    TranslateError_correct [of "\<lambda>_. ''''" "init_translations Map.empty" "demo_bind_error ''search''"]
  by (simp add: demo_bind_error_def init_translations_def RegisterTranslation_def asks_again_def message_of_def)

end
