(* ===== verification/Conn_Middleware.thy ===== *)
theory Conn_Middleware
  imports Validation Net_Server Event_Bus Http_Middleware
begin

section \<open>Middleware of connections and packets, body limits and application events\<close>

text \<open>
  \<^verbatim>\<open>internal/middleware/tcp\<close> and \<^verbatim>\<open>internal/middleware/udp\<close>, the body limit and the CORS settings of
  \<^verbatim>\<open>internal/middleware/http\<close>, the cause-hiding recovery answer, and the two events of \<^verbatim>\<open>internal/event/lifecycle.go\<close>. The token bucket of
  \<^verbatim>\<open>golang.org/x/time/rate\<close>, the deadlines of a socket and \<^verbatim>\<open>cors.New\<close> are parameters. Log lines are left out, so the middleware that
  only logs is too.
\<close>

subsection \<open>Connections and packets\<close>

text \<open>\<open>Authenticate\<close> of both packages; the connection and the address only go to the log.\<close>

definition Authenticate :: "string \<Rightarrow> string \<Rightarrow> bool" where
  "Authenticate token authToken = (if token = '''' then True else if authToken = token then True else False)"

record 'b conn_limit =
  cr_limiter :: "'b option"
  cr_enabled :: bool

text \<open>\<open>new_bucket\<close> makes a bucket from a rate and a burst, \<open>ask\<close> takes one token if there is one.\<close>

definition NewRateLimitMiddleware :: "(int \<Rightarrow> int \<Rightarrow> 'b) \<Rightarrow> int \<Rightarrow> bool \<Rightarrow> 'b conn_limit" where
  "NewRateLimitMiddleware new_bucket rps enabled =
     \<lparr>cr_limiter = (if enabled \<and> rps > 0 then Some (new_bucket rps rps) else None), cr_enabled = enabled\<rparr>"

definition conn_Allow :: "('b \<Rightarrow> bool \<times> 'b) \<Rightarrow> 'b conn_limit \<Rightarrow> bool \<times> 'b conn_limit" where
  "conn_Allow ask m =
     (case cr_limiter m of
        None \<Rightarrow> (True, m)
      | Some b \<Rightarrow>
          if \<not> cr_enabled m then (True, m)
          else (case ask b of (allowed, b') \<Rightarrow> (allowed, m\<lparr>cr_limiter := Some b'\<rparr>)))"

record TimeoutMiddleware =
  tm_readTimeout :: int
  tm_writeTimeout :: int

definition NewTimeoutMiddleware :: "int \<Rightarrow> int \<Rightarrow> TimeoutMiddleware" where
  "NewTimeoutMiddleware readTimeout writeTimeout =
     \<lparr>tm_readTimeout = wrap64 (readTimeout * 1000000000), tm_writeTimeout = wrap64 (writeTimeout * 1000000000)\<rparr>"

text \<open>A socket has its two deadlines; \<open>is_tcp\<close> is the type assertion, \<open>setr\<close> and \<open>setw\<close> the calls, which can fail.\<close>

record deadlines =
  dl_read :: "int option"
  dl_write :: "int option"

definition SetTimeouts ::
  "(int \<Rightarrow> deadlines \<Rightarrow> (gerr, deadlines) result) \<Rightarrow> (int \<Rightarrow> deadlines \<Rightarrow> (gerr, deadlines) result) \<Rightarrow> TimeoutMiddleware \<Rightarrow> bool \<Rightarrow>
   int \<Rightarrow> deadlines \<Rightarrow> gerr option \<times> deadlines" where
  "SetTimeouts setr setw m is_tcp now d =
     (if \<not> is_tcp then (None, d)
      else case (if tm_readTimeout m > 0 then setr (now + tm_readTimeout m) d else Inr d) of
        Inl err \<Rightarrow> (Some err, d)
      | Inr d1 \<Rightarrow>
          (case (if tm_writeTimeout m > 0 then setw (now + tm_writeTimeout m) d1 else Inr d1) of
             Inl err \<Rightarrow> (Some err, d1)
           | Inr d2 \<Rightarrow> (None, d2)))"

subsection \<open>HTTP\<close>

definition defaultMaxBodySize :: int where "defaultMaxBodySize = 10 * 2 ^ 20"

definition body_limit :: "int \<Rightarrow> int" where
  "body_limit maxBytes = (if maxBytes \<le> 0 then defaultMaxBodySize else maxBytes)"

text \<open>What a handler reads of a body behind \<^verbatim>\<open>http.MaxBytesReader\<close>: all of it, or the first bytes and the error.\<close>

definition BodySizeLimit :: "int \<Rightarrow> bytes \<Rightarrow> bytes \<times> bind_error option" where
  "BodySizeLimit maxBytes body =
     (let n = body_limit maxBytes in
      if int (length body) \<le> n then (body, None) else (take (nat n) body, Some (MaxBytes n)))"

record cors_Config =
  co_AllowOrigins :: "string list"
  co_AllowMethods :: "string list"
  co_AllowHeaders :: "string list"
  co_ExposeHeaders :: "string list"
  co_AllowCredentials :: bool
  co_MaxAge :: int

definition CORS :: "(cors_Config \<Rightarrow> 'm) \<Rightarrow> 'm" where
  "CORS new =
     new \<lparr>co_AllowOrigins = [''*''], co_AllowMethods = [''GET'', ''POST'', ''PUT'', ''PATCH'', ''DELETE'', ''OPTIONS''],
       co_AllowHeaders = [''Origin'', ''Content-Type'', ''Content-Length'', ''Accept-Encoding'', ''X-CSRF-Token'', ''Authorization'', ''X-Request-ID''],
       co_ExposeHeaders = [''Content-Length'', ''X-Request-ID''], co_AllowCredentials = False, co_MaxAge = 12 * 3600 * 1000000000\<rparr>"

definition CORSWithConfig ::
  "(cors_Config \<Rightarrow> 'm) \<Rightarrow> string list \<Rightarrow> string list \<Rightarrow> string list \<Rightarrow> string list \<Rightarrow> bool \<Rightarrow> int \<Rightarrow> 'm" where
  "CORSWithConfig new allowOrigins allowMethods allowHeaders exposeHeaders allowCredentials maxAge =
     new \<lparr>co_AllowOrigins = allowOrigins, co_AllowMethods = allowMethods, co_AllowHeaders = allowHeaders,
       co_ExposeHeaders = exposeHeaders, co_AllowCredentials = allowCredentials, co_MaxAge = maxAge\<rparr>"

text \<open>The answer to a request whose handler panics: the recovered value goes to the log only.\<close>

definition Recovery :: "bool \<Rightarrow> (int \<times> 'd Response) option \<Rightarrow> int \<times> 'd Response" where
  "Recovery sc handled = (case handled of Some r \<Rightarrow> r | None \<Rightarrow> Error sc (Some InternalError))"

text \<open>\<open>span_of\<close> is the printed identifier of the request's span, \<open>None\<close> for a nil span.\<close>

definition InjectTraceID :: "(gctx \<Rightarrow> string option) \<Rightarrow> 's middleware" where
  "InjectTraceID span_of c s =
     (None,
      (case span_of c of
         None \<Rightarrow> c
       | Some traceID \<Rightarrow> if traceID \<noteq> '''' then c\<lparr>gx_Out := gx_Out c @ [(''X-Trace-ID'', traceID)]\<rparr> else c), s)"

subsection \<open>Application events\<close>

definition EventAppStarted :: string where "EventAppStarted = ''app.started''"

definition EventAppStopped :: string where "EventAppStopped = ''app.stopped''"

datatype app_payload =
  AppStartedPayload (start_time: int) (app_version: string)
| AppStoppedPayload (stop_time: int) (app_uptime: int)

definition PublishAppStarted ::
  "(string \<Rightarrow> string \<Rightarrow> (gerr, bool) result) \<Rightarrow> string list \<Rightarrow> ('h \<Rightarrow> app_payload Event \<Rightarrow> outcome) \<Rightarrow> int \<Rightarrow> 'h bus \<Rightarrow> string \<Rightarrow>
   (gerr, 'h bus \<times> ('h subscriber \<times> string option) list \<times> 'h subscriber list) result" where
  "PublishAppStarted fmatch order run now b version =
     Publish fmatch order run now b
       \<lparr>ev_Name = EventAppStarted, ev_Payload = AppStartedPayload now version, ev_Timestamp = None\<rparr>"

definition PublishAppStopped ::
  "(string \<Rightarrow> string \<Rightarrow> (gerr, bool) result) \<Rightarrow> string list \<Rightarrow> ('h \<Rightarrow> app_payload Event \<Rightarrow> outcome) \<Rightarrow> int \<Rightarrow> 'h bus \<Rightarrow> int \<Rightarrow>
   (gerr, 'h bus \<times> ('h subscriber \<times> string option) list \<times> 'h subscriber list) result" where
  "PublishAppStopped fmatch order run now b uptime =
     Publish fmatch order run now b
       \<lparr>ev_Name = EventAppStopped, ev_Payload = AppStoppedPayload now uptime, ev_Timestamp = None\<rparr>"

subsection \<open>Lemmas\<close>

lemma Authenticate_iff: "Authenticate token authToken \<longleftrightarrow> token = '''' \<or> authToken = token"
  by (simp add: Authenticate_def)

text \<open>A middleware with a rate that is not positive never refuses, enabled or not.\<close>

lemma no_rate_allows: "rps \<le> 0 \<Longrightarrow> fst (conn_Allow ask (NewRateLimitMiddleware nb rps enabled))"
  by (simp add: conn_Allow_def NewRateLimitMiddleware_def)

text \<open>The deadlines: both set when both limits are, and none touched on another kind of connection; a failure of the first leaves the second.\<close>

lemma SetTimeouts_sets:
  assumes "\<And>t d. setr t d = Inr (d\<lparr>dl_read := Some t\<rparr>)" "\<And>t d. setw t d = Inr (d\<lparr>dl_write := Some t\<rparr>)"
  shows "SetTimeouts setr setw m is_tcp now d =
    (None, if is_tcp then
       d\<lparr>dl_read := (if tm_readTimeout m > 0 then Some (now + tm_readTimeout m) else dl_read d),
         dl_write := (if tm_writeTimeout m > 0 then Some (now + tm_writeTimeout m) else dl_write d)\<rparr> else d)"
  using assms by (simp add: SetTimeouts_def)

lemma SetTimeouts_read_fails:
  assumes "is_tcp" "tm_readTimeout m > 0" "setr (now + tm_readTimeout m) d = Inl err"
  shows "SetTimeouts setr setw m is_tcp now d = (Some err, d)"
  using assms by (simp add: SetTimeouts_def)

text \<open>An upload over the limit of the server is answered with status 400 and its own message, however the binding wraps the read
  error, and the read never passes the limit.\<close>

lemma upload_too_large:
  assumes "BodySizeLimit 0 body = (read_part, Some err)" "as_max_bytes bound = as_max_bytes err"
  shows "int (length read_part) = 10485760"
    "BindUploadAndValidate lib T sc (Some bound) = Some (Some (400, \<lparr>Code = 1000001, Message = ''upload too large'', Data = None, Cause = ''''\<rparr>))"
  using assms
  by (auto simp: BodySizeLimit_def body_limit_def defaultMaxBodySize_def Let_def BindUploadAndValidate_def Error_def ParamError_def
      split: if_splits)

lemma body_within_limit: "int (length body) \<le> body_limit n \<Longrightarrow> BodySizeLimit n body = (body, None)"
  by (simp add: BodySizeLimit_def Let_def)

text \<open>The start of the application is announced to every subscriber of the event while the bus is open, and never after it was closed.\<close>

lemma PublishAppStarted_closed: "\<not> is_ok (PublishAppStarted fmatch order run now b version) \<longleftrightarrow> b_closed b"
  by (simp add: PublishAppStarted_def Publish_def publish_locked_def Let_def stamp_def)

lemma app_events_carry_time:
  "ev_Timestamp (stamp now \<lparr>ev_Name = EventAppStarted, ev_Payload = AppStartedPayload now version, ev_Timestamp = None\<rparr>) = Some now"
  by (simp add: stamp_def)

end
