(* ===== verification/Cache_Close.thy ===== *)
theory Cache_Close
  imports Cache
begin

section \<open>What a cache opens and closes\<close>

text \<open>
  The resources behind the caches of \<^verbatim>\<open>pkg/cache\<close>: the constructors, the factory and every \<open>Close\<close>, with the stores of
  Ristretto and the Redis clients they open and close as a sequence of events. A client that was handed in is \<open>Shared\<close>.
\<close>

datatype redis_client = Own | Shared

datatype cache_event = StoreOpened | StoreClosed | ClientOpened | ClientClosed redis_client | WarmedUp

text \<open>The constructors again, with what they open; the answers are those of theory \<open>Cache\<close>.\<close>

definition NewMemoryCache_run :: "('s, 'v) ristretto \<Rightarrow> (gerr, 's) result \<times> cache_event list" where
  "NewMemoryCache_run api =
     (case ris_New api of
        Inl err \<Rightarrow> (Inl (wrapl ''failed to create ristretto cache'' err), [])
      | Inr s \<Rightarrow> (Inr s, [StoreOpened]))"

definition NewRedisCache_run :: "gerr option \<Rightarrow> string \<Rightarrow> int \<Rightarrow> (gerr, RedisCache) result \<times> cache_event list" where
  "NewRedisCache_run ping keyPrefix cfgTTL =
     (case ping of
        Some err \<Rightarrow> (Inl (wrapl ''failed to connect to Redis'' err), [ClientOpened, ClientClosed Own])
      | None \<Rightarrow> (Inr (newRedisCache keyPrefix cfgTTL True), [ClientOpened]))"

definition newRedisLayer_run :: "gerr option \<Rightarrow> FactoryConfig \<Rightarrow> (gerr, RedisCache) result \<times> cache_event list" where
  "newRedisLayer_run ping cfg =
     (if fc_HasClient cfg then (NewRedisCacheFromClient False (fc_KeyPrefix cfg) (fc_DefaultTTL cfg), [])
      else NewRedisCache_run ping (fc_KeyPrefix cfg) (fc_DefaultTTL cfg))"

text \<open>The methods. \<open>close_client\<close> is the answer of the client's own \<open>Close\<close>.\<close>

definition memory_Close :: "gerr option \<times> cache_event list" where
  "memory_Close = (None, [StoreClosed])"

definition redis_Close :: "gerr option \<Rightarrow> RedisCache \<Rightarrow> gerr option \<times> cache_event list" where
  "redis_Close close_client c =
     (if \<not> rc_ownsClient c then (None, []) else (close_client, [ClientClosed Own]))"

definition nop_Close :: "gerr option \<times> cache_event list" where
  "nop_Close = (None, [])"

text \<open>\<open>warmups\<close>: the warm-up goroutines that have not finished; \<open>Close\<close> waits for them.\<close>

definition multi_Close :: "nat \<Rightarrow> gerr option \<times> cache_event list \<Rightarrow> gerr option \<times> cache_event list \<Rightarrow> gerr option \<times> cache_event list" where
  "multi_Close warmups l1 l2 = (errors_join [fst l1, fst l2], replicate warmups WarmedUp @ snd l1 @ snd l2)"

text \<open>\<open>Clear\<close> of the memory cache replaces the store: the new one is opened before the old one is closed.\<close>

definition memory_Clear_run :: "('s, 'v) ristretto \<Rightarrow> 's \<Rightarrow> (gerr option \<times> 's) \<times> cache_event list" where
  "memory_Clear_run api s =
     (case ris_New api of
        Inl err \<Rightarrow> ((Some (wrapl ''failed to recreate cache'' err), s), [])
      | Inr new \<Rightarrow> ((None, new), [StoreOpened, StoreClosed]))"

definition Factory_run :: "('s1, 'v) ristretto \<Rightarrow> gerr option \<Rightarrow> FactoryConfig \<Rightarrow> (gerr, 's1 made_cache) result \<times> cache_event list" where
  "Factory_run api ping cfg =
     (if \<not> fc_Enabled cfg then (Inr MadeNop, [])
      else if fc_Driver cfg = ''memory'' then
        (case NewMemoryCache_run api of (Inl err, es) \<Rightarrow> (Inl err, es) | (Inr s, es) \<Rightarrow> (Inr (MadeMem s), es))
      else if fc_Driver cfg = ''redis'' then
        (case newRedisLayer_run ping cfg of (Inl err, es) \<Rightarrow> (Inl err, es) | (Inr c, es) \<Rightarrow> (Inr (MadeRed c), es))
      else if fc_Driver cfg = ''multi'' then
        (case NewMemoryCache_run api of
           (Inl err, es) \<Rightarrow> (Inl err, es)
         | (Inr s, es) \<Rightarrow>
             (case newRedisLayer_run ping cfg of
                (Inl err, fs) \<Rightarrow> (Inl err, es @ fs @ snd memory_Close)
              | (Inr c, fs) \<Rightarrow> (Inr (MadeMulti s c), es @ fs)))
      else (Inl (Errorf (''unsupported cache driver: '' @ fc_Driver cfg) []), []))"

fun made_Close :: "gerr option \<Rightarrow> nat \<Rightarrow> 's made_cache \<Rightarrow> gerr option \<times> cache_event list" where
  "made_Close close_client warmups MadeNop = nop_Close"
| "made_Close close_client warmups (MadeMem s) = memory_Close"
| "made_Close close_client warmups (MadeRed c) = redis_Close close_client c"
| "made_Close close_client warmups (MadeMulti s c) = multi_Close warmups memory_Close (redis_Close close_client c)"

subsection \<open>Lemmas\<close>

lemma Factory_run_result: "fst (Factory_run api ping cfg) = Factory_Create api ping cfg"
  by (auto simp: Factory_run_def Factory_Create_def NewMemoryCache_run_def NewMemoryCache_def newRedisLayer_run_def newRedisLayer_def
      NewRedisCache_run_def NewRedisCache_def split: sum.splits prod.splits option.splits)

lemma memory_Clear_run_result: "fst (memory_Clear_run api s) = memory_Clear api s"
  by (simp add: memory_Clear_run_def memory_Clear_def split: sum.split)

text \<open>As many stores and clients are closed as were opened, the client that was handed in is left alone, and no warm-up runs after the
  store was closed.\<close>

definition all_released :: "cache_event list \<Rightarrow> bool" where
  "all_released es \<longleftrightarrow>
     count_list es StoreOpened = count_list es StoreClosed \<and> count_list es ClientOpened = count_list es (ClientClosed Own) \<and>
     ClientClosed Shared \<notin> set es"

lemma Factory_failure_releases: "Factory_run api ping cfg = (Inl err, es) \<Longrightarrow> all_released es"
  by (auto simp: Factory_run_def all_released_def NewMemoryCache_run_def newRedisLayer_run_def NewRedisCache_run_def
      NewRedisCacheFromClient_def memory_Close_def split: if_splits sum.splits option.splits)

lemma Close_releases:
  assumes "Factory_run api ping cfg = (Inr made, es)"
  shows "all_released (es @ snd (made_Close close_client warmups made))"
proof -
  have "count_list (replicate warmups WarmedUp) e = (if e = WarmedUp then warmups else 0)" for e
    by (induction warmups) auto
  then show ?thesis
    using assms
    by (auto simp: Factory_run_def all_released_def NewMemoryCache_run_def newRedisLayer_run_def NewRedisCache_run_def newRedisCache_def
        NewRedisCacheFromClient_def memory_Close_def redis_Close_def nop_Close_def multi_Close_def
        split: if_splits sum.splits option.splits)
qed

lemma warmups_before_close:
  "\<exists>es. snd (multi_Close n memory_Close (redis_Close close_client c)) = replicate n WarmedUp @ StoreClosed # es \<and> WarmedUp \<notin> set es"
  by (simp add: multi_Close_def memory_Close_def redis_Close_def)

end
