(* ===== verification/Spec2Isabelle.thy ===== *)
theory Spec2Isabelle
  imports Drivers Event_Bus Scheduler Captcha Protocol Lifecycle User_Props Tcp_Server Udp_Server Chat Goroutines
    Wiring Rate_Store Migrate Object_Storage Database Health Logging Commands Data_Commands Metrics Validation
    Conn_Middleware Cache_Close
begin

text \<open>
  A verification development for the Go application template \<^verbatim>\<open>app-tpl\<close>: a command line program that reads one configuration,
  opens its infrastructure (logger, database, Redis, cache, locks, scheduler, event bus) and runs an HTTP, a TCP and a UDP server until it is stopped,
  with a library of reusable packages under \<^verbatim>\<open>pkg\<close>, a database migration runner and a generator of model source from a database schema.

  \<^bold>\<open>How the code is modelled.\<close> A structure is a \<^theory_text>\<open>record\<close>, an interface value a record of functions, an enumeration or tagged value
  a \<^theory_text>\<open>datatype\<close>. A function that returns \<open>(T, error)\<close> has the type \<open>(gerr, 'a) result\<close>, one that returns \<open>error\<close> the type
  \<open>gerr option\<close>; \<open>gerr\<close> (theory \<open>Go_Errors\<close>) keeps texts and wrapped causes, so that \<^verbatim>\<open>errors.Is\<close> and \<^verbatim>\<open>errors.As\<close> are
  functions on it. State is passed explicitly. Go's \<open>int\<close> and \<open>int64\<close> are \<open>int\<close> with \<open>wrap64\<close> where the code can overflow
  (amounts, durations in nanoseconds, page offsets); the header of the wire protocol and its CRC-32 are words. Strings are lists of bytes. What is
  concurrent in the code is an \<^theory_text>\<open>inductive\<close> step relation whose steps are the critical sections: the event bus, the scheduler, the TCP
  server, the chat room and the goroutine pool. Clocks are arguments. Log lines and context deadlines that only cut a call short are left out.
  Map iteration order is an argument.

  \<^bold>\<open>Theories.\<close> \<open>Prelude\<close>, \<open>Go_Text\<close>, \<open>Go_Url\<close> and \<open>Go_Errors\<close> hold the part of Go's language and library the
  sources use, and the collections \<open>go_text\<close> and \<open>go_res\<close>. Then one theory per component:

  \<^item> Payment (\<^verbatim>\<open>pkg/payment\<close>): \<open>Amount\<close> converts between fen and decimal yuan; \<open>Payment\<close> is the facade with its
    registry; \<open>Alipay\<close> and \<open>Wechat\<close> are the vendor drivers; \<open>Drivers\<close> puts them together. Shown: round trip and exact errors of the
    amounts, and that a created payment had an enabled, valid configuration and asked the vendor for the requested amount.
  \<^item> Reusable packages: \<open>Event_Bus\<close> (\<^verbatim>\<open>pkg/event\<close>), \<open>Locker\<close> (\<^verbatim>\<open>pkg/lock\<close>, \<^verbatim>\<open>internal/lock\<close>), \<open>Scheduler\<close>
    (\<^verbatim>\<open>pkg/scheduler\<close>), \<open>Cache\<close> and \<open>Cache_Close\<close> (\<^verbatim>\<open>pkg/cache\<close>), \<open>Captcha\<close> (\<^verbatim>\<open>pkg/captcha\<close>) and \<open>Object_Storage\<close>
    (\<^verbatim>\<open>pkg/objectstorage\<close>). Shown: waiting for handlers on close, mutual exclusion, leadership of the scheduler, refinement of a plain
    map by the two-level cache, one-time captchas, and that public addresses stay on the acceleration domain.
  \<^item> Configuration and errors: \<open>App_Config\<close> (\<^verbatim>\<open>internal/config\<close>, \<^verbatim>\<open>internal/constant\<close>) with \<open>Validate\<close> against its
    specification \<open>valid_config\<close>, loading and masking; \<open>Errcode\<close> (\<^verbatim>\<open>internal/errcode\<close>, \<^verbatim>\<open>internal/response\<close>).
  \<^item> Users: \<open>User_Repo\<close>, \<open>User_Cache\<close>, \<open>User_Service\<close> and \<open>User_Props\<close> (\<^verbatim>\<open>internal/model\<close>,
    \<^verbatim>\<open>internal/repository\<close>, \<^verbatim>\<open>internal/cache\<close>, \<^verbatim>\<open>internal/dto\<close>, \<^verbatim>\<open>internal/crypto\<close>, \<^verbatim>\<open>internal/service\<close>,
    \<^verbatim>\<open>internal/handler/http/user.go\<close>). Shown: the cache in front of the database is transparent, credentials, pagination.
  \<^item> Network servers: \<open>Protocol\<close> (\<^verbatim>\<open>internal/protocol\<close>), \<open>Net_Server\<close>, \<open>Tcp_Server\<close>, \<open>Udp_Server\<close>,
    \<open>Chat\<close> and \<open>Goroutines\<close> (\<^verbatim>\<open>internal/types\<close>, \<^verbatim>\<open>internal/server\<close>, \<^verbatim>\<open>internal/handler\<close>,
    \<^verbatim>\<open>internal/utils\<close>). Shown: the codec's round trip and detection of corruption, that \<open>Stop\<close> ends every goroutine, the lifetime of
    sessions, and the invariants of the room and the pool.
  \<^item> HTTP: \<open>Auth\<close> (\<^verbatim>\<open>internal/auth\<close>), \<open>Http_Middleware\<close> and \<open>Rate_Store\<close>, \<open>Http_Router\<close>
    (\<^verbatim>\<open>internal/router\<close>), \<open>Validation\<close> (\<^verbatim>\<open>internal/validator\<close>), \<open>Health\<close>, \<open>Metrics\<close>
    (\<^verbatim>\<open>internal/metrics\<close>, \<^verbatim>\<open>internal/tracing\<close>) and \<open>Conn_Middleware\<close> (the rest of \<^verbatim>\<open>internal/middleware\<close> and
    \<^verbatim>\<open>internal/event\<close>). Shown: token lifetimes, that protected routes need credentials, the layers of the rate limit, probes, request
    metrics, and when translating a validation error ends.
  \<^item> Database tools: \<open>Database\<close> (\<^verbatim>\<open>internal/database/db.go\<close>), \<open>Migrate\<close> (\<^verbatim>\<open>internal/database/migrate\<close>) and the
    generator of \<^verbatim>\<open>internal/database/gen\<close>: \<open>Naming\<close>, \<open>Relations\<close>, \<open>Relation_Props\<close>, \<open>Typemap\<close>,
    \<open>Dialects\<close>, \<open>Gen_Code\<close> and \<open>Gen_Models\<close>. Shown: \<open>Down\<close> undoes \<open>Up\<close>, generated structures have unique
    fields, every planned file holds its table, types fit nullability, and defaults cannot inject an expression.
  \<^item> Application: \<open>Lifecycle\<close> and \<open>Wiring\<close> (\<^verbatim>\<open>internal/app\<close>), \<open>Logging\<close> (\<^verbatim>\<open>internal/logger\<close>), \<open>Commands\<close>
    and \<open>Data_Commands\<close> (\<^verbatim>\<open>cmd\<close>). Shown: the discipline of hooks, and for whole commands that serving leaves nothing open, that
    showing the configuration hides secrets, and what the migration commands report.

  \<^bold>\<open>How the parts interact.\<close> \<open>Commands.runServe\<close> loads and validates a configuration (\<open>App_Config\<close>), builds the application
  (\<open>Wiring.New_app\<close>, which opens resources and adds their hooks to the \<open>Lifecycle.App\<close>) and runs it. The HTTP server
  (\<open>Wiring.NewHTTPServer\<close>, \<open>Http_Router.http_chain\<close>) passes a request through the middleware to a handler; the user handlers call the
  service, which reads through \<open>User_Cache\<close> and \<open>User_Repo\<close>; the cache manager stands on \<open>Cache\<close>. The TCP and UDP servers hand
  frames of \<open>Protocol\<close> to the routers of \<open>Net_Server\<close> and the handlers behind them.

  \<^bold>\<open>Interfaces and third-party code.\<close> What is not under \<^verbatim>\<open>src/\<close> is a parameter: vendor SDKs, Ristretto, Redis, JSON, bcrypt, the JWT
  library, the query builder and migrator of bun, SQL drivers, viper, zap, Prometheus, OpenTelemetry, gin's binding. The laws the code relies on are
  the assumptions of a locale, and each locale is interpreted on the definitions of the model, over a small reference implementation of the
  third-party part where it has one: \<open>payment_vendor\<close> (both drivers and \<open>Nop\<close>), \<open>locker\<close> (memory locker), \<open>cache_contract\<close>
  (memory, Redis, no-op and two-level caches), \<open>user_cache\<close>, \<open>user_db\<close> with \<open>user_repository\<close> as a sublocale,
  \<open>user_service\<close>, \<open>jwt_library\<close>, \<open>claims_source\<close> and \<open>request_filter\<close> (every middleware of the chain),
  \<open>lru_cache\<close> and \<open>migrator\<close>.

  \<^bold>\<open>Bounds and fuel.\<close> All functions are total. Two loops have no bound of their own in the code: the cursor loop of the Redis \<open>Clear\<close> has fuel, and it is
  proved that fuel above the rank of the cursor is enough when the cursors come down to zero; the translation of a field error is a
  \<^theory_text>\<open>partial_function\<close> whose \<open>None\<close> is a call that never returns, and it is proved when that happens. The unbounded counter of
  \<open>UniqueAliases\<close> is a search among one candidate more than there are aliases in use, which is shown to succeed. \<open>silent_turns\<close>
  unrolls the read loop of a silent connection a given number of times.

  \<^bold>\<open>Not modelled.\<close> The generated API documentation; \<^verbatim>\<open>main.go\<close>, \<^verbatim>\<open>cmd/root.go\<close> and cobra's flag parsing; listening, TLS and
  the sockets themselves; the JSON and gob codecs, which only forward to the library; drawing the captcha; the sample cron job; request ids, compression
  and the access log, which only call a library, and the \<open>Timeout\<close> middleware, which no server uses; test helpers. The struct tags
  that tell gin what to check of a request are not evaluated: the answer of the binding is an argument. None of these carries logic of
  this repository beyond passing a call on.
\<close>

section \<open>Properties that span components\<close>

lemma validated_cache_builds:
  assumes "Validate cfg = None" "ris_New api = Inr s"
  shows "is_ok (NewManagerFromConfig api None cfg client_nil) \<longleftrightarrow>
    \<not> (cch_Enabled (cfg_Cache cfg) \<and> cch_Driver (cfg_Cache cfg) = '''')"
proof -
  have "valid_cache (red_Enabled (cfg_Redis cfg)) (cfg_Cache cfg)"
    using assms(1) by (simp add: Validate_valid valid_config_def)
  then show ?thesis
    using assms(2)
    by (auto simp: valid_cache_def NewManagerFromConfig_def Factory_Create_def NewMemoryCache_def newRedisLayer_def
        NewRedisCache_def NewRedisCacheFromClient_def)
qed



end
